(* ===== verification/Bridge_Prelude.thy ===== *)
theory Bridge_Prelude
  imports Main "HOL-Library.AList"
begin

text \<open>
  Shared vocabulary of the development.

  A NEAR contract method either returns or panics; a panic reverts every change the method made to
  the contract state.  A method is therefore a function from the old state to an
  \<open>error + (result and new state)\<close>: \<open>Inl\<close> is the panic, and the caller keeps the old state.

  The source is compiled with \<open>overflow-checks = true\<close> (Cargo.toml), so \<open>+\<close>, \<open>-\<close>
  and \<open>*\<close> on machine integers panic instead of wrapping.  Integers are natural numbers and
  every operation that can leave the width is one of the checked operations below; the saturating
  operations of the source are \<open>sat_add\<close> and truncated subtraction.

  The combinators are in continuation style, so that a definition reads top to bottom like the
  method it models: \<open>require b msg (rest)\<close> is \<open>require!(b, msg); rest\<close>.
\<close>

section \<open>Errors and results\<close>

datatype error =
    Panic string      \<comment> \<open>\<open>require!\<close>, \<open>expect\<close>, \<open>env::panic_str\<close>, with the message's fixed part\<close>
  | Overflow          \<comment> \<open>an arithmetic overflow check\<close>
  | OutOfBounds       \<comment> \<open>an index outside a vector\<close>
  | DivByZero

type_synonym 'a res = "error + 'a"

type_synonym u8 = nat
type_synonym u32 = nat
type_synonym u64 = nat
type_synonym u128 = nat
type_synonym usize = nat

definition U8_MAX :: nat where "U8_MAX = 255"
definition U32_MAX :: nat where "U32_MAX = 4294967295"
definition U64_MAX :: nat where "U64_MAX = 18446744073709551615"
definition U128_MAX :: nat where "U128_MAX = 340282366920938463463374607431768211455"

lemma U64_le_U128: "U64_MAX \<le> U128_MAX"
  by (simp add: U64_MAX_def U128_MAX_def)

lemma U32_le_U64: "U32_MAX \<le> U64_MAX"
  by (simp add: U64_MAX_def U32_MAX_def)

named_theorems res_eval \<open>definitions that evaluate a model function on concrete arguments\<close>
named_theorems res_Inr \<open>when a result is a success\<close>

definition require :: "bool \<Rightarrow> string \<Rightarrow> 'a res \<Rightarrow> 'a res" where
  "require b msg k = (if b then k else Inl (Panic msg))"

definition expect :: "'a option \<Rightarrow> string \<Rightarrow> ('a \<Rightarrow> 'b res) \<Rightarrow> 'b res" where
  "expect x msg k = (case x of None \<Rightarrow> Inl (Panic msg) | Some v \<Rightarrow> k v)"

definition bindR :: "'a res \<Rightarrow> ('a \<Rightarrow> 'b res) \<Rightarrow> 'b res" where
  "bindR r k = (case r of Inl e \<Rightarrow> Inl e | Inr v \<Rightarrow> k v)"

definition chk_add :: "nat \<Rightarrow> nat \<Rightarrow> nat \<Rightarrow> (nat \<Rightarrow> 'b res) \<Rightarrow> 'b res" where
  "chk_add mx a b k = (if a + b \<le> mx then k (a + b) else Inl Overflow)"

definition chk_sub :: "nat \<Rightarrow> nat \<Rightarrow> (nat \<Rightarrow> 'b res) \<Rightarrow> 'b res" where
  "chk_sub a b k = (if b \<le> a then k (a - b) else Inl Overflow)"

definition chk_mul :: "nat \<Rightarrow> nat \<Rightarrow> nat \<Rightarrow> (nat \<Rightarrow> 'b res) \<Rightarrow> 'b res" where
  "chk_mul mx a b k = (if a * b \<le> mx then k (a * b) else Inl Overflow)"

definition index_at :: "'a list \<Rightarrow> nat \<Rightarrow> ('a \<Rightarrow> 'b res) \<Rightarrow> 'b res" where
  "index_at xs i k = (if i < length xs then k (xs ! i) else Inl OutOfBounds)"

text \<open>\<open>u64::try_from\<close> and its kin: the value itself when it fits, a panic otherwise.\<close>

definition try_into :: "nat \<Rightarrow> nat \<Rightarrow> string \<Rightarrow> (nat \<Rightarrow> 'b res) \<Rightarrow> 'b res" where
  "try_into mx a msg k = (if a \<le> mx then k a else Inl (Panic msg))"

definition sat_add :: "nat \<Rightarrow> nat \<Rightarrow> nat \<Rightarrow> nat" where
  "sat_add mx a b = min (a + b) mx"

lemmas res_defs [res_eval] = require_def expect_def bindR_def chk_add_def chk_sub_def chk_mul_def
  index_at_def try_into_def

lemma require_Inr [res_Inr]: "require b m k = Inr x \<longleftrightarrow> b \<and> k = Inr x"
  by (simp add: require_def)

lemma expect_Inr [res_Inr]: "expect a m k = Inr x \<longleftrightarrow> (\<exists>v. a = Some v \<and> k v = Inr x)"
  by (simp add: expect_def split: option.split)

lemma bindR_Inr [res_Inr]: "bindR r k = Inr x \<longleftrightarrow> (\<exists>v. r = Inr v \<and> k v = Inr x)"
  by (simp add: bindR_def split: sum.split)

lemma chk_add_Inr [res_Inr]: "chk_add mx a b k = Inr x \<longleftrightarrow> a + b \<le> mx \<and> k (a + b) = Inr x"
  by (simp add: chk_add_def)

lemma chk_sub_Inr [res_Inr]: "chk_sub a b k = Inr x \<longleftrightarrow> b \<le> a \<and> k (a - b) = Inr x"
  by (simp add: chk_sub_def)

lemma chk_mul_Inr [res_Inr]: "chk_mul mx a b k = Inr x \<longleftrightarrow> a * b \<le> mx \<and> k (a * b) = Inr x"
  by (simp add: chk_mul_def)

lemma index_at_Inr [res_Inr]: "index_at xs i k = Inr x \<longleftrightarrow> i < length xs \<and> k (xs ! i) = Inr x"
  by (simp add: index_at_def)

lemma try_into_Inr [res_Inr]: "try_into mx a m k = Inr x \<longleftrightarrow> a \<le> mx \<and> k a = Inr x"
  by (simp add: try_into_def)

lemma require_True [simp]: "require True m k = k"
  by (simp add: require_def)

lemma require_False [simp]: "require False m k = Inl (Panic m)"
  by (simp add: require_def)

lemma expect_Some [simp]: "expect (Some v) m k = k v"
  by (simp add: expect_def)

lemma expect_None [simp]: "expect None m k = Inl (Panic m)"
  by (simp add: expect_def)

lemma bindR_simps [simp]: "bindR (Inr v) k = k v" "bindR (Inl e) k = Inl e"
  by (simp_all add: bindR_def)

text \<open>A success, whatever the value: the form in which progress properties are stated.\<close>

abbreviation is_ok :: "'a res \<Rightarrow> bool" where
  "is_ok r \<equiv> \<exists>v. r = Inr v"

section \<open>Loops that may panic\<close>

fun fold_res :: "('a \<Rightarrow> 's \<Rightarrow> 's res) \<Rightarrow> 'a list \<Rightarrow> 's \<Rightarrow> 's res" where
  "fold_res f [] s = Inr s"
| "fold_res f (x # xs) s = bindR (f x s) (fold_res f xs)"

fun map_res :: "('a \<Rightarrow> 'b res) \<Rightarrow> 'a list \<Rightarrow> 'b list res" where
  "map_res f [] = Inr []"
| "map_res f (x # xs) = bindR (f x) (\<lambda>y. bindR (map_res f xs) (\<lambda>ys. Inr (y # ys)))"

fun sum_res :: "nat \<Rightarrow> nat list \<Rightarrow> nat \<Rightarrow> nat res" where
  \<comment> \<open>\<open>iter().sum::<u128>()\<close>, which checks every addition\<close>
  "sum_res mx [] acc = Inr acc"
| "sum_res mx (x # xs) acc = chk_add mx acc x (sum_res mx xs)"

lemma fold_res_inv:
  assumes "fold_res f xs s = Inr t" and "P s"
    and "\<And>x a b. x \<in> set xs \<Longrightarrow> f x a = Inr b \<Longrightarrow> P a \<Longrightarrow> P b"
  shows "P t"
  using assms
proof (induction xs arbitrary: s)
  case Nil
  then show ?case by simp
next
  case (Cons x xs)
  from Cons.prems(1) obtain u where u: "f x s = Inr u" and rest: "fold_res f xs u = Inr t"
    by (auto simp: bindR_Inr)
  have "P u" using Cons.prems(3)[OF _ u] Cons.prems(2) by simp
  with rest show ?case using Cons.IH Cons.prems(3) by (metis list.set_intros(2))
qed

lemma fold_res_append:
  "fold_res f (xs @ ys) s = bindR (fold_res f xs s) (fold_res f ys)"
proof (induction xs arbitrary: s)
  case Nil
  then show ?case by simp
next
  case (Cons x xs)
  then show ?case by (cases "f x s") simp_all
qed

lemma sum_res_Inr: "sum_res mx xs acc = Inr n \<Longrightarrow> n = acc + sum_list xs"
  by (induction xs arbitrary: acc) (fastforce simp: chk_add_Inr)+

lemma sum_res_ok: "acc + sum_list xs \<le> mx \<Longrightarrow> sum_res mx xs acc = Inr (acc + sum_list xs)"
  by (induction xs arbitrary: acc) (auto simp: chk_add_def add.assoc)

lemma map_res_Inr_length: "map_res f xs = Inr ys \<Longrightarrow> length ys = length xs"
  by (induction xs arbitrary: ys) (auto simp: bindR_Inr)

lemma map_res_Inr_nth:
  "map_res f xs = Inr ys \<Longrightarrow> i < length xs \<Longrightarrow> f (xs ! i) = Inr (ys ! i)"
proof (induction xs arbitrary: ys i)
  case Nil
  then show ?case by simp
next
  case (Cons x xs)
  then show ?case by (cases i) (auto simp: bindR_Inr)
qed

section \<open>Sums over finite maps\<close>

text \<open>
  \<open>msum f m\<close> adds up \<open>f k v\<close> over the entries of a finite map: what a total over an
  \<open>IterableMap\<close> of the contract is.
\<close>

definition msum :: "('k \<Rightarrow> 'v \<Rightarrow> nat) \<Rightarrow> ('k \<rightharpoonup> 'v) \<Rightarrow> nat" where
  "msum f m = (\<Sum>k\<in>dom m. f k (the (m k)))"

lemma msum_empty [simp]: "msum f Map.empty = 0"
  by (simp add: msum_def)

lemma msum_insert:
  assumes "finite (dom m)" and "m k = None"
  shows "msum f (m(k \<mapsto> v)) = msum f m + f k v"
proof -
  have "(\<Sum>x\<in>dom m. f x (the ((m(k \<mapsto> v)) x))) = (\<Sum>x\<in>dom m. f x (the (m x)))"
    by (rule sum.cong) (use assms in auto)
  with assms show ?thesis by (simp add: msum_def domIff)
qed

lemma msum_remove:
  assumes "finite (dom m)" and "m k = Some v"
  shows "msum f m = msum f (m(k := None)) + f k v"
proof -
  have "msum f ((m(k := None))(k \<mapsto> v)) = msum f (m(k := None)) + f k v"
    by (rule msum_insert) (use assms in auto)
  moreover have "(m(k := None))(k \<mapsto> v) = m" using assms by auto
  ultimately show ?thesis by simp
qed

lemma msum_update:
  assumes "finite (dom m)" and "m k = Some v"
  shows "msum f (m(k \<mapsto> w)) + f k v = msum f m + f k w"
proof -
  have "msum f ((m(k := None))(k \<mapsto> w)) = msum f (m(k := None)) + f k w"
    by (rule msum_insert) (use assms in auto)
  then show ?thesis using msum_remove[OF assms, of f] by simp
qed

lemma msum_ge: "finite (dom m) \<Longrightarrow> m k = Some v \<Longrightarrow> f k v \<le> msum f m"
  using msum_remove[of m k v f] by simp

section \<open>Decimal strings\<close>

text \<open>\<open>u128::to_string\<close> and \<open>str::parse::<u128>\<close> (an optional \<open>+\<close>, then at least one digit).\<close>

fun show_digits :: "nat \<Rightarrow> string" where
  "show_digits n = (if n < 10 then [char_of (48 + n)]
     else show_digits (n div 10) @ [char_of (48 + n mod 10)])"

declare show_digits.simps [simp del]

definition show_nat :: "nat \<Rightarrow> string" where
  "show_nat n = show_digits n"

definition digit_of :: "char \<Rightarrow> nat option" where
  "digit_of c = (let d = of_char c in if 48 \<le> d \<and> d \<le> (57::nat) then Some (d - 48) else None)"

fun read_digits :: "string \<Rightarrow> nat \<Rightarrow> nat option" where
  "read_digits [] acc = Some acc"
| "read_digits (c # cs) acc =
     (case digit_of c of None \<Rightarrow> None | Some d \<Rightarrow> read_digits cs (10 * acc + d))"

definition parse_u128 :: "string \<Rightarrow> u128 option" where
  "parse_u128 s =
     (let ds = (case s of c # cs \<Rightarrow> (if c = CHR ''+'' then cs else s) | [] \<Rightarrow> []) in
      if ds = [] then None
      else case read_digits ds 0 of None \<Rightarrow> None
           | Some n \<Rightarrow> if n \<le> U128_MAX then Some n else None)"

lemma digit_of_char: "d < 10 \<Longrightarrow> digit_of (char_of (48 + d)) = Some d"
  by (simp add: digit_of_def of_char_of)

lemma show_digits_ne [simp]: "show_digits n \<noteq> []"
  by (subst show_digits.simps) simp

lemma read_digits_append:
  "read_digits (xs @ ys) acc = (case read_digits xs acc of None \<Rightarrow> None | Some n \<Rightarrow> read_digits ys n)"
  by (induction xs arbitrary: acc) (auto split: option.split)

lemma read_show_digits: "read_digits (show_digits n) 0 = Some n"
proof (induction n rule: show_digits.induct)
  case (1 n)
  show ?case
  proof (cases "n < 10")
    case True
    then show ?thesis by (subst show_digits.simps) (simp add: digit_of_char)
  next
    case False
    with 1 have "read_digits (show_digits (n div 10)) 0 = Some (n div 10)" by simp
    with False show ?thesis
      by (subst show_digits.simps) (simp add: read_digits_append digit_of_char)
  qed
qed

lemma show_digits_hd: "\<exists>d<10. hd (show_digits n) = char_of (48 + d :: nat)"
proof (induction n rule: show_digits.induct)
  case (1 n)
  show ?case
  proof (cases "n < 10")
    case True
    then show ?thesis by (subst show_digits.simps) auto
  next
    case False
    with 1 show ?thesis by (subst show_digits.simps) simp
  qed
qed

lemma show_digits_no_plus: "hd (show_digits n) \<noteq> CHR ''+''"
proof -
  obtain d :: nat where d: "d < 10" "hd (show_digits n) = char_of (48 + d)"
    using show_digits_hd by blast
  have "of_char (hd (show_digits n)) = 48 + d" using d by (simp add: of_char_of)
  moreover have "of_char (CHR ''+'') = (43::nat)" by simp
  moreover have "48 + d \<noteq> (43::nat)" by simp
  ultimately show ?thesis by metis
qed

lemma parse_show [simp]: "n \<le> U128_MAX \<Longrightarrow> parse_u128 (show_nat n) = Some n"
proof -
  assume n: "n \<le> U128_MAX"
  obtain c cs where s: "show_digits n = c # cs"
    using show_digits_ne[of n] by (cases "show_digits n") auto
  have "c \<noteq> CHR ''+''" using show_digits_no_plus[of n] s by simp
  with n s read_show_digits[of n] show ?thesis
    by (simp add: parse_u128_def show_nat_def)
qed

lemma show_nat_inj [simp]: "show_nat m = show_nat n \<longleftrightarrow> m = n"
  by (metis option.inject read_show_digits show_nat_def)

end
