(* ===== verification/Network.thy ===== *)
theory Network
  imports Bridge_Prelude "HOL-Library.Word" "HOL-Library.Sublist"
begin

text \<open>
  \<open>network.rs\<close>: the supported chains, addresses, and the conversions between address strings,
  addresses and output scripts.  The encodings themselves (base58check, bech32, the Zcash address
  crate, the script builders of the bitcoin crate) are parameters, collected in \<open>addr_crates\<close>;
  \<open>script_crate_ok\<close> and \<open>base58_ok\<close> state what is documented of them and used here.
\<close>

section \<open>Chains and the branch ids of Zcash\<close>

type_synonym bytes = "8 word list"

datatype chain = BitcoinMainnet | BitcoinTestnet | LitecoinMainnet | LitecoinTestnet
  | ZcashMainnet | ZcashTestnet | DogecoinMainnet | DogecoinTestnet

record branch_heights =
  nu6_1_update :: u32
  nu6_2_update :: u32
  nu6_3_update :: u32
  nu7_update :: u32

definition branch_heights_new :: "chain \<Rightarrow> branch_heights res" where
  "branch_heights_new c = (case c of
     ZcashMainnet \<Rightarrow> Inr \<lparr>nu6_1_update = 3146400, nu6_2_update = 3364600,
       nu6_3_update = 3428143, nu7_update = 3543405\<rparr>
   | ZcashTestnet \<Rightarrow> Inr \<lparr>nu6_1_update = 3536500, nu6_2_update = 4052000,
       nu6_3_update = 4134000, nu7_update = 4465026\<rparr>
   | _ \<Rightarrow> Inl (Panic ''unreachable''))"

datatype branch_id = Nu6 | Nu6_1 | Nu6_2 | Nu6_3 | Nu7

definition get_branch_id :: "chain \<Rightarrow> u32 \<Rightarrow> branch_id res" where
  "get_branch_id c block_height =
     bindR (branch_heights_new c) (\<lambda>u.
       if nu7_update u \<noteq> 0 \<and> block_height \<ge> nu7_update u then Inr Nu7
       else if nu6_3_update u \<noteq> 0 \<and> block_height \<ge> nu6_3_update u then Inr Nu6_3
       else if nu6_2_update u \<noteq> 0 \<and> block_height \<ge> nu6_2_update u then Inr Nu6_2
       else if nu6_1_update u \<noteq> 0 \<and> block_height \<ge> nu6_1_update u then Inr Nu6_1
       else Inr Nu6)"

section \<open>Addresses\<close>

datatype address =
    P2pkh bytes chain
  | P2sh bytes chain
  | Segwit nat bytes chain          \<comment> \<open>witness version and program\<close>
  | Unified string chain            \<comment> \<open>a Zcash unified address, represented by its encoding\<close>

datatype zcash_net = ZMain | ZTest | ZRegtest

text \<open>
  The Zcash crate parses a string and calls back the conversion that fits the kind of address;
  \<open>zcash_convert\<close> is that choice, an \<open>Inl\<close> when the string does not parse, is on
  another network or has no conversion in this program.
\<close>

datatype zcash_callback =
    CbP2pkh zcash_net bytes
  | CbP2sh zcash_net bytes
  | CbTex zcash_net bytes
  | CbUnified zcash_net string

text \<open>\<open>bech32_decode\<close> gives the human-readable part in lower case (the crate compares it ignoring
  case), the witness version and the program; \<open>first_opcode_version\<close> is
  \<open>WitnessVersion::try_from\<close> of the first opcode.\<close>

datatype ua_receiver = RP2pkh bytes | RP2sh bytes | ROrchard bytes | ROther

record addr_crates =
  bech32_decode :: "string \<Rightarrow> (string \<times> nat \<times> bytes) option"
  bech32_encode :: "string \<Rightarrow> nat \<Rightarrow> bytes \<Rightarrow> string"
  base58_decode_check :: "string \<Rightarrow> bytes option"
  base58_encode_check :: "bytes \<Rightarrow> string"
  zcash_convert :: "string \<Rightarrow> zcash_net \<Rightarrow> string + zcash_callback"
  ua_items :: "string \<Rightarrow> ua_receiver list"
  ua_encode :: "zcash_net \<Rightarrow> string \<Rightarrow> string"
  new_p2pkh :: "bytes \<Rightarrow> bytes"
  new_p2sh :: "bytes \<Rightarrow> bytes"
  new_witness_program :: "nat \<Rightarrow> bytes \<Rightarrow> bytes"
  is_p2pkh :: "bytes \<Rightarrow> bool"
  is_p2sh :: "bytes \<Rightarrow> bool"
  is_witness_program :: "bytes \<Rightarrow> bool"
  is_op_return :: "bytes \<Rightarrow> bool"
  first_opcode_version :: "bytes \<Rightarrow> nat option"
  witness_program_ok :: "nat \<Rightarrow> bytes \<Rightarrow> bool"
  pubkey_hash :: "bytes \<Rightarrow> bytes"
  p2wpkh_program :: "bytes \<Rightarrow> bytes option"

text \<open>\<open>from_slice\<close> of the 20 byte hash types.\<close>

definition hash_from_slice :: "string \<Rightarrow> bytes \<Rightarrow> string + bytes" where
  "hash_from_slice msg bs = (if length bs = 20 then Inr bs else Inl msg)"

definition get_segwit_hrp :: "chain \<Rightarrow> string option" where
  "get_segwit_hrp c = (case c of
     BitcoinMainnet \<Rightarrow> Some ''bc'' | BitcoinTestnet \<Rightarrow> Some ''tb''
   | LitecoinMainnet \<Rightarrow> Some ''ltc'' | LitecoinTestnet \<Rightarrow> Some ''tltc''
   | ZcashMainnet \<Rightarrow> None | ZcashTestnet \<Rightarrow> None
   | DogecoinMainnet \<Rightarrow> None | DogecoinTestnet \<Rightarrow> None)"

definition get_pubkey_address_prefix :: "chain \<Rightarrow> bytes" where
  "get_pubkey_address_prefix c = (case c of
     BitcoinMainnet \<Rightarrow> [0x00] | BitcoinTestnet \<Rightarrow> [0x6F]
   | LitecoinMainnet \<Rightarrow> [0x30] | LitecoinTestnet \<Rightarrow> [0x6F]
   | ZcashMainnet \<Rightarrow> [0x1C, 0xB8] | ZcashTestnet \<Rightarrow> [0x1D, 0x25]
   | DogecoinMainnet \<Rightarrow> [0x1E] | DogecoinTestnet \<Rightarrow> [0x71])"

definition get_script_address_prefix :: "chain \<Rightarrow> bytes" where
  "get_script_address_prefix c = (case c of
     BitcoinMainnet \<Rightarrow> [0x05] | BitcoinTestnet \<Rightarrow> [0xC4]
   | LitecoinMainnet \<Rightarrow> [0x32] | LitecoinTestnet \<Rightarrow> [0x3A]
   | ZcashMainnet \<Rightarrow> [0x1C, 0xBD] | ZcashTestnet \<Rightarrow> [0x1C, 0xBA]
   | DogecoinMainnet \<Rightarrow> [0x16] | DogecoinTestnet \<Rightarrow> [0xC4])"

definition zcash_chain_from_network :: "zcash_net \<Rightarrow> string + chain" where
  "zcash_chain_from_network net = (case net of
     ZMain \<Rightarrow> Inr ZcashMainnet | ZTest \<Rightarrow> Inr ZcashTestnet
   | ZRegtest \<Rightarrow> Inl ''Regtest network not supported'')"

text \<open>Sequencing of \<open>Result<_, String>\<close> (the \<open>?\<close> operator).\<close>

definition bindS :: "string + 'a \<Rightarrow> ('a \<Rightarrow> string + 'b) \<Rightarrow> string + 'b" where
  "bindS r k = (case r of Inl e \<Rightarrow> Inl e | Inr v \<Rightarrow> k v)"

lemma bindS_simps [simp]: "bindS (Inr v) k = k v" "bindS (Inl e) k = Inl e"
  by (simp_all add: bindS_def)

lemma bindS_Inr [res_Inr]: "bindS r k = Inr x \<longleftrightarrow> (\<exists>v. r = Inr v \<and> k v = Inr x)"
  by (simp add: bindS_def split: sum.split)

definition try_from_transparent_p2pkh :: "zcash_net \<Rightarrow> bytes \<Rightarrow> string + address" where
  "try_from_transparent_p2pkh net bs = bindS (zcash_chain_from_network net) (\<lambda>c.
     bindS (hash_from_slice ''Invalid pubkey hash'' bs) (\<lambda>h. Inr (P2pkh h c)))"

definition try_from_transparent_p2sh :: "zcash_net \<Rightarrow> bytes \<Rightarrow> string + address" where
  "try_from_transparent_p2sh net bs = bindS (zcash_chain_from_network net) (\<lambda>c.
     bindS (hash_from_slice ''Invalid script hash'' bs) (\<lambda>h. Inr (P2sh h c)))"

definition try_from_tex :: "zcash_net \<Rightarrow> bytes \<Rightarrow> string + address" where
  "try_from_tex net bs = try_from_transparent_p2pkh net bs"

definition try_from_unified :: "zcash_net \<Rightarrow> string \<Rightarrow> string + address" where
  "try_from_unified net a = bindS (zcash_chain_from_network net) (\<lambda>c. Inr (Unified a c))"

definition zcash_dispatch :: "zcash_callback \<Rightarrow> string + address" where
  "zcash_dispatch cb = (case cb of
     CbP2pkh net bs \<Rightarrow> try_from_transparent_p2pkh net bs
   | CbP2sh net bs \<Rightarrow> try_from_transparent_p2sh net bs
   | CbTex net bs \<Rightarrow> try_from_tex net bs
   | CbUnified net a \<Rightarrow> try_from_unified net a)"

definition is_zcash :: "chain \<Rightarrow> bool" where
  "is_zcash c \<longleftrightarrow> c = ZcashMainnet \<or> c = ZcashTestnet"

definition parse_base58 :: "('x) addr_crates_scheme \<Rightarrow> string \<Rightarrow> chain \<Rightarrow> string + address" where
  "parse_base58 X a c = (case base58_decode_check X a of
     None \<Rightarrow> Inl ''Base58 decode error''
   | Some bs \<Rightarrow>
       let pk = get_pubkey_address_prefix c; sc = get_script_address_prefix c in
       if prefix pk bs then
         bindS (hash_from_slice ''Invalid pubkey hash'' (drop (length pk) bs)) (\<lambda>h. Inr (P2pkh h c))
       else if prefix sc bs then
         bindS (hash_from_slice ''Invalid script hash'' (drop (length sc) bs)) (\<lambda>h. Inr (P2sh h c))
       else Inl ''Unknown address format or unsupported chain'')"

definition parse_address :: "('x) addr_crates_scheme \<Rightarrow> string \<Rightarrow> chain \<Rightarrow> string + address" where
  "parse_address X a c =
     (if is_zcash c then
        bindS (zcash_convert X a (if c = ZcashMainnet then ZMain else ZTest)) zcash_dispatch
      else case get_segwit_hrp c of
        None \<Rightarrow> parse_base58 X a c
      | Some hrp \<Rightarrow>
          (case bech32_decode X a of
             None \<Rightarrow> parse_base58 X a c
           | Some (decoded_hrp, version, program) \<Rightarrow>
               if hrp \<noteq> decoded_hrp then Inl ''Bech32 HRP mismatch''
               else if version > 16 then Inl ''InvalidWitnessVersion''
               else if \<not> witness_program_ok X version program
                 then Inl ''bech32 guarantees valid program length for witness''
               else Inr (Segwit version program c)))"

fun ua_transparent_script :: "('x) addr_crates_scheme \<Rightarrow> ua_receiver list \<Rightarrow> string + bytes" where
  "ua_transparent_script X [] = Inl ''No receiver found in address''"
| "ua_transparent_script X (RP2pkh bs # rs) =
     bindS (hash_from_slice ''Error on parsing Pubkey Hash'' bs) (\<lambda>h. Inr (new_p2pkh X h))"
| "ua_transparent_script X (RP2sh bs # rs) =
     bindS (hash_from_slice ''Error on parsing Script Hash'' bs) (\<lambda>h. Inr (new_p2sh X h))"
| "ua_transparent_script X (r # rs) = ua_transparent_script X rs"

definition script_pubkey :: "('x) addr_crates_scheme \<Rightarrow> address \<Rightarrow> string + bytes" where
  "script_pubkey X a = (case a of
     P2pkh h _ \<Rightarrow> Inr (new_p2pkh X h)
   | P2sh h _ \<Rightarrow> Inr (new_p2sh X h)
   | Segwit v p _ \<Rightarrow> Inr (new_witness_program X v p)
   | Unified u _ \<Rightarrow> ua_transparent_script X (ua_items X u))"

fun ua_orchard :: "ua_receiver list \<Rightarrow> string + bytes" where
  "ua_orchard [] = Inl ''Unified address missing Orchard receiver''"
| "ua_orchard (ROrchard bs # rs) = Inr bs"
| "ua_orchard (r # rs) = ua_orchard rs"

definition extract_orchard_receiver :: "('x) addr_crates_scheme \<Rightarrow> address \<Rightarrow> string + bytes" where
  "extract_orchard_receiver X a = (case a of
     Unified u _ \<Rightarrow> ua_orchard (ua_items X u)
   | _ \<Rightarrow> Inl ''No Orchard address found'')"

definition from_pubkey :: "('x) addr_crates_scheme \<Rightarrow> chain \<Rightarrow> bytes \<Rightarrow> string + address" where
  "from_pubkey X c pubkey = (case get_segwit_hrp c of
     Some _ \<Rightarrow> (case p2wpkh_program X pubkey of
         None \<Rightarrow> Inl ''Error on converting pubkey to bytes''
       | Some p \<Rightarrow> if witness_program_ok X 0 p then Inr (Segwit 0 p c)
           else Inl ''bech32 guarantees valid program length for witness'')
   | None \<Rightarrow> Inr (P2pkh (pubkey_hash X pubkey) c))"

definition slice :: "nat \<Rightarrow> nat \<Rightarrow> bytes \<Rightarrow> bytes" where
  "slice i j bs = take (j - i) (drop i bs)"

definition from_script :: "('x) addr_crates_scheme \<Rightarrow> bytes \<Rightarrow> chain \<Rightarrow> address option" where
  "from_script X s c =
     (if is_p2pkh X s then
        (case hash_from_slice [] (slice 3 23 s) of Inl _ \<Rightarrow> None | Inr h \<Rightarrow> Some (P2pkh h c))
      else if is_p2sh X s then
        (case hash_from_slice [] (slice 2 22 s) of Inl _ \<Rightarrow> None | Inr h \<Rightarrow> Some (P2sh h c))
      else if is_witness_program X s then
        (case first_opcode_version X s of
           None \<Rightarrow> None
         | Some v \<Rightarrow> if witness_program_ok X v (drop 2 s) then Some (Segwit v (drop 2 s) c) else None)
      else None)"

text \<open>\<open>Display\<close>; the alternate (upper case) format is never used by the contract.  \<open>None\<close>
  is the formatting error, \<open>unreachable!\<close> for a unified address off Zcash.\<close>

definition display_address :: "('x) addr_crates_scheme \<Rightarrow> address \<Rightarrow> string option" where
  "display_address X a = (case a of
     P2pkh h c \<Rightarrow> Some (base58_encode_check X (get_pubkey_address_prefix c @ h))
   | P2sh h c \<Rightarrow> Some (base58_encode_check X (get_script_address_prefix c @ h))
   | Segwit v p c \<Rightarrow> (case get_segwit_hrp c of None \<Rightarrow> None | Some hrp \<Rightarrow> Some (bech32_encode X hrp v p))
   | Unified u c \<Rightarrow>
       (if c = ZcashMainnet then Some (ua_encode X ZMain u)
        else if c = ZcashTestnet then Some (ua_encode X ZTest u) else None))"

section \<open>Well-formed addresses\<close>

fun addr_chain :: "address \<Rightarrow> chain" where
  "addr_chain (P2pkh _ c) = c"
| "addr_chain (P2sh _ c) = c"
| "addr_chain (Segwit _ _ c) = c"
| "addr_chain (Unified _ c) = c"

fun addr_wf :: "('x) addr_crates_scheme \<Rightarrow> address \<Rightarrow> bool" where
  "addr_wf X (P2pkh h c) = (length h = 20)"
| "addr_wf X (P2sh h c) = (length h = 20)"
| "addr_wf X (Segwit v p c) = (v \<le> 16 \<and> witness_program_ok X v p \<and> get_segwit_hrp c \<noteq> None)"
| "addr_wf X (Unified u c) = is_zcash c"

definition callback_net :: "zcash_callback \<Rightarrow> zcash_net" where
  "callback_net cb = (case cb of CbP2pkh n _ \<Rightarrow> n | CbP2sh n _ \<Rightarrow> n | CbTex n _ \<Rightarrow> n | CbUnified n _ \<Rightarrow> n)"

text \<open>\<open>convert_if_network\<close> converts only addresses of the network it is given.\<close>

definition zcash_crate_ok :: "('x) addr_crates_scheme \<Rightarrow> bool" where
  "zcash_crate_ok X \<longleftrightarrow> (\<forall>a n cb. zcash_convert X a n = Inr cb \<longrightarrow> callback_net cb = n)"

lemma hash_from_slice_Inr [res_Inr]: "hash_from_slice m bs = Inr h \<longleftrightarrow> h = bs \<and> length bs = 20"
  by (auto simp: hash_from_slice_def)

lemma zcash_dispatch_wf:
  assumes "zcash_dispatch cb = Inr ad" "callback_net cb = (if c = ZcashMainnet then ZMain else ZTest)"
    and "is_zcash c"
  shows "addr_chain ad = c \<and> addr_wf X ad"
  using assms
  by (cases cb) (auto simp: zcash_dispatch_def callback_net_def try_from_tex_def is_zcash_def
      try_from_transparent_p2pkh_def try_from_transparent_p2sh_def try_from_unified_def
      zcash_chain_from_network_def res_Inr split: if_splits)

lemma parse_base58_wf: "parse_base58 X a c = Inr ad \<Longrightarrow> addr_chain ad = c \<and> addr_wf X ad"
  by (auto simp: parse_base58_def Let_def res_Inr split: option.splits if_splits)

lemma parse_address_wf:
  assumes "zcash_crate_ok X" "parse_address X a c = Inr ad"
  shows "addr_chain ad = c \<and> addr_wf X ad"
proof (cases "is_zcash c")
  case True
  with assms(2) obtain cb where cb: "zcash_convert X a (if c = ZcashMainnet then ZMain else ZTest) = Inr cb"
    "zcash_dispatch cb = Inr ad" by (auto simp: parse_address_def bindS_Inr)
  with assms(1) have "callback_net cb = (if c = ZcashMainnet then ZMain else ZTest)"
    by (simp add: zcash_crate_ok_def)
  from zcash_dispatch_wf[OF cb(2) this True] show ?thesis .
next
  case False
  show ?thesis
  proof (cases "parse_base58 X a c = Inr ad")
    case True
    then show ?thesis by (rule parse_base58_wf)
  next
    case no58: False
    obtain hrp v p where "get_segwit_hrp c = Some hrp" "bech32_decode X a = Some (hrp, v, p)"
      "v \<le> 16" "witness_program_ok X v p" "ad = Segwit v p c"
      using assms(2) False no58
      by (auto simp: parse_address_def split: option.splits if_splits)
    then show ?thesis by simp
  qed
qed




lemma script_prefix_apart: "\<not> prefix (get_pubkey_address_prefix c) (get_script_address_prefix c @ h)"
  by (cases c) (simp_all add: get_pubkey_address_prefix_def get_script_address_prefix_def)







section \<open>Scripts and addresses correspond\<close>

text \<open>The output scripts of the bitcoin crate, as its documentation gives them.\<close>

definition p2pkh_layout :: "bytes \<Rightarrow> bool" where
  "p2pkh_layout s \<longleftrightarrow> length s = 25 \<and> take 3 s = [0x76, 0xA9, 0x14] \<and> drop 23 s = [0x88, 0xAC]"

definition p2sh_layout :: "bytes \<Rightarrow> bool" where
  "p2sh_layout s \<longleftrightarrow> length s = 23 \<and> take 2 s = [0xA9, 0x14] \<and> drop 22 s = [0x87]"

definition version_byte :: "nat \<Rightarrow> 8 word" where
  "version_byte v = (if v = 0 then 0 else 0x50 + of_nat v)"

definition byte_version :: "8 word \<Rightarrow> nat option" where
  "byte_version b = (if b = 0 then Some 0 else if 0x51 \<le> b \<and> b \<le> 0x60 then Some (unat b - 0x50) else None)"

definition witness_layout :: "bytes \<Rightarrow> bool" where
  "witness_layout s \<longleftrightarrow> 4 \<le> length s \<and> length s \<le> 42 \<and> byte_version (s ! 0) \<noteq> None \<and>
     unat (s ! 1) = length s - 2"

definition program_bounds :: "nat \<Rightarrow> bytes \<Rightarrow> bool" where
  "program_bounds v p \<longleftrightarrow> v \<le> 16 \<and> 2 \<le> length p \<and> length p \<le> 40 \<and>
     (v = 0 \<longrightarrow> length p = 20 \<or> length p = 32)"

definition script_crate_ok :: "('x) addr_crates_scheme \<Rightarrow> bool" where
  "script_crate_ok X \<longleftrightarrow>
     (\<forall>h. new_p2pkh X h = [0x76, 0xA9, 0x14] @ h @ [0x88, 0xAC]) \<and>
     (\<forall>h. new_p2sh X h = [0xA9, 0x14] @ h @ [0x87]) \<and>
     (\<forall>v p. new_witness_program X v p = [version_byte v, of_nat (length p)] @ p) \<and>
     (\<forall>s. is_p2pkh X s = p2pkh_layout s) \<and> (\<forall>s. is_p2sh X s = p2sh_layout s) \<and>
     (\<forall>s. is_witness_program X s = witness_layout s) \<and>
     (\<forall>b s. first_opcode_version X (b # s) = byte_version b) \<and>
     (\<forall>v p. witness_program_ok X v p = program_bounds v p)"

lemma byte_version_byte: "v \<le> 16 \<Longrightarrow> byte_version (version_byte v) = Some v"
proof (cases "v = 0")
  case False
  assume v: "v \<le> 16"
  have "unat (0x50 + of_nat v :: 8 word) = 0x50 + v"
    using v by (simp add: unat_word_ariths take_bit_eq_mod unat_of_nat)
  then have "version_byte v = word_of_nat (0x50 + v)" "unat (version_byte v) = 0x50 + v"
    using False by (simp_all add: version_byte_def)
  with False v show ?thesis by (auto simp: byte_version_def word_le_nat_alt unat_eq_0)
qed (simp add: byte_version_def version_byte_def)

lemma byte_version_not: "byte_version 0x76 = None" "byte_version 0xA9 = None"
  by (simp_all add: byte_version_def word_le_nat_alt)

lemma hash_scripts:
  assumes "length h = 20"
  shows "p2pkh_layout ([0x76, 0xA9, 0x14] @ h @ [0x88, 0xAC])"
    and "slice 3 23 ([0x76, 0xA9, 0x14] @ h @ [0x88, 0xAC]) = h"
    and "p2sh_layout ([0xA9, 0x14] @ h @ [0x87])"
    and "\<not> p2pkh_layout ([0xA9, 0x14] @ h @ [0x87])"
    and "slice 2 22 ([0xA9, 0x14] @ h @ [0x87]) = h"
  using assms by (simp_all add: p2pkh_layout_def p2sh_layout_def slice_def numeral_3_eq_3)

lemma witness_scripts:
  assumes "program_bounds v p"
  shows "\<not> p2pkh_layout ([version_byte v, of_nat (length p)] @ p)"
    and "\<not> p2sh_layout ([version_byte v, of_nat (length p)] @ p)"
    and "witness_layout ([version_byte v, of_nat (length p)] @ p)"
proof -
  have v: "byte_version (version_byte v) = Some v"
    using assms by (intro byte_version_byte) (simp add: program_bounds_def)
  then have "version_byte v \<noteq> 0x76" "version_byte v \<noteq> 0xA9" using byte_version_not by auto
  then show "\<not> p2pkh_layout ([version_byte v, of_nat (length p)] @ p)"
    and "\<not> p2sh_layout ([version_byte v, of_nat (length p)] @ p)"
    by (simp_all add: p2pkh_layout_def p2sh_layout_def numeral_3_eq_3)
  have "length p < 256" using assms by (simp add: program_bounds_def)
  then have "unat (word_of_nat (length p) :: 8 word) = length p"
    by (simp add: unat_of_nat take_bit_eq_mod)
  with v assms show "witness_layout ([version_byte v, of_nat (length p)] @ p)"
    by (simp add: witness_layout_def program_bounds_def)
qed

fun is_unified :: "address \<Rightarrow> bool" where
  "is_unified (Unified _ _) = True"
| "is_unified _ = False"

text \<open>The output script of a well-formed address that is not a unified address determines the
  address: reading the script back on the same chain gives it again, so the script comparisons of
  the withdrawal checks compare addresses.\<close>

theorem script_address_roundtrip:
  assumes "script_crate_ok X" "addr_wf X a" "\<not> is_unified a"
  shows "\<exists>s. script_pubkey X a = Inr s \<and> from_script X s (addr_chain a) = Some a"
proof (cases a)
  case (P2pkh h c)
  with assms show ?thesis
    by (simp add: script_pubkey_def from_script_def script_crate_ok_def hash_scripts[simplified]
        hash_from_slice_def)
next
  case (P2sh h c)
  with assms show ?thesis
    by (simp add: script_pubkey_def from_script_def script_crate_ok_def hash_scripts[simplified]
        hash_from_slice_def)
next
  case (Segwit v p c)
  with assms have b: "program_bounds v p" by (simp add: script_crate_ok_def)
  then have "byte_version (version_byte v) = Some v"
    by (intro byte_version_byte) (simp add: program_bounds_def)
  with Segwit b assms(1) witness_scripts[OF b] show ?thesis
    by (simp add: script_pubkey_def from_script_def script_crate_ok_def)
next
  case (Unified u c)
  with assms(3) show ?thesis by simp
qed

text \<open>A base58 string decodes to the bytes it encodes, and is not at once a segwit address of the
  crate (the checksum of one is not a checksum of the other).\<close>

definition base58_ok :: "('x) addr_crates_scheme \<Rightarrow> bool" where
  "base58_ok X \<longleftrightarrow> (\<forall>bs. base58_decode_check X (base58_encode_check X bs) = Some bs \<and>
     bech32_decode X (base58_encode_check X bs) = None)"

fun is_base58 :: "address \<Rightarrow> bool" where
  "is_base58 (P2pkh _ _) = True"
| "is_base58 (P2sh _ _) = True"
| "is_base58 _ = False"

lemma parse_address_base58:
  assumes "base58_ok X" "\<not> is_zcash c"
  shows "parse_address X (base58_encode_check X bs) c = parse_base58 X (base58_encode_check X bs) c"
  using assms by (simp add: parse_address_def base58_ok_def split: option.split)

text \<open>A well-formed base58 address (of a public key or of a script) displays as a string that
  parses back to it, on every chain that is not Zcash: the two prefixes of a chain never shadow each
  other.\<close>

theorem display_parse_roundtrip:
  assumes "base58_ok X" "addr_wf X a" "is_base58 a" "\<not> is_zcash (addr_chain a)"
  shows "\<exists>s. display_address X a = Some s \<and> parse_address X s (addr_chain a) = Inr a"
proof (cases a)
  case (P2pkh h c)
  with assms show ?thesis
    by (simp add: display_address_def parse_address_base58)
      (simp add: parse_base58_def base58_ok_def Let_def hash_from_slice_def)
next
  case (P2sh h c)
  with assms show ?thesis
    by (simp add: display_address_def parse_address_base58)
      (simp add: parse_base58_def base58_ok_def Let_def hash_from_slice_def script_prefix_apart)
qed (use assms in simp_all)

definition branch_order :: "branch_id \<Rightarrow> nat" where
  "branch_order b = (case b of Nu6 \<Rightarrow> 0 | Nu6_1 \<Rightarrow> 1 | Nu6_2 \<Rightarrow> 2 | Nu6_3 \<Rightarrow> 3 | Nu7 \<Rightarrow> 4)"

text \<open>On a Zcash chain the branch id is defined at every height and never goes back as the
  height grows.\<close>

theorem branch_id_monotone:
  assumes "is_zcash c" "h \<le> h'"
  shows "\<exists>b b'. get_branch_id c h = Inr b \<and> get_branch_id c h' = Inr b' \<and> branch_order b \<le> branch_order b'"
  using assms
  by (auto simp: is_zcash_def get_branch_id_def branch_heights_new_def branch_order_def)

section \<open>Concrete instances\<close>

text \<open>An instance of the parameters, on which the theorems are applied: the script builders are the
  documented layouts, base58check is a plain byte-to-character map and nothing is a segwit string.\<close>

definition sample_crates :: addr_crates where
  "sample_crates = \<lparr>
     bech32_decode = (\<lambda>_. None), bech32_encode = (\<lambda>hrp v p. hrp),
     base58_decode_check = (\<lambda>s. Some (map (\<lambda>c. word_of_nat (of_char c)) s)),
     base58_encode_check = map (\<lambda>b. char_of (unat b)),
     zcash_convert = (\<lambda>a n. if length a = 20 then Inr (CbTex n (map (\<lambda>c. word_of_nat (of_char c)) a)) else Inl ''not an address''),
     ua_items = (\<lambda>_. []), ua_encode = (\<lambda>_ u. u),
     new_p2pkh = (\<lambda>h. [0x76, 0xA9, 0x14] @ h @ [0x88, 0xAC]),
     new_p2sh = (\<lambda>h. [0xA9, 0x14] @ h @ [0x87]),
     new_witness_program = (\<lambda>v p. [version_byte v, of_nat (length p)] @ p),
     is_p2pkh = p2pkh_layout, is_p2sh = p2sh_layout, is_witness_program = witness_layout,
     is_op_return = (\<lambda>s. s \<noteq> [] \<and> hd s = 0x6A),
     first_opcode_version = (\<lambda>s. case s of [] \<Rightarrow> None | b # _ \<Rightarrow> byte_version b),
     witness_program_ok = program_bounds,
     pubkey_hash = (\<lambda>k. take 20 k), p2wpkh_program = (\<lambda>k. Some (take 20 k))\<rparr>"

lemma sample_crates_ok: "script_crate_ok sample_crates" "base58_ok sample_crates" "zcash_crate_ok sample_crates"
proof -
  show "script_crate_ok sample_crates" by (simp add: script_crate_ok_def sample_crates_def)
  have "word_of_nat (of_char (char_of (unat b))) = b" for b :: "8 word"
    using unsigned_less[of b, where 'a = nat] by (simp add: of_char_of)
  then show "base58_ok sample_crates" by (simp add: base58_ok_def sample_crates_def o_def)
  show "zcash_crate_ok sample_crates"
    by (simp add: zcash_crate_ok_def sample_crates_def callback_net_def)
qed


lemma script_address_roundtrip_witness:
  "\<exists>s. script_pubkey sample_crates (Segwit 1 (replicate 32 7) BitcoinMainnet) = Inr s \<and>
     from_script sample_crates s BitcoinMainnet = Some (Segwit 1 (replicate 32 7) BitcoinMainnet)"
  using script_address_roundtrip[OF sample_crates_ok(1), of "Segwit 1 (replicate 32 7) BitcoinMainnet"]
  by (simp add: sample_crates_def program_bounds_def get_segwit_hrp_def)

lemma display_parse_roundtrip_witness:
  "\<exists>s. display_address sample_crates (P2sh (replicate 20 1) LitecoinTestnet) = Some s \<and>
     parse_address sample_crates s LitecoinTestnet = Inr (P2sh (replicate 20 1) LitecoinTestnet)"
  using display_parse_roundtrip[OF sample_crates_ok(2), of "P2sh (replicate 20 1) LitecoinTestnet"]
  by (simp add: is_zcash_def)

lemma branch_id_monotone_witness:
  "\<exists>b b'. get_branch_id ZcashMainnet 3364599 = Inr b \<and> get_branch_id ZcashMainnet 3364600 = Inr b' \<and>
     branch_order b \<le> branch_order b'"
  using branch_id_monotone[of ZcashMainnet 3364599 3364600] by (simp add: is_zcash_def)

end
