(* ===== verification/Block_Ring.thy ===== *)
theory Block_Ring
  imports Bridge_Prelude
begin

text \<open>
  \<open>block_amount_ring.rs\<close>: the ring of satoshi amounts bridged per Bitcoin block.  The slot of a
  height is its remainder by the capacity, and a slot keeps the newest block that used it.  The
  abstraction of a ring is \<open>amounts r\<close>, the partial map from heights to cumulative amounts;
  the locale \<open>amount_window\<close> is what the confirmations check relies on.
\<close>

section \<open>The ring and its operations\<close>

record block_cell =
  block_height :: u64
  cumulative_sats :: u128

record block_ring =
  cells :: "block_cell option list"

definition ring_new :: "usize \<Rightarrow> block_ring res" where
  "ring_new capacity =
     require (capacity > 0) ''BlockAmountRing capacity must be > 0''
       (Inr \<lparr>cells = replicate capacity None\<rparr>)"

definition ring_capacity :: "block_ring \<Rightarrow> usize" where
  "ring_capacity r = length (cells r)"

definition ring_slot :: "block_ring \<Rightarrow> u64 \<Rightarrow> usize res" where
  "ring_slot r h = (if ring_capacity r = 0 then Inl DivByZero else Inr (h mod ring_capacity r))"

definition ring_bump :: "block_ring \<Rightarrow> u64 \<Rightarrow> u128 \<Rightarrow> (block_ring \<times> u128 option) res" where
  "ring_bump r h amount =
     bindR (ring_slot r h) (\<lambda>i.
       let fresh = Inr (r\<lparr>cells := (cells r)[i := Some \<lparr>block_height = h, cumulative_sats = amount\<rparr>]\<rparr>,
                        Some amount) in
       case cells r ! i of
         Some c \<Rightarrow>
           if block_height c = h then
             let c' = c\<lparr>cumulative_sats := sat_add U128_MAX (cumulative_sats c) amount\<rparr> in
             Inr (r\<lparr>cells := (cells r)[i := Some c']\<rparr>, Some (cumulative_sats c'))
           else if block_height c > h then Inr (r, None)
           else fresh
       | None \<Rightarrow> fresh)"

definition ring_unbump :: "block_ring \<Rightarrow> u64 \<Rightarrow> u128 \<Rightarrow> block_ring res" where
  "ring_unbump r h amount =
     bindR (ring_slot r h) (\<lambda>i.
       case cells r ! i of
         Some c \<Rightarrow>
           if block_height c = h then
             Inr (r\<lparr>cells := (cells r)[i := Some (c\<lparr>cumulative_sats := cumulative_sats c - amount\<rparr>)]\<rparr>)
           else Inr r
       | None \<Rightarrow> Inr r)"

definition ring_get :: "block_ring \<Rightarrow> u64 \<Rightarrow> u128 option res" where
  "ring_get r h =
     bindR (ring_slot r h) (\<lambda>i.
       case cells r ! i of
         Some c \<Rightarrow> if block_height c = h then Inr (Some (cumulative_sats c)) else Inr None
       | None \<Rightarrow> Inr None)"

definition ring_peek :: "block_ring \<Rightarrow> u64 \<Rightarrow> u128 \<Rightarrow> u128 option res" where
  "ring_peek r h amount =
     bindR (ring_slot r h) (\<lambda>i.
       case cells r ! i of
         Some c \<Rightarrow>
           if block_height c = h then Inr (Some (sat_add U128_MAX (cumulative_sats c) amount))
           else if block_height c > h then Inr None
           else Inr (Some amount)
       | None \<Rightarrow> Inr (Some amount))"

fun resize_loop :: "usize \<Rightarrow> block_cell option list \<Rightarrow> block_cell option list \<Rightarrow> block_cell option list" where
  "resize_loop n [] new = new"
| "resize_loop n (None # es) new = resize_loop n es new"
| "resize_loop n (Some e # es) new =
     (let i = block_height e mod n;
          replace = (case new ! i of Some existing \<Rightarrow> block_height e > block_height existing | None \<Rightarrow> True)
      in resize_loop n es (if replace then new[i := Some e] else new))"

definition ring_resize :: "block_ring \<Rightarrow> usize \<Rightarrow> block_ring res" where
  "ring_resize r new_capacity =
     require (new_capacity > 0) ''BlockAmountRing capacity must be > 0''
       (if new_capacity = length (cells r) then Inr r
        else Inr (r\<lparr>cells := resize_loop new_capacity (cells r) (replicate new_capacity None)\<rparr>))"

lemmas ring_defs [res_eval] = ring_new_def ring_capacity_def ring_slot_def ring_bump_def
  ring_unbump_def ring_get_def ring_peek_def ring_resize_def sat_add_def

section \<open>Invariant and abstraction\<close>

definition ring_ok :: "block_ring \<Rightarrow> bool" where
  "ring_ok r \<longleftrightarrow> 0 < ring_capacity r \<and>
     (\<forall>i c. i < ring_capacity r \<longrightarrow> cells r ! i = Some c \<longrightarrow>
        block_height c mod ring_capacity r = i \<and> cumulative_sats c \<le> U128_MAX)"

definition amounts :: "block_ring \<Rightarrow> u64 \<rightharpoonup> u128" where
  "amounts r h = (case cells r ! (h mod ring_capacity r) of
     Some c \<Rightarrow> if block_height c = h then Some (cumulative_sats c) else None
   | None \<Rightarrow> None)"

lemma ring_okI:
  assumes "0 < ring_capacity r"
    and "\<And>i c. i < ring_capacity r \<Longrightarrow> cells r ! i = Some c \<Longrightarrow>
          block_height c mod ring_capacity r = i \<and> cumulative_sats c \<le> U128_MAX"
  shows "ring_ok r"
  using assms by (simp add: ring_ok_def)

lemma ring_ok_cap [simp]: "ring_ok r \<Longrightarrow> 0 < ring_capacity r"
  by (simp add: ring_ok_def)

lemma ring_ok_cell:
  "ring_ok r \<Longrightarrow> i < ring_capacity r \<Longrightarrow> cells r ! i = Some c \<Longrightarrow>
   block_height c mod ring_capacity r = i \<and> cumulative_sats c \<le> U128_MAX"
  by (simp add: ring_ok_def)

lemma ring_slot_ok: "ring_ok r \<Longrightarrow> ring_slot r h = Inr (h mod ring_capacity r)"
  by (simp add: ring_slot_def ring_ok_def)

lemma ring_new_ok: "0 < n \<Longrightarrow> \<exists>r. ring_new n = Inr r \<and> ring_ok r \<and> ring_capacity r = n \<and> amounts r = Map.empty"
  by (auto simp: ring_new_def ring_ok_def ring_capacity_def amounts_def)

lemma ring_get_amounts: "ring_ok r \<Longrightarrow> ring_get r h = Inr (amounts r h)"
  by (auto simp: ring_get_def ring_slot_ok amounts_def split: option.split)

text \<open>Writing the cell of a height: the one place where the list update is reasoned about.\<close>

definition ring_put :: "block_ring \<Rightarrow> u64 \<Rightarrow> u128 \<Rightarrow> block_ring" where
  "ring_put r h s =
     r\<lparr>cells := (cells r)[h mod ring_capacity r := Some \<lparr>block_height = h, cumulative_sats = s\<rparr>]\<rparr>"

lemma ring_put_capacity [simp]: "ring_capacity (ring_put r h s) = ring_capacity r"
  by (simp add: ring_put_def ring_capacity_def)

lemma ring_put_ok: "ring_ok r \<Longrightarrow> s \<le> U128_MAX \<Longrightarrow> ring_ok (ring_put r h s)"
  by (auto intro!: ring_okI dest: ring_ok_cell
      simp: ring_put_def ring_capacity_def nth_list_update ring_ok_def split: if_splits)

lemma ring_put_amounts:
  assumes "ring_ok r"
  shows "amounts (ring_put r h s) h' =
    (if h' = h then Some s
     else if h' mod ring_capacity r = h mod ring_capacity r then None else amounts r h')"
proof -
  have "h mod ring_capacity r < length (cells r)" for h
    using assms by (simp add: ring_capacity_def ring_ok_def)
  then show ?thesis
    unfolding amounts_def ring_put_capacity by (simp add: ring_put_def nth_list_update)
qed

lemma cell_update: "c\<lparr>cumulative_sats := x\<rparr> = \<lparr>block_height = block_height c, cumulative_sats = x\<rparr>"
  by (cases c) simp

lemma cell_eta [simp]: "\<lparr>block_height = block_height c, cumulative_sats = cumulative_sats c\<rparr> = c"
  by (cases c) simp

lemma ring_bump_cases:
  assumes "ring_ok r"
  obtains
    (accumulate) s where "amounts r h = Some s"
      "ring_bump r h a = Inr (ring_put r h (sat_add U128_MAX s a), Some (sat_add U128_MAX s a))"
  | (outdated) c where "cells r ! (h mod ring_capacity r) = Some c" "h < block_height c"
      "amounts r h = None" "ring_bump r h a = Inr (r, None)"
  | (fresh) "amounts r h = None" "ring_bump r h a = Inr (ring_put r h a, Some a)"
      "\<And>c. cells r ! (h mod ring_capacity r) = Some c \<Longrightarrow> block_height c < h"
proof (cases "cells r ! (h mod ring_capacity r)")
  case None
  then show ?thesis using assms
    by (intro fresh) (auto simp: amounts_def ring_bump_def ring_slot_ok ring_put_def)
next
  case (Some c)
  consider "block_height c = h" | "h < block_height c" | "block_height c < h" by linarith
  then show ?thesis
  proof cases
    case 1
    have "amounts r h = Some (cumulative_sats c)" using Some 1 by (simp add: amounts_def)
    with assms Some 1 show ?thesis
      by (intro accumulate[of "cumulative_sats c"])
        (auto simp: ring_bump_def ring_slot_ok ring_put_def Let_def cell_update)
  next
    case 2
    with assms Some show ?thesis
      by (intro outdated[of c]) (auto simp: amounts_def ring_bump_def ring_slot_ok)
  next
    case 3
    with assms Some show ?thesis
      by (intro fresh) (auto simp: amounts_def ring_bump_def ring_slot_ok ring_put_def)
  qed
qed

lemma ring_bump_ok:
  assumes "ring_ok r" "a \<le> U128_MAX" "ring_bump r h a = Inr (r', v)"
  shows "ring_ok r' \<and> ring_capacity r' = ring_capacity r"
  using assms by (cases rule: ring_bump_cases[OF assms(1), of h a])
    (auto intro: ring_put_ok simp: sat_add_def)

lemma ring_bump_total: "ring_ok r \<Longrightarrow> is_ok (ring_bump r h a)"
  by (cases rule: ring_bump_cases[of r h a]) auto

lemma ring_bump_hit:
  assumes "ring_ok r" "a \<le> U128_MAX" "ring_bump r h a = Inr (r', Some s)"
  shows "s = sat_add U128_MAX (case amounts r h of None \<Rightarrow> 0 | Some x \<Rightarrow> x) a \<and> amounts r' h = Some s"
  using assms(2,3) by (cases rule: ring_bump_cases[OF assms(1), of h a])
    (auto simp: ring_put_amounts[OF assms(1)] sat_add_def)

lemma ring_bump_frame:
  assumes "ring_ok r" "ring_bump r h a = Inr (r', v)" "h' mod ring_capacity r \<noteq> h mod ring_capacity r"
  shows "amounts r' h' = amounts r h'"
  using assms by (cases rule: ring_bump_cases[OF assms(1), of h a]) (auto simp: ring_put_amounts)

text \<open>A charge can push one other block out of the ring: an older one in the same slot.\<close>

lemma ring_bump_others:
  assumes "ring_ok r" "ring_bump r h a = Inr (r', v)" "k \<noteq> h"
  shows "amounts r' k = amounts r k \<or>
    (k < h \<and> k mod ring_capacity r = h mod ring_capacity r \<and> amounts r' k = None)"
proof (cases rule: ring_bump_cases[OF assms(1), of h a])
  case (1 s)
  then have "k mod ring_capacity r = h mod ring_capacity r \<Longrightarrow> amounts r k = None"
    using assms(3) by (auto simp: amounts_def split: option.splits if_splits)
  with 1 assms show ?thesis by (auto simp: ring_put_amounts)
next
  case (2 c)
  with assms show ?thesis by simp
next
  case 3
  then have "k mod ring_capacity r = h mod ring_capacity r \<Longrightarrow> amounts r k \<noteq> None \<Longrightarrow> k < h"
    by (auto simp: amounts_def split: option.splits if_splits)
  moreover have "amounts r' k = (if k mod ring_capacity r = h mod ring_capacity r then None else amounts r k)"
    using 3 assms(2,3) by (auto simp: ring_put_amounts[OF assms(1)])
  ultimately show ?thesis by (cases "amounts r k") auto
qed

lemma ring_bump_miss:
  "ring_ok r \<Longrightarrow> ring_bump r h a = Inr (r', None) \<Longrightarrow> r' = r \<and> amounts r h = None"
  by (cases rule: ring_bump_cases[of r h a]) auto

lemma ring_unbump_eq:
  assumes "ring_ok r"
  shows "ring_unbump r h a =
    Inr (case amounts r h of None \<Rightarrow> r | Some s \<Rightarrow> ring_put r h (s - a))"
proof (cases "cells r ! (h mod ring_capacity r)")
  case None
  with assms show ?thesis by (simp add: ring_unbump_def ring_slot_ok amounts_def)
next
  case (Some c)
  with assms Some show ?thesis
    by (auto simp: ring_unbump_def ring_slot_ok amounts_def ring_put_def cell_update)
qed

lemma ring_amounts_le:
  assumes "ring_ok r" "amounts r h = Some s" shows "s \<le> U128_MAX"
proof -
  have "h mod ring_capacity r < ring_capacity r" using assms(1) by simp
  with assms ring_ok_cell[OF assms(1) this] show ?thesis
    by (auto simp: amounts_def split: option.splits if_splits)
qed

lemma ring_unbump_ok:
  assumes "ring_ok r" "ring_unbump r h a = Inr r'"
  shows "ring_ok r' \<and> ring_capacity r' = ring_capacity r"
  using assms ring_amounts_le[OF assms(1), of h]
  by (auto simp: ring_unbump_eq intro!: ring_put_ok split: option.splits)

lemma ring_unbump_amounts:
  assumes "ring_ok r" "ring_unbump r h a = Inr r'"
  shows "amounts r' = (case amounts r h of None \<Rightarrow> amounts r | Some s \<Rightarrow> (amounts r)(h \<mapsto> s - a))"
proof (cases "amounts r h")
  case None
  with assms show ?thesis by (simp add: ring_unbump_eq)
next
  case (Some s)
  have other: "amounts r h' = None" if "h' \<noteq> h" "h' mod ring_capacity r = h mod ring_capacity r" for h'
    using Some that by (auto simp: amounts_def split: option.splits if_splits)
  have "amounts r' h' = ((amounts r)(h \<mapsto> s - a)) h'" for h'
    using assms Some other[of h'] by (auto simp: ring_unbump_eq ring_put_amounts)
  then show ?thesis using Some by auto
qed

section \<open>The window of recent blocks\<close>

text \<open>A run of bumps, and what a height's cumulative amount should be after it.\<close>

fun ring_bumps :: "block_ring \<Rightarrow> (u64 \<times> u128) list \<Rightarrow> block_ring res" where
  "ring_bumps r [] = Inr r"
| "ring_bumps r ((h, a) # xs) = bindR (ring_bump r h a) (\<lambda>(r', _). ring_bumps r' xs)"

definition block_sum :: "(u64 \<times> u128) list \<Rightarrow> u64 \<Rightarrow> u128" where
  "block_sum xs h = sum_list (map snd (filter (\<lambda>(h', _). h' = h) xs))"

definition ring_within :: "block_ring \<Rightarrow> u64 \<Rightarrow> bool" where
  "ring_within r lo \<longleftrightarrow> (\<forall>h s. amounts r h = Some s \<longrightarrow> lo \<le> h \<and> h < lo + ring_capacity r)"

lemma same_slot_same_height:
  assumes "lo \<le> h" "h < lo + n" "lo \<le> h'" "h' < lo + n" "h mod n = h' mod (n::nat)"
  shows "h = h'"
proof (rule ccontr)
  assume "h \<noteq> h'"
  then consider "h < h'" | "h' < h" by linarith
  then show False
  proof cases
    case 1
    with assms(5) have "n dvd h' - h" by (metis mod_eq_dvd_iff_nat less_imp_le)
    with 1 assms show False by (auto dest!: dvd_imp_le)
  next
    case 2
    with assms(5) have "n dvd h - h'" by (metis mod_eq_dvd_iff_nat less_imp_le)
    with 2 assms show False by (auto dest!: dvd_imp_le)
  qed
qed

lemma cell_amounts:
  "ring_ok r \<Longrightarrow> cells r ! (h mod ring_capacity r) = Some c \<Longrightarrow>
   amounts r (block_height c) = Some (cumulative_sats c)"
  using ring_ok_cell[of r "h mod ring_capacity r" c] by (simp add: amounts_def)

lemma ring_bump_within:
  assumes ok: "ring_ok r" and win: "ring_within r lo" and h: "lo \<le> h" "h < lo + ring_capacity r"
  shows "\<exists>s. ring_bump r h a = Inr (ring_put r h s, Some s) \<and>
     s = (case amounts r h of None \<Rightarrow> a | Some x \<Rightarrow> sat_add U128_MAX x a) \<and>
     (\<forall>h'. amounts (ring_put r h s) h' = (if h' = h then Some s else amounts r h')) \<and>
     ring_within (ring_put r h s) lo"
proof -
  have other: "amounts r h' = None" if "h' \<noteq> h" "h' mod ring_capacity r = h mod ring_capacity r" for h'
  proof (rule ccontr)
    assume "amounts r h' \<noteq> None"
    then have "lo \<le> h'" "h' < lo + ring_capacity r" using win by (auto simp: ring_within_def)
    then show False using same_slot_same_height[of lo h' "ring_capacity r" h] h that by simp
  qed
  have put: "\<forall>h'. amounts (ring_put r h s) h' = (if h' = h then Some s else amounts r h')" for s
    using other by (auto simp: ring_put_amounts[OF ok])
  then have within: "ring_within (ring_put r h s) lo" for s
    using win h by (auto simp: ring_within_def)
  show ?thesis
  proof (rule ring_bump_cases[OF ok, of h a], goal_cases)
    case (1 s)
    with put within show ?thesis by auto
  next
    case outdated: (2 c)
    from cell_amounts[OF ok outdated(1)] outdated(2) have "amounts r (block_height c) \<noteq> None" by simp
    moreover have "block_height c mod ring_capacity r = h mod ring_capacity r"
      using ring_ok_cell[OF ok _ outdated(1)] ok by simp
    ultimately show ?thesis using other[of "block_height c"] outdated(2) by auto
  next
    case 3
    with put within show ?thesis by auto
  qed
qed

lemma sat_add_assoc: "sat_add m (sat_add m x a) b = sat_add m x (a + b)"
  by (simp add: sat_add_def min_def)

lemma block_sum_Cons [simp]:
  "block_sum ((h, a) # xs) h' = (if h' = h then a else 0) + block_sum xs h'"
  by (simp add: block_sum_def)

lemma block_sum_notin [simp]: "h \<notin> fst ` set xs \<Longrightarrow> block_sum xs h = 0"
  by (induction xs) (auto simp: block_sum_def)

definition base_amount :: "block_ring \<Rightarrow> u64 \<Rightarrow> u128" where
  "base_amount r h = (case amounts r h of None \<Rightarrow> 0 | Some x \<Rightarrow> x)"

lemma ring_bumps_window:
  assumes "ring_ok r" "ring_within r lo"
    and "\<And>h a. (h, a) \<in> set xs \<Longrightarrow> lo \<le> h \<and> h < lo + ring_capacity r \<and> a \<le> U128_MAX"
  shows "\<exists>r'. ring_bumps r xs = Inr r' \<and> ring_ok r' \<and> ring_capacity r' = ring_capacity r \<and>
    (\<forall>h. amounts r' h = (if h \<in> fst ` set xs
       then Some (sat_add U128_MAX (base_amount r h) (block_sum xs h)) else amounts r h))"
  using assms
proof (induction xs arbitrary: r)
  case Nil
  then show ?case by simp
next
  case (Cons x xs)
  obtain h a where x: "x = (h, a)" by force
  have h: "lo \<le> h" "h < lo + ring_capacity r" and a: "a \<le> U128_MAX" using Cons.prems(3) x by auto
  obtain s where s: "ring_bump r h a = Inr (ring_put r h s, Some s)"
      "s = (case amounts r h of None \<Rightarrow> a | Some x \<Rightarrow> sat_add U128_MAX x a)"
      "\<forall>h'. amounts (ring_put r h s) h' = (if h' = h then Some s else amounts r h')"
      "ring_within (ring_put r h s) lo"
    using ring_bump_within[OF Cons.prems(1,2) h] by blast
  have "s \<le> U128_MAX" using s(2) a by (auto simp: sat_add_def split: option.splits)
  then have "ring_ok (ring_put r h s)" by (rule ring_put_ok[OF Cons.prems(1)])
  from Cons.IH[OF this s(4)] Cons.prems(3) obtain r' where r': "ring_bumps (ring_put r h s) xs = Inr r'"
      "ring_ok r'" "ring_capacity r' = ring_capacity r"
      "\<forall>h'. amounts r' h' = (if h' \<in> fst ` set xs
         then Some (sat_add U128_MAX (base_amount (ring_put r h s) h') (block_sum xs h'))
         else amounts (ring_put r h s) h')"
    by auto
  have base: "s = sat_add U128_MAX (base_amount r h) a"
    using s(2) a by (auto simp: sat_add_def base_amount_def split: option.splits)
  have same: "base_amount (ring_put r h s) h = s" and
    other: "\<And>h'. h' \<noteq> h \<Longrightarrow> base_amount (ring_put r h s) h' = base_amount r h'"
    using s(3) by (simp_all add: base_amount_def)
  have "amounts r' h' = (if h' \<in> fst ` set (x # xs)
     then Some (sat_add U128_MAX (base_amount r h') (block_sum (x # xs) h')) else amounts r h')" for h'
  proof (cases "h' = h")
    case True
    then show ?thesis using r'(4) s(3) same
      by (cases "h \<in> fst ` set xs") (simp_all add: x base sat_add_assoc)
  next
    case False
    then show ?thesis using r'(4) s(3) other[OF False] by (simp add: x)
  qed
  with r'(1-3) s(1) show ?case by (auto simp: x)
qed

text \<open>C16: while the heights that are charged stay inside one window of \<open>capacity\<close> consecutive
  blocks, no charge is lost: starting from a new ring, any sequence of charges succeeds and leaves
  every charged height with exactly the (saturated) sum of its charges, and every other height with
  nothing.\<close>

theorem ring_window_exact:
  assumes "ring_new n = Inr r"
    and "\<forall>(h, a)\<in>set xs. lo \<le> h \<and> h < lo + n \<and> a \<le> U128_MAX"
  shows "\<exists>r'. ring_bumps r xs = Inr r' \<and>
    (\<forall>h. ring_get r' h = Inr (if h \<in> fst ` set xs then Some (min (block_sum xs h) U128_MAX) else None))"
proof -
  from assms(1) have n: "0 < n" by (simp add: ring_new_def res_Inr)
  obtain r1 where r1: "ring_new n = Inr r1" "ring_ok r1" "ring_capacity r1 = n" "amounts r1 = Map.empty"
    using ring_new_ok[OF n] by blast
  have r: "ring_ok r" "ring_capacity r = n" "amounts r = Map.empty" using r1 assms(1) by simp_all
  have win: "ring_within r lo" using r(3) by (simp add: ring_within_def)
  have "\<exists>r'. ring_bumps r xs = Inr r' \<and> ring_ok r' \<and> ring_capacity r' = ring_capacity r \<and>
    (\<forall>h. amounts r' h = (if h \<in> fst ` set xs
       then Some (sat_add U128_MAX (base_amount r h) (block_sum xs h)) else amounts r h))"
    using ring_bumps_window[OF r(1) win, of xs] assms(2) r(2) by blast
  then obtain r' where "ring_bumps r xs = Inr r'" "ring_ok r'"
    "\<forall>h. amounts r' h = (if h \<in> fst ` set xs then Some (sat_add U128_MAX 0 (block_sum xs h)) else None)"
    unfolding base_amount_def r(3) by auto
  then show ?thesis by (auto simp: ring_get_amounts sat_add_def)
qed

theorem ring_window_exact_witness:
  "\<exists>r'. ring_bumps \<lparr>cells = replicate 4 None\<rparr> [(100, 500), (102, 7), (100, 250)] = Inr r' \<and>
    ring_get r' 100 = Inr (Some 750) \<and> ring_get r' 102 = Inr (Some 7) \<and> ring_get r' 101 = Inr None"
proof -
  let ?xs = "[(100, 500), (102, 7), (100, 250)] :: (u64 \<times> u128) list"
  have new: "ring_new 4 = Inr \<lparr>cells = replicate 4 None\<rparr>" by (simp add: ring_new_def)
  have win: "\<forall>(h, a)\<in>set ?xs. 100 \<le> h \<and> h < 100 + 4 \<and> a \<le> U128_MAX" by (simp add: U128_MAX_def)
  obtain r' where r': "ring_bumps \<lparr>cells = replicate 4 None\<rparr> ?xs = Inr r'"
      "\<forall>h. ring_get r' h = Inr (if h \<in> fst ` set ?xs then Some (min (block_sum ?xs h) U128_MAX) else None)"
    using ring_window_exact[OF new win] by blast
  have sums: "block_sum ?xs 100 = 750" "block_sum ?xs 102 = 7" by (simp_all add: block_sum_def)
  show ?thesis
    by (rule exI[of _ r'], intro conjI)
      (rule r'(1), simp_all only: r'(2) sums, simp_all add: U128_MAX_def)
qed

section \<open>Changing the capacity\<close>

lemma resize_loop_spec:
  assumes "0 < n" "length new = n"
  shows "length (resize_loop n es new) = n \<and>
    (\<forall>i<n. \<forall>c. resize_loop n es new ! i = Some c \<longrightarrow>
       new ! i = Some c \<or> (Some c \<in> set es \<and> block_height c mod n = i)) \<and>
    (\<forall>i<n. \<forall>e. new ! i = Some e \<or> (Some e \<in> set es \<and> block_height e mod n = i) \<longrightarrow>
       (\<exists>c. resize_loop n es new ! i = Some c \<and> block_height e \<le> block_height c))"
  using assms
proof (induction n es new rule: resize_loop.induct)
  case (1 n new)
  then show ?case by auto
next
  case (2 n es new)
  then show ?case by auto
next
  case (3 n e es new)
  define i where "i = block_height e mod n"
  define repl where "repl = (case new ! i of Some ex \<Rightarrow> block_height e > block_height ex | None \<Rightarrow> True)"
  define new' where "new' = (if repl then new[i := Some e] else new)"
  have i: "i < n" using 3(2) by (simp add: i_def)
  have len: "length new' = n" using 3(3) by (simp add: new'_def)
  have eq: "resize_loop n (Some e # es) new = resize_loop n es new'"
    by (simp add: Let_def i_def repl_def new'_def)
  note IH = 3(1)[OF i_def repl_def 3(2), folded new'_def, OF len]
  have from_new': "new ! j = Some c \<or> (c = e \<and> j = i)" if "new' ! j = Some c" "j < n" for j c
    using that i 3(3) by (auto simp: new'_def nth_list_update split: if_splits)
  have to_new': "\<exists>d. new' ! j = Some d \<and> block_height c \<le> block_height d"
    if "new ! j = Some c \<or> (c = e \<and> j = i)" "j < n" for j c
    using that i 3(3) by (fastforce simp: new'_def nth_list_update repl_def split: option.splits)
  show ?case unfolding eq
  proof (intro conjI allI impI)
    show "length (resize_loop n es new') = n" using IH by blast
  next
    fix j c assume j: "j < n" and c: "resize_loop n es new' ! j = Some c"
    then have "new' ! j = Some c \<or> (Some c \<in> set es \<and> block_height c mod n = j)" using IH by blast
    then show "new ! j = Some c \<or> (Some c \<in> set (Some e # es) \<and> block_height c mod n = j)"
      using from_new'[OF _ j] i_def by auto
  next
    fix j d assume j: "j < n" and "new ! j = Some d \<or> (Some d \<in> set (Some e # es) \<and> block_height d mod n = j)"
    then consider "new ! j = Some d \<or> (d = e \<and> j = i)" | "Some d \<in> set es" "block_height d mod n = j"
      by (auto simp: i_def)
    then show "\<exists>c. resize_loop n es new' ! j = Some c \<and> block_height d \<le> block_height c"
    proof cases
      case 1
      from to_new'[OF 1 j] IH j show ?thesis by (meson order_trans)
    next
      case 2
      with IH j show ?thesis by blast
    qed
  qed
qed

lemma amounts_iff_cell:
  assumes "ring_ok r"
  shows "amounts r h = Some s \<longleftrightarrow> Some \<lparr>block_height = h, cumulative_sats = s\<rparr> \<in> set (cells r)"
proof
  assume a: "amounts r h = Some s"
  then obtain c where c: "cells r ! (h mod ring_capacity r) = Some c" "block_height c = h" "cumulative_sats c = s"
    by (auto simp: amounts_def split: option.splits if_splits)
  have "h mod ring_capacity r < length (cells r)" using assms by (simp add: ring_ok_def ring_capacity_def)
  with c(1) have "Some c \<in> set (cells r)" by (metis nth_mem)
  with c show "Some \<lparr>block_height = h, cumulative_sats = s\<rparr> \<in> set (cells r)" by (cases c) simp
next
  assume "Some \<lparr>block_height = h, cumulative_sats = s\<rparr> \<in> set (cells r)"
  then obtain i where i: "i < ring_capacity r" "cells r ! i = Some \<lparr>block_height = h, cumulative_sats = s\<rparr>"
    by (auto simp: in_set_conv_nth ring_capacity_def)
  with ring_ok_cell[OF assms i] show "amounts r h = Some s" by (auto simp: amounts_def)
qed

lemma ring_same_slot:
  assumes "ring_ok r" "amounts r h = Some s" "amounts r h' = Some s'"
    "h mod ring_capacity r = h' mod ring_capacity r"
  shows "h = h'"
  using assms by (auto simp: amounts_def split: option.splits if_splits)


text \<open>Changing the capacity keeps every height except the ones that now share a slot with a
  newer recorded height: the newest block of each new slot survives with its amount unchanged, and
  the result is a well-formed ring of the new capacity.\<close>

theorem ring_resize_amounts:
  assumes "ring_ok r" "0 < n"
  shows "\<exists>r'. ring_resize r n = Inr r' \<and> ring_ok r' \<and> ring_capacity r' = n \<and>
    (\<forall>h. amounts r' h =
      (if \<exists>h'>h. h' mod n = h mod n \<and> amounts r h' \<noteq> None then None else amounts r h))"
proof (cases "n = length (cells r)")
  case True
  then have "amounts r h = None" if "h' > h" "h' mod n = h mod n" "amounts r h' \<noteq> None" for h h'
    using ring_same_slot[OF assms(1), of h _ h'] that by (cases "amounts r h") (auto simp: ring_capacity_def)
  with True assms show ?thesis by (intro exI[of _ r]) (auto simp: ring_resize_def ring_capacity_def)
next
  case False
  define R where "R = resize_loop n (cells r) (replicate n None)"
  have len: "length R = n"
    and src: "\<And>i c. i < n \<Longrightarrow> R ! i = Some c \<Longrightarrow> Some c \<in> set (cells r) \<and> block_height c mod n = i"
    and best: "\<And>e. Some e \<in> set (cells r) \<Longrightarrow>
      \<exists>c. R ! (block_height e mod n) = Some c \<and> block_height e \<le> block_height c"
    using resize_loop_spec[OF assms(2), of "replicate n None" "cells r"] assms(2)
    by (fastforce simp: R_def)+
  let ?r = "\<lparr>cells = R\<rparr>"
  have res: "ring_resize r n = Inr ?r" using assms False by (simp add: ring_resize_def R_def)
  have bound: "cumulative_sats c \<le> U128_MAX" if "Some c \<in> set (cells r)" for c
    using that ring_ok_cell[OF assms(1)] by (fastforce simp: in_set_conv_nth ring_capacity_def)
  have ok: "ring_ok ?r" by (rule ring_okI) (use len src bound assms(2) in \<open>auto simp: ring_capacity_def\<close>)
  have cap: "ring_capacity ?r = n" using len by (simp add: ring_capacity_def)
  have sub: "amounts r h = Some s" if "amounts ?r h = Some s" for h s
  proof -
    from that obtain c where c: "R ! (h mod n) = Some c" "block_height c = h" "cumulative_sats c = s"
      using cap by (auto simp: amounts_def split: option.splits if_splits)
    with src[of "h mod n" c] assms(2) show ?thesis by (cases c) (simp add: amounts_iff_cell[OF assms(1)])
  qed
  have "amounts ?r h = (if \<exists>h'>h. h' mod n = h mod n \<and> amounts r h' \<noteq> None then None else amounts r h)" for h
  proof (cases "R ! (h mod n)")
    case None
    have "amounts r h' = None" if "h' mod n = h mod n" for h'
      using best[of "\<lparr>block_height = h', cumulative_sats = the (amounts r h')\<rparr>"] None that
      by (cases "amounts r h'") (auto simp: amounts_iff_cell[OF assms(1)])
    then show ?thesis using None cap by (simp add: amounts_def)
  next
    case (Some c)
    have c: "amounts r (block_height c) = Some (cumulative_sats c)" "block_height c mod n = h mod n"
      using src[OF _ Some] assms(2) by (auto simp: amounts_iff_cell[OF assms(1)])
    have max: "h' \<le> block_height c" if "h' mod n = h mod n" "amounts r h' \<noteq> None" for h'
      using best[of "\<lparr>block_height = h', cumulative_sats = the (amounts r h')\<rparr>"] Some that
      by (auto simp: amounts_iff_cell[OF assms(1), symmetric])
    have here: "amounts ?r h = (if block_height c = h then Some (cumulative_sats c) else None)"
      using Some cap by (simp add: amounts_def)
    show ?thesis
    proof (cases "block_height c = h")
      case True
      have "\<not> (\<exists>h'>h. h' mod n = h mod n \<and> amounts r h' \<noteq> None)" using max True by (meson leD)
      with True show ?thesis using here c by simp
    next
      case False
      then show ?thesis using here c max[of h] by (cases "amounts r h") force+
    qed
  qed
  then show ?thesis using res ok cap by blast
qed

theorem ring_resize_amounts_witness:
  "\<exists>r'. ring_resize \<lparr>cells = [Some \<lparr>block_height = 100, cumulative_sats = 5\<rparr>, None,
        Some \<lparr>block_height = 102, cumulative_sats = 7\<rparr>, None]\<rparr> 2 = Inr r' \<and>
    amounts r' 102 = Some 7 \<and> amounts r' 100 = None"
proof -
  let ?r = "\<lparr>cells = [Some \<lparr>block_height = 100, cumulative_sats = 5\<rparr>, None,
        Some \<lparr>block_height = 102, cumulative_sats = 7\<rparr>, None]\<rparr>"
  have ok: "ring_ok ?r"
    by (auto simp: ring_ok_def ring_capacity_def nth_Cons' U128_MAX_def split: if_splits)
  obtain r' where r': "ring_resize ?r 2 = Inr r'"
    "\<And>h. amounts r' h =
      (if \<exists>h'>h. h' mod 2 = h mod 2 \<and> amounts ?r h' \<noteq> None then None else amounts ?r h)"
    using ring_resize_amounts[OF ok, of 2] by auto
  have a: "amounts ?r 102 = Some 7" by (simp add: amounts_def ring_capacity_def)
  have none: "amounts ?r h' = None" if "h' > 102" for h'
    using that by (auto simp: amounts_def ring_capacity_def nth_Cons' split: option.splits if_splits)
  show ?thesis
  proof (rule exI[of _ r'], intro conjI)
    show "ring_resize ?r 2 = Inr r'" by (rule r'(1))
    show "amounts r' 102 = Some 7" using r'(2)[of 102] a none by auto
    have "\<exists>h'>100. h' mod 2 = 100 mod 2 \<and> amounts ?r h' \<noteq> None" by (rule exI[of _ 102]) (simp add: a)
    then show "amounts r' 100 = None" using r'(2)[of 100] by simp
  qed
qed

section \<open>What the confirmations check relies on\<close>

text \<open>
  \<open>amount_window\<close> is the contract between the ring and its client (the deposit and withdraw
  callbacks): charging a block either accumulates or, when the block is too old for the window,
  changes nothing and says so; undoing a charge subtracts it; peeking predicts the charge.
\<close>

locale amount_window =
  fixes ok :: "'r \<Rightarrow> bool"
    and amt :: "'r \<Rightarrow> u64 \<rightharpoonup> u128"
    and bump :: "'r \<Rightarrow> u64 \<Rightarrow> u128 \<Rightarrow> ('r \<times> u128 option) res"
    and peek :: "'r \<Rightarrow> u64 \<Rightarrow> u128 \<Rightarrow> u128 option res"
    and unbump :: "'r \<Rightarrow> u64 \<Rightarrow> u128 \<Rightarrow> 'r res"
  assumes bump_total: "ok r \<Longrightarrow> is_ok (bump r h a)"
    and bump_keeps: "ok r \<Longrightarrow> a \<le> U128_MAX \<Longrightarrow> bump r h a = Inr (r', v) \<Longrightarrow> ok r'"
    and bump_counts: "ok r \<Longrightarrow> a \<le> U128_MAX \<Longrightarrow> bump r h a = Inr (r', Some s) \<Longrightarrow>
      s = sat_add U128_MAX (case amt r h of None \<Rightarrow> 0 | Some x \<Rightarrow> x) a \<and> amt r' h = Some s"
    and bump_recorded: "ok r \<Longrightarrow> amt r h = Some s \<Longrightarrow> \<exists>r' s'. bump r h a = Inr (r', Some s')"
    and bump_skips: "ok r \<Longrightarrow> bump r h a = Inr (r', None) \<Longrightarrow> r' = r"
    and peek_predicts: "ok r \<Longrightarrow> bump r h a = Inr (r', v) \<Longrightarrow> peek r h a = Inr v"
    and unbump_total: "ok r \<Longrightarrow> is_ok (unbump r h a)"
    and unbump_keeps: "ok r \<Longrightarrow> unbump r h a = Inr r' \<Longrightarrow> ok r'"
    and unbump_subtracts: "ok r \<Longrightarrow> unbump r h a = Inr r' \<Longrightarrow>
      amt r' = (case amt r h of None \<Rightarrow> amt r | Some s \<Rightarrow> (amt r)(h \<mapsto> s - a))"
begin

lemma charges_cumulate:
  assumes "ok r" "a \<le> U128_MAX" "b \<le> U128_MAX" "bump r h a = Inr (r1, Some s1)"
  shows "\<exists>r2. bump r1 h b = Inr (r2, Some (sat_add U128_MAX (case amt r h of None \<Rightarrow> 0 | Some x \<Rightarrow> x) (a + b)))"
proof -
  have ok1: "ok r1" by (rule bump_keeps[OF assms(1,2,4)])
  have s1: "s1 = sat_add U128_MAX (case amt r h of None \<Rightarrow> 0 | Some x \<Rightarrow> x) a" "amt r1 h = Some s1"
    using bump_counts[OF assms(1,2,4)] by simp_all
  obtain r2 s2 where 2: "bump r1 h b = Inr (r2, Some s2)" using bump_recorded[OF ok1 s1(2)] by blast
  have "s2 = sat_add U128_MAX s1 b" using bump_counts[OF ok1 assms(3) 2] s1(2) by simp
  then show ?thesis using 2 by (simp add: s1(1) sat_add_assoc)
qed

lemma undo_restores:
  assumes "ok r" "a \<le> U128_MAX" "bump r h a = Inr (r1, Some s)" "unbump r1 h a = Inr r2"
    "(case amt r h of None \<Rightarrow> 0 | Some x \<Rightarrow> x) + a \<le> U128_MAX"
  shows "amt r2 h = Some (case amt r h of None \<Rightarrow> 0 | Some x \<Rightarrow> x)"
proof -
  have "ok r1" by (rule bump_keeps[OF assms(1-3)])
  from unbump_subtracts[OF this assms(4)] bump_counts[OF assms(1-3)] assms(5)
  show ?thesis by (simp add: sat_add_def)
qed

lemma peek_total: "ok r \<Longrightarrow> is_ok (peek r h a)"
  using bump_total[of r h a] peek_predicts[of r h a] by force

end

lemma ring_peek_bump: "ring_ok r \<Longrightarrow> ring_bump r h a = Inr (r', v) \<Longrightarrow> ring_peek r h a = Inr v"
  by (auto simp: ring_bump_def ring_peek_def ring_slot_ok Let_def split: option.splits if_splits)

lemma ring_bump_recorded:
  assumes "ring_ok r" "amounts r h = Some s" shows "\<exists>r' s'. ring_bump r h a = Inr (r', Some s')"
  using assms by (cases rule: ring_bump_cases[OF assms(1), of h a]) auto

interpretation ring: amount_window ring_ok amounts ring_bump ring_peek ring_unbump
proof unfold_locales
  fix r :: block_ring and h a r' v s
  assume ok: "ring_ok r"
  show "is_ok (ring_bump r h a)" by (rule ring_bump_total[OF ok])
  show "a \<le> U128_MAX \<Longrightarrow> ring_bump r h a = Inr (r', v) \<Longrightarrow> ring_ok r'"
    using ring_bump_ok[OF ok] by blast
  show "a \<le> U128_MAX \<Longrightarrow> ring_bump r h a = Inr (r', Some s) \<Longrightarrow>
      s = sat_add U128_MAX (case amounts r h of None \<Rightarrow> 0 | Some x \<Rightarrow> x) a \<and> amounts r' h = Some s"
    by (rule ring_bump_hit[OF ok])
  show "amounts r h = Some s \<Longrightarrow> \<exists>r' s'. ring_bump r h a = Inr (r', Some s')"
    by (rule ring_bump_recorded[OF ok])
  show "ring_bump r h a = Inr (r', None) \<Longrightarrow> r' = r" using ring_bump_miss[OF ok] by blast
  show "ring_bump r h a = Inr (r', v) \<Longrightarrow> ring_peek r h a = Inr v" by (rule ring_peek_bump[OF ok])
  show "is_ok (ring_unbump r h a)" by (simp add: ring_unbump_eq[OF ok])
  show "ring_unbump r h a = Inr r' \<Longrightarrow> ring_ok r'" using ring_unbump_ok[OF ok] by blast
  show "ring_unbump r h a = Inr r' \<Longrightarrow>
      amounts r' = (case amounts r h of None \<Rightarrow> amounts r | Some s \<Rightarrow> (amounts r)(h \<mapsto> s - a))"
    by (rule ring_unbump_amounts[OF ok])
qed

end
