(* ===== verification/Bridge_Config.thy ===== *)
theory Bridge_Config
  imports Network Block_Ring "HOL-Library.Multiset"
begin

text \<open>
  \<open>config.rs\<close>: the bridge configuration, its validity check, the fee functions, the
  confirmations tiers and the configuration update; \<open>BlockAmountRing::capacity_for\<close>, which
  sizes the ring from the configuration.  A hash map is an association list in its iteration order;
  the field \<open>expiry_height_gap\<close> of the Zcash build is not part of the record.
\<close>

section \<open>Fees\<close>

definition MAX_RATIO :: u32 where "MAX_RATIO = 10000"

record bridge_fee =
  fee_min :: u128
  fee_rate :: u32
  protocol_fee_rate :: u32

definition fee_assert_valid :: "bridge_fee \<Rightarrow> unit res" where
  "fee_assert_valid f =
     require (fee_rate f < MAX_RATIO) ''Invalid fee_rate'' (
     require (protocol_fee_rate f \<le> MAX_RATIO) ''Invalid protocol_fee_rate'' (Inr ()))"

definition get_fee :: "bridge_fee \<Rightarrow> u128 \<Rightarrow> u128 res" where
  "get_fee f amount = chk_mul U128_MAX amount (fee_rate f) (\<lambda>p. Inr (max (p div MAX_RATIO) (fee_min f)))"

definition get_protocol_and_relayer_fee :: "bridge_fee \<Rightarrow> u128 \<Rightarrow> (u128 \<times> u128) res" where
  "get_protocol_and_relayer_fee f fee_amount =
     chk_mul U128_MAX fee_amount (protocol_fee_rate f) (\<lambda>p.
       let protocol_fee = p div MAX_RATIO in
       chk_sub fee_amount protocol_fee (\<lambda>relayer_fee. Inr (protocol_fee, relayer_fee)))"

section \<open>The configuration\<close>

type_synonym account_id = string

record config =
  chain_cfg :: chain
  btc_light_client_account_id :: account_id
  nbtc_account_id :: account_id
  chain_signatures_account_id :: account_id
  chain_signatures_root_public_key :: "bytes option"
  change_address :: "string option"
  confirmations_strategy :: "(string \<times> u8) list"
  confirmations_delta :: u8
  extra_msg_confirmations_delta :: u8
  deposit_bridge_fee :: bridge_fee
  withdraw_bridge_fee :: bridge_fee
  min_deposit_amount :: u128
  min_withdraw_amount :: u128
  min_change_amount :: u128
  max_change_amount :: u128
  min_btc_gas_fee :: u128
  max_btc_gas_fee :: u128
  max_withdrawal_input_number :: u8
  max_change_number :: u8
  max_active_utxo_management_input_number :: u8
  max_active_utxo_management_output_number :: u8
  active_management_lower_limit :: u32
  active_management_upper_limit :: u32
  passive_management_lower_limit :: u32
  passive_management_upper_limit :: u32
  rbf_num_limit :: u8
  max_btc_tx_pending_sec :: u32
  unhealthy_utxo_amount :: u64
  refund_timelock_sec :: u64
  unsafe_refund_timelock_sec :: u64

definition DEFAULT_REFUND_TIMELOCK_SEC :: u64 where
  "DEFAULT_REFUND_TIMELOCK_SEC = 2 * 24 * 3600"

definition DEFAULT_UNSAFE_REFUND_TIMELOCK_SEC :: u64 where
  "DEFAULT_UNSAFE_REFUND_TIMELOCK_SEC = 14 * 24 * 3600"

text \<open>The \<open>(bound, confirmations)\<close> pairs of the strategy, sorted by bound.  Two keys that parse
  to the same bound are left in iteration order; the source leaves their order open.\<close>

definition parsed_tiers :: "(string \<times> u8) list \<Rightarrow> (u128 \<times> u8) list res" where
  "parsed_tiers strategy =
     map_res (\<lambda>(k, v). expect (parse_u128 k) ''Invalid confirmations_strategy key'' (\<lambda>n. Inr (n, v))) strategy"

definition config_assert_valid :: "config \<Rightarrow> unit res" where
  "config_assert_valid c =
     require (\<forall>(_, v)\<in>set (confirmations_strategy c). 2 \<le> v \<and> v \<le> 100)
       ''Invalid confirmations_strategy'' (
     bindR (parsed_tiers (confirmations_strategy c)) (\<lambda>tiers.
     require (successively (\<le>) (map snd (sort_key fst tiers)))
       ''confirmations_strategy must be non-decreasing'' (
     bindR (fee_assert_valid (deposit_bridge_fee c)) (\<lambda>_.
     bindR (fee_assert_valid (withdraw_bridge_fee c)) (\<lambda>_.
     require (min_change_amount c < max_change_amount c)
       ''min_change_amount must be less than max_change_amount'' (
     require (min_btc_gas_fee c < max_btc_gas_fee c)
       ''min_btc_gas_fee must be less than max_btc_gas_fee'' (
     require (active_management_lower_limit c < active_management_upper_limit c)
       ''active_management_lower_limit must be less than active_management_upper_limit'' (
     require (passive_management_lower_limit c < passive_management_upper_limit c)
       ''passive_management_lower_limit must be less than passive_management_upper_limit'' (
     require (unhealthy_utxo_amount c > min_change_amount c)
       ''unhealthy_utxo_amount must be greater than min_change_amount'' (
     require (refund_timelock_sec c \<le> unsafe_refund_timelock_sec c)
       ''refund_timelock_sec must be <= unsafe_refund_timelock_sec'' (
     require (min_deposit_amount c > fee_min (deposit_bridge_fee c))
       ''min_deposit_amount must be greater than deposit_bridge_fee.fee_min''
     (Inr ()))))))))))))"

definition string_to_script_pubkey :: "('x) addr_crates_scheme \<Rightarrow> config \<Rightarrow> string \<Rightarrow> bytes res" where
  "string_to_script_pubkey X c a = (case parse_address X a (chain_cfg c) of
     Inl e \<Rightarrow> Inl (Panic e)
   | Inr ad \<Rightarrow> (case script_pubkey X ad of
       Inl _ \<Rightarrow> Inl (Panic ''Failed to get script pubkey'') | Inr s \<Rightarrow> Inr s))"

definition get_change_script_pubkey :: "('x) addr_crates_scheme \<Rightarrow> config \<Rightarrow> bytes res" where
  "get_change_script_pubkey X c =
     expect (change_address c) ''ERR_CONFIG: change_address not configured'' (string_to_script_pubkey X c)"

definition target_script_pubkey :: "('x) addr_crates_scheme \<Rightarrow> config \<Rightarrow> string \<Rightarrow> bytes option res" where
  "target_script_pubkey X c a = (case parse_address X a (chain_cfg c) of
     Inl e \<Rightarrow> Inl (Panic e)
   | Inr ad \<Rightarrow> (case script_pubkey X ad of Inl _ \<Rightarrow> Inr None | Inr s \<Rightarrow> Inr (Some s)))"

definition get_confirmations :: "config \<Rightarrow> u128 \<Rightarrow> u64 res" where
  "get_confirmations c satoshi_amount =
     (let strategy = confirmations_strategy c in
      require (strategy \<noteq> []) ''confirmations_strategy is empty'' (
      bindR (map_res (\<lambda>(k, _). expect (parse_u128 k) ''unwrap'' Inr) strategy) (\<lambda>ks.
        let keys = sort ks in
        case find (\<lambda>key. key > satoshi_amount) keys of
          Some key \<Rightarrow> expect (map_of strategy (show_nat key)) ''unwrap'' Inr
        | None \<Rightarrow> expect (map_of strategy (show_nat (last keys))) ''unwrap'' Inr)))"

definition max_tier_confirmations :: "config \<Rightarrow> u8" where
  "max_tier_confirmations c = fold max (map snd (confirmations_strategy c)) 0"

definition max_required_confirmations :: "config \<Rightarrow> u64" where
  "max_required_confirmations c =
     max_tier_confirmations c + max (confirmations_delta c) (extra_msg_confirmations_delta c)"

definition BLOCK_AMOUNT_RING_CAPACITY_SLACK :: usize where
  "BLOCK_AMOUNT_RING_CAPACITY_SLACK = 5"

definition capacity_for :: "config \<Rightarrow> usize" where
  "capacity_for c = max_tier_confirmations c + confirmations_delta c
     + extra_msg_confirmations_delta c + BLOCK_AMOUNT_RING_CAPACITY_SLACK"

section \<open>Relayer deltas\<close>

text \<open>Whether a relayer is on the white lists is read from the contract state.\<close>

definition relayer_delta :: "config \<Rightarrow> bool \<Rightarrow> u64" where
  "relayer_delta c white_listed = (if white_listed then 0 else confirmations_delta c)"

definition extra_msg_relayer_delta :: "config \<Rightarrow> bool \<Rightarrow> u64" where
  "extra_msg_relayer_delta c extra_msg_white_listed =
     (if extra_msg_white_listed then 0 else extra_msg_confirmations_delta c)"

definition confirmations_delta_for ::
    "config \<Rightarrow> account_id set \<Rightarrow> account_id set \<Rightarrow> account_id option \<Rightarrow> bool \<Rightarrow> u64" where
  "confirmations_delta_for c relayers extra_relayers relayer has_extra_msg =
     (case relayer of
        Some r \<Rightarrow> if has_extra_msg then extra_msg_relayer_delta c (r \<in> extra_relayers)
                  else relayer_delta c (r \<in> relayers)
      | None \<Rightarrow> if has_extra_msg then extra_msg_confirmations_delta c else confirmations_delta c)"

section \<open>Updating the configuration\<close>

record config_update =
  upd_btc_light_client_account_id :: "account_id option"
  upd_nbtc_account_id :: "account_id option"
  upd_confirmations_delta :: "u8 option"
  upd_extra_msg_confirmations_delta :: "u8 option"
  upd_deposit_bridge_fee :: "bridge_fee option"
  upd_withdraw_bridge_fee :: "bridge_fee option"
  upd_min_deposit_amount :: "u128 option"
  upd_min_withdraw_amount :: "u128 option"
  upd_min_change_amount :: "u128 option"
  upd_max_change_amount :: "u128 option"
  upd_min_btc_gas_fee :: "u128 option"
  upd_max_btc_gas_fee :: "u128 option"
  upd_max_withdrawal_input_number :: "u8 option"
  upd_max_change_number :: "u8 option"
  upd_max_active_utxo_management_input_number :: "u8 option"
  upd_max_active_utxo_management_output_number :: "u8 option"
  upd_active_management_lower_limit :: "u32 option"
  upd_active_management_upper_limit :: "u32 option"
  upd_passive_management_lower_limit :: "u32 option"
  upd_passive_management_upper_limit :: "u32 option"
  upd_rbf_num_limit :: "u8 option"
  upd_max_btc_tx_pending_sec :: "u32 option"
  upd_unhealthy_utxo_amount :: "u64 option"
  upd_refund_timelock_sec :: "u64 option"
  upd_unsafe_refund_timelock_sec :: "u64 option"

definition set_if_some :: "'a option \<Rightarrow> 'a \<Rightarrow> 'a" where
  "set_if_some x d = (case x of Some v \<Rightarrow> v | None \<Rightarrow> d)"

lemma set_if_some_simps [simp]: "set_if_some None d = d" "set_if_some (Some v) d = v"
  by (simp_all add: set_if_some_def)

definition config_apply :: "config_update \<Rightarrow> config \<Rightarrow> config res" where
  "config_apply u c =
     (let c' = c\<lparr>
        btc_light_client_account_id := set_if_some (upd_btc_light_client_account_id u) (btc_light_client_account_id c),
        nbtc_account_id := set_if_some (upd_nbtc_account_id u) (nbtc_account_id c),
        confirmations_delta := set_if_some (upd_confirmations_delta u) (confirmations_delta c),
        extra_msg_confirmations_delta := set_if_some (upd_extra_msg_confirmations_delta u) (extra_msg_confirmations_delta c),
        deposit_bridge_fee := set_if_some (upd_deposit_bridge_fee u) (deposit_bridge_fee c),
        withdraw_bridge_fee := set_if_some (upd_withdraw_bridge_fee u) (withdraw_bridge_fee c),
        min_deposit_amount := set_if_some (upd_min_deposit_amount u) (min_deposit_amount c),
        min_withdraw_amount := set_if_some (upd_min_withdraw_amount u) (min_withdraw_amount c),
        min_change_amount := set_if_some (upd_min_change_amount u) (min_change_amount c),
        max_change_amount := set_if_some (upd_max_change_amount u) (max_change_amount c),
        min_btc_gas_fee := set_if_some (upd_min_btc_gas_fee u) (min_btc_gas_fee c),
        max_btc_gas_fee := set_if_some (upd_max_btc_gas_fee u) (max_btc_gas_fee c),
        max_withdrawal_input_number := set_if_some (upd_max_withdrawal_input_number u) (max_withdrawal_input_number c),
        max_change_number := set_if_some (upd_max_change_number u) (max_change_number c),
        max_active_utxo_management_input_number := set_if_some (upd_max_active_utxo_management_input_number u) (max_active_utxo_management_input_number c),
        max_active_utxo_management_output_number := set_if_some (upd_max_active_utxo_management_output_number u) (max_active_utxo_management_output_number c),
        active_management_lower_limit := set_if_some (upd_active_management_lower_limit u) (active_management_lower_limit c),
        active_management_upper_limit := set_if_some (upd_active_management_upper_limit u) (active_management_upper_limit c),
        passive_management_lower_limit := set_if_some (upd_passive_management_lower_limit u) (passive_management_lower_limit c),
        passive_management_upper_limit := set_if_some (upd_passive_management_upper_limit u) (passive_management_upper_limit c),
        rbf_num_limit := set_if_some (upd_rbf_num_limit u) (rbf_num_limit c),
        max_btc_tx_pending_sec := set_if_some (upd_max_btc_tx_pending_sec u) (max_btc_tx_pending_sec c),
        unhealthy_utxo_amount := set_if_some (upd_unhealthy_utxo_amount u) (unhealthy_utxo_amount c),
        refund_timelock_sec := set_if_some (upd_refund_timelock_sec u) (refund_timelock_sec c),
        unsafe_refund_timelock_sec := set_if_some (upd_unsafe_refund_timelock_sec u) (unsafe_refund_timelock_sec c)\<rparr> in
      bindR (config_assert_valid c') (\<lambda>_. Inr c'))"

definition no_update :: config_update where
  "no_update = \<lparr>
     upd_btc_light_client_account_id = None,
     upd_nbtc_account_id = None,
     upd_confirmations_delta = None,
     upd_extra_msg_confirmations_delta = None,
     upd_deposit_bridge_fee = None,
     upd_withdraw_bridge_fee = None,
     upd_min_deposit_amount = None,
     upd_min_withdraw_amount = None,
     upd_min_change_amount = None,
     upd_max_change_amount = None,
     upd_min_btc_gas_fee = None,
     upd_max_btc_gas_fee = None,
     upd_max_withdrawal_input_number = None,
     upd_max_change_number = None,
     upd_max_active_utxo_management_input_number = None,
     upd_max_active_utxo_management_output_number = None,
     upd_active_management_lower_limit = None,
     upd_active_management_upper_limit = None,
     upd_passive_management_lower_limit = None,
     upd_passive_management_upper_limit = None,
     upd_rbf_num_limit = None,
     upd_max_btc_tx_pending_sec = None,
     upd_unhealthy_utxo_amount = None,
     upd_refund_timelock_sec = None,
     upd_unsafe_refund_timelock_sec = None\<rparr>"

section \<open>Fee laws\<close>

lemma fee_rate_le: "fee_assert_valid f = Inr () \<Longrightarrow> fee_rate f < 10000 \<and> protocol_fee_rate f \<le> 10000"
  by (simp add: fee_assert_valid_def res_Inr MAX_RATIO_def)

lemma get_fee_Inr: "get_fee f a = Inr v \<longleftrightarrow>
    a * fee_rate f \<le> U128_MAX \<and> v = max (a * fee_rate f div MAX_RATIO) (fee_min f)"
  by (auto simp: get_fee_def res_Inr)

lemma fee_split_sum:
  "get_protocol_and_relayer_fee f a = Inr (p, r) \<Longrightarrow> p + r = a"
  by (auto simp: get_protocol_and_relayer_fee_def res_Inr Let_def)

lemma fee_split_ok:
  assumes "fee_assert_valid f = Inr ()" "a * MAX_RATIO \<le> U128_MAX"
  shows "\<exists>p r. get_protocol_and_relayer_fee f a = Inr (p, r) \<and> p + r = a"
proof -
  have r: "protocol_fee_rate f \<le> MAX_RATIO" using assms(1) by (simp add: fee_assert_valid_def res_Inr)
  then have le: "a * protocol_fee_rate f \<le> a * MAX_RATIO" by (rule mult_le_mono2)
  then have "a * protocol_fee_rate f div MAX_RATIO \<le> a"
    using div_le_mono[OF le, of MAX_RATIO] by (simp add: MAX_RATIO_def)
  moreover have "a * protocol_fee_rate f \<le> U128_MAX" using le assms(2) by (rule order_trans)
  ultimately show ?thesis
    by (simp add: get_protocol_and_relayer_fee_def chk_mul_def chk_sub_def Let_def)
qed

text \<open>With a valid fee setting the fee of an amount that fits 64 bits (every bitcoin amount
  does) is computed without overflow, is at least the minimum fee, is below the amount unless the
  minimum fee is what applies, and the split of the fee into the protocol's and the relayer's part
  loses nothing.\<close>

theorem fee_computation:
  assumes "fee_assert_valid f = Inr ()" "amount \<le> U64_MAX" "fee_min f \<le> U64_MAX"
  shows "\<exists>fee p r. get_fee f amount = Inr fee \<and> get_protocol_and_relayer_fee f fee = Inr (p, r) \<and>
    p + r = fee \<and> fee_min f \<le> fee \<and> (fee < amount \<or> fee = fee_min f)"
proof -
  have rate: "fee_rate f < 10000" "protocol_fee_rate f \<le> 10000" using fee_rate_le[OF assms(1)] by simp_all
  have "amount * fee_rate f \<le> U64_MAX * 10000" using assms(2) rate by (intro mult_le_mono) simp_all
  also have "\<dots> \<le> U128_MAX" by (simp add: U64_MAX_def U128_MAX_def)
  finally have nov: "amount * fee_rate f \<le> U128_MAX" .
  define fee where "fee = max (amount * fee_rate f div MAX_RATIO) (fee_min f)"
  have fee: "get_fee f amount = Inr fee" by (simp add: get_fee_Inr nov fee_def)
  have below: "amount * fee_rate f div MAX_RATIO < amount" if "0 < amount"
  proof -
    have "amount * fee_rate f < amount * 10000" using rate that by simp
    then show ?thesis by (simp add: MAX_RATIO_def less_mult_imp_div_less)
  qed
  have le: "amount * fee_rate f div MAX_RATIO \<le> amount" using below by (cases "amount = 0") auto
  have feele: "fee \<le> U64_MAX" using le assms(2,3) by (simp add: fee_def)
  then have "fee * MAX_RATIO \<le> U64_MAX * MAX_RATIO" by (rule mult_le_mono1)
  also have "\<dots> \<le> U128_MAX" by (simp add: U64_MAX_def U128_MAX_def MAX_RATIO_def)
  finally obtain p r where pr: "get_protocol_and_relayer_fee f fee = Inr (p, r)" "p + r = fee"
    using fee_split_ok[OF assms(1)] by blast
  have "fee < amount \<or> fee = fee_min f"
    using below by (cases "amount = 0") (auto simp: fee_def max_def)
  moreover have "fee_min f \<le> fee" by (simp add: fee_def)
  ultimately show ?thesis using fee pr by blast
qed

lemma fee_computation_witness:
  "\<exists>fee p r. get_fee \<lparr>fee_min = 1000, fee_rate = 50, protocol_fee_rate = 9000\<rparr> 1000000 = Inr fee \<and>
    get_protocol_and_relayer_fee \<lparr>fee_min = 1000, fee_rate = 50, protocol_fee_rate = 9000\<rparr> fee = Inr (p, r) \<and>
    p + r = fee \<and> 1000 \<le> fee \<and> (fee < 1000000 \<or> fee = 1000)"
  using fee_computation[of "\<lparr>fee_min = 1000, fee_rate = 50, protocol_fee_rate = 9000\<rparr>" 1000000]
  by (simp add: fee_assert_valid_def MAX_RATIO_def U64_MAX_def)

section \<open>Confirmation tiers\<close>

text \<open>A strategy is canonical when its keys are what \<open>to_string\<close> prints of their bounds, each
  once (a hash map has each key once).  \<open>config_assert_valid\<close> does not check it.\<close>

definition canonical_strategy :: "(string \<times> u8) list \<Rightarrow> bool" where
  "canonical_strategy st \<longleftrightarrow> st \<noteq> [] \<and> distinct (map fst st) \<and>
     (\<forall>(k, _)\<in>set st. case parse_u128 k of None \<Rightarrow> False | Some n \<Rightarrow> k = show_nat n)"

definition tiers_of :: "(string \<times> u8) list \<Rightarrow> (u128 \<times> u8) list" where
  "tiers_of st = map (\<lambda>(k, v). (the (parse_u128 k), v)) st"

definition tier_lookup :: "(u128 \<times> u8) list \<Rightarrow> u128 \<Rightarrow> u8" where
  "tier_lookup ts a = (case find (\<lambda>(n, _). n > a) ts of Some (_, v) \<Rightarrow> v | None \<Rightarrow> snd (last ts))"

lemma map_res_expect:
  assumes "\<And>x. x \<in> set xs \<Longrightarrow> f x = Inr (g x)"
  shows "map_res f xs = Inr (map g xs)"
  using assms by (induction xs) simp_all

lemma canonical_key:
  assumes "canonical_strategy st" "(k, v) \<in> set st"
  shows "\<exists>n. parse_u128 k = Some n \<and> k = show_nat n"
  using assms by (fastforce simp: canonical_strategy_def split: option.splits)

lemma canonical_expect:
  assumes "canonical_strategy st" "x \<in> set st"
  shows "expect (parse_u128 (fst x)) m f = f (the (parse_u128 (fst x)))"
proof -
  have "(fst x, snd x) \<in> set st" using assms(2) by simp
  then obtain n where "parse_u128 (fst x) = Some n" using canonical_key[OF assms(1)] by blast
  then show ?thesis by simp
qed

lemma tiers_of_distinct:
  assumes "canonical_strategy st" shows "distinct (map fst (tiers_of st))"
proof -
  let ?f = "\<lambda>k. the (parse_u128 k)"
  have "inj_on ?f (set (map fst st))"
  proof (rule inj_onI)
    fix k k' assume "k \<in> set (map fst st)" "k' \<in> set (map fst st)" and eq: "?f k = ?f k'"
    then obtain v v' where "(k, v) \<in> set st" "(k', v') \<in> set st" by auto
    then obtain n n' where "parse_u128 k = Some n" "k = show_nat n"
        "parse_u128 k' = Some n'" "k' = show_nat n'"
      using canonical_key[OF assms] by blast
    with eq show "k = k'" by (metis option.sel)
  qed
  then have "distinct (map ?f (map fst st))"
    using assms by (simp only: distinct_map canonical_strategy_def)
  moreover have "map fst (tiers_of st) = map ?f (map fst st)"
    by (simp add: tiers_of_def o_def split_beta)
  ultimately show ?thesis by simp
qed

lemma sort_key_fst_map: "map fst (sort_key fst ts) = sort (map fst ts)" for ts :: "(nat \<times> 'a) list"
  by (rule properties_for_sort[symmetric]) (simp, simp)

lemma map_of_tiers:
  assumes "canonical_strategy st" "(n, v) \<in> set (tiers_of st)"
  shows "map_of st (show_nat n) = Some v"
proof -
  from assms(2) obtain k where k: "(k, v) \<in> set st" "n = the (parse_u128 k)"
    by (auto simp: tiers_of_def)
  with canonical_key[OF assms(1) k(1)] have "k = show_nat n" by auto
  with k(1) assms(1) show ?thesis by (auto simp: canonical_strategy_def)
qed

lemma find_map_fst: "find P (map fst ts) = map_option fst (find (\<lambda>(n, _). P n) ts)"
  by (induction ts) auto

lemma find_in_set: "find P xs = Some x \<Longrightarrow> x \<in> set xs"
  by (auto simp: find_Some_iff)

lemma get_confirmations_tiers:
  assumes "canonical_strategy (confirmations_strategy c)"
  shows "get_confirmations c a =
    Inr (tier_lookup (sort_key fst (tiers_of (confirmations_strategy c))) a)"
proof -
  let ?st = "confirmations_strategy c" and ?ts = "sort_key fst (tiers_of (confirmations_strategy c))"
  have st: "?st \<noteq> []" using assms by (simp add: canonical_strategy_def)
  have "length ?ts = length ?st" by (simp add: tiers_of_def)
  with st have ne: "?st \<noteq> []" "?ts \<noteq> []" by (metis length_0_conv)+
  have "map_res (\<lambda>(k, _). expect (parse_u128 k) ''unwrap'' Inr) ?st = Inr (map fst (tiers_of ?st))"
    unfolding tiers_of_def map_map
    by (rule map_res_expect) (simp add: split_beta o_def canonical_expect[OF assms])
  then have conf: "get_confirmations c a = (let keys = map fst ?ts in
      case find (\<lambda>key. key > a) keys of
        Some key \<Rightarrow> expect (map_of ?st (show_nat key)) ''unwrap'' Inr
      | None \<Rightarrow> expect (map_of ?st (show_nat (last keys))) ''unwrap'' Inr)"
    using ne(1) by (simp add: get_confirmations_def sort_key_fst_map Let_def)
  have lk: "map_of ?st (show_nat (fst t)) = Some (snd t)" if "t \<in> set ?ts" for t
    using map_of_tiers[OF assms, of "fst t" "snd t"] that by simp
  show ?thesis
  proof (cases "find (\<lambda>(n, _). n > a) ?ts")
    case None
    then show ?thesis using lk[OF last_in_set[OF ne(2)]] ne(2)
      by (simp add: conf tier_lookup_def Let_def find_map_fst last_map)
  next
    case (Some t)
    from lk[OF find_in_set[OF Some]] Some show ?thesis
      by (simp add: conf tier_lookup_def Let_def find_map_fst split_beta)
  qed
qed

lemma valid_tiers:
  assumes "config_assert_valid c = Inr ()" "canonical_strategy (confirmations_strategy c)"
  shows "sorted (map snd (sort_key fst (tiers_of (confirmations_strategy c))))"
    and "\<And>v. v \<in> snd ` set (confirmations_strategy c) \<Longrightarrow> 2 \<le> v \<and> v \<le> 100"
proof -
  have "parsed_tiers (confirmations_strategy c) = Inr (tiers_of (confirmations_strategy c))"
    unfolding parsed_tiers_def tiers_of_def
    by (rule map_res_expect) (simp add: split_beta canonical_expect[OF assms(2)])
  with assms(1) show "sorted (map snd (sort_key fst (tiers_of (confirmations_strategy c))))"
    by (auto simp: config_assert_valid_def res_Inr successively_conv_sorted_wrt)
  show "\<And>v. v \<in> snd ` set (confirmations_strategy c) \<Longrightarrow> 2 \<le> v \<and> v \<le> 100"
    using assms(1) by (auto simp: config_assert_valid_def res_Inr)
qed

fun tier_index :: "(u128 \<times> u8) list \<Rightarrow> u128 \<Rightarrow> nat" where
  "tier_index [] a = 0"
| "tier_index [t] a = 0"
| "tier_index (t # ts) a = (if fst t > a then 0 else Suc (tier_index ts a))"

lemma tier_lookup_index: "ts \<noteq> [] \<Longrightarrow> tier_lookup ts a = snd (ts ! tier_index ts a)"
  by (induction ts a rule: tier_index.induct) (auto simp: tier_lookup_def split: if_splits option.splits)

lemma tier_index_mono: "a \<le> b \<Longrightarrow> tier_index ts a \<le> tier_index ts b"
  by (induction ts a rule: tier_index.induct) auto

lemma tier_index_bound: "ts \<noteq> [] \<Longrightarrow> tier_index ts a < length ts"
  by (induction ts a rule: tier_index.induct) auto

lemma fold_max_ge: "v \<in> set vs \<or> v \<le> m \<Longrightarrow> v \<le> fold max vs (m::nat)"
proof (induction vs arbitrary: m)
  case Nil
  then show ?case by simp
next
  case (Cons x vs)
  then have "v \<in> set vs \<or> v \<le> max x m" by (auto simp: le_max_iff_disj)
  from Cons.IH[OF this] show ?case by simp
qed


lemma tier_lookup_member: "ts \<noteq> [] \<Longrightarrow> tier_lookup ts a \<in> snd ` set ts"
  by (metis tier_lookup_index tier_index_bound nth_mem image_eqI)

lemma tiers_of_snd: "snd ` set (tiers_of st) = snd ` set st"
  by (force simp: tiers_of_def)

lemma tiers_of_ne: "tiers_of st = [] \<longleftrightarrow> st = []"
  by (simp add: tiers_of_def)

lemma sort_key_ne: "xs \<noteq> [] \<Longrightarrow> sort_key f xs \<noteq> []"
  by (metis set_empty set_sort)

text \<open>Under a valid configuration with a canonical strategy every amount has a number of
  confirmations; it lies between 2 and 100, never exceeds the largest tier, and never falls when
  the amount grows.\<close>

theorem get_confirmations_monotone:
  assumes "config_assert_valid c = Inr ()" "canonical_strategy (confirmations_strategy c)" "a \<le> b"
  shows "\<exists>x y. get_confirmations c a = Inr x \<and> get_confirmations c b = Inr y \<and>
    2 \<le> x \<and> x \<le> y \<and> y \<le> 100 \<and> y \<le> max_tier_confirmations c"
proof -
  let ?ts = "sort_key fst (tiers_of (confirmations_strategy c))"
  let ?x = "tier_lookup ?ts a" and ?y = "tier_lookup ?ts b"
  have ne: "?ts \<noteq> []"
    using assms(2) by (intro sort_key_ne) (simp add: canonical_strategy_def tiers_of_ne)
  have mem: "tier_lookup ?ts d \<in> snd ` set (confirmations_strategy c)" for d
    using tier_lookup_member[OF ne, of d] by (simp add: tiers_of_snd)
  have bounds: "2 \<le> ?x" "?y \<le> 100" using valid_tiers(2)[OF assms(1,2)] mem by blast+
  have le: "?x \<le> ?y"
    using valid_tiers(1)[OF assms(1,2)] tier_index_mono[OF assms(3), of ?ts] tier_index_bound[OF ne, of b]
    by (simp add: tier_lookup_index[OF ne] sorted_iff_nth_mono)
  have "?y \<le> max_tier_confirmations c" unfolding max_tier_confirmations_def
    by (rule fold_max_ge) (use mem[of b] in auto)
  with bounds le show ?thesis by (simp add: get_confirmations_tiers[OF assms(2)])
qed

lemma delta_le: "confirmations_delta_for c R E r m \<le> max (confirmations_delta c) (extra_msg_confirmations_delta c)"
  by (auto simp: confirmations_delta_for_def relayer_delta_def extra_msg_relayer_delta_def split: option.split)

lemma map_of_value: "map_of st k = Some v \<Longrightarrow> v \<in> set (map snd st)"
  by (force dest: map_of_SomeD)

lemma get_confirmations_value: "get_confirmations c a = Inr x \<Longrightarrow> x \<in> set (map snd (confirmations_strategy c))"
proof -
  assume g: "get_confirmations c a = Inr x"
  have e: "v \<in> set (map snd st)" if "expect (map_of st k) m Inr = Inr v" for st :: "(string \<times> u8) list" and k m v
    using that by (auto simp: expect_def split: option.splits dest: map_of_value)
  from g obtain ks where "(case find (\<lambda>key. key > a) (sort ks) of
      Some key \<Rightarrow> expect (map_of (confirmations_strategy c) (show_nat key)) ''unwrap'' Inr
    | None \<Rightarrow> expect (map_of (confirmations_strategy c) (show_nat (last (sort ks)))) ''unwrap'' Inr) = Inr x"
    unfolding get_confirmations_def by (auto simp: Let_def res_Inr)
  then show ?thesis by (cases "find (\<lambda>key. key > a) (sort ks)") (auto dest: e)
qed

text \<open>C29: the ring is never too short for the confirmations a relayer can be asked for.  Under a
  valid configuration, whatever count the strategy gives for an amount lies between 2 and 100, and with
  the delta of any relayer and kind of message it is at most the largest required count and fits the
  capacity chosen for the configuration with the slack to spare.  A count is given for every amount
  when the strategy is canonical.\<close>

theorem ring_covers_required_confirmations:
  assumes "config_assert_valid c = Inr ()"
  shows "(\<forall>x. get_confirmations c amount = Inr x \<longrightarrow> 2 \<le> x \<and> x \<le> 100 \<and>
      x + confirmations_delta_for c R E relayer extra \<le> max_required_confirmations c \<and>
      x + confirmations_delta_for c R E relayer extra + BLOCK_AMOUNT_RING_CAPACITY_SLACK \<le> capacity_for c) \<and>
    (canonical_strategy (confirmations_strategy c) \<longrightarrow> (\<exists>x. get_confirmations c amount = Inr x))"
proof (intro conjI allI impI)
  fix x assume "get_confirmations c amount = Inr x"
  then have x: "x \<in> set (map snd (confirmations_strategy c))" by (rule get_confirmations_value)
  then show "2 \<le> x" "x \<le> 100" using assms by (auto simp: config_assert_valid_def res_Inr)
  have "x \<le> max_tier_confirmations c" unfolding max_tier_confirmations_def by (rule fold_max_ge) (use x in blast)
  then show "x + confirmations_delta_for c R E relayer extra \<le> max_required_confirmations c"
    and "x + confirmations_delta_for c R E relayer extra + BLOCK_AMOUNT_RING_CAPACITY_SLACK \<le> capacity_for c"
    using delta_le[of c R E relayer extra] by (simp_all add: max_required_confirmations_def capacity_for_def)
next
  assume "canonical_strategy (confirmations_strategy c)"
  then show "\<exists>x. get_confirmations c amount = Inr x" using get_confirmations_tiers by blast
qed

text \<open>A configuration to apply the theorems to.\<close>

definition sample_config :: config where
  "sample_config = \<lparr>
     chain_cfg = BitcoinMainnet, btc_light_client_account_id = ''lc.near'',
     nbtc_account_id = ''nbtc.near'', chain_signatures_account_id = ''mpc.near'',
     chain_signatures_root_public_key = Some [2], change_address = Some (CHR 0x00 # replicate 20 (CHR ''c'')),
     confirmations_strategy = [(''1000000000'', 4), (''100000000'', 2)],
     confirmations_delta = 3, extra_msg_confirmations_delta = 1,
     deposit_bridge_fee = \<lparr>fee_min = 1000, fee_rate = 0, protocol_fee_rate = 9000\<rparr>,
     withdraw_bridge_fee = \<lparr>fee_min = 2000, fee_rate = 10, protocol_fee_rate = 9000\<rparr>,
     min_deposit_amount = 20000, min_withdraw_amount = 20000,
     min_change_amount = 0, max_change_amount = 100000000,
     min_btc_gas_fee = 100, max_btc_gas_fee = 80000,
     max_withdrawal_input_number = 10, max_change_number = 10,
     max_active_utxo_management_input_number = 10, max_active_utxo_management_output_number = 10,
     active_management_lower_limit = 0, active_management_upper_limit = 1000,
     passive_management_lower_limit = 0, passive_management_upper_limit = 600,
     rbf_num_limit = 99, max_btc_tx_pending_sec = 86400, unhealthy_utxo_amount = 1000,
     refund_timelock_sec = DEFAULT_REFUND_TIMELOCK_SEC,
     unsafe_refund_timelock_sec = DEFAULT_UNSAFE_REFUND_TIMELOCK_SEC\<rparr>"

lemma sample_strategy_keys:
  "show_nat 1000000000 = ''1000000000''" "show_nat 100000000 = ''100000000''"
  by (simp_all add: show_nat_def show_digits.simps char_of_def bit_0)

lemma sample_parse:
  "parse_u128 ''1000000000'' = Some 1000000000" "parse_u128 ''100000000'' = Some 100000000"
  by (simp_all add: parse_u128_def digit_of_def U128_MAX_def)

lemma sample_config_valid:
  "config_assert_valid sample_config = Inr ()"
  "canonical_strategy (confirmations_strategy sample_config)"
proof -
  have t: "parsed_tiers (confirmations_strategy sample_config) = Inr [(1000000000, 4), (100000000, 2)]"
    by (simp add: parsed_tiers_def sample_config_def sample_parse)
  show "config_assert_valid sample_config = Inr ()"
    unfolding config_assert_valid_def t bindR_simps
    by (simp add: sample_config_def fee_assert_valid_def MAX_RATIO_def require_def
        DEFAULT_REFUND_TIMELOCK_SEC_def DEFAULT_UNSAFE_REFUND_TIMELOCK_SEC_def)
  show "canonical_strategy (confirmations_strategy sample_config)"
    by (simp add: canonical_strategy_def sample_config_def sample_parse sample_strategy_keys)
qed

lemma get_confirmations_monotone_witness:
  "\<exists>x y. get_confirmations sample_config 5000 = Inr x \<and> get_confirmations sample_config 200000000 = Inr y \<and>
    2 \<le> x \<and> x \<le> y \<and> y \<le> 100 \<and> y \<le> max_tier_confirmations sample_config"
  by (rule get_confirmations_monotone[OF sample_config_valid]) simp

lemma ring_covers_required_confirmations_witness:
  "\<exists>x. get_confirmations sample_config 5000 = Inr x \<and>
    x + confirmations_delta_for sample_config {} {} None True + BLOCK_AMOUNT_RING_CAPACITY_SLACK \<le> capacity_for sample_config"
  using ring_covers_required_confirmations[OF sample_config_valid(1), of 5000 "{}" "{}" None True] sample_config_valid(2)
  by blast

text \<open>An accepted update gives a valid configuration, writes the fields it names and no
  others, and cannot change the chain, the change address, the root key, the signer account or the
  confirmations strategy.\<close>

theorem config_update_frame:
  assumes "config_apply u c = Inr c'"
  shows "config_assert_valid c' = Inr () \<and>
    chain_cfg c' = chain_cfg c \<and> change_address c' = change_address c \<and>
    chain_signatures_root_public_key c' = chain_signatures_root_public_key c \<and>
    chain_signatures_account_id c' = chain_signatures_account_id c \<and>
    confirmations_strategy c' = confirmations_strategy c \<and>
    min_change_amount c' = (case upd_min_change_amount u of Some v \<Rightarrow> v | None \<Rightarrow> min_change_amount c) \<and>
    deposit_bridge_fee c' = (case upd_deposit_bridge_fee u of Some f \<Rightarrow> f | None \<Rightarrow> deposit_bridge_fee c) \<and>
    rbf_num_limit c' = (case upd_rbf_num_limit u of Some v \<Rightarrow> v | None \<Rightarrow> rbf_num_limit c) \<and>
    (u = no_update \<longrightarrow> c' = c)"
proof -
  from assms have c': "config_assert_valid c' = Inr ()" by (auto simp: config_apply_def Let_def res_Inr)
  note fields = assms[unfolded config_apply_def Let_def bindR_Inr]
  show ?thesis
  proof (intro conjI impI)
    show "c' = c" if "u = no_update" using fields that by (auto simp: no_update_def)
  qed (use c' fields in \<open>auto simp: set_if_some_def\<close>)
qed

lemma config_update_frame_witness:
  "config_assert_valid (sample_config\<lparr>min_change_amount := 500\<rparr>) = Inr () \<and>
   config_apply (no_update\<lparr>upd_min_change_amount := Some 500\<rparr>) sample_config =
     Inr (sample_config\<lparr>min_change_amount := 500\<rparr>)"
proof -
  let ?c = "sample_config\<lparr>min_change_amount := 500\<rparr>"
  have "config_assert_valid ?c = Inr ()"
    using sample_config_valid(1)
    by (simp add: config_assert_valid_def res_Inr) (simp add: sample_config_def)
  then have a: "config_apply (no_update\<lparr>upd_min_change_amount := Some 500\<rparr>) sample_config = Inr ?c"
    by (simp add: config_apply_def no_update_def Let_def)
  then show ?thesis using config_update_frame[OF a] by blast
qed

section \<open>Keys that are not canonical\<close>

text \<open>The bounds of a strategy, and the one that governs an amount: the least bound above it, or the
  greatest bound when none is.\<close>

definition bounds_of :: "(string \<times> u8) list \<Rightarrow> u128 set" where
  "bounds_of st = {n. \<exists>k\<in>fst ` set st. parse_u128 k = Some n}"

definition governs :: "u128 set \<Rightarrow> u128 \<Rightarrow> u128 \<Rightarrow> bool" where
  "governs B n a \<longleftrightarrow> n \<in> B \<and> (if a < n then \<forall>m\<in>B. a < m \<longrightarrow> n \<le> m else \<forall>m\<in>B. m \<le> n)"

lemma governs_unique: "governs B n a \<Longrightarrow> governs B m a \<Longrightarrow> n = m"
  by (force simp: governs_def split: if_splits)

lemma governs_find:
  assumes "xs \<noteq> []"
  shows "governs (set xs) (case find (\<lambda>k. k > a) (sort xs) of Some k \<Rightarrow> k | None \<Rightarrow> last (sort xs)) a"
proof (cases "find (\<lambda>k. k > a) (sort xs)")
  case None
  have ne: "sort xs \<noteq> []" using assms by (metis set_empty set_sort)
  have "m \<le> last (sort xs)" if "m \<in> set xs" for m
  proof -
    from that obtain i where i: "i < length (sort xs)" "m = sort xs ! i" by (metis in_set_conv_nth set_sort)
    then show ?thesis using ne by (simp add: last_conv_nth sorted_nth_mono)
  qed
  moreover have "last (sort xs) \<in> set xs" using last_in_set[OF ne] by simp
  moreover from None have "\<not> a < m" if "m \<in> set xs" for m using that by (auto simp: find_None_iff)
  ultimately show ?thesis using None by (auto simp: governs_def)
next
  case (Some k)
  then obtain i where i: "i < length (sort xs)" "a < k" "k = sort xs ! i" "\<forall>j<i. \<not> a < sort xs ! j"
    by (auto simp: find_Some_iff)
  have "k \<le> m" if m: "m \<in> set xs" "a < m" for m
  proof -
    from m(1) obtain j where j: "j < length (sort xs)" "m = sort xs ! j" by (metis in_set_conv_nth set_sort)
    with i m(2) have "i \<le> j" by (metis not_le)
    with i(3) j show ?thesis by (simp add: sorted_nth_mono)
  qed
  moreover have "k \<in> set xs" using i by (metis nth_mem set_sort)
  ultimately show ?thesis using Some i(2) by (simp add: governs_def)
qed

lemma governs_exists:
  assumes "st \<noteq> []" "\<forall>k\<in>fst ` set st. \<exists>n. parse_u128 k = Some n"
  shows "\<exists>n. governs (bounds_of st) n a"
proof -
  let ?ks = "map (\<lambda>x. the (parse_u128 (fst x))) st"
  have "set ?ks = bounds_of st" using assms(2) by (force simp: bounds_of_def)
  with governs_find[of ?ks a] assms(1) show ?thesis by auto
qed

lemma map_res_total: "map_res f xs = Inr ys \<Longrightarrow> x \<in> set xs \<Longrightarrow> \<exists>y. f x = Inr y"
  by (induction xs arbitrary: ys) (auto simp: res_Inr)

lemma valid_keys_parse:
  assumes "config_assert_valid c = Inr ()"
  shows "\<forall>k\<in>fst ` set (confirmations_strategy c). \<exists>n. parse_u128 k = Some n"
proof
  fix k assume "k \<in> fst ` set (confirmations_strategy c)"
  then obtain v where kv: "(k, v) \<in> set (confirmations_strategy c)" by auto
  obtain ts where "parsed_tiers (confirmations_strategy c) = Inr ts"
    using assms by (auto simp: config_assert_valid_def res_Inr)
  from map_res_total[OF this[unfolded parsed_tiers_def] kv] show "\<exists>n. parse_u128 k = Some n"
    by (auto simp: expect_def split: option.splits)
qed

lemma get_confirmations_governed:
  assumes "\<forall>k\<in>fst ` set (confirmations_strategy c). \<exists>n. parse_u128 k = Some n"
    and "governs (bounds_of (confirmations_strategy c)) n a"
  shows "get_confirmations c a = expect (map_of (confirmations_strategy c) (show_nat n)) ''unwrap'' Inr"
proof -
  let ?st = "confirmations_strategy c"
  let ?ks = "map (\<lambda>x. the (parse_u128 (fst x))) ?st"
  have ks: "set ?ks = bounds_of ?st" using assms(1) by (force simp: bounds_of_def)
  then have ne: "?st \<noteq> []" using assms(2) by (auto simp: governs_def)
  have m: "map_res (\<lambda>(k, _). expect (parse_u128 k) ''unwrap'' Inr) ?st = Inr ?ks"
    using assms(1) by (intro map_res_expect) force
  have "(case find (\<lambda>k. k > a) (sort ?ks) of Some k \<Rightarrow> k | None \<Rightarrow> last (sort ?ks)) = n"
    using governs_unique[OF _ assms(2)] governs_find[of ?ks a] ne ks by simp
  then show ?thesis using ne by (auto simp: get_confirmations_def Let_def m split: option.splits)
qed

lemma parse_u128_le: "parse_u128 str = Some n \<Longrightarrow> n \<le> U128_MAX"
  by (auto simp: parse_u128_def Let_def split: if_splits option.splits)

text \<open>One key spelled differently.\<close>

definition respell :: "string \<Rightarrow> string \<Rightarrow> (string \<times> u8) list \<Rightarrow> (string \<times> u8) list" where
  "respell k k' st = map (\<lambda>(x, w). (if x = k then k' else x, w)) st"

lemma respell_same_values:
  assumes "parse_u128 k = parse_u128 k'"
  shows "bounds_of (respell k k' st) = bounds_of st" "parsed_tiers (respell k k' st) = parsed_tiers st"
    "snd ` set (respell k k' st) = snd ` set st"
proof -
  show "bounds_of (respell k k' st) = bounds_of st"
  proof -
    have b: "bounds_of xs = {n. Some n \<in> parse_u128 ` fst ` set xs}" for xs
      unfolding bounds_of_def image_iff Bex_def by (metis (no_types))
    have "parse_u128 ` fst ` set (respell k k' st) = parse_u128 ` fst ` set st"
      using assms by (induction st) (auto simp: respell_def)
    then show ?thesis by (simp only: b)
  qed
  show "parsed_tiers (respell k k' st) = parsed_tiers st"
    using assms by (induction st) (auto simp: parsed_tiers_def respell_def)
  show "snd ` set (respell k k' st) = snd ` set st" by (force simp: respell_def)
qed

lemma respell_valid:
  assumes "config_assert_valid c = Inr ()" "parse_u128 k = parse_u128 k'"
  shows "config_assert_valid (c\<lparr>confirmations_strategy := respell k k' (confirmations_strategy c)\<rparr>) = Inr ()"
proof -
  have "(\<forall>(_, v)\<in>set (respell k k' st). 2 \<le> v \<and> v \<le> 100) \<longleftrightarrow> (\<forall>v\<in>snd ` set (respell k k' st). 2 \<le> v \<and> v \<le> 100)" for st
    by force
  then show ?thesis
    using assms(1) by (auto simp: config_assert_valid_def res_Inr respell_same_values[OF assms(2)])
qed

lemma respell_lookup:
  assumes "k \<noteq> x" "k' \<noteq> x" shows "map_of (respell k k' st) x = map_of st x"
  using assms by (induction st) (auto simp: respell_def)

text \<open>C39: validity does not imply that confirmations are defined.  Take any valid configuration, any
  key \<open>k\<close> of its strategy with bound \<open>n\<close>, and any string \<open>k'\<close> that parses to the same number, such as
  one with a leading zero, put in its place.  The configuration is still valid; but when no key is left
  that is the decimal of \<open>n\<close>, the confirmations of every amount governed by \<open>n\<close> panic, and those of
  every other amount are what they were.  The amount below a positive bound is always among those that
  panic.\<close>

theorem noncanonical_key_panics:
  assumes "config_assert_valid c = Inr ()" "k \<in> fst ` set (confirmations_strategy c)"
    and "parse_u128 k = Some n" "parse_u128 k' = Some n"
    and "show_nat n \<notin> fst ` set (respell k k' (confirmations_strategy c))"
  shows "config_assert_valid (c\<lparr>confirmations_strategy := respell k k' (confirmations_strategy c)\<rparr>) = Inr () \<and>
    get_confirmations (c\<lparr>confirmations_strategy := respell k k' (confirmations_strategy c)\<rparr>) a =
      (if governs (bounds_of (confirmations_strategy c)) n a then Inl (Panic ''unwrap'') else get_confirmations c a) \<and>
    (0 < n \<longrightarrow> governs (bounds_of (confirmations_strategy c)) n (n - 1))"
proof (intro conjI impI)
  let ?st = "confirmations_strategy c"
  let ?c = "c\<lparr>confirmations_strategy := respell k k' ?st\<rparr>"
  have eq: "parse_u128 k = parse_u128 k'" using assms(3,4) by simp
  show v: "config_assert_valid ?c = Inr ()" by (rule respell_valid[OF assms(1) eq])
  have n: "n \<in> bounds_of ?st" using assms(2,3) by (auto simp: bounds_of_def)
  show "governs (bounds_of ?st) n (n - 1)" if "0 < n" using n that by (auto simp: governs_def)
  have ne: "?st \<noteq> []" using assms(2) by auto
  obtain m where m: "governs (bounds_of ?st) m a" using governs_exists[OF ne valid_keys_parse[OF assms(1)]] by blast
  have old: "get_confirmations c a = expect (map_of ?st (show_nat m)) ''unwrap'' Inr"
    by (rule get_confirmations_governed[OF valid_keys_parse[OF assms(1)] m])
  have new: "get_confirmations ?c a = expect (map_of (respell k k' ?st) (show_nat m)) ''unwrap'' Inr"
    using get_confirmations_governed[OF valid_keys_parse[OF v], of m a] m by (simp add: respell_same_values(1)[OF eq])
  show "get_confirmations ?c a = (if governs (bounds_of ?st) n a then Inl (Panic ''unwrap'') else get_confirmations c a)"
  proof (cases "m = n")
    case True
    then have "map_of (respell k k' ?st) (show_nat m) = None" using assms(5) by (simp add: map_of_eq_None_iff)
    with True m new show ?thesis by simp
  next
    case False
    have "m \<le> U128_MAX" using m by (auto simp: governs_def bounds_of_def dest: parse_u128_le)
    then have "parse_u128 (show_nat m) = Some m" by simp
    then have "k \<noteq> show_nat m" "k' \<noteq> show_nat m" using False assms(3,4) by auto
    then show ?thesis using governs_unique[OF m] False new old by (auto simp: respell_lookup)
  qed
qed

lemma noncanonical_key_panics_witness:
  "config_assert_valid (sample_config\<lparr>confirmations_strategy := [(''1000000000'', 4), (''0100000000'', 2)]\<rparr>) = Inr () \<and>
   get_confirmations (sample_config\<lparr>confirmations_strategy := [(''1000000000'', 4), (''0100000000'', 2)]\<rparr>) 99999999 =
     Inl (Panic ''unwrap'')"
proof -
  have p: "parse_u128 ''0100000000'' = Some 100000000" by (simp add: parse_u128_def digit_of_def U128_MAX_def)
  have r: "respell ''100000000'' ''0100000000'' (confirmations_strategy sample_config) =
      [(''1000000000'', 4), (''0100000000'', 2)]"
    by (simp add: respell_def sample_config_def)
  have k: "''100000000'' \<in> fst ` set (confirmations_strategy sample_config)" by (simp add: sample_config_def)
  have nk: "show_nat 100000000 \<notin> fst ` set (respell ''100000000'' ''0100000000'' (confirmations_strategy sample_config))"
    unfolding r sample_strategy_keys by simp
  from noncanonical_key_panics[OF sample_config_valid(1) k sample_parse(2) p nk, of 99999999]
  show ?thesis unfolding r by simp
qed

end
