(* ===== verification/Bridge_Types.thy ===== *)
theory Bridge_Types
  imports Bridge_Config
begin

text \<open>
  The data that crosses the components: UTXOs, outputs, transactions and PSBTs as the bitcoin crate
  lays them out, deposit messages, signatures, light-client answers; the environment of a call
  (\<open>env\<close>) and the parameters that stand for code outside the repository (\<open>crates\<close>).
  Transaction ids are kept in their printed form.
\<close>

section \<open>Transactions\<close>

record out_point =
  op_txid :: string
  op_vout :: u32

record tx_out =
  txo_value :: u64
  txo_script :: bytes

record tx_in =
  previous_output :: out_point
  in_sequence :: u32
  script_sig :: bytes
  in_witness :: "bytes list"

record btc_tx =
  tx_version :: nat
  tx_lock_time :: u32
  tx_input :: "tx_in list"
  tx_output :: "tx_out list"

record psbt_input =
  witness_utxo :: "tx_out option"
  final_script_witness :: "bytes list option"

record psbt =
  unsigned_tx :: btc_tx
  psbt_inputs :: "psbt_input list"

section \<open>UTXOs and deposits\<close>

record utxo =
  utxo_path :: string
  utxo_tx_bytes :: bytes
  utxo_vout :: usize
  utxo_balance :: u64

datatype vutxo = VUTXO_Current utxo

definition get_path :: "vutxo \<Rightarrow> string" where
  "get_path v = (case v of VUTXO_Current c \<Rightarrow> utxo_path c)"

definition get_amount :: "vutxo \<Rightarrow> u64" where
  "get_amount v = (case v of VUTXO_Current c \<Rightarrow> utxo_balance c)"

record pending_utxo_info =
  pu_tx_id :: string
  pu_key :: string
  pu_utxo :: utxo

datatype utxo_status = DepositInProgress vutxo

record post_action =
  pa_receiver_id :: account_id
  pa_amount :: u128
  pa_memo :: "string option"
  pa_msg :: string
  pa_gas :: "u64 option"

record safe_deposit_msg =
  sd_msg :: string

record deposit_msg =
  dm_recipient_id :: account_id
  dm_post_actions :: "post_action list option"
  dm_extra_msg :: "string option"
  dm_safe_deposit :: "safe_deposit_msg option"
  dm_refund_address :: "string option"

datatype deposit_tx_proof =
    Full bytes
  | Compact            \<comment> \<open>\<open>CompactTxProof\<close>, which the Bitcoin build rejects\<close>

record deposit_tx_summary =
  ts_tx_id :: string
  ts_outputs :: "tx_out list"

record tx_inclusion_proof =
  tip_block_hash :: string
  tip_tx_index :: u64
  tip_merkle_proof :: "string list"
  tip_coinbase_tx_id :: string
  tip_coinbase_proof :: "string list"

record tx_inclusion_info =
  tx_block_height :: u64
  mainchain_tip_height :: u64

section \<open>Signatures\<close>

record signature_response =
  big_r :: string
  sig_s :: string
  recovery_id :: u8

section \<open>JSON\<close>

datatype json =
    JNull
  | JBool bool
  | JNumber string
  | JString string
  | JArray "json list"
  | JObject "(string \<times> json) list"   \<comment> \<open>a map: the keys are distinct\<close>

section \<open>Token messages\<close>

datatype token_receiver_message =
    MsgDepositProtocolFee
  | MsgWithdraw string "out_point list" "tx_out list" "u128 option"

section \<open>The environment of a call\<close>

record ctx =
  predecessor :: account_id
  signer :: account_id
  current_account :: account_id
  block_timestamp :: u64            \<comment> \<open>nanoseconds\<close>
  attached_deposit :: u128
  storage_byte_cost :: u128
  promise_result :: "string option" \<comment> \<open>in a callback: \<open>None\<close> for a failed promise\<close>
  is_trusted_relayer :: "account_id \<Rightarrow> bool"   \<comment> \<open>\<open>omni_utils\<close>\<close>

text \<open>\<open>env::promise_result_checked\<close>: an error for a failed promise or an oversized result.\<close>

definition promise_result_checked :: "ctx \<Rightarrow> usize \<Rightarrow> string option" where
  "promise_result_checked e mx = (case promise_result e of
     Some bs \<Rightarrow> if length bs \<le> mx then Some bs else None | None \<Rightarrow> None)"

definition is_promise_success :: "ctx \<Rightarrow> bool" where
  "is_promise_success e \<longleftrightarrow> promise_result e \<noteq> None"

definition MAX_BOOL_RESULT :: usize where "MAX_BOOL_RESULT = 10"
definition MAX_INCLUSION_INFO_RESULT :: usize where "MAX_INCLUSION_INFO_RESULT = 100"
definition MAX_FT_TRANSFER_CALL_RESULT :: usize where "MAX_FT_TRANSFER_CALL_RESULT = 50"
definition MAX_PUBLIC_KEY_RESULT :: usize where "MAX_PUBLIC_KEY_RESULT = 200"
definition MAX_SIGNATURE_RESULT :: usize where "MAX_SIGNATURE_RESULT = 300"

definition UTXO_STORAGE_KEY_TAG :: string where "UTXO_STORAGE_KEY_TAG = ''@''"

definition generate_utxo_storage_key :: "string \<Rightarrow> u32 \<Rightarrow> string" where
  "generate_utxo_storage_key txid vout = txid @ UTXO_STORAGE_KEY_TAG @ show_nat vout"

definition out_point_to_utxo_storage_key :: "out_point \<Rightarrow> string" where
  "out_point_to_utxo_storage_key p = generate_utxo_storage_key (op_txid p) (op_vout p)"

definition nano_to_sec :: "u64 \<Rightarrow> u32 res" where
  "nano_to_sec nano = try_into U32_MAX (nano div 10 ^ 9) ''Timestamp overflow when converting nano to sec'' Inr"

definition to_nano :: "u32 \<Rightarrow> u64 res" where
  "to_nano sec = chk_mul U64_MAX sec (10 ^ 9) Inr"

definition assert_one_yocto :: "ctx \<Rightarrow> 'a res \<Rightarrow> 'a res" where
  "assert_one_yocto e k = require (attached_deposit e = 1) ''Requires attached deposit of exactly 1 yoctoNEAR'' k"

section \<open>Code outside the repository\<close>

text \<open>
  Hashing, hex and base64, the bitcoin crate's serialisations, the key derivation of the MPC
  service, and serde's readers and printers for the types above.
\<close>

record crates = addr_crates +
  hex_decode :: "string \<Rightarrow> bytes option"
  sha256_hex :: "string \<Rightarrow> string"                  \<comment> \<open>\<open>hex::encode(env::sha256(s))\<close>\<close>
  parse_txid :: "string \<Rightarrow> string option"
  psbt_from_unsigned_tx :: "btc_tx \<Rightarrow> psbt option"
  psbt_serialize_hex :: "psbt \<Rightarrow> string"
  psbt_deserialize :: "bytes \<Rightarrow> psbt option"
  extract_tx :: "psbt \<Rightarrow> btc_tx option"
  compute_txid :: "btc_tx \<Rightarrow> string"
  tx_consensus_encode :: "btc_tx \<Rightarrow> bytes"
  tx_consensus_decode :: "bytes \<Rightarrow> btc_tx option"
  p2wpkh_sighash :: "btc_tx \<Rightarrow> usize \<Rightarrow> tx_out \<Rightarrow> bytes option"
  ecdsa_from_compact :: "bytes \<Rightarrow> bytes option"
  p2wpkh_witness :: "bytes \<Rightarrow> bytes \<Rightarrow> bytes list"
  sha3_256 :: "string \<Rightarrow> bytes"
  scalar_from_repr :: "bytes \<Rightarrow> bytes option"
  derive_key :: "bytes \<Rightarrow> bytes \<Rightarrow> bytes"           \<comment> \<open>root public key and epsilon to the uncompressed key\<close>
  compress_public_key :: "bytes \<Rightarrow> bytes option"
  json_parse :: "string \<Rightarrow> json option"
  json_print :: "json \<Rightarrow> string"
  json_bool :: "string \<Rightarrow> bool option"
  json_u128 :: "string \<Rightarrow> u128 option"
  json_inclusion_info :: "string \<Rightarrow> tx_inclusion_info option option"
  json_signature :: "string \<Rightarrow> signature_response option"
  json_public_key :: "string \<Rightarrow> bytes option"
  json_token_message :: "string \<Rightarrow> token_receiver_message option"
  json_of_deposit_msg :: "deposit_msg \<Rightarrow> string"
  deposit_msg_of_json :: "string \<Rightarrow> deposit_msg option"

definition get_deposit_path :: "crates \<Rightarrow> deposit_msg \<Rightarrow> string" where
  "get_deposit_path X d = sha256_hex X (json_of_deposit_msg X d)"

section \<open>Storage keys\<close>

lemma show_digits_chars: "c \<in> set (show_digits n) \<Longrightarrow> \<exists>d<10. c = char_of (48 + d :: nat)"
proof (induction n rule: show_digits.induct)
  case (1 n)
  show ?case
  proof (cases "n < 10")
    case True
    then show ?thesis using 1(2) by (subst (asm) show_digits.simps) auto
  next
    case False
    then have "show_digits n = show_digits (n div 10) @ [char_of (48 + n mod 10)]"
      by (subst show_digits.simps) simp
    then consider "c \<in> set (show_digits (n div 10))" | "c = char_of (48 + n mod 10)"
      using 1(2) by auto
    then show ?thesis
    proof cases
      case 1
      then show ?thesis using "1.IH" False by blast
    next
      case 2
      then show ?thesis by (intro exI[of _ "n mod 10"]) simp
    qed
  qed
qed

lemma show_nat_no_tag: "CHR ''@'' \<notin> set (show_nat n)"
proof
  assume "CHR ''@'' \<in> set (show_nat n)"
  then obtain d :: nat where d: "d < 10" "CHR ''@'' = char_of (48 + d)"
    using show_digits_chars by (auto simp: show_nat_def)
  have "of_char (char_of (48 + d)) = 48 + d" using d(1) by (simp add: of_char_of)
  moreover have "of_char (CHR ''@'') = (64::nat)" by simp
  ultimately have "48 + d = 64" using d(2) by metis
  then show False using d(1) by simp
qed

definition txid_ok :: "string \<Rightarrow> bool" where
  "txid_ok t \<longleftrightarrow> CHR ''@'' \<notin> set t"

text \<open>\<open>key.split("@").next()\<close>.\<close>

definition key_txid :: "string \<Rightarrow> string" where
  "key_txid key = takeWhile (\<lambda>c. c \<noteq> CHR ''@'') key"

lemma storage_key_inj [simp]:
  assumes "txid_ok t" "txid_ok t'"
  shows "generate_utxo_storage_key t v = generate_utxo_storage_key t' v' \<longleftrightarrow> t = t' \<and> v = v'"
proof
  assume eq: "generate_utxo_storage_key t v = generate_utxo_storage_key t' v'"
  have "takeWhile (\<lambda>c. c \<noteq> CHR ''@'') (generate_utxo_storage_key u w) = u" if "txid_ok u" for u w
    using that by (auto simp: generate_utxo_storage_key_def UTXO_STORAGE_KEY_TAG_def txid_ok_def
        takeWhile_append)
  with eq assms have t: "t = t'" by metis
  with eq show "t = t' \<and> v = v'"
    by (simp add: generate_utxo_storage_key_def UTXO_STORAGE_KEY_TAG_def)
qed simp

text \<open>The storage key of an output identifies it: distinct outputs have distinct keys, and
  the transaction id can be read back from the key, as the refund of a stored request does.\<close>

theorem storage_key_identifies:
  assumes "txid_ok t" "txid_ok t'"
  shows "(generate_utxo_storage_key t v = generate_utxo_storage_key t' v' \<longleftrightarrow> t = t' \<and> v = v') \<and>
    key_txid (generate_utxo_storage_key t v) = t"
  using storage_key_inj[OF assms] assms(1)
  by (auto simp: key_txid_def generate_utxo_storage_key_def UTXO_STORAGE_KEY_TAG_def txid_ok_def
      takeWhile_append)

lemma storage_key_identifies_witness:
  "(generate_utxo_storage_key ''ab'' 1 = generate_utxo_storage_key ''ab'' 11 \<longleftrightarrow>
      ''ab'' = ''ab'' \<and> (1::u32) = 11) \<and>
   key_txid (generate_utxo_storage_key ''ab'' 1) = ''ab''"
  by (rule storage_key_identifies) (simp_all add: txid_ok_def)

end
