(* ===== verification/Pending_Info.thy ===== *)
theory Pending_Info
  imports Bridge_Types
begin

text \<open>
  \<open>btc_pending_info.rs\<close>: the record of a Bitcoin transaction on its way through signing,
  inclusion and the burn of nBTC, with its stages and the seven kinds of transaction; the methods of
  the record itself.  The map of pending records is in \<open>Bridge_State\<close>.
\<close>

section \<open>Stages and kinds\<close>

datatype stage = PendingSign | PendingVerify | PendingBurn

record original_state =
  os_stage :: stage
  max_gas_fee :: u128
  last_rbf_time_sec :: "u32 option"
  cancel_rbf_reserved :: "u128 option"

record rbf_state =
  rs_stage :: stage
  original_tx_id :: string

datatype pending_state =
    WithdrawOriginal original_state
  | WithdrawUserRbf rbf_state
  | WithdrawCancelRbf rbf_state
  | ActiveUtxoManagementOriginal original_state
  | ActiveUtxoManagementRbf rbf_state
  | ActiveUtxoManagementCancelRbf rbf_state
  | Refund original_state

record pending_info =
  pi_account_id :: account_id
  pi_btc_pending_id :: string
  transfer_amount :: u128
  actual_received_amount :: u128
  withdraw_fee :: u128
  gas_fee :: u128
  burn_amount :: u128
  psbt_hex :: string
  vutxos :: "vutxo list"
  signatures :: "signature_response option list"
  tx_bytes_with_sign :: "bytes option"
  create_time_sec :: u32
  last_sign_time_sec :: u32
  pi_state :: pending_state

datatype vpending_info = VPending_Current pending_info

definition of_vpending :: "vpending_info \<Rightarrow> pending_info" where
  "of_vpending v = (case v of VPending_Current c \<Rightarrow> c)"

section \<open>Stage checks\<close>

definition os_assert_pending_sign :: "original_state \<Rightarrow> 'a res \<Rightarrow> 'a res" where
  "os_assert_pending_sign s k = require (os_stage s = PendingSign) ''Not pending sign stage'' k"

definition os_assert_pending_verify :: "original_state \<Rightarrow> 'a res \<Rightarrow> 'a res" where
  "os_assert_pending_verify s k = require (os_stage s = PendingVerify) ''Not pending verify stage'' k"

definition rs_assert_pending_sign :: "rbf_state \<Rightarrow> 'a res \<Rightarrow> 'a res" where
  "rs_assert_pending_sign s k = require (rs_stage s = PendingSign) ''Not pending sign stage'' k"

definition rs_assert_pending_verify :: "rbf_state \<Rightarrow> 'a res \<Rightarrow> 'a res" where
  "rs_assert_pending_verify s k = require (rs_stage s = PendingVerify) ''Not pending verify stage'' k"

definition assert_pending_sign :: "pending_info \<Rightarrow> 'a res \<Rightarrow> 'a res" where
  "assert_pending_sign p k = (case pi_state p of
     WithdrawOriginal s \<Rightarrow> os_assert_pending_sign s k
   | WithdrawUserRbf s \<Rightarrow> rs_assert_pending_sign s k
   | WithdrawCancelRbf s \<Rightarrow> rs_assert_pending_sign s k
   | ActiveUtxoManagementOriginal s \<Rightarrow> os_assert_pending_sign s k
   | ActiveUtxoManagementRbf s \<Rightarrow> rs_assert_pending_sign s k
   | ActiveUtxoManagementCancelRbf s \<Rightarrow> rs_assert_pending_sign s k
   | Refund s \<Rightarrow> os_assert_pending_sign s k)"

definition assert_pending_verify :: "pending_info \<Rightarrow> 'a res \<Rightarrow> 'a res" where
  "assert_pending_verify p k = (case pi_state p of
     WithdrawOriginal s \<Rightarrow> os_assert_pending_verify s k
   | WithdrawUserRbf s \<Rightarrow> rs_assert_pending_verify s k
   | WithdrawCancelRbf s \<Rightarrow> rs_assert_pending_verify s k
   | ActiveUtxoManagementOriginal s \<Rightarrow> os_assert_pending_verify s k
   | ActiveUtxoManagementRbf s \<Rightarrow> rs_assert_pending_verify s k
   | ActiveUtxoManagementCancelRbf s \<Rightarrow> rs_assert_pending_verify s k
   | Refund s \<Rightarrow> os_assert_pending_verify s k)"

definition assert_withdraw_related_pending_verify_tx :: "pending_info \<Rightarrow> 'a res \<Rightarrow> 'a res" where
  "assert_withdraw_related_pending_verify_tx p k = (case pi_state p of
     WithdrawOriginal s \<Rightarrow> os_assert_pending_verify s k
   | WithdrawUserRbf s \<Rightarrow> rs_assert_pending_verify s k
   | WithdrawCancelRbf s \<Rightarrow> rs_assert_pending_verify s k
   | _ \<Rightarrow> Inl (Panic ''Not withdraw related tx''))"

definition assert_refund_pending_verify_tx :: "pending_info \<Rightarrow> 'a res \<Rightarrow> 'a res" where
  "assert_refund_pending_verify_tx p k = (case pi_state p of
     Refund s \<Rightarrow> os_assert_pending_verify s k
   | _ \<Rightarrow> Inl (Panic ''Not refund related tx''))"

definition assert_refund_related :: "pending_info \<Rightarrow> 'a res \<Rightarrow> 'a res" where
  "assert_refund_related p k = (case pi_state p of
     Refund _ \<Rightarrow> k
   | _ \<Rightarrow> Inl (Panic ''Not refund related tx''))"

definition assert_active_utxo_management_related_pending_verify_tx :: "pending_info \<Rightarrow> 'a res \<Rightarrow> 'a res" where
  "assert_active_utxo_management_related_pending_verify_tx p k = (case pi_state p of
     ActiveUtxoManagementOriginal s \<Rightarrow> os_assert_pending_verify s k
   | ActiveUtxoManagementRbf s \<Rightarrow> rs_assert_pending_verify s k
   | ActiveUtxoManagementCancelRbf s \<Rightarrow> rs_assert_pending_verify s k
   | _ \<Rightarrow> Inl (Panic ''Not active utxo management related tx''))"

definition assert_active_utxo_management_original_pending_verify_tx :: "pending_info \<Rightarrow> 'a res \<Rightarrow> 'a res" where
  "assert_active_utxo_management_original_pending_verify_tx p k = (case pi_state p of
     ActiveUtxoManagementOriginal s \<Rightarrow> os_assert_pending_verify s k
   | _ \<Rightarrow> Inl (Panic ''Not active utxo management original tx''))"

definition assert_withdraw_original_pending_verify_tx :: "pending_info \<Rightarrow> 'a res \<Rightarrow> 'a res" where
  "assert_withdraw_original_pending_verify_tx p k = (case pi_state p of
     WithdrawOriginal s \<Rightarrow> os_assert_pending_verify s k
   | _ \<Rightarrow> Inl (Panic ''Not withdraw original tx''))"

section \<open>Queries and updates\<close>

definition is_cancel_withdraw_rbf :: "pending_info \<Rightarrow> bool" where
  "is_cancel_withdraw_rbf p \<longleftrightarrow> (case pi_state p of WithdrawCancelRbf _ \<Rightarrow> True | _ \<Rightarrow> False)"

definition is_refund :: "pending_info \<Rightarrow> bool" where
  "is_refund p \<longleftrightarrow> (case pi_state p of Refund _ \<Rightarrow> True | _ \<Rightarrow> False)"

definition get_original_tx_id :: "pending_info \<Rightarrow> string option" where
  "get_original_tx_id p = (case pi_state p of
     WithdrawUserRbf s \<Rightarrow> Some (original_tx_id s)
   | WithdrawCancelRbf s \<Rightarrow> Some (original_tx_id s)
   | ActiveUtxoManagementRbf s \<Rightarrow> Some (original_tx_id s)
   | ActiveUtxoManagementCancelRbf s \<Rightarrow> Some (original_tx_id s)
   | _ \<Rightarrow> None)"

definition get_max_gas_fee :: "pending_info \<Rightarrow> u128 res" where
  "get_max_gas_fee p = (case pi_state p of
     WithdrawOriginal s \<Rightarrow> Inr (max_gas_fee s)
   | ActiveUtxoManagementOriginal s \<Rightarrow> Inr (max_gas_fee s)
   | _ \<Rightarrow> Inl (Panic ''Not original tx''))"

definition update_max_gas_fee :: "ctx \<Rightarrow> pending_info \<Rightarrow> u128 \<Rightarrow> pending_info res" where
  "update_max_gas_fee e p fee = (case pi_state p of
     WithdrawOriginal s \<Rightarrow> bindR (nano_to_sec (block_timestamp e)) (\<lambda>now.
       Inr (p\<lparr>pi_state := WithdrawOriginal (s\<lparr>max_gas_fee := fee, last_rbf_time_sec := Some now\<rparr>)\<rparr>))
   | ActiveUtxoManagementOriginal s \<Rightarrow> bindR (nano_to_sec (block_timestamp e)) (\<lambda>now.
       Inr (p\<lparr>pi_state := ActiveUtxoManagementOriginal (s\<lparr>max_gas_fee := fee, last_rbf_time_sec := Some now\<rparr>)\<rparr>))
   | _ \<Rightarrow> Inl (Panic ''Not original tx''))"

definition to_pending_verify_stage :: "pending_info \<Rightarrow> pending_info" where
  "to_pending_verify_stage p = p\<lparr>pi_state := (case pi_state p of
     WithdrawOriginal s \<Rightarrow> WithdrawOriginal (s\<lparr>os_stage := PendingVerify\<rparr>)
   | WithdrawUserRbf s \<Rightarrow> WithdrawUserRbf (s\<lparr>rs_stage := PendingVerify\<rparr>)
   | WithdrawCancelRbf s \<Rightarrow> WithdrawCancelRbf (s\<lparr>rs_stage := PendingVerify\<rparr>)
   | ActiveUtxoManagementOriginal s \<Rightarrow> ActiveUtxoManagementOriginal (s\<lparr>os_stage := PendingVerify\<rparr>)
   | ActiveUtxoManagementRbf s \<Rightarrow> ActiveUtxoManagementRbf (s\<lparr>rs_stage := PendingVerify\<rparr>)
   | ActiveUtxoManagementCancelRbf s \<Rightarrow> ActiveUtxoManagementCancelRbf (s\<lparr>rs_stage := PendingVerify\<rparr>)
   | Refund s \<Rightarrow> Refund (s\<lparr>os_stage := PendingVerify\<rparr>))\<rparr>"

definition to_pending_burn_stage :: "pending_info \<Rightarrow> pending_info res" where
  "to_pending_burn_stage p = (case pi_state p of
     WithdrawOriginal s \<Rightarrow> Inr (p\<lparr>pi_state := WithdrawOriginal (s\<lparr>os_stage := PendingBurn\<rparr>)\<rparr>)
   | WithdrawUserRbf s \<Rightarrow> Inr (p\<lparr>pi_state := WithdrawUserRbf (s\<lparr>rs_stage := PendingBurn\<rparr>)\<rparr>)
   | WithdrawCancelRbf s \<Rightarrow> Inr (p\<lparr>pi_state := WithdrawCancelRbf (s\<lparr>rs_stage := PendingBurn\<rparr>)\<rparr>)
   | ActiveUtxoManagementOriginal s \<Rightarrow>
       Inr (p\<lparr>pi_state := ActiveUtxoManagementOriginal (s\<lparr>os_stage := PendingBurn\<rparr>)\<rparr>)
   | ActiveUtxoManagementRbf s \<Rightarrow>
       Inr (p\<lparr>pi_state := ActiveUtxoManagementRbf (s\<lparr>rs_stage := PendingBurn\<rparr>)\<rparr>)
   | ActiveUtxoManagementCancelRbf s \<Rightarrow>
       Inr (p\<lparr>pi_state := ActiveUtxoManagementCancelRbf (s\<lparr>rs_stage := PendingBurn\<rparr>)\<rparr>)
   | Refund _ \<Rightarrow> Inl (Panic ''unreachable''))"

definition do_cancel :: "ctx \<Rightarrow> pending_info \<Rightarrow> u128 \<Rightarrow> u128 \<Rightarrow> pending_info res" where
  "do_cancel e p fee reserved = (case pi_state p of
     WithdrawOriginal s \<Rightarrow> bindR (nano_to_sec (block_timestamp e)) (\<lambda>now.
       Inr (p\<lparr>pi_state := WithdrawOriginal (s\<lparr>max_gas_fee := max (max_gas_fee s) fee,
         last_rbf_time_sec := Some now, cancel_rbf_reserved := Some reserved\<rparr>)\<rparr>))
   | ActiveUtxoManagementOriginal s \<Rightarrow> bindR (nano_to_sec (block_timestamp e)) (\<lambda>now.
       Inr (p\<lparr>pi_state := ActiveUtxoManagementOriginal (s\<lparr>max_gas_fee := max (max_gas_fee s) fee,
         last_rbf_time_sec := Some now, cancel_rbf_reserved := Some reserved\<rparr>)\<rparr>))
   | _ \<Rightarrow> Inl (Panic ''Not original tx''))"

definition get_cancel_rbf_reserved :: "pending_info \<Rightarrow> u128 option res" where
  "get_cancel_rbf_reserved p = (case pi_state p of
     WithdrawOriginal s \<Rightarrow> Inr (cancel_rbf_reserved s)
   | ActiveUtxoManagementOriginal s \<Rightarrow> Inr (cancel_rbf_reserved s)
   | _ \<Rightarrow> Inl (Panic ''Not original tx''))"

definition assert_not_canceled :: "pending_info \<Rightarrow> 'a res \<Rightarrow> 'a res" where
  "assert_not_canceled p k = bindR (get_cancel_rbf_reserved p) (\<lambda>r. require (r = None) ''already canceled'' k)"

definition is_all_signed :: "pending_info \<Rightarrow> bool" where
  "is_all_signed p \<longleftrightarrow> (\<forall>s\<in>set (signatures p). s \<noteq> None)"

definition generate_btc_pending_sign_id :: "(bytes \<Rightarrow> string) \<Rightarrow> bytes list \<Rightarrow> string" where
  "generate_btc_pending_sign_id sha256_hex_bytes payload_preimages = sha256_hex_bytes (concat payload_preimages)"

section \<open>The stage machine\<close>

definition info_stage :: "pending_info \<Rightarrow> stage" where
  "info_stage p = (case pi_state p of
     WithdrawOriginal s \<Rightarrow> os_stage s | WithdrawUserRbf s \<Rightarrow> rs_stage s
   | WithdrawCancelRbf s \<Rightarrow> rs_stage s | ActiveUtxoManagementOriginal s \<Rightarrow> os_stage s
   | ActiveUtxoManagementRbf s \<Rightarrow> rs_stage s | ActiveUtxoManagementCancelRbf s \<Rightarrow> rs_stage s
   | Refund s \<Rightarrow> os_stage s)"

datatype tx_kind = KWithdraw | KUserRbf | KCancelWithdraw | KActive | KActiveRbf | KCancelActive | KRefund

definition info_kind :: "pending_info \<Rightarrow> tx_kind" where
  "info_kind p = (case pi_state p of
     WithdrawOriginal _ \<Rightarrow> KWithdraw | WithdrawUserRbf _ \<Rightarrow> KUserRbf
   | WithdrawCancelRbf _ \<Rightarrow> KCancelWithdraw | ActiveUtxoManagementOriginal _ \<Rightarrow> KActive
   | ActiveUtxoManagementRbf _ \<Rightarrow> KActiveRbf | ActiveUtxoManagementCancelRbf _ \<Rightarrow> KCancelActive
   | Refund _ \<Rightarrow> KRefund)"

lemma assert_pending_sign_Inr [res_Inr]:
  "assert_pending_sign p k = Inr x \<longleftrightarrow> info_stage p = PendingSign \<and> k = Inr x"
  by (cases "pi_state p") (auto simp: assert_pending_sign_def os_assert_pending_sign_def
      rs_assert_pending_sign_def info_stage_def res_Inr)

lemma assert_pending_verify_Inr [res_Inr]:
  "assert_pending_verify p k = Inr x \<longleftrightarrow> info_stage p = PendingVerify \<and> k = Inr x"
  by (cases "pi_state p") (auto simp: assert_pending_verify_def os_assert_pending_verify_def
      rs_assert_pending_verify_def info_stage_def res_Inr)

lemmas stage_assert_defs = os_assert_pending_verify_def rs_assert_pending_verify_def info_stage_def
  info_kind_def

lemma assert_withdraw_related_Inr [res_Inr]:
  "assert_withdraw_related_pending_verify_tx p k = Inr x \<longleftrightarrow>
   info_kind p \<in> {KWithdraw, KUserRbf, KCancelWithdraw} \<and> info_stage p = PendingVerify \<and> k = Inr x"
  by (cases "pi_state p") (auto simp: assert_withdraw_related_pending_verify_tx_def stage_assert_defs res_Inr)

lemma assert_refund_pending_verify_Inr [res_Inr]:
  "assert_refund_pending_verify_tx p k = Inr x \<longleftrightarrow>
   info_kind p = KRefund \<and> info_stage p = PendingVerify \<and> k = Inr x"
  by (cases "pi_state p") (auto simp: assert_refund_pending_verify_tx_def stage_assert_defs res_Inr)

lemma assert_refund_related_Inr [res_Inr]:
  "assert_refund_related p k = Inr x \<longleftrightarrow> info_kind p = KRefund \<and> k = Inr x"
  by (cases "pi_state p") (auto simp: assert_refund_related_def stage_assert_defs)

lemma assert_active_related_Inr [res_Inr]:
  "assert_active_utxo_management_related_pending_verify_tx p k = Inr x \<longleftrightarrow>
   info_kind p \<in> {KActive, KActiveRbf, KCancelActive} \<and> info_stage p = PendingVerify \<and> k = Inr x"
  by (cases "pi_state p")
    (auto simp: assert_active_utxo_management_related_pending_verify_tx_def stage_assert_defs res_Inr)

lemma assert_active_original_Inr [res_Inr]:
  "assert_active_utxo_management_original_pending_verify_tx p k = Inr x \<longleftrightarrow>
   info_kind p = KActive \<and> info_stage p = PendingVerify \<and> k = Inr x"
  by (cases "pi_state p")
    (auto simp: assert_active_utxo_management_original_pending_verify_tx_def stage_assert_defs res_Inr)

lemma assert_withdraw_original_Inr [res_Inr]:
  "assert_withdraw_original_pending_verify_tx p k = Inr x \<longleftrightarrow>
   info_kind p = KWithdraw \<and> info_stage p = PendingVerify \<and> k = Inr x"
  by (cases "pi_state p")
    (auto simp: assert_withdraw_original_pending_verify_tx_def stage_assert_defs res_Inr)

end
