(* ===== verification/Psbt.thy ===== *)
theory Psbt
  imports Pending_Info
begin

text \<open>
  \<open>bitcoin_utils/psbt_wrapper.rs\<close> and \<open>bitcoin_utils/transaction.rs\<close>: building the PSBT of
  a withdrawal from out points and outputs, replacing its outputs for RBF, the input witnesses, the
  storage keys of its inputs, signing and extraction.  The serialisations and hashes of the bitcoin
  crate are parameters; \<open>psbt_crate_ok\<close> states what its documentation promises of them.
\<close>

definition ENABLE_RBF_NO_LOCKTIME :: u32 where "ENABLE_RBF_NO_LOCKTIME = 0xFFFFFFFD"

definition default_tx_in :: "out_point \<Rightarrow> tx_in" where
  "default_tx_in p = \<lparr>previous_output = p, in_sequence = ENABLE_RBF_NO_LOCKTIME, script_sig = [], in_witness = []\<rparr>"

definition psbt_new :: "crates \<Rightarrow> out_point list \<Rightarrow> tx_out list \<Rightarrow> psbt res" where
  "psbt_new X input output =
     require (input \<noteq> []) ''empty input'' (
     require (output \<noteq> []) ''empty output'' (
     expect (psbt_from_unsigned_tx X \<lparr>tx_version = 2, tx_lock_time = 0,
        tx_input = map default_tx_in input, tx_output = output\<rparr>) ''Failed to generate PSBT'' Inr))"

fun copy_witness_utxos :: "psbt_input list \<Rightarrow> usize \<Rightarrow> psbt \<Rightarrow> psbt res" where
  "copy_witness_utxos [] i p = Inr p"
| "copy_witness_utxos (v # vs) i p =
     index_at (psbt_inputs p) i (\<lambda>inp.
       copy_witness_utxos vs (Suc i)
         (p\<lparr>psbt_inputs := (psbt_inputs p)[i := inp\<lparr>witness_utxo := witness_utxo v\<rparr>]\<rparr>))"

definition from_original_psbt :: "crates \<Rightarrow> psbt \<Rightarrow> tx_out list \<Rightarrow> psbt res" where
  "from_original_psbt X original output =
     expect (psbt_from_unsigned_tx X \<lparr>tx_version = 2, tx_lock_time = 0,
        tx_input = map (\<lambda>i. default_tx_in (previous_output i)) (tx_input (unsigned_tx original)),
        tx_output = output\<rparr>) ''Failed to generate PSBT'' (\<lambda>p.
     copy_witness_utxos (psbt_inputs original) 0 p)"

fun set_input_utxo_from :: "tx_out list \<Rightarrow> usize \<Rightarrow> psbt \<Rightarrow> psbt res" where
  "set_input_utxo_from [] i p = Inr p"
| "set_input_utxo_from (v # vs) i p =
     index_at (psbt_inputs p) i (\<lambda>inp.
       set_input_utxo_from vs (Suc i)
         (p\<lparr>psbt_inputs := (psbt_inputs p)[i := inp\<lparr>witness_utxo := Some v\<rparr>]\<rparr>))"

definition set_input_utxo :: "psbt \<Rightarrow> tx_out list \<Rightarrow> psbt res" where
  "set_input_utxo p input_utxo = set_input_utxo_from input_utxo 0 p"

definition get_output :: "psbt \<Rightarrow> tx_out list" where
  "get_output p = tx_output (unsigned_tx p)"

definition get_input_num :: "psbt \<Rightarrow> usize" where
  "get_input_num p = length (tx_input (unsigned_tx p))"

definition get_output_num :: "psbt \<Rightarrow> usize" where
  "get_output_num p = length (tx_output (unsigned_tx p))"

definition get_utxo_storage_keys :: "psbt \<Rightarrow> string list" where
  "get_utxo_storage_keys p =
     map (\<lambda>i. generate_utxo_storage_key (op_txid (previous_output i)) (op_vout (previous_output i)))
       (tx_input (unsigned_tx p))"

definition add_extra_outputs :: "psbt \<Rightarrow> u128 list \<Rightarrow> u128 list \<times> u128" where
  "add_extra_outputs p actual_received_amounts = (actual_received_amounts, 0)"

definition psbt_serialize :: "crates \<Rightarrow> psbt \<Rightarrow> string" where
  "psbt_serialize X p = psbt_serialize_hex X p"

definition psbt_deserialize_hex :: "crates \<Rightarrow> string \<Rightarrow> psbt res" where
  "psbt_deserialize_hex X h =
     expect (hex_decode X h) ''ERR_INVALID_PSBT_HEX: failed to decode hex'' (\<lambda>bs.
     expect (psbt_deserialize X bs) ''ERR_INVALID_PSBT: failed to parse PSBT'' Inr)"

definition extract_tx_bytes_with_sign :: "crates \<Rightarrow> psbt \<Rightarrow> bytes res" where
  "extract_tx_bytes_with_sign X p =
     expect (extract_tx X p) ''extract_tx failed'' (\<lambda>t. Inr (tx_consensus_encode X t))"

definition get_expiry_height :: "psbt \<Rightarrow> u32 option" where
  "get_expiry_height p = None"

definition get_pending_id :: "crates \<Rightarrow> psbt \<Rightarrow> string res" where
  "get_pending_id X p =
     expect (extract_tx X p) ''ERR_EXTRACT_TX: failed to extract transaction from PSBT''
       (\<lambda>t. Inr (compute_txid X t))"

definition get_hash_to_sign :: "crates \<Rightarrow> psbt \<Rightarrow> usize \<Rightarrow> bytes res" where
  "get_hash_to_sign X p vin =
     index_at (psbt_inputs p) vin (\<lambda>inp.
     expect (witness_utxo inp) ''ERR_MISSING_WITNESS_UTXO: input missing witness UTXO data'' (\<lambda>w.
     expect (p2wpkh_sighash X (unsigned_tx p) vin w) ''ERR_SIGHASH: failed to compute signature hash'' Inr))"

text \<open>\<open>SignatureResponse::to_btc_signature\<close> (chain_signature.rs): the slice \<open>[2..]\<close> panics on
  a string shorter than two bytes.\<close>

definition to_btc_signature :: "crates \<Rightarrow> signature_response \<Rightarrow> bytes res" where
  "to_btc_signature X s =
     (if length (big_r s) < 2 then Inl OutOfBounds else
      expect (hex_decode X (drop 2 (big_r s))) ''Invalid r hex'' (\<lambda>r.
      expect (hex_decode X (sig_s s)) ''Invalid s hex'' (\<lambda>sb.
      expect (ecdsa_from_compact X (r @ sb)) ''Invalid signature'' Inr)))"

definition save_signature :: "crates \<Rightarrow> psbt \<Rightarrow> usize \<Rightarrow> signature_response \<Rightarrow> bytes \<Rightarrow> psbt res" where
  "save_signature X p sign_index sg public_key =
     bindR (to_btc_signature X sg) (\<lambda>btc_sig.
     index_at (psbt_inputs p) sign_index (\<lambda>inp.
       Inr (p\<lparr>psbt_inputs := (psbt_inputs p)[sign_index :=
         inp\<lparr>final_script_witness := Some (p2wpkh_witness X btc_sig public_key)\<rparr>]\<rparr>)))"

definition get_recipient_address :: "psbt \<Rightarrow> string option" where
  "get_recipient_address p = None"

section \<open>\<open>transaction.rs\<close>\<close>

definition tx_decode :: "crates \<Rightarrow> bytes \<Rightarrow> chain \<Rightarrow> btc_tx option" where
  "tx_decode X bs chain = tx_consensus_decode X bs"

definition tx_encode :: "crates \<Rightarrow> btc_tx \<Rightarrow> bytes" where
  "tx_encode X t = tx_consensus_encode X t"

definition get_psbt :: "crates \<Rightarrow> pending_info \<Rightarrow> psbt res" where
  "get_psbt X p = psbt_deserialize_hex X (psbt_hex p)"

definition get_transaction :: "crates \<Rightarrow> chain \<Rightarrow> pending_info \<Rightarrow> btc_tx res" where
  "get_transaction X c p =
     expect (tx_bytes_with_sign p) ''Missing tx_bytes_with_sign'' (\<lambda>bs.
     expect (tx_decode X bs c) ''Deserialization tx_bytes failed'' Inr)"

section \<open>Facts\<close>

text \<open>
  The documented behaviour of \<open>Psbt::from_unsigned_tx\<close> (an unsigned transaction gives a PSBT with
  empty inputs) and of extraction: the extracted transaction has
  the inputs and outputs of the unsigned one, and a transaction id does not depend on witnesses.
\<close>

definition unsigned :: "btc_tx \<Rightarrow> bool" where
  "unsigned t \<longleftrightarrow> (\<forall>i\<in>set (tx_input t). script_sig i = [] \<and> in_witness i = [])"

definition empty_psbt_input :: psbt_input where
  "empty_psbt_input = \<lparr>witness_utxo = None, final_script_witness = None\<rparr>"

definition psbt_crate_ok :: "crates \<Rightarrow> bool" where
  "psbt_crate_ok X \<longleftrightarrow>
     (\<forall>t. unsigned t \<longrightarrow> psbt_from_unsigned_tx X t =
        Some \<lparr>unsigned_tx = t, psbt_inputs = replicate (length (tx_input t)) empty_psbt_input\<rparr>) \<and>
     (\<forall>p t. extract_tx X p = Some t \<longrightarrow>
        tx_output t = tx_output (unsigned_tx p) \<and>
        map previous_output (tx_input t) = map previous_output (tx_input (unsigned_tx p)) \<and>
        compute_txid X t = compute_txid X (unsigned_tx p))"

text \<open>The hex form of a PSBT reads back.\<close>

definition psbt_rereads :: "crates \<Rightarrow> psbt \<Rightarrow> bool" where
  "psbt_rereads X p \<longleftrightarrow>
     (case hex_decode X (psbt_serialize_hex X p) of
        Some bs \<Rightarrow> psbt_deserialize X bs = Some p | None \<Rightarrow> False)"

lemma psbt_roundtrip: "psbt_rereads X p \<Longrightarrow> psbt_deserialize_hex X (psbt_serialize X p) = Inr p"
  by (auto simp: psbt_rereads_def psbt_deserialize_hex_def psbt_serialize_def split: option.splits)

lemma default_tx_in_prev [simp]: "previous_output (default_tx_in p) = p"
  by (simp add: default_tx_in_def)

lemma set_input_utxo_from_tx:
  "set_input_utxo_from vs i p = Inr q \<Longrightarrow>
   unsigned_tx q = unsigned_tx p \<and> length (psbt_inputs q) = length (psbt_inputs p)"
  by (induction vs i p rule: set_input_utxo_from.induct) (auto simp: res_Inr)

lemma set_input_utxo_tx:
  "set_input_utxo p vs = Inr q \<Longrightarrow> unsigned_tx q = unsigned_tx p"
  by (simp add: set_input_utxo_def set_input_utxo_from_tx)

lemma copy_witness_utxos_tx:
  "copy_witness_utxos vs i p = Inr q \<Longrightarrow> unsigned_tx q = unsigned_tx p"
  by (induction vs i p rule: copy_witness_utxos.induct) (auto simp: res_Inr)

lemma psbt_new_tx:
  assumes "psbt_crate_ok X" "psbt_new X input output = Inr p"
  shows "map previous_output (tx_input (unsigned_tx p)) = input \<and> get_output p = output"
proof -
  have "unsigned \<lparr>tx_version = 2, tx_lock_time = 0, tx_input = map default_tx_in input, tx_output = output\<rparr>"
    by (auto simp: unsigned_def default_tx_in_def)
  with assms show ?thesis
    by (auto simp: psbt_new_def res_Inr psbt_crate_ok_def get_output_def o_def)
qed

lemma from_original_psbt_tx:
  assumes "psbt_crate_ok X" "from_original_psbt X orig output = Inr p"
  shows "map previous_output (tx_input (unsigned_tx p)) = map previous_output (tx_input (unsigned_tx orig))
    \<and> get_output p = output"
proof -
  let ?t = "\<lparr>tx_version = 2, tx_lock_time = 0,
    tx_input = map (\<lambda>i. default_tx_in (previous_output i)) (tx_input (unsigned_tx orig)), tx_output = output\<rparr>"
  have "unsigned ?t" by (auto simp: unsigned_def default_tx_in_def)
  with assms show ?thesis
    by (auto simp: from_original_psbt_def res_Inr psbt_crate_ok_def get_output_def o_def
        dest!: copy_witness_utxos_tx)
qed

lemma get_utxo_storage_keys_prev:
  "get_utxo_storage_keys p = map out_point_to_utxo_storage_key (map previous_output (tx_input (unsigned_tx p)))"
  by (simp add: get_utxo_storage_keys_def out_point_to_utxo_storage_key_def)

text \<open>Replacing a transaction by RBF changes only its outputs: the replacement spends exactly
  the outputs the original spends, in the same order, so it conflicts with the original.\<close>

theorem rbf_spends_same_inputs:
  assumes "psbt_crate_ok X" "from_original_psbt X orig output = Inr p"
  shows "get_utxo_storage_keys p = get_utxo_storage_keys orig \<and> get_output p = output \<and>
    get_input_num p = get_input_num orig"
proof -
  note t = from_original_psbt_tx[OF assms]
  then have "get_input_num p = get_input_num orig"
    unfolding get_input_num_def by (metis length_map)
  with t show ?thesis by (simp only: get_utxo_storage_keys_prev)
qed


section \<open>A concrete instance of the parameters\<close>

text \<open>Only the parameters that the model's theorems constrain carry meaning here: extraction returns
  the unsigned transaction, \<open>compute_txid\<close> and the PSBT encoding are given as arguments.\<close>

definition sample_ext :: "(btc_tx \<Rightarrow> string) \<Rightarrow> psbt \<Rightarrow> crates" where
  "sample_ext txid p = addr_crates.extend sample_crates (crates.fields
     (\<lambda>s. Some [])
     (\<lambda>s. s)
     (\<lambda>s. Some s)
     (\<lambda>t. if unsigned t then Some \<lparr>unsigned_tx = t, psbt_inputs = replicate (length (tx_input t)) empty_psbt_input\<rparr> else None)
     (\<lambda>q. ''00'')
     (\<lambda>bs. Some p)
     (\<lambda>q. Some (unsigned_tx q))
     txid
     (\<lambda>t. [])
     (\<lambda>bs. Some (unsigned_tx p))
     (\<lambda>t i w. Some [])
     (\<lambda>bs. Some bs)
     (\<lambda>sg pk. [sg, pk])
     (\<lambda>s. map (\<lambda>c. word_of_nat (of_char c)) s)
     (\<lambda>bs. Some bs)
     (\<lambda>root eps. root @ eps)
     (\<lambda>pk. Some pk)
     (\<lambda>s. Some (JString s))
     (\<lambda>j. [])
     (\<lambda>s. if s = ''true'' then Some True else if s = ''false'' then Some False else None)
     (\<lambda>s. parse_u128 s)
     (\<lambda>s. Some (Some \<lparr>tx_block_height = 100, mainchain_tip_height = 200\<rparr>))
     (\<lambda>s. Some \<lparr>big_r = ''02aa'', sig_s = ''bb'', recovery_id = 0\<rparr>)
     (\<lambda>s. Some [1])
     (\<lambda>s. if s = ''fee'' then Some MsgDepositProtocolFee
        else Some (MsgWithdraw (CHR 0x00 # replicate 20 (CHR ''u''))
          (map previous_output (tx_input (unsigned_tx p))) (tx_output (unsigned_tx p)) None))
     (\<lambda>d. dm_recipient_id d)
     (\<lambda>s. Some \<lparr>dm_recipient_id = s, dm_post_actions = None, dm_extra_msg = None,
        dm_safe_deposit = None, dm_refund_address = None\<rparr>))"

lemma sample_ext_simps [simp]:
  "psbt_from_unsigned_tx (sample_ext txid p) t = (if unsigned t then Some \<lparr>unsigned_tx = t,
      psbt_inputs = replicate (length (tx_input t)) empty_psbt_input\<rparr> else None)"
  "psbt_serialize_hex (sample_ext txid p) q = ''00''"
  "hex_decode (sample_ext txid p) s = Some []"
  "psbt_deserialize (sample_ext txid p) bs = Some p"
  "extract_tx (sample_ext txid p) q = Some (unsigned_tx q)"
  "compute_txid (sample_ext txid p) t = txid t"
  "tx_consensus_decode (sample_ext txid p) bs = Some (unsigned_tx p)"
  "json_bool (sample_ext txid p) ''true'' = Some True"
  "scalar_from_repr (sample_ext txid p) bs = Some bs"
  "derive_key (sample_ext txid p) root eps = root @ eps"
  "json_token_message (sample_ext txid p) msg = (if msg = ''fee'' then Some MsgDepositProtocolFee
        else Some (MsgWithdraw (CHR 0x00 # replicate 20 (CHR ''u''))
          (map previous_output (tx_input (unsigned_tx p))) (tx_output (unsigned_tx p)) None))"
  "sha3_256 (sample_ext txid p) str = map (\<lambda>c. word_of_nat (of_char c)) str"
  "compress_public_key (sample_ext txid p) pk = Some pk"
  by (simp_all add: sample_ext_def addr_crates.defs crates.defs)

lemma sample_ext_ok: "psbt_crate_ok (sample_ext txid p)" "psbt_rereads (sample_ext txid p) p"
  by (simp_all add: psbt_crate_ok_def psbt_rereads_def)

definition sample_tx :: "out_point list \<Rightarrow> tx_out list \<Rightarrow> btc_tx" where
  "sample_tx ins outs = \<lparr>tx_version = 2, tx_lock_time = 0, tx_input = map default_tx_in ins, tx_output = outs\<rparr>"

definition sample_psbt :: "out_point list \<Rightarrow> tx_out list \<Rightarrow> psbt" where
  "sample_psbt ins outs = \<lparr>unsigned_tx = sample_tx ins outs, psbt_inputs = replicate (length ins) empty_psbt_input\<rparr>"

lemma rbf_spends_same_inputs_witness:
  "let orig = sample_psbt [\<lparr>op_txid = ''ab'', op_vout = 1\<rparr>] [\<lparr>txo_value = 50, txo_script = [1]\<rparr>];
       out = [\<lparr>txo_value = 40, txo_script = [1]\<rparr>] in
   \<exists>p. from_original_psbt (sample_ext (\<lambda>t. ''cd'') orig) orig out = Inr p \<and>
     get_utxo_storage_keys p = get_utxo_storage_keys orig \<and> get_output p = out \<and>
     get_input_num p = get_input_num orig"
proof -
  define orig where "orig = sample_psbt [\<lparr>op_txid = ''ab'', op_vout = 1\<rparr>] [\<lparr>txo_value = 50, txo_script = [1]\<rparr>]"
  define out where "out = [\<lparr>txo_value = 40, txo_script = [1 :: 8 word]\<rparr>]"
  have "is_ok (from_original_psbt (sample_ext (\<lambda>t. ''cd'') orig) orig out)"
    by (simp add: from_original_psbt_def orig_def sample_psbt_def sample_tx_def unsigned_def
        default_tx_in_def index_at_def)
  then obtain p where p: "from_original_psbt (sample_ext (\<lambda>t. ''cd'') orig) orig out = Inr p" by blast
  from rbf_spends_same_inputs[OF sample_ext_ok(1) p] p
  show ?thesis by (simp add: Let_def orig_def out_def)
qed

end
