(* ===== verification/Light_Client.thy ===== *)
theory Light_Client
  imports Psbt
begin

text \<open>
  \<open>btc_light_client/mod.rs\<close>: the arguments of the light client's methods.  A hash travels as hex
  in display order and is sent reversed.  The answers are in \<open>Bridge_Types\<close>; the light client
  itself is another contract.
\<close>

type_synonym h256 = bytes

definition h256_from_str :: "crates \<Rightarrow> string \<Rightarrow> h256 option" where
  "h256_from_str X s = (case hex_decode X s of
     Some bs \<Rightarrow> if length bs = 32 then Some (rev bs) else None | None \<Rightarrow> None)"

definition h256_to_str :: "(bytes \<Rightarrow> string) \<Rightarrow> h256 \<Rightarrow> string" where
  "h256_to_str hex_encode h = hex_encode (rev h)"

record proof_args =
  pa1_tx_id :: h256
  pa1_tx_block_blockhash :: h256
  pa1_tx_index :: u64
  pa1_merkle_proof :: "h256 list"
  pa1_confirmations :: u64

record proof_args_v2 =
  pa2_tx_id :: h256
  pa2_tx_block_blockhash :: h256
  pa2_tx_index :: u64
  pa2_merkle_proof :: "h256 list"
  pa2_coinbase_tx_id :: h256
  pa2_coinbase_merkle_proof :: "h256 list"
  pa2_confirmations :: u64

record lc_inclusion_proof =
  lip_tx_id :: h256
  lip_tx_block_blockhash :: h256
  lip_tx_index :: u64
  lip_merkle_proof :: "h256 list"
  lip_coinbase_tx_id :: h256
  lip_coinbase_merkle_proof :: "h256 list"

definition parse_hashes :: "crates \<Rightarrow> string \<Rightarrow> string list \<Rightarrow> h256 list res" where
  "parse_hashes X msg hs = map_res (\<lambda>v. expect (h256_from_str X v) msg Inr) hs"

definition proof_args_new ::
    "crates \<Rightarrow> string \<Rightarrow> string \<Rightarrow> u64 \<Rightarrow> string list \<Rightarrow> u64 \<Rightarrow> proof_args res" where
  "proof_args_new X tx_id blockhash tx_index merkle_proof confirmations =
     expect (h256_from_str X tx_id) ''Invalid tx_id'' (\<lambda>t.
     expect (h256_from_str X blockhash) ''Invalid tx_block_blockhash'' (\<lambda>b.
     bindR (parse_hashes X ''Invalid merkle_proof'' merkle_proof) (\<lambda>m.
     Inr \<lparr>pa1_tx_id = t, pa1_tx_block_blockhash = b, pa1_tx_index = tx_index,
       pa1_merkle_proof = m, pa1_confirmations = confirmations\<rparr>)))"

definition proof_args_v2_new ::
    "crates \<Rightarrow> string \<Rightarrow> string \<Rightarrow> u64 \<Rightarrow> string list \<Rightarrow> string \<Rightarrow> string list \<Rightarrow> u64 \<Rightarrow> proof_args_v2 res" where
  "proof_args_v2_new X tx_id blockhash tx_index merkle_proof coinbase_tx_id coinbase_proof confirmations =
     expect (h256_from_str X tx_id) ''Invalid tx_id'' (\<lambda>t.
     expect (h256_from_str X blockhash) ''Invalid tx_block_blockhash'' (\<lambda>b.
     bindR (parse_hashes X ''Invalid merkle_proof'' merkle_proof) (\<lambda>m.
     expect (h256_from_str X coinbase_tx_id) ''Invalid coinbase_tx_id'' (\<lambda>ct.
     bindR (parse_hashes X ''Invalid coinbase_merkle_proof'' coinbase_proof) (\<lambda>cm.
     Inr \<lparr>pa2_tx_id = t, pa2_tx_block_blockhash = b, pa2_tx_index = tx_index, pa2_merkle_proof = m,
       pa2_coinbase_tx_id = ct, pa2_coinbase_merkle_proof = cm, pa2_confirmations = confirmations\<rparr>)))))"

definition tx_inclusion_proof_new ::
    "crates \<Rightarrow> string \<Rightarrow> string \<Rightarrow> u64 \<Rightarrow> string list \<Rightarrow> string \<Rightarrow> string list \<Rightarrow> lc_inclusion_proof res" where
  "tx_inclusion_proof_new X tx_id blockhash tx_index merkle_proof coinbase_tx_id coinbase_proof =
     expect (h256_from_str X tx_id) ''Invalid tx_id'' (\<lambda>t.
     expect (h256_from_str X blockhash) ''Invalid tx_block_blockhash'' (\<lambda>b.
     bindR (parse_hashes X ''Invalid merkle_proof'' merkle_proof) (\<lambda>m.
     expect (h256_from_str X coinbase_tx_id) ''Invalid coinbase_tx_id'' (\<lambda>ct.
     bindR (parse_hashes X ''Invalid coinbase_merkle_proof'' coinbase_proof) (\<lambda>cm.
     Inr \<lparr>lip_tx_id = t, lip_tx_block_blockhash = b, lip_tx_index = tx_index, lip_merkle_proof = m,
       lip_coinbase_tx_id = ct, lip_coinbase_merkle_proof = cm\<rparr>)))))"

record sign_request =
  sr_payload :: bytes
  sr_path :: string
  sr_key_version :: u32

text \<open>The calls the bridge makes to other contracts, with their arguments.\<close>

datatype remote_call =
    LcVerifyInclusion proof_args
  | LcVerifyInclusionV2 proof_args_v2
  | LcVerifyInclusionWithHeights lc_inclusion_proof
  | LcGetLastBlockHeight
  | MpcSign sign_request u128             \<comment> \<open>with the attached deposit\<close>
  | MpcPublicKey
  | NbtcMint account_id u128 u128 account_id u128 "post_action list option"
  | NbtcBurn account_id u128 account_id u128
  | NbtcSafeMint account_id u128 "string option"
  | FtTransfer account_id u128
  | NearTransfer u128

definition verify_transaction_inclusion_call ::
    "crates \<Rightarrow> string \<Rightarrow> string \<Rightarrow> u64 \<Rightarrow> string list \<Rightarrow> (string \<times> string list) option \<Rightarrow> u64 \<Rightarrow> remote_call res" where
  "verify_transaction_inclusion_call X tx_id blockhash tx_index merkle_proof coinbase_proof confirmations =
     (case coinbase_proof of
        Some (coinbase_tx_id, coinbase_merkle) \<Rightarrow>
          bindR (proof_args_v2_new X tx_id blockhash tx_index merkle_proof coinbase_tx_id coinbase_merkle
            confirmations) (\<lambda>a. Inr (LcVerifyInclusionV2 a))
      | None \<Rightarrow>
          bindR (proof_args_new X tx_id blockhash tx_index merkle_proof confirmations)
            (\<lambda>a. Inr (LcVerifyInclusion a)))"

definition verify_transaction_inclusion_with_heights_call ::
    "crates \<Rightarrow> string \<Rightarrow> string \<Rightarrow> u64 \<Rightarrow> string list \<Rightarrow> string \<times> string list \<Rightarrow> remote_call res" where
  "verify_transaction_inclusion_with_heights_call X tx_id blockhash tx_index merkle_proof coinbase_proof =
     (let (coinbase_tx_id, coinbase_merkle) = coinbase_proof in
      bindR (tx_inclusion_proof_new X tx_id blockhash tx_index merkle_proof coinbase_tx_id coinbase_merkle)
        (\<lambda>a. Inr (LcVerifyInclusionWithHeights a)))"

end
