(* ===== verification/Bridge_State.thy ===== *)
theory Bridge_State
  imports Light_Client
begin

text \<open>
  The state of the bridge contract (\<open>lib.rs\<close>) with its accounts (\<open>account.rs\<close>), UTXO maps
  (\<open>utxo.rs\<close>), pending transactions (the map side of \<open>btc_pending_info.rs\<close>) and key
  derivation (\<open>kdf.rs\<close>).

  An \<open>IterableMap\<close> is a partial map, its \<open>len()\<close> the cardinality of its domain; a set is a
  set.  The configuration is held directly: the \<open>LazyOption\<close> around it is filled by \<open>new\<close> and
  never emptied.  The state of the access-control and pause plugins is part of the record (roles,
  super admins, paused features).  \<open>effects\<close> is what the running call has emitted and scheduled,
  in order: events, and calls to other contracts with the callback chained to them.
\<close>

section \<open>Events and effects\<close>

datatype bridge_event =
    EvDepositProtocolFee account_id u128
  | EvVerifyDepositDetails account_id u128 u128 account_id u128 bool
  | EvVerifyWithdrawDetails account_id u128 u128 account_id u128 u128 bool
  | EvVerifyActiveUtxoManagementDetails account_id u128 bool
  | EvGenerateBtcPendingInfo account_id string "u32 option"
  | EvBtcInputSignature account_id string usize signature_response
  | EvSignedBtcTransaction account_id string bytes
  | EvWithdrawBtcDetail u128 u128 u128 u128
  | EvWithdrawBridgeProtocolFee u128 bool
  | EvLogDepositAddress deposit_msg string string
  | EvTransferNbtc account_id u128 bool
  | EvLostFoundNbtc account_id u128
  | EvUtxoAdded "string list" "u128 list option"
  | EvUtxoRemoved "string list"
  | EvInvalidPostAction "usize option" string
  | EvRefundRequested deposit_msg string u128 string u128
  | EvRefundRejected string
  | EvRefundExecuted string u128 string

datatype callback =
    CbSyncRootPublicKey
  | CbSignBtcTransaction account_id string usize
  | CbVerifyWithdraw string
  | CbVerifyActiveUtxoManagement string
  | CbVerifyWithdrawBurn string u128 u128
  | CbVerifyActiveUtxoManagementBurn string
  | CbVerifyDeposit account_id u128 u128 u128 pending_utxo_info "post_action list option" u64
  | CbVerifySafeDeposit account_id u128 string pending_utxo_info u64
  | CbMint account_id u128 u128 u128 pending_utxo_info "u64 option"
  | CbSafeMint account_id u128 pending_utxo_info "u64 option"
  | CbRequestRefund deposit_msg string string tx_out usize "u128 option"
  | CbVerifyRefundFinalize string
  | CbWithdrawProtocolFee u128
  | CbTransferNbtc account_id u128

datatype effect =
    Emitted bridge_event
  | Scheduled account_id remote_call "callback option"

section \<open>Accounts and refund requests as stored\<close>

record account =
  ac_account_id :: account_id
  btc_pending_sign_ids :: "string set"
  btc_pending_verify_list :: "string set"

record account_v0 =
  av0_account_id :: account_id
  av0_btc_pending_sign_id :: "string option"
  av0_btc_pending_verify_list :: "string set"

datatype vaccount = VAccount_V0 account_v0 | VAccount_Current account

definition account_from_v0 :: "account_v0 \<Rightarrow> account" where
  "account_from_v0 v = \<lparr>ac_account_id = av0_account_id v,
     btc_pending_sign_ids = (case av0_btc_pending_sign_id v of Some i \<Rightarrow> {i} | None \<Rightarrow> {}),
     btc_pending_verify_list = av0_btc_pending_verify_list v\<rparr>"

definition of_vaccount :: "vaccount \<Rightarrow> account" where
  "of_vaccount v = (case v of VAccount_V0 c \<Rightarrow> account_from_v0 c | VAccount_Current c \<Rightarrow> c)"

definition account_new :: "account_id \<Rightarrow> account" where
  "account_new a = \<lparr>ac_account_id = a, btc_pending_sign_ids = {}, btc_pending_verify_list = {}\<rparr>"

definition pending_sign_count :: "account \<Rightarrow> u32" where
  "pending_sign_count a = min (card (btc_pending_sign_ids a)) U32_MAX"

record refund_request =
  deposit_msg_json :: string
  rr_utxo_storage_key :: string
  rr_tx_bytes :: bytes
  rr_vout :: usize
  rr_amount :: u128
  rr_refund_address :: string
  rr_gas_fee :: u128
  created_at_sec :: u32
  executed :: bool

record refund_request_v0 =
  v0_deposit_msg_json :: string
  v0_utxo_storage_key :: string
  v0_tx_bytes :: bytes
  v0_vout :: usize
  v0_amount :: u128
  v0_refund_address :: string
  v0_gas_fee :: u128
  v0_created_at_sec :: u32

datatype vrefund_request = VRefund_V0 refund_request_v0 | VRefund_Current refund_request

definition refund_from_v0 :: "refund_request_v0 \<Rightarrow> refund_request" where
  "refund_from_v0 v = \<lparr>deposit_msg_json = v0_deposit_msg_json v,
     rr_utxo_storage_key = v0_utxo_storage_key v, rr_tx_bytes = v0_tx_bytes v, rr_vout = v0_vout v,
     rr_amount = v0_amount v, rr_refund_address = v0_refund_address v, rr_gas_fee = v0_gas_fee v,
     created_at_sec = v0_created_at_sec v, executed = False\<rparr>"

definition of_vrefund :: "vrefund_request \<Rightarrow> refund_request" where
  "of_vrefund v = (case v of VRefund_V0 c \<Rightarrow> refund_from_v0 c | VRefund_Current c \<Rightarrow> c)"

section \<open>The contract\<close>

datatype role = DAO | Operator | PauseManager | UpgradableCodeStager | UpgradableCodeDeployer
  | UnrestrictedRelayer | RelayerManager | RefundOperator | UnpauseManager | MigrationOperator
  | TrustedWithdrawSender

record contract =
  cfg :: config
  accounts :: "account_id \<rightharpoonup> vaccount"
  utxos :: "string \<rightharpoonup> vutxo"
  utxos_in_progress :: "string \<rightharpoonup> utxo_status"
  unavailable_utxos :: "string \<rightharpoonup> vutxo"
  verified_deposit_utxo :: "string set"
  btc_pending_infos :: "string \<rightharpoonup> vpending_info"
  rbf_txs :: "string \<rightharpoonup> string set"
  relayer_white_list :: "account_id set"
  extra_msg_relayer_white_list :: "account_id set"
  post_action_receiver_id_white_list :: "account_id set"
  post_action_msg_templates :: "account_id \<rightharpoonup> string set"
  pending_tx_limits :: "account_id \<rightharpoonup> u32"
  lost_found :: "account_id \<rightharpoonup> u128"
  acc_collected_protocol_fee :: u128
  cur_available_protocol_fee :: u128
  acc_claimed_protocol_fee :: u128
  cur_reserved_protocol_fee :: u128
  acc_protocol_fee_for_gas :: u128
  refund_requests :: "string \<rightharpoonup> vrefund_request"
  block_bridge_amounts :: block_ring
  role_members :: "(role \<times> account_id) set"
  role_admins :: "(role \<times> account_id) set"
  super_admins :: "account_id set"
  paused :: "string set"
  effects :: "effect list"

definition emit :: "bridge_event \<Rightarrow> contract \<Rightarrow> contract" where
  "emit ev s = s\<lparr>effects := effects s @ [Emitted ev]\<rparr>"

definition schedule :: "account_id \<Rightarrow> remote_call \<Rightarrow> callback option \<Rightarrow> contract \<Rightarrow> contract" where
  "schedule target c cb s = s\<lparr>effects := effects s @ [Scheduled target c cb]\<rparr>"

definition acl_has_role :: "contract \<Rightarrow> role \<Rightarrow> account_id \<Rightarrow> bool" where
  "acl_has_role s r a \<longleftrightarrow> (r, a) \<in> role_members s"

definition pa_is_paused :: "contract \<Rightarrow> string \<Rightarrow> bool" where
  "pa_is_paused s feature \<longleftrightarrow> feature \<in> paused s \<or> ''ALL'' \<in> paused s"

text \<open>The attribute \<open>#[pause(except(roles(Role::DAO)))]\<close> on a method, and
  \<open>#[access_control_any(roles(...))]\<close>.\<close>

definition unless_paused :: "ctx \<Rightarrow> contract \<Rightarrow> string \<Rightarrow> 'a res \<Rightarrow> 'a res" where
  "unless_paused e s feature k =
     require (\<not> pa_is_paused s feature \<or> acl_has_role s DAO (predecessor e)) ''Pausable: Method is paused'' k"

definition access_control_any :: "ctx \<Rightarrow> contract \<Rightarrow> role list \<Rightarrow> 'a res \<Rightarrow> 'a res" where
  "access_control_any e s rs k =
     require (\<exists>r\<in>set rs. acl_has_role s r (predecessor e)) ''Insufficient permissions for method'' k"

definition trusted_relayer :: "ctx \<Rightarrow> 'a res \<Rightarrow> 'a res" where
  "trusted_relayer e k = require (is_trusted_relayer e (predecessor e)) ''Relayer is not active'' k"

definition charge_attached_deposit :: "ctx \<Rightarrow> u128 \<Rightarrow> contract \<Rightarrow> contract res" where
  "charge_attached_deposit e required s =
     require (attached_deposit e \<ge> required) ''Insufficient deposit for storage''
       (let surplus = attached_deposit e - required in
        Inr (if surplus \<noteq> 0 then schedule (predecessor e) (NearTransfer surplus) None s else s))"

section \<open>Accounts\<close>

definition get_max_pending_sign_txs :: "contract \<Rightarrow> account_id \<Rightarrow> u32" where
  "get_max_pending_sign_txs s a = (case pending_tx_limits s a of Some n \<Rightarrow> n | None \<Rightarrow> 1)"

definition get_account :: "contract \<Rightarrow> account_id \<Rightarrow> account option" where
  "get_account s a = map_option of_vaccount (accounts s a)"

definition require_pending_sign_capacity :: "contract \<Rightarrow> account_id \<Rightarrow> 'a res \<Rightarrow> 'a res" where
  "require_pending_sign_capacity s a k =
     expect (get_account s a) ''ERR_ACCOUNT_NOT_REGISTERED'' (\<lambda>acc.
     require (pending_sign_count acc < get_max_pending_sign_txs s a) ''Too many pending sign transactions'' k)"

definition check_account_exists :: "contract \<Rightarrow> account_id \<Rightarrow> bool" where
  "check_account_exists s a \<longleftrightarrow> accounts s a \<noteq> None"

definition internal_set_account :: "account_id \<Rightarrow> account \<Rightarrow> contract \<Rightarrow> contract" where
  "internal_set_account a acc s = s\<lparr>accounts := (accounts s)(a \<mapsto> VAccount_Current acc)\<rparr>"

text \<open>A mutable access migrates a \<open>V0\<close> account in place and then lets the caller write it.\<close>

definition internal_unwrap_mut_account ::
    "contract \<Rightarrow> account_id \<Rightarrow> (account \<Rightarrow> contract \<Rightarrow> 'a res) \<Rightarrow> 'a res" where
  "internal_unwrap_mut_account s a k =
     expect (accounts s a) ''ERR_ACCOUNT_NOT_REGISTERED''
       (\<lambda>v. k (of_vaccount v) (internal_set_account a (of_vaccount v) s))"

definition internal_unwrap_or_create_mut_account ::
    "contract \<Rightarrow> account_id \<Rightarrow> (account \<Rightarrow> contract \<Rightarrow> 'a res) \<Rightarrow> 'a res" where
  "internal_unwrap_or_create_mut_account s a k =
     (let acc = (case accounts s a of Some v \<Rightarrow> of_vaccount v | None \<Rightarrow> account_new a)
      in k acc (internal_set_account a acc s))"

definition create_account_if_missing :: "account_id \<Rightarrow> contract \<Rightarrow> contract" where
  \<comment> \<open>\<open>if !check_account_exists(a) { internal_set_account(a, Account::new(a)) }\<close>\<close>
  "create_account_if_missing a s =
     (if check_account_exists s a then s else internal_set_account a (account_new a) s)"

definition add_pending_sign_id :: "account_id \<Rightarrow> string \<Rightarrow> contract \<Rightarrow> contract res" where
  "add_pending_sign_id a tx_id s = internal_unwrap_mut_account s a (\<lambda>acc s.
     Inr (internal_set_account a (acc\<lparr>btc_pending_sign_ids := insert tx_id (btc_pending_sign_ids acc)\<rparr>) s))"

definition remove_pending_verify :: "account_id \<Rightarrow> string \<Rightarrow> contract \<Rightarrow> contract res" where
  "remove_pending_verify a tx_id s = internal_unwrap_mut_account s a (\<lambda>acc s.
     Inr (internal_set_account a (acc\<lparr>btc_pending_verify_list := btc_pending_verify_list acc - {tx_id}\<rparr>) s))"

section \<open>UTXOs\<close>

fun remove_vutxos :: "string list \<Rightarrow> contract \<Rightarrow> (vutxo list \<times> contract) res" where
  "remove_vutxos [] s = Inr ([], s)"
| "remove_vutxos (k # ks) s =
     expect (utxos s k) ''UTXO not exist'' (\<lambda>v.
     bindR (remove_vutxos ks (s\<lparr>utxos := (utxos s)(k := None)\<rparr>)) (\<lambda>(vs, s'). Inr (v # vs, s')))"

definition remove_vutxo_by_psbt :: "psbt \<Rightarrow> contract \<Rightarrow> (string list \<times> vutxo list \<times> contract) res" where
  "remove_vutxo_by_psbt p s =
     bindR (remove_vutxos (get_utxo_storage_keys p) s) (\<lambda>(vs, s'). Inr (get_utxo_storage_keys p, vs, s'))"

definition internal_set_utxo :: "string \<Rightarrow> utxo \<Rightarrow> contract \<Rightarrow> contract" where
  "internal_set_utxo k u s = s\<lparr>utxos := (utxos s)(k \<mapsto> VUTXO_Current u)\<rparr>"

definition internal_set_utxo_in_progress :: "string \<Rightarrow> utxo_status \<Rightarrow> contract \<Rightarrow> contract" where
  "internal_set_utxo_in_progress k st s = s\<lparr>utxos_in_progress := (utxos_in_progress s)(k \<mapsto> st)\<rparr>"

definition internal_remove_utxo_in_progress :: "string \<Rightarrow> contract \<Rightarrow> contract" where
  "internal_remove_utxo_in_progress k s = s\<lparr>utxos_in_progress := (utxos_in_progress s)(k := None)\<rparr>"

section \<open>Pending transactions\<close>

definition check_btc_pending_info_exists :: "contract \<Rightarrow> string \<Rightarrow> bool" where
  "check_btc_pending_info_exists s i \<longleftrightarrow> btc_pending_infos s i \<noteq> None"

definition internal_unwrap_btc_pending_info ::
    "contract \<Rightarrow> string \<Rightarrow> (pending_info \<Rightarrow> 'a res) \<Rightarrow> 'a res" where
  "internal_unwrap_btc_pending_info s i k =
     expect (btc_pending_infos s i) ''BTC pending info not exist'' (\<lambda>v. k (of_vpending v))"

text \<open>Writing through \<open>internal_unwrap_mut_btc_pending_info\<close>.\<close>

definition write_pending :: "string \<Rightarrow> pending_info \<Rightarrow> contract \<Rightarrow> contract" where
  "write_pending i p s = s\<lparr>btc_pending_infos := (btc_pending_infos s)(i \<mapsto> VPending_Current p)\<rparr>"

definition insert_new_pending :: "string \<Rightarrow> pending_info \<Rightarrow> contract \<Rightarrow> contract res" where
  \<comment> \<open>\<open>require!(btc_pending_infos.insert(id, info).is_none(), ..)\<close>\<close>
  "insert_new_pending i p s =
     require (btc_pending_infos s i = None) ''pending info already exist'' (Inr (write_pending i p s))"

definition internal_remove_btc_pending_info ::
    "contract \<Rightarrow> string \<Rightarrow> (pending_info \<Rightarrow> contract \<Rightarrow> 'a res) \<Rightarrow> 'a res" where
  "internal_remove_btc_pending_info s i k =
     expect (btc_pending_infos s i) ''BTC pending info not exist'' (\<lambda>v.
       k (of_vpending v) (s\<lparr>btc_pending_infos := (btc_pending_infos s)(i := None)\<rparr>))"

definition internal_clear_invalid_pending_verify_rbf :: "string \<Rightarrow> contract \<Rightarrow> contract res" where
  "internal_clear_invalid_pending_verify_rbf i s =
     internal_remove_btc_pending_info s i (\<lambda>p s.
     expect (get_original_tx_id p) ''Not rbf transaction'' (\<lambda>orig.
     require (rbf_txs s orig = None) ''Not invalid pending verify rbf'' (
     internal_unwrap_mut_account s (pi_account_id p) (\<lambda>acc s.
       let s' = internal_set_account (pi_account_id p)
                  (acc\<lparr>btc_pending_sign_ids := btc_pending_sign_ids acc - {i}\<rparr>) s in
       if i \<in> btc_pending_sign_ids acc then assert_pending_sign p (Inr s')
       else assert_pending_verify p (Inr s')))))"

section \<open>Protocol fees\<close>

text \<open>The pairs of updates by which the methods move protocol fees between the five counters.\<close>

definition fee_collect :: "u128 \<Rightarrow> contract \<Rightarrow> contract res" where
  "fee_collect a s =
     chk_add U128_MAX (acc_collected_protocol_fee s) a (\<lambda>c.
     chk_add U128_MAX (cur_available_protocol_fee s) a (\<lambda>v.
     Inr (s\<lparr>acc_collected_protocol_fee := c, cur_available_protocol_fee := v\<rparr>)))"

definition fee_reserve :: "u128 \<Rightarrow> contract \<Rightarrow> contract res" where
  "fee_reserve a s =
     chk_sub (cur_available_protocol_fee s) a (\<lambda>v.
     chk_add U128_MAX (cur_reserved_protocol_fee s) a (\<lambda>r.
     Inr (s\<lparr>cur_available_protocol_fee := v, cur_reserved_protocol_fee := r\<rparr>)))"

definition fee_settle :: "u128 \<Rightarrow> u128 \<Rightarrow> contract \<Rightarrow> contract res" where
  \<comment> \<open>a reservation ends: \<open>used\<close> of it paid for gas, the rest is available again\<close>
  "fee_settle reserved used s =
     chk_sub (cur_reserved_protocol_fee s) reserved (\<lambda>r.
     chk_add U128_MAX (acc_protocol_fee_for_gas s) used (\<lambda>g.
     chk_sub reserved used (\<lambda>unused.
     chk_add U128_MAX (cur_available_protocol_fee s) unused (\<lambda>v.
     Inr (s\<lparr>cur_reserved_protocol_fee := r, acc_protocol_fee_for_gas := g,
            cur_available_protocol_fee := v\<rparr>)))))"

definition fee_claim :: "u128 \<Rightarrow> contract \<Rightarrow> contract res" where
  "fee_claim a s =
     chk_sub (cur_available_protocol_fee s) a (\<lambda>v.
     chk_add U128_MAX (acc_claimed_protocol_fee s) a (\<lambda>c.
     Inr (s\<lparr>cur_available_protocol_fee := v, acc_claimed_protocol_fee := c\<rparr>)))"

definition fee_unclaim :: "u128 \<Rightarrow> contract \<Rightarrow> contract res" where
  "fee_unclaim a s =
     chk_add U128_MAX (cur_available_protocol_fee s) a (\<lambda>v.
     chk_sub (acc_claimed_protocol_fee s) a (\<lambda>c.
     Inr (s\<lparr>cur_available_protocol_fee := v, acc_claimed_protocol_fee := c\<rparr>)))"

section \<open>Key derivation\<close>

definition EPSILON_DERIVATION_PREFIX :: string where
  "EPSILON_DERIVATION_PREFIX = ''near-mpc-recovery v0.1.0 epsilon derivation:''"

definition derivation_path :: "account_id \<Rightarrow> string \<Rightarrow> string" where
  "derivation_path a path = EPSILON_DERIVATION_PREFIX @ a @ '','' @ path"

definition derive_epsilon :: "crates \<Rightarrow> account_id \<Rightarrow> string \<Rightarrow> bytes res" where
  "derive_epsilon X a path =
     expect (scalar_from_repr X (sha3_256 X (derivation_path a path)))
       ''Derived epsilon value falls outside of the field'' Inr"

definition generate_public_key :: "crates \<Rightarrow> ctx \<Rightarrow> contract \<Rightarrow> string \<Rightarrow> bytes res" where
  "generate_public_key X e s path =
     expect (chain_signatures_root_public_key (cfg s)) ''Missing chain_signatures_root_public_key'' (\<lambda>root.
     bindR (derive_epsilon X (current_account e) path) (\<lambda>eps. Inr (derive_key X root eps)))"

definition generate_btc_public_key :: "crates \<Rightarrow> ctx \<Rightarrow> contract \<Rightarrow> string \<Rightarrow> bytes res" where
  "generate_btc_public_key X e s path =
     bindR (generate_public_key X e s path) (\<lambda>pk.
     expect (compress_public_key X pk) ''Invalid public key bytes'' Inr)"

definition generate_utxo_chain_address :: "crates \<Rightarrow> ctx \<Rightarrow> contract \<Rightarrow> string \<Rightarrow> address res" where
  "generate_utxo_chain_address X e s path =
     bindR (generate_btc_public_key X e s path) (\<lambda>pk.
     (case from_pubkey X (chain_cfg (cfg s)) pk of
        Inl _ \<Rightarrow> Inl (Panic ''Invalid public key'') | Inr a \<Rightarrow> Inr a))"

text \<open>\<open>generate_utxo_chain_address(path).script_pubkey().expect(..)\<close>.\<close>

definition path_script :: "crates \<Rightarrow> ctx \<Rightarrow> contract \<Rightarrow> string \<Rightarrow> string \<Rightarrow> bytes res" where
  "path_script X e s path msg =
     bindR (generate_utxo_chain_address X e s path) (\<lambda>a.
     (case script_pubkey X a of Inl _ \<Rightarrow> Inl (Panic msg) | Inr sc \<Rightarrow> Inr sc))"

section \<open>Initialisation\<close>

definition contract_new :: "ctx \<Rightarrow> config \<Rightarrow> contract res" where
  "contract_new e config =
     bindR (config_assert_valid config) (\<lambda>_.
     require (chain_signatures_root_public_key config = None)
       ''Init chain_signatures_root_public_key must be None'' (
     require (change_address config = None) ''Init change_address must be None'' (
     bindR (ring_new (capacity_for config)) (\<lambda>ring.
     Inr (internal_set_account (predecessor e) (account_new (predecessor e))
       \<lparr>cfg = config, accounts = Map.empty, utxos = Map.empty, utxos_in_progress = Map.empty,
        unavailable_utxos = Map.empty, verified_deposit_utxo = {}, btc_pending_infos = Map.empty,
        rbf_txs = Map.empty, relayer_white_list = {}, extra_msg_relayer_white_list = {},
        post_action_receiver_id_white_list = {}, post_action_msg_templates = Map.empty,
        pending_tx_limits = Map.empty, lost_found = Map.empty,
        acc_collected_protocol_fee = 0, cur_available_protocol_fee = 0, acc_claimed_protocol_fee = 0,
        cur_reserved_protocol_fee = 0, acc_protocol_fee_for_gas = 0,
        refund_requests = Map.empty, block_bridge_amounts = ring,
        role_members = {(DAO, predecessor e), (PauseManager, predecessor e), (UnpauseManager, predecessor e)},
        role_admins = {},
        super_admins = {predecessor e}, paused = {}, effects = []\<rparr>)))))"

section \<open>A concrete state\<close>

definition sample_ctx :: ctx where
  "sample_ctx = \<lparr>predecessor = ''alice.near'', signer = ''relayer.near'', current_account = ''bridge.near'',
     block_timestamp = 1700000000 * 10 ^ 9, attached_deposit = 1, storage_byte_cost = 10 ^ 19,
     promise_result = Some ''true'', is_trusted_relayer = (\<lambda>a. a = ''relayer.near'')\<rparr>"

definition sample_contract :: contract where
  "sample_contract = \<lparr>cfg = sample_config, accounts = Map.empty, utxos = Map.empty,
     utxos_in_progress = Map.empty, unavailable_utxos = Map.empty, verified_deposit_utxo = {},
     btc_pending_infos = Map.empty, rbf_txs = Map.empty, relayer_white_list = {},
     extra_msg_relayer_white_list = {}, post_action_receiver_id_white_list = {},
     post_action_msg_templates = Map.empty, pending_tx_limits = Map.empty, lost_found = Map.empty,
     acc_collected_protocol_fee = 0, cur_available_protocol_fee = 0, acc_claimed_protocol_fee = 0,
     cur_reserved_protocol_fee = 0, acc_protocol_fee_for_gas = 0, refund_requests = Map.empty,
     block_bridge_amounts = \<lparr>cells = replicate 13 None\<rparr>, role_members = {}, role_admins = {}, super_admins = {},
     paused = {}, effects = []\<rparr>"

text \<open>The script of a sample address and the script of the change address.\<close>

definition p2pkh_script :: "8 word \<Rightarrow> bytes" where
  "p2pkh_script b = [0x76, 0xA9, 0x14] @ replicate 20 b @ [0x88, 0xAC]"

definition sample_address :: "char \<Rightarrow> string" where
  "sample_address c = CHR 0x00 # replicate 20 c"

lemma sample_parse_address:
  "parse_address (sample_ext t p) (sample_address c) BitcoinMainnet =
     Inr (P2pkh (replicate 20 (word_of_nat (of_char c))) BitcoinMainnet)"
  by (simp add: parse_address_def is_zcash_def get_segwit_hrp_def sample_ext_def addr_crates.defs
      crates.defs sample_crates_def parse_base58_def sample_address_def get_pubkey_address_prefix_def
      hash_from_slice_def)

lemma sample_script_pubkey:
  "script_pubkey (sample_ext t p) (P2pkh h c) = Inr ([0x76, 0xA9, 0x14] @ h @ [0x88, 0xAC])"
  by (simp add: script_pubkey_def sample_ext_def addr_crates.defs crates.defs sample_crates_def)

lemma sample_target_script:
  "target_script_pubkey (sample_ext t p) sample_config (sample_address c) =
     Inr (Some (p2pkh_script (word_of_nat (of_char c))))"
proof -
  have "chain_cfg sample_config = BitcoinMainnet" by (simp add: sample_config_def)
  then show ?thesis
    by (simp add: target_script_pubkey_def sample_parse_address sample_script_pubkey p2pkh_script_def)
qed

lemma sample_change_script:
  "get_change_script_pubkey (sample_ext t p) sample_config = Inr (p2pkh_script (word_of_nat (of_char (CHR ''c''))))"
proof -
  have c: "chain_cfg sample_config = BitcoinMainnet" "change_address sample_config = Some (sample_address (CHR ''c''))"
    by (simp_all add: sample_config_def sample_address_def)
  then show ?thesis
    by (simp add: get_change_script_pubkey_def string_to_script_pubkey_def sample_parse_address
        sample_script_pubkey p2pkh_script_def)
qed

lemma sample_path_script:
  assumes "chain_signatures_root_public_key (cfg s) = Some root" "chain_cfg (cfg s) = BitcoinMainnet"
  shows "is_ok (path_script (sample_ext t p) e s path msg)"
proof -
  define pk where "pk = root @ map (\<lambda>c. word_of_nat (of_char c)) (derivation_path (current_account e) path)"
  have len: "20 \<le> length pk"
    by (simp add: pk_def derivation_path_def EPSILON_DERIVATION_PREFIX_def)
  have w: "p2wpkh_program (sample_ext t p) pk = Some (take 20 pk)" "witness_program_ok (sample_ext t p) = program_bounds"
    by (simp_all add: sample_ext_def addr_crates.defs crates.defs sample_crates_def)
  have "generate_utxo_chain_address (sample_ext t p) e s path = Inr (Segwit 0 (take 20 pk) BitcoinMainnet)"
    using len by (simp add: generate_utxo_chain_address_def generate_btc_public_key_def generate_public_key_def
        derive_epsilon_def assms pk_def[symmetric] from_pubkey_def get_segwit_hrp_def w program_bounds_def)
  then show ?thesis by (simp add: path_script_def script_pubkey_def)
qed

end
