(* ===== verification/Deposit_Msg.thy ===== *)
theory Deposit_Msg
  imports Bridge_State
begin

text \<open>
  \<open>json_utils.rs\<close>, \<open>deposit_msg.rs\<close> and the \<open>utxo_id\<close> injection of
  \<open>btc_light_client/deposit.rs\<close>: what a deposit may ask to happen after minting.  A JSON object is
  an association list with distinct keys; parsing and printing JSON is serde's.
\<close>

section \<open>Structural comparison of JSON values\<close>

lemma json_size_member: "kt \<in> set xs \<Longrightarrow> size (snd kt) < size (JObject xs)" for xs :: "(string \<times> json) list"
  by (induction xs) fastforce+

lemma json_size_item: "t \<in> set xs \<Longrightarrow> size t < size (JArray xs)" for xs :: "json list"
  by (induction xs) fastforce+

function (sequential) is_structure_equal :: "json \<Rightarrow> json \<Rightarrow> bool" where
  "is_structure_equal (JObject t_obj) (JObject i_obj) \<longleftrightarrow>
     (\<forall>kt\<in>set t_obj. case map_of i_obj (fst kt) of
        Some i_val \<Rightarrow> is_structure_equal (snd kt) i_val | None \<Rightarrow> True) \<and>
     (\<forall>ki\<in>set i_obj. fst ki \<in> fst ` set t_obj)"
| "is_structure_equal (JArray t_arr) (JArray i_arr) \<longleftrightarrow>
     (if t_arr = [] then i_arr = []
      else \<forall>i_item\<in>set i_arr. \<exists>t_item\<in>set t_arr. is_structure_equal t_item i_item)"
| "is_structure_equal (JString _) (JString _) \<longleftrightarrow> True"
| "is_structure_equal (JNumber _) (JNumber _) \<longleftrightarrow> True"
| "is_structure_equal (JBool _) (JBool _) \<longleftrightarrow> True"
| "is_structure_equal JNull _ \<longleftrightarrow> True"
| "is_structure_equal _ _ \<longleftrightarrow> False"
  by pat_completeness auto

termination is_structure_equal
  by (relation "measure (\<lambda>(t, i). size t)")
    (auto simp del: json.size intro: json_size_member json_size_item)

subsection \<open>What a template admits, by paths\<close>

text \<open>A path leads through objects by key and through arrays to any of their items.  A template admits
  a value when whatever the value has at a path, the template has something of the same kind there,
  unless a \<open>null\<close> of the template on the way leaves that part open.\<close>

datatype json_step = Key string | Item

datatype json_kind = KObject | KArray | KString | KNumber | KBool | KNull

fun kind_of :: "json \<Rightarrow> json_kind" where
  "kind_of (JObject _) = KObject"
| "kind_of (JArray _) = KArray"
| "kind_of (JString _) = KString"
| "kind_of (JNumber _) = KNumber"
| "kind_of (JBool _) = KBool"
| "kind_of JNull = KNull"

fun values_at :: "json \<Rightarrow> json_step list \<Rightarrow> json set" where
  "values_at j [] = {j}"
| "values_at (JObject kvs) (Key k # p) = (case map_of kvs k of Some v \<Rightarrow> values_at v p | None \<Rightarrow> {})"
| "values_at (JArray vs) (Item # p) = (\<Union>v\<in>set vs. values_at v p)"
| "values_at _ _ = {}"

definition left_open :: "json \<Rightarrow> json_step list \<Rightarrow> bool" where
  "left_open t p \<longleftrightarrow> (\<exists>n. JNull \<in> values_at t (take n p))"

definition admits :: "json \<Rightarrow> json \<Rightarrow> bool" where
  "admits t i \<longleftrightarrow> (\<forall>p. \<forall>v\<in>values_at i p. (\<exists>u\<in>values_at t p. kind_of u = kind_of v) \<or> left_open t p)"

text \<open>No key twice in an object (serde keeps one), at most one pattern in an array.\<close>

fun plain_template :: "json \<Rightarrow> bool" where
  "plain_template (JObject kvs) \<longleftrightarrow> distinct (map fst kvs) \<and> (\<forall>(k, v)\<in>set kvs. plain_template v)"
| "plain_template (JArray vs) \<longleftrightarrow> length vs \<le> 1 \<and> (\<forall>v\<in>set vs. plain_template v)"
| "plain_template _ \<longleftrightarrow> True"

lemma left_open_step: "left_open t p \<longleftrightarrow> t = JNull \<or> (\<exists>n. JNull \<in> values_at t (take (Suc n) p))"
proof -
  have "(\<exists>n. P n) \<longleftrightarrow> P 0 \<or> (\<exists>n. P (Suc n))" for P :: "nat \<Rightarrow> bool" by (metis not0_implies_Suc)
  from this[of "\<lambda>n. JNull \<in> values_at t (take n p)"] show ?thesis by (simp add: left_open_def eq_commute)
qed

lemma left_open_simps [simp]:
  "left_open JNull p" "left_open t [] \<longleftrightarrow> t = JNull"
  "left_open (JObject kvs) (Key k # p) \<longleftrightarrow> (case map_of kvs k of Some v \<Rightarrow> left_open v p | None \<Rightarrow> False)"
  "left_open (JArray vs) (Item # p) \<longleftrightarrow> (\<exists>v\<in>set vs. left_open v p)"
proof -
  show "left_open JNull p" by (subst left_open_step) simp
  show "left_open t [] \<longleftrightarrow> t = JNull" by (subst left_open_step) auto
  show "left_open (JObject kvs) (Key k # p) \<longleftrightarrow> (case map_of kvs k of Some v \<Rightarrow> left_open v p | None \<Rightarrow> False)"
    by (subst left_open_step) (cases "map_of kvs k"; simp add: left_open_def)
  show "left_open (JArray vs) (Item # p) \<longleftrightarrow> (\<exists>v\<in>set vs. left_open v p)"
    by (subst left_open_step) (simp add: left_open_def, blast)
qed

lemma values_at_object: "v \<in> values_at (JObject kvs) p \<Longrightarrow> p = [] \<and> v = JObject kvs \<or>
    (\<exists>k q w. p = Key k # q \<and> map_of kvs k = Some w \<and> v \<in> values_at w q)"
  by (induction "JObject kvs" p rule: values_at.induct) (auto split: option.splits)

lemma values_at_array: "v \<in> values_at (JArray vs) p \<Longrightarrow> p = [] \<and> v = JArray vs \<or>
    (\<exists>q w. p = Item # q \<and> w \<in> set vs \<and> v \<in> values_at w q)"
  by (induction "JArray vs" p rule: values_at.induct) auto

lemma values_at_scalar [simp]:
  "values_at (JString x) p = (if p = [] then {JString x} else {})"
  "values_at (JNumber n) p = (if p = [] then {JNumber n} else {})"
  "values_at (JBool b) p = (if p = [] then {JBool b} else {})"
  by (cases p; simp)+

lemma equal_admits: "is_structure_equal t i \<Longrightarrow> admits t i"
proof (induction t i rule: is_structure_equal.induct)
  case (1 t_obj i_obj)
  have sub: "\<exists>tv. map_of t_obj k = Some tv \<and> admits tv iv" if k: "map_of i_obj k = Some iv" for k iv
  proof -
    have "k \<in> fst ` set t_obj" using 1(2) map_of_SomeD[OF k] by force
    then obtain tv where tv: "map_of t_obj k = Some tv" by (metis map_of_eq_None_iff not_None_eq)
    then have m: "(k, tv) \<in> set t_obj" by (rule map_of_SomeD)
    with 1(2) k have "is_structure_equal tv iv" by force
    with 1(1)[OF m, of iv] k tv show ?thesis by simp
  qed
  show ?case unfolding admits_def
  proof (intro allI ballI)
    fix p v assume "v \<in> values_at (JObject i_obj) p"
    then show "(\<exists>u\<in>values_at (JObject t_obj) p. kind_of u = kind_of v) \<or> left_open (JObject t_obj) p"
      using sub by (fastforce dest!: values_at_object simp: admits_def)
  qed
next
  case (2 t_arr i_arr)
  have sub: "\<exists>tv\<in>set t_arr. admits tv iv" if "iv \<in> set i_arr" for iv
    using 2 that by (cases "t_arr = []") (fastforce, metis is_structure_equal.simps(2))
  show ?case unfolding admits_def
  proof (intro allI ballI)
    fix p v assume "v \<in> values_at (JArray i_arr) p"
    then show "(\<exists>u\<in>values_at (JArray t_arr) p. kind_of u = kind_of v) \<or> left_open (JArray t_arr) p"
      using sub by (fastforce dest!: values_at_array simp: admits_def)
  qed
qed (auto simp: admits_def)

lemma admits_root: "admits t i \<Longrightarrow> t = JNull \<or> kind_of t = kind_of i"
  unfolding admits_def by (drule spec[of _ "[]"]) auto

lemma admits_member:
  assumes "admits (JObject t_obj) (JObject i_obj)" "map_of i_obj k = Some iv"
  shows "\<exists>tv. map_of t_obj k = Some tv \<and> admits tv iv"
proof -
  have c: "(\<exists>u\<in>values_at (JObject t_obj) (Key k # p). kind_of u = kind_of v) \<or> left_open (JObject t_obj) (Key k # p)"
    if "v \<in> values_at iv p" for p v
    using assms that unfolding admits_def by (metis (no_types, lifting) option.simps(5) values_at.simps(2))
  obtain tv where tv: "map_of t_obj k = Some tv" using c[of iv "[]"] by (auto split: option.splits)
  with c show ?thesis by (auto simp: admits_def)
qed

lemma admits_item:
  assumes "admits (JArray t_arr) (JArray i_arr)" "iv \<in> set i_arr" "length t_arr \<le> 1"
  shows "\<exists>tv. t_arr = [tv] \<and> admits tv iv"
proof -
  have c: "(\<exists>u\<in>values_at (JArray t_arr) (Item # p). kind_of u = kind_of v) \<or> left_open (JArray t_arr) (Item # p)"
    if "v \<in> values_at iv p" for p v
    using assms(1,2) that unfolding admits_def by (metis UN_I values_at.simps(3))
  obtain tv where tv: "t_arr = [tv]" using c[of iv "[]"] assms(3) by (cases t_arr) auto
  with c show ?thesis by (auto simp: admits_def)
qed

lemma admits_equal: "admits t i \<Longrightarrow> plain_template t \<Longrightarrow> is_structure_equal t i"
proof (induction t i rule: is_structure_equal.induct)
  case (1 t_obj i_obj)
  have d: "distinct (map fst t_obj)" using 1(3) by simp
  have a: "is_structure_equal (snd kt) iv" if "kt \<in> set t_obj" "map_of i_obj (fst kt) = Some iv" for kt iv
  proof -
    have "map_of t_obj (fst kt) = Some (snd kt)" using that(1) d by simp
    with admits_member[OF 1(2) that(2)] have "admits (snd kt) iv" by simp
    moreover have "plain_template (snd kt)" using 1(3) that(1) by (cases kt) auto
    ultimately show ?thesis using 1(1)[OF that] by blast
  qed
  moreover have "fst ki \<in> fst ` set t_obj" if "ki \<in> set i_obj" for ki
  proof -
    from that have "map_of i_obj (fst ki) \<noteq> None" by (simp add: map_of_eq_None_iff)
    then obtain iv where "map_of i_obj (fst ki) = Some iv" by blast
    with admits_member[OF 1(2)] obtain tv where "map_of t_obj (fst ki) = Some tv" by blast
    from map_of_SomeD[OF this] show ?thesis by (metis fst_conv image_eqI)
  qed
  ultimately show ?case by (auto split: option.splits)
next
  case (2 t_arr i_arr)
  have "\<exists>tv\<in>set t_arr. is_structure_equal tv iv" if iv: "iv \<in> set i_arr" for iv
  proof -
    obtain tv where tv: "t_arr = [tv]" "admits tv iv" using admits_item[OF 2(2) iv] 2(3) by auto
    with 2(1)[of iv tv] 2(3) iv show ?thesis by auto
  qed
  then have "\<forall>iv\<in>set i_arr. \<exists>tv\<in>set t_arr. is_structure_equal tv iv" by blast
  then show ?case by (cases i_arr) auto
qed (auto dest: admits_root)

text \<open>C33: the comparison of a post action's message with a template is a statement about paths.  An
  accepted message has at every path a value of the kind the template has there, or lies below a
  \<open>null\<close> of the template; so it adds no key, no item to an empty array and changes no kind, at any
  depth.  Conversely, when no array of the template lists more than one pattern, every message with
  that property is accepted, whichever keys and items it leaves out.\<close>

theorem is_structure_equal_admits:
  "(is_structure_equal t i \<longrightarrow> admits t i) \<and> (plain_template t \<longrightarrow> admits t i \<longrightarrow> is_structure_equal t i)"
  by (simp add: equal_admits admits_equal)

lemma is_structure_equal_admits_witness:
  "let t = JObject [(''swap'', JObject [(''path'', JArray [JString ''x'']), (''min'', JNull)]), (''memo'', JString ''m'')] in
   plain_template t \<and> admits t (JObject [(''swap'', JObject [(''min'', JNumber ''3''), (''path'', JArray [])])]) \<and>
   \<not> admits t (JObject [(''swap'', JObject [(''max'', JNumber ''3'')])])"
proof -
  let ?t = "JObject [(''swap'', JObject [(''path'', JArray [JString ''x'']), (''min'', JNull)]), (''memo'', JString ''m'')]"
  have "is_structure_equal ?t (JObject [(''swap'', JObject [(''min'', JNumber ''3''), (''path'', JArray [])])])"
    "\<not> is_structure_equal ?t (JObject [(''swap'', JObject [(''max'', JNumber ''3'')])])" "plain_template ?t"
    by simp_all
  then show ?thesis unfolding Let_def using is_structure_equal_admits by blast
qed

section \<open>The \<open>utxo_id\<close> of a safe deposit\<close>

fun inject :: "string \<Rightarrow> json \<Rightarrow> json" where
  "inject utxo_id (JObject kvs) =
     JObject (map (\<lambda>(k, v). (k, if k = ''utxo_id'' then JString utxo_id else inject utxo_id v)) kvs)"
| "inject utxo_id (JArray vs) = JArray (map (inject utxo_id) vs)"
| "inject utxo_id v = v"

definition inject_utxo_id_in_msg :: "crates \<Rightarrow> string \<Rightarrow> string \<Rightarrow> string" where
  "inject_utxo_id_in_msg X msg utxo_id = (case json_parse X msg of
     Some j \<Rightarrow> json_print X (inject utxo_id j) | None \<Rightarrow> msg)"

text \<open>Every value stored under the key \<open>utxo_id\<close>, at any depth.\<close>

fun utxo_ids :: "json \<Rightarrow> json list" where
  "utxo_ids (JObject kvs) =
     concat (map (\<lambda>(k, v). if k = ''utxo_id'' then v # utxo_ids v else utxo_ids v) kvs)"
| "utxo_ids (JArray vs) = concat (map utxo_ids vs)"
| "utxo_ids v = []"

text \<open>The value with everything under \<open>utxo_id\<close> blanked: what injection must not touch.\<close>

fun blank :: "json \<Rightarrow> json" where
  "blank (JObject kvs) = JObject (map (\<lambda>(k, v). (k, if k = ''utxo_id'' then JNull else blank v)) kvs)"
| "blank (JArray vs) = JArray (map blank vs)"
| "blank v = v"

text \<open>C34: after the injection every field named \<open>utxo_id\<close>, however deep, holds the key of the
  deposited output, whatever the message claimed, and nothing else of the message has changed.\<close>

theorem inject_forces_utxo_id:
  "set (utxo_ids (inject u j)) \<subseteq> {JString u} \<and> blank (inject u j) = blank j"
proof (induction u j rule: inject.induct)
  case (1 u kvs)
  have IH: "set (utxo_ids (inject u v)) \<subseteq> {JString u} \<and> blank (inject u v) = blank v"
    if "(k, v) \<in> set kvs" "k \<noteq> ''utxo_id''" for k v
    using 1[OF that(1) refl that(2)] .
  then have "x = JString u" if "x \<in> set (utxo_ids (inject u (JObject kvs)))" for x
    using that by (fastforce split: if_splits)
  moreover have "blank (inject u (JObject kvs)) = blank (JObject kvs)" using IH by auto
  ultimately show ?case by blast
next
  case (2 u vs)
  then show ?case by auto
qed simp_all

section \<open>Checking a deposit message\<close>

definition MAX_POST_ACTIONS_NUM :: usize where "MAX_POST_ACTIONS_NUM = 2"
definition TGAS :: u64 where "TGAS = 10 ^ 12"
definition MAX_TOTAL_POST_ACTIONS_GAS :: u64 where "MAX_TOTAL_POST_ACTIONS_GAS = 130 * TGAS"
definition MAX_PER_POST_ACTIONS_GAS :: u64 where "MAX_PER_POST_ACTIONS_GAS = 100 * TGAS"
definition MIN_PER_POST_ACTIONS_GAS :: u64 where "MIN_PER_POST_ACTIONS_GAS = 30 * TGAS"

definition template_match :: "crates \<Rightarrow> string set \<Rightarrow> string \<Rightarrow> bool" where
  "template_match X templates msg = (case json_parse X msg of
     Some v \<Rightarrow> \<exists>t\<in>templates. (case json_parse X t of Some tv \<Rightarrow> is_structure_equal tv v | None \<Rightarrow> False)
   | None \<Rightarrow> \<exists>t\<in>templates. t = msg)"

definition invalid_action :: "usize option \<Rightarrow> string \<Rightarrow> contract \<Rightarrow> ('a option \<times> contract) res" where
  "invalid_action i msg s = Inr (None, emit (EvInvalidPostAction i msg) s)"

text \<open>The loop over the post actions: the totals of gas and amount, or \<open>None\<close> at the first action
  that is refused, whose event has been emitted.\<close>

fun check_post_actions ::
    "crates \<Rightarrow> ctx \<Rightarrow> usize \<Rightarrow> post_action list \<Rightarrow> u64 \<Rightarrow> u128 \<Rightarrow> contract
     \<Rightarrow> ((u64 \<times> u128) option \<times> contract) res" where
  "check_post_actions X e i [] total_gas total_amount s = Inr (Some (total_gas, total_amount), s)"
| "check_post_actions X e i (a # as) total_gas total_amount s =
     chk_add U128_MAX total_amount (pa_amount a) (\<lambda>total_amount.
     if pa_receiver_id a = current_account e then
       invalid_action (Some i) ''The receiver_id of the post_action cannot be the bridge itself.'' s
     else if pa_receiver_id a \<notin> post_action_receiver_id_white_list s then
       invalid_action (Some i) ''The receiver_id of the post_action is not on the whitelist.'' s
     else if (case post_action_msg_templates s (pa_receiver_id a) of
                Some templates \<Rightarrow> \<not> template_match X templates (pa_msg a) | None \<Rightarrow> False) then
       invalid_action (Some i) ''Unsupported post_action.msg.'' s
     else (case pa_gas a of
       Some gas \<Rightarrow>
         if gas > MAX_PER_POST_ACTIONS_GAS then
           invalid_action (Some i) ''The amount of gas exceeds the limit.'' s
         else if gas < MIN_PER_POST_ACTIONS_GAS then
           invalid_action (Some i) ''The gas amount does not meet the minimum requirement.'' s
         else chk_add U64_MAX total_gas gas (\<lambda>total_gas.
           check_post_actions X e (Suc i) as total_gas total_amount s)
     | None \<Rightarrow> check_post_actions X e (Suc i) as total_gas total_amount s))"

definition check_deposit_msg ::
    "crates \<Rightarrow> ctx \<Rightarrow> deposit_msg \<Rightarrow> u128 \<Rightarrow> contract \<Rightarrow> (post_action list option \<times> contract) res" where
  "check_deposit_msg X e d mintable s =
     (case dm_post_actions d of
        None \<Rightarrow> Inr (None, s)
      | Some as \<Rightarrow>
          if as = [] then invalid_action None ''empty post_actions.'' s
          else if length as > MAX_POST_ACTIONS_NUM then
            invalid_action None ''The number of post_actions exceeds the limit.'' s
          else
            bindR (check_post_actions X e 0 as 0 0 s) (\<lambda>(r, s).
            case r of
              None \<Rightarrow> Inr (None, s)
            | Some (total_gas, total_amount) \<Rightarrow>
                if total_gas > MAX_TOTAL_POST_ACTIONS_GAS then
                  invalid_action None ''The total amount of gas exceeds the limit.'' s
                else if total_amount > mintable then
                  invalid_action None ''The total amount of nBTC used in post_actions exceeds the mint amount.'' s
                else Inr (Some as, s)))"

text \<open>What an accepted list of post actions satisfies.\<close>

definition action_allowed :: "crates \<Rightarrow> ctx \<Rightarrow> contract \<Rightarrow> post_action \<Rightarrow> bool" where
  "action_allowed X e s a \<longleftrightarrow>
     pa_receiver_id a \<noteq> current_account e \<and>
     pa_receiver_id a \<in> post_action_receiver_id_white_list s \<and>
     (case post_action_msg_templates s (pa_receiver_id a) of
        Some ts \<Rightarrow> template_match X ts (pa_msg a) | None \<Rightarrow> True) \<and>
     (case pa_gas a of Some g \<Rightarrow> MIN_PER_POST_ACTIONS_GAS \<le> g \<and> g \<le> MAX_PER_POST_ACTIONS_GAS | None \<Rightarrow> True)"

definition action_gas :: "post_action \<Rightarrow> u64" where
  "action_gas a = (case pa_gas a of Some g \<Rightarrow> g | None \<Rightarrow> 0)"

lemma check_post_actions_state:
  "check_post_actions X e i as tg ta s = Inr (r, s') \<Longrightarrow>
   (case r of
      Some (g, m) \<Rightarrow> s' = s \<and> g = tg + sum_list (map action_gas as) \<and>
        m = ta + sum_list (map pa_amount as) \<and> (\<forall>a\<in>set as. action_allowed X e s a)
    | None \<Rightarrow> \<exists>ev. s' = emit ev s)"
proof (induction X e i as tg ta s rule: check_post_actions.induct)
  case (1 X e i tg ta s)
  then show ?case by auto
next
  case (2 X e i a as tg ta s)
  show ?case
  proof (cases "pa_gas a")
    case None
    with 2 show ?thesis
      by (fastforce simp: chk_add_Inr invalid_action_def action_allowed_def action_gas_def
          split: if_splits option.splits)
  next
    case (Some g)
    with 2 show ?thesis
      by (fastforce simp: chk_add_Inr invalid_action_def action_allowed_def action_gas_def
          split: if_splits option.splits)
  qed
qed

text \<open>C32: post actions survive the check only if they are the ones of the message, at most two, each
  to a white-listed receiver that is not the bridge with a message its templates allow and gas inside
  the limits, with total gas at most 130 Tgas and a total amount covered by the minted amount;
  otherwise the deposit goes on without them, and the check changes nothing but the event log.\<close>

theorem check_deposit_msg_sound:
  assumes "check_deposit_msg X e d mintable s = Inr (r, s')"
  shows "s'\<lparr>effects := effects s\<rparr> = s \<and>
    (r = None \<or> (\<exists>as. r = Some as \<and> dm_post_actions d = Some as \<and> as \<noteq> [] \<and> length as \<le> 2 \<and>
       (\<forall>a\<in>set as. action_allowed X e s a) \<and>
       sum_list (map action_gas as) \<le> 130 * 10 ^ 12 \<and> sum_list (map pa_amount as) \<le> mintable))"
proof (cases "dm_post_actions d")
  case None
  with assms show ?thesis by (simp add: check_deposit_msg_def)
next
  case (Some as)
  consider "as = []" | "length as > 2" | (loop) "as \<noteq> []" "length as \<le> 2" by linarith
  then show ?thesis
  proof cases
    case loop
    with Some assms obtain q s1 where c: "check_post_actions X e 0 as 0 0 s = Inr (q, s1)"
      and r: "(case q of None \<Rightarrow> Inr (None, s1)
            | Some (total_gas, total_amount) \<Rightarrow>
                if total_gas > MAX_TOTAL_POST_ACTIONS_GAS then
                  invalid_action None ''The total amount of gas exceeds the limit.'' s1
                else if total_amount > mintable then
                  invalid_action None ''The total amount of nBTC used in post_actions exceeds the mint amount.'' s1
                else Inr (Some as, s1)) = Inr (r, s')"
      by (auto simp: check_deposit_msg_def MAX_POST_ACTIONS_NUM_def bindR_Inr)
    show ?thesis
    proof (cases q)
      case None
      with r check_post_actions_state[OF c] show ?thesis by (auto simp: emit_def)
    next
      case (Some gm)
      then obtain g m where gm: "q = Some (g, m)" by (cases gm) auto
      from check_post_actions_state[OF c] gm have st: "s1 = s" "g = sum_list (map action_gas as)"
        "m = sum_list (map pa_amount as)" "\<forall>a\<in>set as. action_allowed X e s a" by simp_all
      show ?thesis
      proof (cases "g > MAX_TOTAL_POST_ACTIONS_GAS \<or> m > mintable")
        case True
        with r gm st(1) show ?thesis by (auto simp: invalid_action_def emit_def split: if_splits)
      next
        case False
        with r gm st(1) have "r = Some as" "s' = s" by auto
        with False st loop \<open>dm_post_actions d = Some as\<close> show ?thesis
          by (auto simp: MAX_TOTAL_POST_ACTIONS_GAS_def TGAS_def)
      qed
    qed
  qed (use Some assms in \<open>auto simp: check_deposit_msg_def invalid_action_def emit_def MAX_POST_ACTIONS_NUM_def split: if_splits\<close>)
qed







section \<open>Concrete data\<close>

definition sample_action :: "u128 \<Rightarrow> post_action" where
  "sample_action n = \<lparr>pa_receiver_id = ''dex.near'', pa_amount = n, pa_memo = None,
     pa_msg = ''swap'', pa_gas = Some (40 * 10 ^ 12)\<rparr>"

definition sample_deposit_msg :: "post_action list \<Rightarrow> deposit_msg" where
  "sample_deposit_msg as = \<lparr>dm_recipient_id = ''alice.near'', dm_post_actions = Some as,
     dm_extra_msg = None, dm_safe_deposit = None, dm_refund_address = None\<rparr>"

definition deposit_state :: contract where
  "deposit_state = sample_contract\<lparr>post_action_receiver_id_white_list := {''dex.near''}\<rparr>"


lemma check_deposit_msg_sound_witness:
  "\<exists>s'. check_deposit_msg (sample_ext (\<lambda>_. ''cd'') (sample_psbt [] [])) sample_ctx (sample_deposit_msg [sample_action 5]) 10 deposit_state
      = Inr (Some [sample_action 5], s') \<and> s'\<lparr>effects := effects deposit_state\<rparr> = deposit_state"
proof -
  have run: "check_deposit_msg (sample_ext (\<lambda>_. ''cd'') (sample_psbt [] [])) sample_ctx (sample_deposit_msg [sample_action 5]) 10 deposit_state
      = Inr (Some [sample_action 5], deposit_state)"
    by (simp add: check_deposit_msg_def sample_deposit_msg_def MAX_POST_ACTIONS_NUM_def sample_action_def
        chk_add_def U128_MAX_def U64_MAX_def deposit_state_def sample_contract_def sample_ctx_def
        MIN_PER_POST_ACTIONS_GAS_def MAX_PER_POST_ACTIONS_GAS_def MAX_TOTAL_POST_ACTIONS_GAS_def TGAS_def)
  from check_deposit_msg_sound[OF run] run show ?thesis by simp
qed


end
