(* ===== verification/Psbt_Check.thy ===== *)
theory Psbt_Check
  imports Bridge_State
begin

text \<open>
  \<open>psbt.rs\<close>: what a PSBT must satisfy before the bridge signs it, for withdrawals (one output to
  the user, the rest change) and for transactions that only pay the bridge's change address; taking
  the spent UTXOs out of the state.  The hooks of \<open>bitcoin_utils/contract_methods.rs\<close> that are
  empty on Bitcoin are here as well.
\<close>

section \<open>Chain-specific hooks of the Bitcoin build\<close>

definition check_psbt_chain_specific :: "psbt \<Rightarrow> u128 \<Rightarrow> string \<Rightarrow> 'a res \<Rightarrow> 'a res" where
  "check_psbt_chain_specific p fee target k = k"

definition check_min_fee_chain_specific :: "psbt \<Rightarrow> u128 \<Rightarrow> 'a res \<Rightarrow> 'a res" where
  "check_min_fee_chain_specific p fee k = k"

definition check_withdraw_chain_specific :: "pending_info \<Rightarrow> u128 \<Rightarrow> 'a res \<Rightarrow> 'a res" where
  "check_withdraw_chain_specific original fee k =
     bindR (get_max_gas_fee original) (\<lambda>mx. require (fee - mx > 0) ''No gas increase.'' k)"

section \<open>Outputs of a withdrawal\<close>

text \<open>The loop over the outputs: the total, the amounts paid to the target, the change amounts.\<close>

fun withdraw_outputs :: "crates \<Rightarrow> config \<Rightarrow> bytes \<Rightarrow> bool \<Rightarrow> u128 \<Rightarrow> bytes option \<Rightarrow> tx_out list
    \<Rightarrow> u128 \<times> u128 list \<times> u128 list \<Rightarrow> (u128 \<times> u128 list \<times> u128 list) res" where
  "withdraw_outputs X c change unrestricted min_input target [] acc = Inr acc"
| "withdraw_outputs X c change unrestricted min_input target (out # outs) (tot, received, changes) =
     chk_add U128_MAX tot (txo_value out) (\<lambda>tot'.
     if target = Some (txo_script out) then
       withdraw_outputs X c change unrestricted min_input target outs
         (tot', received @ [txo_value out], changes)
     else if txo_script out = change then
       require (txo_value out \<ge> min_change_amount c) ''The change amount is too small'' (
       require (unrestricted \<or> txo_value out < min_input)
         ''The change amount must be less than the smallest input, or the caller must have the UnrestrictedRelayer role'' (
       withdraw_outputs X c change unrestricted min_input target outs
         (tot', received, changes @ [txo_value out])))
     else expect (from_script X (txo_script out) (chain_cfg c)) ''Unsupported btc address type''
       (\<lambda>_. Inl (Panic ''Invalid transaction output address'')))"

fun min_and_sum :: "vutxo list \<Rightarrow> u128 \<times> u128 \<Rightarrow> (u128 \<times> u128) res" where
  "min_and_sum [] acc = Inr acc"
| "min_and_sum (v # vs) (mn, sm) =
     chk_add U128_MAX sm (get_amount v) (\<lambda>sm'. min_and_sum vs (min mn (get_amount v), sm'))"

definition check_withdraw_psbt ::
    "crates \<Rightarrow> ctx \<Rightarrow> contract \<Rightarrow> psbt \<Rightarrow> string \<Rightarrow> bytes \<Rightarrow> vutxo list \<Rightarrow> u128 \<Rightarrow> u128
     \<Rightarrow> (usize \<times> usize \<times> u128 \<times> u128) res" where
  "check_withdraw_psbt X e s p target change vs amount fee =
     (let c = cfg s; unrestricted = acl_has_role s UnrestrictedRelayer (signer e) in
      bindR (min_and_sum vs (U128_MAX, 0)) (\<lambda>(min_input, total_input).
      bindR (if get_output p \<noteq> []
             then bindR (target_script_pubkey X c target) (\<lambda>target_script.
               withdraw_outputs X c change unrestricted min_input target_script (get_output p) (0, [], []))
             else Inr (0, [], [])) (\<lambda>(tot, received, changes).
      let (received, extra) = add_extra_outputs p received in
      chk_add U128_MAX tot extra (\<lambda>total_output.
      require (length received = 1) ''only one user output is allowed.'' (
      let actual = received ! 0; input_num = get_input_num p; change_num = length changes in
      require (input_num > change_num \<longrightarrow> (\<forall>v\<in>set changes. v < max_change_amount c))
        ''Any change amount should be less than the maximum when input_num > change_num'' (
      chk_sub total_input total_output (\<lambda>gas.
      chk_sub amount fee (\<lambda>rest.
      chk_sub rest gas (\<lambda>expected.
      require (actual = expected) ''The output amount of the user must be equal to the expected amount'' (
      require (gas \<ge> min_btc_gas_fee c \<and> gas \<le> max_btc_gas_fee c) ''Invalid gas fee'' (
      check_psbt_chain_specific p gas target (
      Inr (input_num, change_num, actual, gas)))))))))))))"

definition check_withdraw_psbt_valid ::
    "crates \<Rightarrow> ctx \<Rightarrow> contract \<Rightarrow> string \<Rightarrow> bytes \<Rightarrow> psbt \<Rightarrow> vutxo list \<Rightarrow> u128 \<Rightarrow> u128 \<Rightarrow> u128 option
     \<Rightarrow> (u128 \<times> u128 \<times> contract) res" where
  "check_withdraw_psbt_valid X e s target change p vs amount fee max_fee =
     (let c = cfg s in
      try_into U32_MAX (length vs) ''vutxos len overflow'' (\<lambda>vlen.
      chk_add U32_MAX (card (dom (utxos s))) vlen (\<lambda>utxo_num.
      bindR (check_withdraw_psbt X e s p target change vs amount fee) (\<lambda>(input_num, change_num, actual, gas).
      require (case max_fee of Some m \<Rightarrow> gas \<le> m | None \<Rightarrow> True)
        ''Gas fee does not match the provided max fee'' (
      require (change_num \<le> max_change_number c) ''change_num must not exceed'' (
      require (input_num \<le> max_withdrawal_input_number c) ''input must not exceed'' (
      require (if utxo_num < passive_management_lower_limit c then input_num < change_num
               else if utxo_num > passive_management_upper_limit c then input_num > change_num else True)
        ''passive management'' (
      Inr (actual, gas, emit (EvWithdrawBtcDetail amount fee gas actual) s)))))))))"

section \<open>Transactions that pay only the change address\<close>

fun change_outputs :: "config \<Rightarrow> bool \<Rightarrow> bytes \<Rightarrow> tx_out list \<Rightarrow> u128 \<Rightarrow> u128 res" where
  "change_outputs c healthy change [] acc = Inr acc"
| "change_outputs c healthy change (out # outs) acc =
     require (if healthy
              then txo_value out > unhealthy_utxo_amount c \<and> txo_value out \<le> max_change_amount c
              else txo_value out \<ge> min_change_amount c \<and> txo_value out \<le> max_change_amount c)
       ''The output amount is not in the valid range'' (
     require (txo_script out = change) ''Invalid output script_pubkey'' (
     chk_add U128_MAX acc (txo_value out) (change_outputs c healthy change outs)))"

definition check_psbt_output_all_change_address ::
    "crates \<Rightarrow> contract \<Rightarrow> psbt \<Rightarrow> vutxo list \<Rightarrow> bool \<Rightarrow> bool \<Rightarrow> (u128 \<times> u128) res" where
  "check_psbt_output_all_change_address X s p vs force_healthy_output is_cancel =
     (let c = cfg s in
      bindR (get_change_script_pubkey X c) (\<lambda>change.
      bindR (sum_res U128_MAX (map get_amount vs) 0) (\<lambda>input_amount.
      bindR (change_outputs c force_healthy_output change (get_output p) 0) (\<lambda>output_amount.
      chk_sub input_amount output_amount (\<lambda>gas.
      check_min_fee_chain_specific p gas (
      require (is_cancel \<or> (gas \<ge> min_btc_gas_fee c \<and> gas \<le> max_btc_gas_fee c)) ''Invalid gas fee'' (
      Inr (output_amount, gas))))))))"

definition is_merge_unhealthy_utxos :: "usize \<Rightarrow> vutxo list \<Rightarrow> u64 \<Rightarrow> bool" where
  "is_merge_unhealthy_utxos output_num vs unhealthy \<longleftrightarrow>
     output_num = 1 \<and> (\<forall>v\<in>set vs. get_amount v \<le> unhealthy)"

definition check_active_management_psbt_valid ::
    "crates \<Rightarrow> contract \<Rightarrow> psbt \<Rightarrow> vutxo list \<Rightarrow> (u128 \<times> u128) res" where
  "check_active_management_psbt_valid X s p vs =
     (let c = cfg s; input_num = get_input_num p; output_num = get_output_num p in
      if is_merge_unhealthy_utxos output_num vs (unhealthy_utxo_amount c)
      then check_psbt_output_all_change_address X s p vs True False
      else
        require (input_num \<le> max_active_utxo_management_input_number c) ''require input_num'' (
        require (output_num \<le> max_active_utxo_management_output_number c) ''require output_num'' (
        check_psbt_output_all_change_address X s p vs True False)))"

section \<open>Spending registered UTXOs\<close>

definition generate_vutxos ::
    "crates \<Rightarrow> ctx \<Rightarrow> psbt \<Rightarrow> contract \<Rightarrow> (string list \<times> vutxo list \<times> psbt \<times> contract) res" where
  "generate_vutxos X e p s =
     bindR (remove_vutxo_by_psbt p s) (\<lambda>(keys, vs, s).
     bindR (map_res (\<lambda>v. bindR (path_script X e s (get_path v) ''Invalid address'')
               (\<lambda>sc. Inr \<lparr>txo_value = get_amount v, txo_script = sc\<rparr>)) vs) (\<lambda>input_utxo.
     bindR (set_input_utxo p input_utxo) (\<lambda>p.
     Inr (keys, vs, p, s))))"

section \<open>Facts about the checks\<close>

definition vutxo_sum :: "vutxo list \<Rightarrow> nat" where
  "vutxo_sum vs = sum_list (map get_amount vs)"

definition out_sum :: "tx_out list \<Rightarrow> nat" where
  "out_sum os = sum_list (map txo_value os)"

lemma sum_simps [simp]:
  "vutxo_sum [] = 0" "vutxo_sum (v # vs) = get_amount v + vutxo_sum vs"
  "out_sum [] = 0" "out_sum (x # xs) = txo_value x + out_sum xs"
  by (simp_all add: vutxo_sum_def out_sum_def)

lemma min_and_sum_Inr:
  "min_and_sum vs (mn, sm) = Inr (m, t) \<Longrightarrow>
   t = sm + vutxo_sum vs \<and> m \<le> mn \<and> (\<forall>v\<in>set vs. m \<le> get_amount v)"
proof (induction vs "(mn, sm)" arbitrary: mn sm rule: min_and_sum.induct)
  case 1
  then show ?case by simp
next
  case (2 v vs mn sm)
  then show ?case by (fastforce simp: chk_add_Inr)
qed

definition paid_to :: "bytes \<Rightarrow> tx_out list \<Rightarrow> u128 list" where
  "paid_to script os = map txo_value (filter (\<lambda>out. txo_script out = script) os)"

lemma paid_to_simps [simp]:
  "paid_to sc [] = []"
  "paid_to sc (x # xs) = (if txo_script x = sc then txo_value x # paid_to sc xs else paid_to sc xs)"
  by (simp_all add: paid_to_def)

lemma withdraw_outputs_Inr:
  assumes "withdraw_outputs X c change unr mn target os (t0, r0, c0) = Inr (t, r, ch)"
  shows "t = t0 + out_sum os \<and>
    r = r0 @ (case target of None \<Rightarrow> [] | Some sc \<Rightarrow> paid_to sc os) \<and>
    (\<exists>cs. ch = c0 @ cs \<and> t + sum_list r0 + sum_list c0 = t0 + sum_list r + sum_list ch \<and>
      (\<forall>v\<in>set cs. min_change_amount c \<le> v \<and> (unr \<or> v < mn))) \<and>
    (\<forall>out\<in>set os. Some (txo_script out) = target \<or> txo_script out = change)"
  using assms
proof (induction os arbitrary: t0 r0 c0)
  case Nil
  then show ?case by (auto split: option.split)
next
  case (Cons out os)
  show ?case
  proof (cases "target = Some (txo_script out)")
    case True
    with Cons.prems have "withdraw_outputs X c change unr mn target os
        (t0 + txo_value out, r0 @ [txo_value out], c0) = Inr (t, r, ch)"
      by (simp add: chk_add_Inr)
    from Cons.IH[OF this] True show ?thesis by auto
  next
    case False
    with Cons.prems have ch: "txo_script out = change" "min_change_amount c \<le> txo_value out"
        "unr \<or> txo_value out < mn" and rest: "withdraw_outputs X c change unr mn target os
        (t0 + txo_value out, r0, c0 @ [txo_value out]) = Inr (t, r, ch)"
      by (auto simp: res_Inr split: if_splits)
    from Cons.IH[OF rest] False ch show ?thesis by (auto split: option.splits)
  qed
qed

lemma change_outputs_Inr:
  "change_outputs c h change os acc = Inr t \<Longrightarrow>
   t = acc + out_sum os \<and> (\<forall>out\<in>set os. txo_script out = change \<and> txo_value out \<le> max_change_amount c)"
  by (induction os arbitrary: acc) (fastforce simp: res_Inr split: if_splits)+

lemma out_sum_split:
  "out_sum os = sum_list (paid_to sc os) + out_sum (filter (\<lambda>out. txo_script out \<noteq> sc) os)"
  by (induction os) auto

text \<open>C10: an accepted withdrawal conserves value.  The user's amount splits exactly into what the
  single output to the target receives, the gas fee and the bridge's fee; every other output pays
  the change address, so what leaves the bridge's UTXOs is the amount minus the fee; and a change
  output is at least the minimum and, unless the signer is an unrestricted relayer, below every
  input.\<close>

theorem withdraw_check_conserves:
  assumes "check_withdraw_psbt X e s p target change vs amount fee = Inr (n, m, actual, gas)"
  shows "\<exists>sc. target_script_pubkey X (cfg s) target = Inr (Some sc) \<and>
    actual + gas + fee = amount \<and> paid_to sc (get_output p) = [actual] \<and>
    vutxo_sum vs = (amount - fee) + out_sum (filter (\<lambda>out. txo_script out \<noteq> sc) (get_output p)) \<and>
    (\<forall>out\<in>set (get_output p). txo_script out = sc \<or> txo_script out = change) \<and>
    min_btc_gas_fee (cfg s) \<le> gas \<and> gas \<le> max_btc_gas_fee (cfg s)"
proof -
  obtain mn ti r ch where o: "min_and_sum vs (U128_MAX, 0) = Inr (mn, ti)" and
    outs: "(if get_output p \<noteq> []
             then bindR (target_script_pubkey X (cfg s) target) (\<lambda>target_script.
               withdraw_outputs X (cfg s) change (acl_has_role s UnrestrictedRelayer (signer e)) mn
                 target_script (get_output p) (0, [], []))
             else Inr (0, [], [])) = Inr (ti - gas, r, ch)" and
    one: "length r = 1" "actual = r ! 0" "gas \<le> ti" "fee + gas + actual = amount"
      "min_btc_gas_fee (cfg s) \<le> gas" "gas \<le> max_btc_gas_fee (cfg s)"
    using assms
    by (auto simp: check_withdraw_psbt_def Let_def res_Inr add_extra_outputs_def
        check_psbt_chain_specific_def split: prod.splits)
  have ne: "get_output p \<noteq> []"
  proof
    assume "get_output p = []"
    then show False using outs one(1) by simp
  qed
  from outs ne obtain ts where ts: "target_script_pubkey X (cfg s) target = Inr ts" and
    w: "withdraw_outputs X (cfg s) change (acl_has_role s UnrestrictedRelayer (signer e)) mn ts
         (get_output p) (0, [], []) = Inr (ti - gas, r, ch)" by (auto simp: bindR_Inr)
  note W = withdraw_outputs_Inr[OF w]
  from W one(1) obtain sc where sc: "ts = Some sc" by (cases ts) auto
  with W have "r = paid_to sc (get_output p)" by simp
  with one(1,2) have paid: "paid_to sc (get_output p) = [actual]"
    by (cases "paid_to sc (get_output p)") auto
  have "ti = vutxo_sum vs" using min_and_sum_Inr[OF o] by simp
  moreover have "ti - gas = out_sum (get_output p)" using W by simp
  ultimately have "vutxo_sum vs = out_sum (get_output p) + gas" using one(3) by simp
  also have "\<dots> = actual + out_sum (filter (\<lambda>out. txo_script out \<noteq> sc) (get_output p)) + gas"
    using out_sum_split[of "get_output p" sc] paid by simp
  also have "\<dots> = (amount - fee) + out_sum (filter (\<lambda>out. txo_script out \<noteq> sc) (get_output p))"
    using one(4) by simp
  finally have sum: "vutxo_sum vs = (amount - fee) + out_sum (filter (\<lambda>out. txo_script out \<noteq> sc) (get_output p))" .
  have outs_ok: "\<forall>out\<in>set (get_output p). txo_script out = sc \<or> txo_script out = change"
    using W sc by simp
  have amt: "actual + gas + fee = amount" using one(4) by simp
  have tgt: "target_script_pubkey X (cfg s) target = Inr (Some sc)" using ts sc by simp
  show ?thesis by (intro exI[of _ sc] conjI) (fact tgt amt paid sum outs_ok one(5) one(6))+
qed

definition sample_withdraw_psbt :: psbt where
  "sample_withdraw_psbt = sample_psbt [\<lparr>op_txid = ''ab'', op_vout = 0\<rparr>]
     [\<lparr>txo_value = 47000, txo_script = p2pkh_script 0x75\<rparr>,
      \<lparr>txo_value = 30000, txo_script = p2pkh_script 0x63\<rparr>]"

definition sample_vutxo :: vutxo where
  "sample_vutxo = VUTXO_Current \<lparr>utxo_path = ''p'', utxo_tx_bytes = [], utxo_vout = 0, utxo_balance = 78000\<rparr>"

lemma p2pkh_script_inj [simp]: "p2pkh_script a = p2pkh_script b \<longleftrightarrow> a = b"
  by (simp add: p2pkh_script_def)

lemma sample_withdraw_check:
  "check_withdraw_psbt (sample_ext t q) sample_ctx sample_contract sample_withdraw_psbt
     (sample_address (CHR ''u'')) (p2pkh_script 0x63) [sample_vutxo] 50000 2000 = Inr (1, 1, 47000, 1000)"
proof -
  have c: "min_change_amount sample_config = 0" "max_change_amount sample_config = 100000000"
    "min_btc_gas_fee sample_config = 100" "max_btc_gas_fee sample_config = 80000"
    by (simp_all add: sample_config_def)
  have k: "cfg sample_contract = sample_config" by (simp add: sample_contract_def)
  have outs: "get_output sample_withdraw_psbt = [\<lparr>txo_value = 47000, txo_script = p2pkh_script 0x75\<rparr>,
      \<lparr>txo_value = 30000, txo_script = p2pkh_script 0x63\<rparr>]" "get_input_num sample_withdraw_psbt = 1"
    by (simp_all add: sample_withdraw_psbt_def sample_psbt_def sample_tx_def get_output_def get_input_num_def)
  have amt: "get_amount sample_vutxo = 78000" by (simp add: sample_vutxo_def get_amount_def)
  have w: "word_of_nat (of_char (CHR ''u'')) = (0x75 :: 8 word)" by simp
  show ?thesis
    unfolding check_withdraw_psbt_def Let_def outs k sample_target_script w
    by (simp add: amt c add_extra_outputs_def check_psbt_chain_specific_def chk_add_def chk_sub_def U128_MAX_def)
qed

lemma withdraw_check_conserves_witness:
  "(47000::nat) + 1000 + 2000 = 50000 \<and>
   vutxo_sum [sample_vutxo] = (50000 - 2000) + 30000 \<and>
   (\<exists>sc. target_script_pubkey (sample_ext (\<lambda>_. ''cd'') sample_withdraw_psbt) (cfg sample_contract)
        (sample_address (CHR ''u'')) = Inr (Some sc) \<and>
      paid_to sc (get_output sample_withdraw_psbt) = [47000])"
  using withdraw_check_conserves[OF sample_withdraw_check[of "\<lambda>_. ''cd''" sample_withdraw_psbt]]
  by (auto simp: sample_vutxo_def get_amount_def)

text \<open>A transaction accepted as paying only the change address loses nothing but its gas fee:
  every output is the bridge's, within the configured range, inputs equal outputs plus gas, and the
  gas fee is inside the configured bounds unless the transaction is a cancellation.\<close>

theorem change_only_conserves:
  assumes "check_psbt_output_all_change_address X s p vs healthy is_cancel = Inr (output_amount, gas)"
  shows "\<exists>change. get_change_script_pubkey X (cfg s) = Inr change \<and>
    (\<forall>out\<in>set (get_output p). txo_script out = change \<and> txo_value out \<le> max_change_amount (cfg s)) \<and>
    output_amount = out_sum (get_output p) \<and> vutxo_sum vs = output_amount + gas \<and>
    (is_cancel \<or> (min_btc_gas_fee (cfg s) \<le> gas \<and> gas \<le> max_btc_gas_fee (cfg s)))"
proof -
  obtain change inp where o: "get_change_script_pubkey X (cfg s) = Inr change"
    "sum_res U128_MAX (map get_amount vs) 0 = Inr inp"
    "change_outputs (cfg s) healthy change (get_output p) 0 = Inr output_amount"
    "output_amount \<le> inp" "gas = inp - output_amount"
    "is_cancel \<or> (min_btc_gas_fee (cfg s) \<le> gas \<and> gas \<le> max_btc_gas_fee (cfg s))"
    using assms by (auto simp: check_psbt_output_all_change_address_def Let_def res_Inr
        check_min_fee_chain_specific_def)
  have "inp = vutxo_sum vs" using sum_res_Inr[OF o(2)] by (simp add: vutxo_sum_def)
  with o change_outputs_Inr[OF o(3)] show ?thesis by auto
qed

lemma sample_change_check:
  "check_psbt_output_all_change_address (sample_ext t q) sample_contract
     (sample_psbt [\<lparr>op_txid = ''ab'', op_vout = 0\<rparr>] [\<lparr>txo_value = 77000, txo_script = p2pkh_script 0x63\<rparr>])
     [sample_vutxo] True False = Inr (77000, 1000)"
proof -
  have c: "unhealthy_utxo_amount sample_config = 1000" "max_change_amount sample_config = 100000000"
    "min_btc_gas_fee sample_config = 100" "max_btc_gas_fee sample_config = 80000"
    by (simp_all add: sample_config_def)
  have k: "cfg sample_contract = sample_config" by (simp add: sample_contract_def)
  have amt: "get_amount sample_vutxo = 78000" by (simp add: sample_vutxo_def get_amount_def)
  have w: "word_of_nat (of_char (CHR ''c'')) = (0x63 :: 8 word)" by simp
  show ?thesis
    unfolding check_psbt_output_all_change_address_def Let_def k sample_change_script w
    by (simp add: amt c get_output_def sample_psbt_def sample_tx_def check_min_fee_chain_specific_def
        chk_add_def chk_sub_def U128_MAX_def)
qed

lemma change_only_conserves_witness:
  "vutxo_sum [sample_vutxo] = 77000 + 1000 \<and>
   (\<exists>change. get_change_script_pubkey (sample_ext (\<lambda>_. ''cd'') sample_withdraw_psbt) (cfg sample_contract) = Inr change)"
  using change_only_conserves[OF sample_change_check[of "\<lambda>_. ''cd''" sample_withdraw_psbt]] by auto

end
