(* ===== verification/Withdraw.thy ===== *)
theory Withdraw
  imports Psbt_Check
begin

text \<open>
  \<open>api/token_receiver.rs\<close> and the withdrawal part of \<open>bitcoin_utils/contract_methods.rs\<close>:
  nBTC sent to the bridge with a message, either a gift to the protocol fee or a withdrawal request
  with the inputs and outputs of the Bitcoin transaction to sign.
\<close>

definition PUBLIC_WITHDRAW_FEATURE :: string where "PUBLIC_WITHDRAW_FEATURE = ''public_withdraw''"

definition create_btc_pending_info ::
    "crates \<Rightarrow> ctx \<Rightarrow> account_id \<Rightarrow> u128 \<Rightarrow> string \<Rightarrow> psbt \<Rightarrow> u128 option \<Rightarrow> contract \<Rightarrow> contract res" where
  "create_btc_pending_info X e sender_id amount target p max_fee s =
     bindR (generate_vutxos X e p s) (\<lambda>(keys, vs, p, s).
     let max_pending = get_max_pending_sign_txs s sender_id in
     internal_unwrap_or_create_mut_account s sender_id (\<lambda>acc s.
     require (pending_sign_count acc < max_pending) ''Too many pending sign transactions'' (
     bindR (get_change_script_pubkey X (cfg s)) (\<lambda>change.
     bindR (get_fee (withdraw_bridge_fee (cfg s)) amount) (\<lambda>fee.
     bindR (check_withdraw_psbt_valid X e s target change p vs amount fee max_fee) (\<lambda>(actual, gas, s).
     let need_signature_num = get_input_num p; hex = psbt_serialize X p;
         expiry = get_expiry_height p in
     bindR (get_pending_id X p) (\<lambda>tx_id.
     chk_add U128_MAX actual gas (\<lambda>burn.
     bindR (nano_to_sec (block_timestamp e)) (\<lambda>now.
     bindR (insert_new_pending tx_id
       \<lparr>pi_account_id = sender_id, pi_btc_pending_id = tx_id, transfer_amount = amount,
        actual_received_amount = actual, withdraw_fee = fee, gas_fee = gas, burn_amount = burn,
        psbt_hex = hex, vutxos = vs, signatures = replicate need_signature_num None,
        tx_bytes_with_sign = None, create_time_sec = now, last_sign_time_sec = 0,
        pi_state = WithdrawOriginal \<lparr>os_stage = PendingSign, max_gas_fee = gas,
          last_rbf_time_sec = None, cancel_rbf_reserved = None\<rparr>\<rparr> s) (\<lambda>s.
     bindR (add_pending_sign_id sender_id tx_id s) (\<lambda>s.
     Inr (emit (EvGenerateBtcPendingInfo sender_id tx_id expiry) (emit (EvUtxoRemoved keys) s)))))))))))))"

definition ft_on_transfer_withdraw_chain_specific ::
    "crates \<Rightarrow> ctx \<Rightarrow> account_id \<Rightarrow> u128 \<Rightarrow> string \<Rightarrow> out_point list \<Rightarrow> tx_out list \<Rightarrow> u128 option
     \<Rightarrow> contract \<Rightarrow> (u128 \<times> contract) res" where
  "ft_on_transfer_withdraw_chain_specific X e sender_id amount target input output max_fee s =
     bindR (psbt_new X input output) (\<lambda>p.
     bindR (create_btc_pending_info X e sender_id amount target p max_fee s) (\<lambda>s. Inr (0, s)))"

definition ft_on_transfer ::
    "crates \<Rightarrow> ctx \<Rightarrow> account_id \<Rightarrow> u128 \<Rightarrow> string \<Rightarrow> contract \<Rightarrow> (u128 \<times> contract) res" where
  "ft_on_transfer X e sender_id amount msg s =
     unless_paused e s ''ft_on_transfer'' (
     require (amount \<ge> min_withdraw_amount (cfg s)) ''Invalid amount'' (
     expect (json_token_message X msg) ''INVALID MSG'' (\<lambda>message.
     require (predecessor e = nbtc_account_id (cfg s)) ''Invalid token_id'' (
     case message of
       MsgDepositProtocolFee \<Rightarrow>
         bindR (fee_collect amount s) (\<lambda>s. Inr (0, emit (EvDepositProtocolFee sender_id amount) s))
     | MsgWithdraw target input output max_fee \<Rightarrow>
         require (\<not> pa_is_paused s PUBLIC_WITHDRAW_FEATURE \<or> acl_has_role s TrustedWithdrawSender sender_id)
           ''Withdraw sender is not allowed''
           (ft_on_transfer_withdraw_chain_specific X e sender_id amount target input output max_fee s)))))"

section \<open>What a withdrawal request does to the state\<close>

lemma remove_vutxos_Inr:
  "remove_vutxos ks s = Inr (vs, s') \<Longrightarrow>
   distinct ks \<and> map (utxos s) ks = map Some vs \<and> s' = s\<lparr>utxos := utxos s |` (- set ks)\<rparr>"
proof (induction ks arbitrary: s vs)
  case Nil
  then show ?case by (simp add: restrict_map_def)
next
  case (Cons k ks)
  from Cons.prems obtain v vs' where v: "utxos s k = Some v" "vs = v # vs'"
    "remove_vutxos ks (s\<lparr>utxos := (utxos s)(k := None)\<rparr>) = Inr (vs', s')"
    by (auto simp: res_Inr)
  from Cons.IH[OF v(3)] have IH: "distinct ks" "map ((utxos s)(k := None)) ks = map Some vs'"
    "s' = s\<lparr>utxos := ((utxos s)(k := None)) |` (- set ks)\<rparr>" by (simp_all del: fun_upd_apply)
  have "k \<notin> set ks"
  proof
    assume "k \<in> set ks"
    then have "((utxos s)(k := None)) k \<in> Some ` set vs'"
      using IH(2) by (metis image_eqI list.set_map)
    then show False by simp
  qed
  moreover from this have "map ((utxos s)(k := None)) ks = map (utxos s) ks" by auto
  moreover have "((utxos s)(k := None)) |` (- set ks) = utxos s |` (- set (k # ks))"
    by (auto simp: restrict_map_def)
  ultimately show ?case using IH v by simp
qed

lemma generate_vutxos_Inr:
  assumes "generate_vutxos X e p s = Inr (keys, vs, p', s')"
  shows "keys = get_utxo_storage_keys p \<and> distinct keys \<and> map (utxos s) keys = map Some vs \<and>
    s' = s\<lparr>utxos := utxos s |` (- set keys)\<rparr> \<and> unsigned_tx p' = unsigned_tx p"
proof -
  from assms obtain inp where "remove_vutxos (get_utxo_storage_keys p) s = Inr (vs, s')"
    "keys = get_utxo_storage_keys p" "set_input_utxo p inp = Inr p'"
    by (auto simp: generate_vutxos_def remove_vutxo_by_psbt_def res_Inr)
  with remove_vutxos_Inr set_input_utxo_tx show ?thesis by blast
qed

lemma check_withdraw_psbt_valid_Inr:
  assumes "check_withdraw_psbt_valid X e s target change p vs amount fee mf = Inr (actual, gas, s')"
  shows "\<exists>n m. check_withdraw_psbt X e s p target change vs amount fee = Inr (n, m, actual, gas) \<and>
    s' = emit (EvWithdrawBtcDetail amount fee gas actual) s \<and>
    (case mf of Some mx \<Rightarrow> gas \<le> mx | None \<Rightarrow> True)"
  using assms by (auto simp: check_withdraw_psbt_valid_def Let_def res_Inr)

definition withdraw_record ::
    "crates \<Rightarrow> account_id \<Rightarrow> string \<Rightarrow> u128 \<Rightarrow> u128 \<Rightarrow> u128 \<Rightarrow> u128 \<Rightarrow> psbt \<Rightarrow> vutxo list \<Rightarrow> u32 \<Rightarrow> pending_info" where
  "withdraw_record X a i amount actual fee gas p vs now =
     \<lparr>pi_account_id = a, pi_btc_pending_id = i, transfer_amount = amount,
      actual_received_amount = actual, withdraw_fee = fee, gas_fee = gas, burn_amount = actual + gas,
      psbt_hex = psbt_serialize X p, vutxos = vs, signatures = replicate (get_input_num p) None,
      tx_bytes_with_sign = None, create_time_sec = now, last_sign_time_sec = 0,
      pi_state = WithdrawOriginal \<lparr>os_stage = PendingSign, max_gas_fee = gas,
        last_rbf_time_sec = None, cancel_rbf_reserved = None\<rparr>\<rparr>"

lemma create_btc_pending_info_Inr:
  assumes "create_btc_pending_info X e a amount target p mf s = Inr s'"
  shows "\<exists>vs p' acc acc' tx_id actual gas fee now change n m effs.
    let keys = get_utxo_storage_keys p in
    distinct keys \<and> map (utxos s) keys = map Some vs \<and> unsigned_tx p' = unsigned_tx p \<and>
    btc_pending_infos s tx_id = None \<and>
    acc = (case accounts s a of Some v \<Rightarrow> of_vaccount v | None \<Rightarrow> account_new a) \<and>
    acc' = acc\<lparr>btc_pending_sign_ids := insert tx_id (btc_pending_sign_ids acc)\<rparr> \<and>
    pending_sign_count acc < get_max_pending_sign_txs s a \<and>
    get_change_script_pubkey X (cfg s) = Inr change \<and>
    get_fee (withdraw_bridge_fee (cfg s)) amount = Inr fee \<and>
    get_pending_id X p' = Inr tx_id \<and>
    check_withdraw_psbt X e (s\<lparr>utxos := utxos s |` (- set keys), accounts := (accounts s)(a \<mapsto> VAccount_Current acc)\<rparr>)
      p' target change vs amount fee = Inr (n, m, actual, gas) \<and>
    s' = s\<lparr>utxos := utxos s |` (- set keys),
      accounts := (accounts s)(a \<mapsto> VAccount_Current acc'),
      btc_pending_infos := (btc_pending_infos s)(tx_id \<mapsto>
        VPending_Current (withdraw_record X a tx_id amount actual fee gas p' vs now)),
      effects := effects s @ effs\<rparr>"
proof -
  let ?keys = "get_utxo_storage_keys p"
  let ?acc = "case accounts s a of Some v \<Rightarrow> of_vaccount v | None \<Rightarrow> account_new a"
  let ?s1 = "s\<lparr>utxos := utxos s |` (- set ?keys)\<rparr>"
  let ?s2 = "?s1\<lparr>accounts := (accounts s)(a \<mapsto> VAccount_Current ?acc)\<rparr>"
  obtain vs p' where g: "generate_vutxos X e p s = Inr (?keys, vs, p', ?s1)"
    and g': "distinct ?keys" "map (utxos s) ?keys = map Some vs" "unsigned_tx p' = unsigned_tx p"
  proof -
    from assms obtain keys vs p' s1 where g: "generate_vutxos X e p s = Inr (keys, vs, p', s1)"
      by (auto simp only: create_btc_pending_info_def bindR_Inr)
    with generate_vutxos_Inr[OF g] that show ?thesis by blast
  qed
  from assms g obtain change fee actual gas s3 tx_id now where
    c: "pending_sign_count ?acc < get_max_pending_sign_txs s a"
      "get_change_script_pubkey X (cfg s) = Inr change"
      "get_fee (withdraw_bridge_fee (cfg s)) amount = Inr fee"
      "check_withdraw_psbt_valid X e ?s2 target change p' vs amount fee mf = Inr (actual, gas, s3)"
      "get_pending_id X p' = Inr tx_id"
    and r: "bindR (insert_new_pending tx_id (withdraw_record X a tx_id amount actual fee gas p' vs now) s3) (\<lambda>s.
        bindR (add_pending_sign_id a tx_id s) (\<lambda>s.
        Inr (emit (EvGenerateBtcPendingInfo a tx_id (get_expiry_height p')) (emit (EvUtxoRemoved ?keys) s)))) = Inr s'"
    apply (simp add: create_btc_pending_info_def Let_def internal_unwrap_or_create_mut_account_def
        internal_set_account_def get_max_pending_sign_txs_def)
    apply (simp only: res_Inr split_paired_Ex prod.case)
    apply (elim exE conjE)
    apply (rule that)
         apply (simp add: get_max_pending_sign_txs_def)
        apply assumption+
    apply (simp only: bindR_Inr withdraw_record_def)
    apply (intro exI conjI; assumption)
    done
  from check_withdraw_psbt_valid_Inr[OF c(4)] obtain n m where
    ck: "check_withdraw_psbt X e ?s2 p' target change vs amount fee = Inr (n, m, actual, gas)"
      "s3 = emit (EvWithdrawBtcDetail amount fee gas actual) ?s2" by blast
  let ?acc' = "?acc\<lparr>btc_pending_sign_ids := insert tx_id (btc_pending_sign_ids ?acc)\<rparr>"
  let ?effs = "[Emitted (EvWithdrawBtcDetail amount fee gas actual), Emitted (EvUtxoRemoved ?keys),
      Emitted (EvGenerateBtcPendingInfo a tx_id (get_expiry_height p'))]"
  have fin: "btc_pending_infos s tx_id = None \<and> s' = s\<lparr>utxos := utxos s |` (- set ?keys),
      accounts := (accounts s)(a \<mapsto> VAccount_Current ?acc'),
      btc_pending_infos := (btc_pending_infos s)(tx_id \<mapsto>
        VPending_Current (withdraw_record X a tx_id amount actual fee gas p' vs now)),
      effects := effects s @ ?effs\<rparr>"
    using r unfolding ck(2)
    by (auto simp: insert_new_pending_def add_pending_sign_id_def internal_unwrap_mut_account_def
        write_pending_def internal_set_account_def emit_def res_Inr of_vaccount_def)
  show ?thesis unfolding Let_def
    by (intro exI conjI) (rule g' c ck(1) fin[THEN conjunct1] fin[THEN conjunct2] refl)+
qed

text \<open>C9: a withdrawal request that the bridge accepts comes from the nBTC contract, spends
  distinct registered UTXOs and unregisters exactly those; it creates one pending transaction under
  an id that was free, waiting for signatures of each input, whose burn amount plus the bridge's
  fee is the user's amount and whose inputs are worth the burn amount plus the change; the protocol
  fees do not move.  The sender's account, created if need be, was below its limit of pending
  transactions and gets the new id among the transactions it has to sign; no other account changes.\<close>

theorem withdraw_request:
  assumes "psbt_crate_ok X" "json_token_message X msg = Some (MsgWithdraw target input output mf)"
    and "ft_on_transfer X e a amount msg s = Inr (r, s')"
  shows "\<exists>i p sc. let keys = map out_point_to_utxo_storage_key input in
    r = 0 \<and> predecessor e = nbtc_account_id (cfg s) \<and>
    distinct keys \<and> map Some (vutxos p) = map (utxos s) keys \<and> utxos s' = utxos s |` (- set keys) \<and>
    btc_pending_infos s i = None \<and>
    btc_pending_infos s' = (btc_pending_infos s)(i \<mapsto> VPending_Current p) \<and>
    info_kind p = KWithdraw \<and> info_stage p = PendingSign \<and>
    signatures p = replicate (length input) None \<and>
    transfer_amount p = amount \<and> burn_amount p + withdraw_fee p = amount \<and>
    get_fee (withdraw_bridge_fee (cfg s)) amount = Inr (withdraw_fee p) \<and>
    target_script_pubkey X (cfg s) target = Inr (Some sc) \<and>
    paid_to sc output = [actual_received_amount p] \<and>
    vutxo_sum (vutxos p) = burn_amount p + out_sum (filter (\<lambda>out. txo_script out \<noteq> sc) output) \<and>
    cur_available_protocol_fee s' = cur_available_protocol_fee s \<and>
    cur_reserved_protocol_fee s' = cur_reserved_protocol_fee s \<and>
    (let acc = (case accounts s a of Some v \<Rightarrow> of_vaccount v | None \<Rightarrow> account_new a) in
      pending_sign_count acc < get_max_pending_sign_txs s a \<and>
      accounts s' = (accounts s)(a \<mapsto> VAccount_Current
        (acc\<lparr>btc_pending_sign_ids := insert i (btc_pending_sign_ids acc)\<rparr>)))"
proof -
  from assms obtain p0 where p0: "psbt_new X input output = Inr p0" and pre: "predecessor e = nbtc_account_id (cfg s)"
    and c: "create_btc_pending_info X e a amount target p0 mf s = Inr s'" and r: "r = 0"
    by (auto simp: ft_on_transfer_def unless_paused_def res_Inr ft_on_transfer_withdraw_chain_specific_def)
  note t = psbt_new_tx[OF assms(1) p0]
  define keys where "keys = map out_point_to_utxo_storage_key input"
  have keys: "get_utxo_storage_keys p0 = keys" using t by (simp add: get_utxo_storage_keys_prev keys_def)
  have len: "get_input_num p0 = length input" using t unfolding get_input_num_def by (metis length_map)
  obtain vs p' acc acc' i actual gas fee now change n m effs where
    d: "distinct keys" "map (utxos s) keys = map Some vs" "unsigned_tx p' = unsigned_tx p0"
       "btc_pending_infos s i = None"
       "get_fee (withdraw_bridge_fee (cfg s)) amount = Inr fee"
       "check_withdraw_psbt X e (s\<lparr>utxos := utxos s |` (- set keys), accounts := (accounts s)(a \<mapsto> VAccount_Current acc)\<rparr>)
          p' target change vs amount fee = Inr (n, m, actual, gas)"
       "s' = s\<lparr>utxos := utxos s |` (- set keys),
          accounts := (accounts s)(a \<mapsto> VAccount_Current acc'),
          btc_pending_infos := (btc_pending_infos s)(i \<mapsto>
            VPending_Current (withdraw_record X a i amount actual fee gas p' vs now)),
          effects := effects s @ effs\<rparr>"
       "acc = (case accounts s a of Some v \<Rightarrow> of_vaccount v | None \<Rightarrow> account_new a)"
       "acc' = acc\<lparr>btc_pending_sign_ids := insert i (btc_pending_sign_ids acc)\<rparr>"
       "pending_sign_count acc < get_max_pending_sign_txs s a"
    using create_btc_pending_info_Inr[OF c, unfolded Let_def keys] by blast
  have out: "get_output p' = output" "get_input_num p' = length input"
    using d(3) t len by (simp_all add: get_output_def get_input_num_def)
  obtain sc where sc: "target_script_pubkey X (cfg s) target = Inr (Some sc)" "actual + gas + fee = amount"
     "paid_to sc output = [actual]"
     "vutxo_sum vs = (amount - fee) + out_sum (filter (\<lambda>out. txo_script out \<noteq> sc) output)"
    using withdraw_check_conserves[OF d(6)] out(1) by auto
  let ?p = "withdraw_record X a i amount actual fee gas p' vs now"
  show ?thesis unfolding Let_def
    by (rule exI[of _ i], rule exI[of _ ?p], rule exI[of _ sc], fold keys_def)
      (use r pre d sc out in \<open>simp add: withdraw_record_def info_kind_def info_stage_def\<close>)
qed

section \<open>A withdrawal on concrete data\<close>

definition sample_key :: string where
  "sample_key = generate_utxo_storage_key ''ab'' 0"

definition sample_x :: crates where
  "sample_x = sample_ext (\<lambda>_. ''cd'') sample_withdraw_psbt"

definition withdraw_ctx :: ctx where
  "withdraw_ctx = sample_ctx\<lparr>predecessor := ''nbtc.near''\<rparr>"

definition withdraw_state :: contract where
  "withdraw_state = sample_contract\<lparr>utxos := [sample_key \<mapsto> sample_vutxo]\<rparr>"

lemma sample_x_ok: "psbt_crate_ok sample_x"
  by (simp add: sample_x_def sample_ext_ok)

lemma sample_config_values:
  "chain_cfg sample_config = BitcoinMainnet" "min_withdraw_amount sample_config = 20000"
  "nbtc_account_id sample_config = ''nbtc.near''"
  "withdraw_bridge_fee sample_config = \<lparr>fee_min = 2000, fee_rate = 10, protocol_fee_rate = 9000\<rparr>"
  "min_change_amount sample_config = 0" "max_change_amount sample_config = 100000000"
  "min_btc_gas_fee sample_config = 100" "max_btc_gas_fee sample_config = 80000"
  "max_withdrawal_input_number sample_config = 10" "max_change_number sample_config = 10"
  "passive_management_lower_limit sample_config = 0" "passive_management_upper_limit sample_config = 600"
  "chain_signatures_root_public_key sample_config = Some [2]"
  "unhealthy_utxo_amount sample_config = 1000" "rbf_num_limit sample_config = 99"
  "max_btc_tx_pending_sec sample_config = 86400"
  by (simp_all add: sample_config_def)

lemma sample_get_fee:
  "get_fee \<lparr>fee_min = 2000, fee_rate = 10, protocol_fee_rate = 9000\<rparr> 50000 = Inr 2000"
  by (simp add: get_fee_def chk_mul_def MAX_RATIO_def U128_MAX_def)

lemma sample_psbt_keys: "get_utxo_storage_keys sample_withdraw_psbt = [sample_key]"
  by (simp add: get_utxo_storage_keys_def sample_withdraw_psbt_def sample_psbt_def sample_tx_def sample_key_def)

lemma sample_psbt_inputs: "psbt_inputs sample_withdraw_psbt = [empty_psbt_input]"
  by (simp add: sample_withdraw_psbt_def sample_psbt_def)

lemma sample_psbt_new:
  "psbt_new sample_x [\<lparr>op_txid = ''ab'', op_vout = 0\<rparr>] (get_output sample_withdraw_psbt) = Inr sample_withdraw_psbt"
  by (simp add: psbt_new_def sample_x_def sample_withdraw_psbt_def sample_psbt_def sample_tx_def
      get_output_def unsigned_def default_tx_in_def)

lemma sample_message:
  "json_token_message sample_x ''withdraw'' = Some (MsgWithdraw (sample_address (CHR ''u''))
     [\<lparr>op_txid = ''ab'', op_vout = 0\<rparr>] (get_output sample_withdraw_psbt) None)"
  by (simp add: sample_x_def sample_address_def sample_withdraw_psbt_def sample_psbt_def sample_tx_def get_output_def)

text \<open>The check does not look at the parts of the state that a withdrawal changes before it.\<close>

lemma check_withdraw_psbt_cong:
  "cfg s = cfg s' \<Longrightarrow> role_members s = role_members s' \<Longrightarrow> signer e = signer e' \<Longrightarrow>
   get_output p = get_output p' \<Longrightarrow> get_input_num p = get_input_num p' \<Longrightarrow>
   check_withdraw_psbt X e s p t ch vs a f = check_withdraw_psbt X e' s' p' t ch vs a f"
  by (simp add: check_withdraw_psbt_def acl_has_role_def add_extra_outputs_def check_psbt_chain_specific_def Let_def cong: if_cong)

lemma sample_withdraw_runs:
  "is_ok (ft_on_transfer sample_x withdraw_ctx ''alice.near'' 50000 ''withdraw'' withdraw_state)"
proof -
  let ?s1 = "withdraw_state\<lparr>utxos := (utxos withdraw_state)(sample_key := None)\<rparr>"
  obtain sc where sc: "path_script sample_x withdraw_ctx ?s1 (get_path sample_vutxo) ''Invalid address'' = Inr sc"
  proof -
    have "is_ok (path_script sample_x withdraw_ctx ?s1 (get_path sample_vutxo) ''Invalid address'')"
      unfolding sample_x_def
      by (rule sample_path_script[of _ "[2]"])
        (simp_all add: withdraw_state_def sample_contract_def sample_config_values)
    then show ?thesis using that by blast
  qed
  define q where "q = sample_withdraw_psbt\<lparr>psbt_inputs := [empty_psbt_input\<lparr>witness_utxo :=
      Some \<lparr>txo_value = 78000, txo_script = sc\<rparr>\<rparr>]\<rparr>"
  have amt: "get_amount sample_vutxo = 78000" by (simp add: sample_vutxo_def get_amount_def)
  have g: "generate_vutxos sample_x withdraw_ctx sample_withdraw_psbt withdraw_state =
      Inr ([sample_key], [sample_vutxo], q, ?s1)"
    using sc amt by (simp add: generate_vutxos_def remove_vutxo_by_psbt_def sample_psbt_keys withdraw_state_def
        set_input_utxo_def q_def sample_psbt_inputs index_at_def)
  have qo: "get_output q = get_output sample_withdraw_psbt" "get_input_num q = get_input_num sample_withdraw_psbt"
    by (simp_all add: q_def get_output_def get_input_num_def)
  have ck: "check_withdraw_psbt sample_x withdraw_ctx s q (sample_address (CHR ''u'')) (p2pkh_script 0x63)
      [sample_vutxo] 50000 2000 = Inr (1, 1, 47000, 1000)" if "cfg s = sample_config" "role_members s = {}" for s
  proof -
    have "check_withdraw_psbt sample_x withdraw_ctx s q (sample_address (CHR ''u'')) (p2pkh_script 0x63)
        [sample_vutxo] 50000 2000 = check_withdraw_psbt sample_x sample_ctx sample_contract
        sample_withdraw_psbt (sample_address (CHR ''u'')) (p2pkh_script 0x63) [sample_vutxo] 50000 2000"
      by (rule check_withdraw_psbt_cong)
        (use that qo in \<open>simp_all add: sample_contract_def withdraw_ctx_def\<close>)
    then show ?thesis by (simp add: sample_x_def sample_withdraw_check)
  qed
  have change: "get_change_script_pubkey sample_x sample_config = Inr (p2pkh_script 0x63)"
    using sample_change_script[of "\<lambda>_. ''cd''" sample_withdraw_psbt] by (simp add: sample_x_def)
  have id: "get_pending_id sample_x q = Inr ''cd''" by (simp add: get_pending_id_def sample_x_def)
  have k: "cfg withdraw_state = sample_config" "role_members withdraw_state = {}"
    "dom (utxos withdraw_state) = {sample_key}" "accounts withdraw_state = Map.empty" "pending_tx_limits withdraw_state = Map.empty"
    "btc_pending_infos withdraw_state = Map.empty" "paused withdraw_state = {}"
    by (simp_all add: withdraw_state_def sample_contract_def)
  have e: "predecessor withdraw_ctx = ''nbtc.near''" "block_timestamp withdraw_ctx div 10 ^ 9 \<le> U32_MAX"
    by (simp_all add: withdraw_ctx_def sample_ctx_def U32_MAX_def)
  have "is_ok (create_btc_pending_info sample_x withdraw_ctx ''alice.near'' 50000 (sample_address (CHR ''u''))
      sample_withdraw_psbt None withdraw_state)"
    unfolding create_btc_pending_info_def g bindR_simps prod.case Let_def internal_unwrap_or_create_mut_account_def
    using e(2)
    by (simp add: k change sample_get_fee check_withdraw_psbt_valid_def Let_def ck id
        internal_set_account_def account_new_def pending_sign_count_def get_max_pending_sign_txs_def
        sample_config_values try_into_def chk_add_def U32_MAX_def U128_MAX_def emit_def nano_to_sec_def
        insert_new_pending_def write_pending_def add_pending_sign_id_def internal_unwrap_mut_account_def
        acl_has_role_def)
  then obtain s' where s': "create_btc_pending_info sample_x withdraw_ctx ''alice.near'' 50000
      (sample_address (CHR ''u'')) sample_withdraw_psbt None withdraw_state = Inr s'" by blast
  show ?thesis
    by (simp add: ft_on_transfer_def unless_paused_def pa_is_paused_def k e(1) sample_config_values
        ft_on_transfer_withdraw_chain_specific_def sample_message sample_psbt_new s')
qed

lemma withdraw_request_witness:
  "\<exists>s' i p. ft_on_transfer sample_x withdraw_ctx ''alice.near'' 50000 ''withdraw'' withdraw_state = Inr (0, s') \<and>
     utxos s' = utxos withdraw_state |` (- {sample_key}) \<and>
     btc_pending_infos s' = [i \<mapsto> VPending_Current p] \<and> burn_amount p + withdraw_fee p = 50000"
proof -
  obtain r s' where run: "ft_on_transfer sample_x withdraw_ctx ''alice.near'' 50000 ''withdraw'' withdraw_state = Inr (r, s')"
    using sample_withdraw_runs by fastforce
  have "btc_pending_infos withdraw_state = Map.empty"
    by (simp add: withdraw_state_def sample_contract_def)
  with withdraw_request[OF sample_x_ok sample_message run] run
  show ?thesis by (auto simp: Let_def sample_key_def out_point_to_utxo_storage_key_def)
qed

end
