(* ===== verification/Rbf.thy ===== *)
theory Rbf
  imports Withdraw
begin

text \<open>
  Transactions that only move the bridge's own UTXOs
  (\<open>create_active_utxo_management_pending_info\<close>) and the four replacement operations of \<open>rbf/\<close>:
  the user speeds up a withdrawal, the operators cancel one, and the same for active management;
  with the entry points of \<open>api/bridge.rs\<close> and the macro \<open>define_rbf_method!\<close> that builds the
  replacement PSBT.
\<close>

section \<open>Active UTXO management\<close>

definition create_active_utxo_management_pending_info ::
    "crates \<Rightarrow> ctx \<Rightarrow> account_id \<Rightarrow> psbt \<Rightarrow> contract \<Rightarrow> contract res" where
  "create_active_utxo_management_pending_info X e a p s =
     require_pending_sign_capacity s a (
     bindR (generate_vutxos X e p s) (\<lambda>(keys, vs, p, s).
     bindR (check_active_management_psbt_valid X s p vs) (\<lambda>(actual, gas).
     require (gas \<le> cur_available_protocol_fee s) ''Insufficient protocol_fee'' (
     bindR (fee_reserve gas s) (\<lambda>s.
     let need_signature_num = get_input_num p; hex = psbt_serialize X p;
         expiry = get_expiry_height p in
     bindR (get_pending_id X p) (\<lambda>tx_id.
     bindR (nano_to_sec (block_timestamp e)) (\<lambda>now.
     bindR (insert_new_pending tx_id
       \<lparr>pi_account_id = a, pi_btc_pending_id = tx_id, transfer_amount = 0,
        actual_received_amount = actual, withdraw_fee = 0, gas_fee = gas, burn_amount = gas,
        psbt_hex = hex, vutxos = vs, signatures = replicate need_signature_num None,
        tx_bytes_with_sign = None, create_time_sec = now, last_sign_time_sec = 0,
        pi_state = ActiveUtxoManagementOriginal \<lparr>os_stage = PendingSign, max_gas_fee = gas,
          last_rbf_time_sec = None, cancel_rbf_reserved = None\<rparr>\<rparr> s) (\<lambda>s.
     bindR (add_pending_sign_id a tx_id s) (\<lambda>s.
     Inr (emit (EvGenerateBtcPendingInfo a tx_id expiry) (emit (EvUtxoRemoved keys) s)))))))))))"

definition active_utxo_management_chain_specific ::
    "crates \<Rightarrow> ctx \<Rightarrow> account_id \<Rightarrow> out_point list \<Rightarrow> tx_out list \<Rightarrow> contract \<Rightarrow> contract res" where
  "active_utxo_management_chain_specific X e a input output s =
     bindR (psbt_new X input output) (\<lambda>p. create_active_utxo_management_pending_info X e a p s)"

definition active_utxo_management ::
    "crates \<Rightarrow> ctx \<Rightarrow> out_point list \<Rightarrow> tx_out list \<Rightarrow> contract \<Rightarrow> contract res" where
  "active_utxo_management X e input output s =
     access_control_any e s [DAO, Operator] (
     unless_paused e s ''active_utxo_management'' (
     assert_one_yocto e (
     active_utxo_management_chain_specific X e (predecessor e) input output s)))"

section \<open>The records of a replacement\<close>

definition init_rbf_btc_pending_info :: "ctx \<Rightarrow> pending_info \<Rightarrow> pending_state \<Rightarrow> pending_info res" where
  "init_rbf_btc_pending_info e original st =
     bindR (nano_to_sec (block_timestamp e)) (\<lambda>now.
     Inr \<lparr>pi_account_id = pi_account_id original, pi_btc_pending_id = [],
       transfer_amount = transfer_amount original,
       actual_received_amount = actual_received_amount original,
       withdraw_fee = withdraw_fee original, gas_fee = gas_fee original,
       burn_amount = burn_amount original, psbt_hex = [], vutxos = vutxos original,
       signatures = replicate (length (signatures original)) None, tx_bytes_with_sign = None,
       create_time_sec = now, last_sign_time_sec = 0, pi_state = st\<rparr>)"

definition set_rbf_pending_info ::
    "crates \<Rightarrow> string \<Rightarrow> pending_info \<Rightarrow> psbt \<Rightarrow> bool \<Rightarrow> contract \<Rightarrow> (string \<times> contract) res" where
  "set_rbf_pending_info X original_id info p is_cancel s =
     (let hex = psbt_serialize X p in
      bindR (get_pending_id X p) (\<lambda>tx_id.
      bindR (insert_new_pending tx_id (info\<lparr>pi_btc_pending_id := tx_id, psbt_hex := hex\<rparr>) s) (\<lambda>s.
      let txs = (case rbf_txs s original_id of Some t \<Rightarrow> t | None \<Rightarrow> {}) in
      require (tx_id \<notin> txs) ''Rbf already exist'' (
      let txs' = insert tx_id txs; s = s\<lparr>rbf_txs := (rbf_txs s)(original_id \<mapsto> txs')\<rparr> in
      require (is_cancel \<or> card txs' \<le> rbf_num_limit (cfg s)) ''Exceed rbf_num_limit'' (
      Inr (tx_id, s))))))"

section \<open>The user replaces a withdrawal\<close>

definition extract_recipient_address :: "crates \<Rightarrow> contract \<Rightarrow> pending_info \<Rightarrow> string res" where
  "extract_recipient_address X s original =
     bindR (get_psbt X original) (\<lambda>p.
     case get_recipient_address p of
       Some r \<Rightarrow> Inr r
     | None \<Rightarrow>
         bindR (get_change_script_pubkey X (cfg s)) (\<lambda>change.
         bindR (get_transaction X (chain_cfg (cfg s)) original) (\<lambda>tx.
         expect (find (\<lambda>out. txo_script out \<noteq> change) (tx_output tx))
           ''The original tx is not a user withdraw tx.'' (\<lambda>out.
         expect (from_script X (txo_script out) (chain_cfg (cfg s)))
           ''Error on extract recipient address from script pubkey'' (\<lambda>a.
         expect (display_address X a) ''a Display implementation returned an error unexpectedly'' Inr)))))"

definition check_withdraw_rbf_psbt_valid ::
    "crates \<Rightarrow> ctx \<Rightarrow> contract \<Rightarrow> pending_info \<Rightarrow> psbt \<Rightarrow> (u128 \<times> u128) res" where
  "check_withdraw_rbf_psbt_valid X e s original p =
     bindR (get_change_script_pubkey X (cfg s)) (\<lambda>change.
     bindR (get_transaction X (chain_cfg (cfg s)) original) (\<lambda>tx.
     require (length (tx_output tx) = get_output_num p) ''Invalid output num'' (
     bindR (extract_recipient_address X s original) (\<lambda>target.
     bindR (check_withdraw_psbt X e s p target change (vutxos original) (transfer_amount original)
       (withdraw_fee original)) (\<lambda>(_, _, actual, gas). Inr (actual, gas))))))"

definition internal_withdraw_rbf ::
    "crates \<Rightarrow> ctx \<Rightarrow> account_id \<Rightarrow> string \<Rightarrow> psbt \<Rightarrow> account_id \<Rightarrow> contract \<Rightarrow> (string \<times> contract) res" where
  "internal_withdraw_rbf X e a original_id p pred s =
     internal_unwrap_btc_pending_info s original_id (\<lambda>original.
     require (pi_account_id original = a) ''Not allow'' (
     assert_not_canceled original (
     assert_withdraw_original_pending_verify_tx original (
     bindR (init_rbf_btc_pending_info e original
       (WithdrawUserRbf \<lparr>rs_stage = PendingSign, original_tx_id = original_id\<rparr>)) (\<lambda>info.
     bindR (check_withdraw_rbf_psbt_valid X e s original p) (\<lambda>(actual, gas).
     chk_add U128_MAX actual gas (\<lambda>burn.
     check_withdraw_chain_specific original gas (
     bindR (update_max_gas_fee e original gas) (\<lambda>original'.
     set_rbf_pending_info X original_id
       (info\<lparr>gas_fee := gas, actual_received_amount := actual, burn_amount := burn\<rparr>) p False
       (write_pending original_id original' s))))))))))"

section \<open>The operators cancel a withdrawal\<close>

definition check_cancel_withdraw_rbf_psbt_valid ::
    "crates \<Rightarrow> contract \<Rightarrow> pending_info \<Rightarrow> psbt \<Rightarrow> (u128 \<times> u128) res" where
  "check_cancel_withdraw_rbf_psbt_valid X s original p =
     check_psbt_output_all_change_address X s p (vutxos original) False True"

definition assert_cancel_allowed :: "ctx \<Rightarrow> contract \<Rightarrow> pending_info \<Rightarrow> 'a res \<Rightarrow> 'a res" where
  \<comment> \<open>the age check shared by both cancellations\<close>
  "assert_cancel_allowed e s original k =
     bindR (nano_to_sec (block_timestamp e)) (\<lambda>now.
     chk_sub now (create_time_sec original) (\<lambda>age.
     require (age > max_btc_tx_pending_sec (cfg s)) ''Please wait user rbf'' k))"

definition internal_cancel_withdraw ::
    "crates \<Rightarrow> ctx \<Rightarrow> account_id \<Rightarrow> string \<Rightarrow> psbt \<Rightarrow> account_id \<Rightarrow> contract \<Rightarrow> (string \<times> contract) res" where
  "internal_cancel_withdraw X e a original_id p pred s =
     internal_unwrap_btc_pending_info s original_id (\<lambda>original.
     assert_cancel_allowed e s original (
     assert_withdraw_original_pending_verify_tx original (
     bindR (get_cancel_rbf_reserved original) (\<lambda>prev_opt.
     let prev = (case prev_opt of Some r \<Rightarrow> r | None \<Rightarrow> 0) in
     bindR (init_rbf_btc_pending_info e original
       (WithdrawCancelRbf \<lparr>rs_stage = PendingSign, original_tx_id = original_id\<rparr>)) (\<lambda>info.
     bindR (check_cancel_withdraw_rbf_psbt_valid X s original p) (\<lambda>(actual, gas).
     check_withdraw_chain_specific original gas (
     chk_sub (transfer_amount info) (withdraw_fee info) (\<lambda>balance.
     let excess = gas - balance in
     require (excess > 0 \<longrightarrow> acl_has_role s DAO pred)
       ''gas fee exceeds the user's balance, only the owner is allowed to cancel'' (
     let additional = excess - prev in
     bindR (if additional > 0
            then require (cur_available_protocol_fee s \<ge> additional) ''Insufficient protocol fee''
                   (fee_reserve additional s)
            else Inr s) (\<lambda>s.
     bindR (do_cancel e original gas (max prev excess)) (\<lambda>original'.
     set_rbf_pending_info X original_id
       (info\<lparr>gas_fee := gas, burn_amount := gas, actual_received_amount := actual\<rparr>) p True
       (write_pending original_id original' s))))))))))))"

section \<open>Active management: replace and cancel\<close>

definition check_active_utxo_management_rbf_psbt_valid ::
    "crates \<Rightarrow> contract \<Rightarrow> pending_info \<Rightarrow> psbt \<Rightarrow> (u128 \<times> u128) res" where
  "check_active_utxo_management_rbf_psbt_valid X s original p =
     bindR (get_transaction X (chain_cfg (cfg s)) original) (\<lambda>tx.
     require (length (tx_output tx) = get_output_num p) ''Invalid output num'' (
     check_psbt_output_all_change_address X s p (vutxos original) True False))"

definition reserve_gas_increase :: "pending_info \<Rightarrow> u128 \<Rightarrow> contract \<Rightarrow> contract res" where
  \<comment> \<open>the lines shared by both operations: the replacement pays more gas, and the protocol pays
     the difference\<close>
  "reserve_gas_increase original gas s =
     bindR (get_max_gas_fee original) (\<lambda>mx.
     let additional = gas - mx in
     require (additional > 0) ''No gas increase.'' (
     require (cur_available_protocol_fee s \<ge> additional) ''Insufficient protocol fee''
       (fee_reserve additional s)))"

definition internal_active_utxo_management_rbf ::
    "crates \<Rightarrow> ctx \<Rightarrow> account_id \<Rightarrow> string \<Rightarrow> psbt \<Rightarrow> account_id \<Rightarrow> contract \<Rightarrow> (string \<times> contract) res" where
  "internal_active_utxo_management_rbf X e a original_id p pred s =
     internal_unwrap_btc_pending_info s original_id (\<lambda>original.
     require (pi_account_id original = a) ''Not allow'' (
     assert_not_canceled original (
     assert_active_utxo_management_original_pending_verify_tx original (
     bindR (init_rbf_btc_pending_info e original
       (ActiveUtxoManagementRbf \<lparr>rs_stage = PendingSign, original_tx_id = original_id\<rparr>)) (\<lambda>info.
     bindR (check_active_utxo_management_rbf_psbt_valid X s original p) (\<lambda>(actual, gas).
     bindR (reserve_gas_increase original gas s) (\<lambda>s.
     bindR (update_max_gas_fee e original gas) (\<lambda>original'.
     set_rbf_pending_info X original_id
       (info\<lparr>gas_fee := gas, burn_amount := gas, actual_received_amount := actual\<rparr>) p False
       (write_pending original_id original' s)))))))))"

definition check_cancel_active_utxo_management_rbf_psbt_valid ::
    "crates \<Rightarrow> contract \<Rightarrow> pending_info \<Rightarrow> psbt \<Rightarrow> (u128 \<times> u128) res" where
  "check_cancel_active_utxo_management_rbf_psbt_valid X s original p =
     check_psbt_output_all_change_address X s p (vutxos original) True True"

definition internal_cancel_active_utxo_management ::
    "crates \<Rightarrow> ctx \<Rightarrow> account_id \<Rightarrow> string \<Rightarrow> psbt \<Rightarrow> account_id \<Rightarrow> contract \<Rightarrow> (string \<times> contract) res" where
  "internal_cancel_active_utxo_management X e a original_id p pred s =
     internal_unwrap_btc_pending_info s original_id (\<lambda>original.
     assert_cancel_allowed e s original (
     assert_active_utxo_management_original_pending_verify_tx original (
     bindR (init_rbf_btc_pending_info e original
       (ActiveUtxoManagementCancelRbf \<lparr>rs_stage = PendingSign, original_tx_id = original_id\<rparr>)) (\<lambda>info.
     bindR (check_cancel_active_utxo_management_rbf_psbt_valid X s original p) (\<lambda>(actual, gas).
     bindR (reserve_gas_increase original gas s) (\<lambda>s.
     bindR (do_cancel e original gas 0) (\<lambda>original'.
     set_rbf_pending_info X original_id
       (info\<lparr>gas_fee := gas, burn_amount := gas, actual_received_amount := actual\<rparr>) p True
       (write_pending original_id original' s))))))))"

section \<open>Entry points\<close>

definition generate_psbt_from_original_psbt_and_new_output ::
    "crates \<Rightarrow> pending_info \<Rightarrow> tx_out list \<Rightarrow> psbt res" where
  "generate_psbt_from_original_psbt_and_new_output X original output =
     bindR (get_psbt X original) (\<lambda>p. from_original_psbt X p output)"

type_synonym rbf_internal =
  "crates \<Rightarrow> ctx \<Rightarrow> account_id \<Rightarrow> string \<Rightarrow> psbt \<Rightarrow> account_id \<Rightarrow> contract \<Rightarrow> (string \<times> contract) res"

definition rbf_method ::
    "rbf_internal \<Rightarrow> crates \<Rightarrow> ctx \<Rightarrow> account_id \<Rightarrow> string \<Rightarrow> tx_out list \<Rightarrow> contract \<Rightarrow> contract res" where
  "rbf_method internal_fn X e a original_id output s =
     internal_unwrap_btc_pending_info s original_id (\<lambda>original.
     bindR (generate_psbt_from_original_psbt_and_new_output X original output) (\<lambda>p.
     bindR (internal_fn X e a original_id p (predecessor e) s) (\<lambda>(tx_id, s).
     bindR (add_pending_sign_id a tx_id s) (\<lambda>s.
     Inr (emit (EvGenerateBtcPendingInfo a tx_id None) s)))))"

definition WITHDRAW_RBF_BASE_STORAGE_BYTES :: u64 where "WITHDRAW_RBF_BASE_STORAGE_BYTES = 1000"
definition WITHDRAW_RBF_STORAGE_BYTES_PER_INPUT :: u64 where "WITHDRAW_RBF_STORAGE_BYTES_PER_INPUT = 300"
definition WITHDRAW_RBF_STORAGE_BYTES_PER_OUTPUT :: u64 where "WITHDRAW_RBF_STORAGE_BYTES_PER_OUTPUT = 100"

definition required_balance_for_withdraw_rbf :: "ctx \<Rightarrow> contract \<Rightarrow> u128" where
  "required_balance_for_withdraw_rbf e s =
     min U128_MAX (storage_byte_cost e *
       (WITHDRAW_RBF_BASE_STORAGE_BYTES
        + WITHDRAW_RBF_STORAGE_BYTES_PER_INPUT * max_withdrawal_input_number (cfg s)
        + WITHDRAW_RBF_STORAGE_BYTES_PER_OUTPUT * (max_change_number (cfg s) + 1)))"

definition withdraw_rbf :: "crates \<Rightarrow> ctx \<Rightarrow> string \<Rightarrow> tx_out list \<Rightarrow> contract \<Rightarrow> contract res" where
  "withdraw_rbf X e original_id output s =
     unless_paused e s ''withdraw_rbf'' (
     require_pending_sign_capacity s (predecessor e) (
     bindR (charge_attached_deposit e (required_balance_for_withdraw_rbf e s) s) (\<lambda>s.
     rbf_method internal_withdraw_rbf X e (predecessor e) original_id output s)))"

definition cancel_withdraw :: "crates \<Rightarrow> ctx \<Rightarrow> string \<Rightarrow> tx_out list \<Rightarrow> contract \<Rightarrow> contract res" where
  "cancel_withdraw X e original_id output s =
     access_control_any e s [DAO, Operator] (
     unless_paused e s ''cancel_withdraw'' (
     assert_one_yocto e (
     internal_unwrap_btc_pending_info s original_id (\<lambda>original.
     require_pending_sign_capacity s (pi_account_id original) (
     rbf_method internal_cancel_withdraw X e (pi_account_id original) original_id output s)))))"

definition active_utxo_management_rbf :: "crates \<Rightarrow> ctx \<Rightarrow> string \<Rightarrow> tx_out list \<Rightarrow> contract \<Rightarrow> contract res" where
  "active_utxo_management_rbf X e original_id output s =
     access_control_any e s [DAO, Operator] (
     unless_paused e s ''active_utxo_management_rbf'' (
     assert_one_yocto e (
     require_pending_sign_capacity s (predecessor e) (
     rbf_method internal_active_utxo_management_rbf X e (predecessor e) original_id output s))))"

definition cancel_active_utxo_management :: "crates \<Rightarrow> ctx \<Rightarrow> string \<Rightarrow> tx_out list \<Rightarrow> contract \<Rightarrow> contract res" where
  "cancel_active_utxo_management X e original_id output s =
     access_control_any e s [DAO, Operator] (
     unless_paused e s ''cancel_active_utxo_management'' (
     assert_one_yocto e (
     internal_unwrap_btc_pending_info s original_id (\<lambda>original.
     require_pending_sign_capacity s (pi_account_id original) (
     rbf_method internal_cancel_active_utxo_management X e (pi_account_id original) original_id output s)))))"

definition clear_invalid_pending_verify_rbf :: "ctx \<Rightarrow> string \<Rightarrow> contract \<Rightarrow> contract res" where
  "clear_invalid_pending_verify_rbf e i s =
     unless_paused e s ''clear_invalid_pending_verify_rbf'' (internal_clear_invalid_pending_verify_rbf i s)"

definition batch_clear_invalid_pending_verify_rbf :: "ctx \<Rightarrow> string list \<Rightarrow> contract \<Rightarrow> contract res" where
  "batch_clear_invalid_pending_verify_rbf e is s =
     unless_paused e s ''batch_clear_invalid_pending_verify_rbf''
       (fold_res internal_clear_invalid_pending_verify_rbf is s)"

end
