(* ===== verification/Signing.thy ===== *)
theory Signing
  imports Rbf
begin

text \<open>
  \<open>api/chain_signatures.rs\<close> and \<open>chain_signature.rs\<close>: asking the MPC service for the signature of
  one input, storing it, and moving the transaction on once every input is signed; reading the root
  public key from the service.
\<close>

definition private_call :: "ctx \<Rightarrow> 'a res \<Rightarrow> 'a res" where
  "private_call e k = require (predecessor e = current_account e) ''Method is private'' k"

definition sign_promise :: "ctx \<Rightarrow> sign_request \<Rightarrow> callback option \<Rightarrow> contract \<Rightarrow> contract" where
  "sign_promise e rq cb s =
     schedule (chain_signatures_account_id (cfg s)) (MpcSign rq (attached_deposit e)) cb s"

definition internal_sign_btc_transaction ::
    "crates \<Rightarrow> ctx \<Rightarrow> string \<Rightarrow> usize \<Rightarrow> u32 \<Rightarrow> contract \<Rightarrow> contract res" where
  "internal_sign_btc_transaction X e i sign_index key_version s =
     internal_unwrap_btc_pending_info s i (\<lambda>p.
     index_at (signatures p) sign_index (\<lambda>sg.
     require (sg = None) ''Already signed'' (
     bindR (get_psbt X p) (\<lambda>q.
     bindR (get_hash_to_sign X q sign_index) (\<lambda>payload.
     index_at (vutxos p) sign_index (\<lambda>v.
     Inr (sign_promise e \<lparr>sr_payload = payload, sr_path = get_path v, sr_key_version = key_version\<rparr>
       (Some (CbSignBtcTransaction (pi_account_id p) i sign_index)) s)))))))"

text \<open>The result is \<open>Some v\<close> for a value and \<open>None\<close> for a promise.\<close>

definition sign_btc_transaction ::
    "crates \<Rightarrow> ctx \<Rightarrow> string \<Rightarrow> usize \<Rightarrow> u32 \<Rightarrow> contract \<Rightarrow> (bool option \<times> contract) res" where
  "sign_btc_transaction X e i sign_index key_version s =
     unless_paused e s ''sign_btc_transaction'' (
     internal_unwrap_btc_pending_info s i (\<lambda>p.
     require (is_refund p \<or> is_trusted_relayer e (predecessor e)) ''Relayer is not active'' (
     assert_pending_sign p (
     if (case get_original_tx_id p of Some orig \<Rightarrow> \<not> check_btc_pending_info_exists s orig | None \<Rightarrow> False)
     then
       internal_unwrap_mut_account s (pi_account_id p) (\<lambda>acc s.
       require (i \<in> btc_pending_sign_ids acc) ''Internal error'' (
       let s = internal_set_account (pi_account_id p)
                 (acc\<lparr>btc_pending_sign_ids := btc_pending_sign_ids acc - {i}\<rparr>) s in
       internal_remove_btc_pending_info s i (\<lambda>_ s. Inr (Some True, s))))
     else bindR (internal_sign_btc_transaction X e i sign_index key_version s) (\<lambda>s. Inr (None, s))))))"

definition record_signature ::
    "crates \<Rightarrow> ctx \<Rightarrow> usize \<Rightarrow> signature_response \<Rightarrow> bytes \<Rightarrow> pending_info \<Rightarrow> (psbt \<times> pending_info) res" where
  \<comment> \<open>the updates of the pending record for one signature\<close>
  "record_signature X e sign_index sg public_key p =
     index_at (signatures p) sign_index (\<lambda>old.
     require (old = None) ''Already signed'' (
     bindR (nano_to_sec (block_timestamp e)) (\<lambda>now.
     let p = p\<lparr>signatures := (signatures p)[sign_index := Some sg], last_sign_time_sec := now\<rparr> in
     bindR (get_psbt X p) (\<lambda>q.
     bindR (save_signature X q sign_index sg public_key) (\<lambda>q.
     Inr (q, p\<lparr>psbt_hex := psbt_serialize X q\<rparr>))))))"

definition finish_signing ::
    "crates \<Rightarrow> account_id \<Rightarrow> string \<Rightarrow> psbt \<Rightarrow> pending_info \<Rightarrow> contract \<Rightarrow> contract res" where
  \<comment> \<open>the branch taken when all inputs are signed\<close>
  "finish_signing X a i q p s =
     bindR (extract_tx_bytes_with_sign X q) (\<lambda>bs.
     let s = emit (EvSignedBtcTransaction a i bs) s;
         p = to_pending_verify_stage (p\<lparr>tx_bytes_with_sign := Some bs\<rparr>);
         s = write_pending i p s in
     internal_unwrap_mut_account s a (\<lambda>acc s.
     require (i \<in> btc_pending_sign_ids acc) ''Internal error'' (
     let acc = acc\<lparr>btc_pending_sign_ids := btc_pending_sign_ids acc - {i}\<rparr>;
         acc = (if get_original_tx_id p = None
                then acc\<lparr>btc_pending_verify_list := insert i (btc_pending_verify_list acc)\<rparr> else acc) in
     Inr (internal_set_account a acc s))))"

definition sign_btc_transaction_callback ::
    "crates \<Rightarrow> ctx \<Rightarrow> account_id \<Rightarrow> string \<Rightarrow> usize \<Rightarrow> contract \<Rightarrow> (bool \<times> contract) res" where
  "sign_btc_transaction_callback X e a i sign_index s =
     private_call e (
     case promise_result_checked e MAX_SIGNATURE_RESULT of
       None \<Rightarrow> Inr (False, s)
     | Some result_bytes \<Rightarrow>
         expect (json_signature X result_bytes) ''Invalid signature'' (\<lambda>sg.
         internal_unwrap_btc_pending_info s i (\<lambda>p.
         index_at (vutxos p) sign_index (\<lambda>v.
         bindR (generate_btc_public_key X e s (get_path v)) (\<lambda>public_key.
         bindR (record_signature X e sign_index sg public_key p) (\<lambda>(q, p).
         let s = emit (EvBtcInputSignature a i sign_index sg) s in
         bindR (if is_all_signed p then finish_signing X a i q p s else Inr (write_pending i p s))
           (\<lambda>s. Inr (True, s))))))))"

section \<open>The root public key\<close>

definition sync_chain_signatures_root_public_key :: "ctx \<Rightarrow> contract \<Rightarrow> contract res" where
  "sync_chain_signatures_root_public_key e s =
     access_control_any e s [DAO] (
     assert_one_yocto e (
     require (chain_signatures_root_public_key (cfg s) = None) ''Already sync'' (
     Inr (schedule (chain_signatures_account_id (cfg s)) MpcPublicKey (Some CbSyncRootPublicKey) s))))"

definition sync_root_public_key_callback :: "crates \<Rightarrow> ctx \<Rightarrow> contract \<Rightarrow> (bool \<times> contract) res" where
  "sync_root_public_key_callback X e s =
     private_call e (
     case promise_result_checked e MAX_PUBLIC_KEY_RESULT of
       None \<Rightarrow> Inr (False, s)
     | Some result_bytes \<Rightarrow>
         expect (json_public_key X result_bytes) ''Invalid PublicKey'' (\<lambda>root.
         let s = s\<lparr>cfg := (cfg s)\<lparr>chain_signatures_root_public_key := Some root\<rparr>\<rparr> in
         bindR (generate_utxo_chain_address X e s (current_account e)) (\<lambda>a.
         expect (display_address X a) ''a Display implementation returned an error unexpectedly'' (\<lambda>addr.
         Inr (True, s\<lparr>cfg := (cfg s)\<lparr>change_address := Some addr\<rparr>\<rparr>)))))"

end
