(* ===== verification/Finalize.thy ===== *)
theory Finalize
  imports Signing
begin

text \<open>
  Finalisation of withdrawals and active management: \<open>btc_light_client/withdraw.rs\<close>,
  \<open>btc_light_client/active_utxo_management.rs\<close>, \<open>nbtc/burn.rs\<close> and \<open>token_transfer.rs\<close>.  The
  light client proves inclusion, the nBTC contract burns, and the burn callback registers the
  change, settles the protocol fees and drops the pending records; a failed burn puts the
  transaction back to the verify stage.
\<close>

section \<open>Proving inclusion\<close>

definition verify_inclusion_then ::
    "crates \<Rightarrow> ctx \<Rightarrow> string \<Rightarrow> string \<Rightarrow> u64 \<Rightarrow> string list \<Rightarrow> (string \<times> string list) option
     \<Rightarrow> pending_info \<Rightarrow> callback \<Rightarrow> contract \<Rightarrow> contract res" where
  \<comment> \<open>\<open>internal_verify_withdraw\<close>, \<open>internal_verify_active_utxo_management\<close> and
     \<open>internal_verify_refund_finalize\<close> differ in the callback only\<close>
  "verify_inclusion_then X e tx_id blockhash tx_index merkle_proof coinbase_proof p cb s =
     bindR (get_confirmations (cfg s) (actual_received_amount p)) (\<lambda>n.
     chk_add U64_MAX n (relayer_delta (cfg s) (predecessor e \<in> relayer_white_list s)) (\<lambda>confirmations.
     bindR (verify_transaction_inclusion_call X tx_id blockhash tx_index merkle_proof coinbase_proof
       confirmations) (\<lambda>c.
     Inr (schedule (btc_light_client_account_id (cfg s)) c (Some cb) s))))"

definition assert_original_still_pending :: "contract \<Rightarrow> pending_info \<Rightarrow> 'a res \<Rightarrow> 'a res" where
  "assert_original_still_pending s p k =
     (case get_original_tx_id p of
        Some orig \<Rightarrow> require (check_btc_pending_info_exists s orig) ''original tx already verified'' k
      | None \<Rightarrow> k)"

definition internal_verify_withdraw_entry ::
    "crates \<Rightarrow> ctx \<Rightarrow> string \<Rightarrow> string \<Rightarrow> u64 \<Rightarrow> string list \<Rightarrow> (string \<times> string list) option
     \<Rightarrow> contract \<Rightarrow> contract res" where
  "internal_verify_withdraw_entry X e tx_id blockhash tx_index merkle_proof coinbase_proof s =
     internal_unwrap_btc_pending_info s tx_id (\<lambda>p.
     assert_withdraw_related_pending_verify_tx p (
     assert_original_still_pending s p (
     require (tx_bytes_with_sign p \<noteq> None) ''Missing tx_bytes_with_sign'' (
     verify_inclusion_then X e tx_id blockhash tx_index merkle_proof coinbase_proof p
       (CbVerifyWithdraw tx_id) s))))"

definition internal_verify_active_utxo_management_entry ::
    "crates \<Rightarrow> ctx \<Rightarrow> string \<Rightarrow> string \<Rightarrow> u64 \<Rightarrow> string list \<Rightarrow> (string \<times> string list) option
     \<Rightarrow> contract \<Rightarrow> contract res" where
  "internal_verify_active_utxo_management_entry X e tx_id blockhash tx_index merkle_proof coinbase_proof s =
     internal_unwrap_btc_pending_info s tx_id (\<lambda>p.
     assert_active_utxo_management_related_pending_verify_tx p (
     assert_original_still_pending s p (
     require (tx_bytes_with_sign p \<noteq> None) ''Missing tx_bytes_with_sign'' (
     verify_inclusion_then X e tx_id blockhash tx_index merkle_proof coinbase_proof p
       (CbVerifyActiveUtxoManagement tx_id) s))))"

definition require_included :: "crates \<Rightarrow> ctx \<Rightarrow> 'a res \<Rightarrow> 'a res" where
  \<comment> \<open>the head of the three inclusion callbacks\<close>
  "require_included X e k =
     expect (promise_result_checked e MAX_BOOL_RESULT) ''Call verify_transaction_inclusion failed'' (\<lambda>bs.
     expect (json_bool X bs) ''verify_transaction_inclusion return not bool'' (\<lambda>is_valid.
     require is_valid ''verify_transaction_inclusion return false'' k))"

section \<open>Burning\<close>

definition verify_withdraw_burn_promise :: "ctx \<Rightarrow> string \<Rightarrow> contract \<Rightarrow> contract res" where
  "verify_withdraw_burn_promise e tx_id s =
     internal_unwrap_btc_pending_info s tx_id (\<lambda>p.
     bindR (get_protocol_and_relayer_fee (withdraw_bridge_fee (cfg s)) (withdraw_fee p)) (\<lambda>(pf, rf).
     Inr (schedule (nbtc_account_id (cfg s))
       (NbtcBurn (pi_account_id p) (burn_amount p) (signer e) rf)
       (Some (CbVerifyWithdrawBurn tx_id pf rf)) s)))"

definition verify_active_utxo_management_burn_promise :: "ctx \<Rightarrow> string \<Rightarrow> contract \<Rightarrow> contract res" where
  "verify_active_utxo_management_burn_promise e tx_id s =
     internal_unwrap_btc_pending_info s tx_id (\<lambda>p.
     Inr (schedule (nbtc_account_id (cfg s))
       (NbtcBurn (pi_account_id p) (burn_amount p) (signer e) 0)
       (Some (CbVerifyActiveUtxoManagementBurn tx_id)) s))"

definition internal_verify_withdraw_callback :: "crates \<Rightarrow> ctx \<Rightarrow> string \<Rightarrow> contract \<Rightarrow> contract res" where
  "internal_verify_withdraw_callback X e tx_id s =
     private_call e (
     require_included X e (
     internal_unwrap_btc_pending_info s tx_id (\<lambda>p.
     assert_pending_verify p (
     bindR (to_pending_burn_stage p) (\<lambda>p.
     verify_withdraw_burn_promise e tx_id (write_pending tx_id p s))))))"

definition verify_active_utxo_management_callback :: "crates \<Rightarrow> ctx \<Rightarrow> string \<Rightarrow> contract \<Rightarrow> contract res" where
  "verify_active_utxo_management_callback X e tx_id s =
     private_call e (
     require_included X e (
     internal_unwrap_btc_pending_info s tx_id (\<lambda>p.
     assert_pending_verify p (
     bindR (to_pending_burn_stage p) (\<lambda>p.
     verify_active_utxo_management_burn_promise e tx_id (write_pending tx_id p s))))))"

section \<open>nBTC transfers out of the bridge\<close>

definition internal_transfer_nbtc :: "account_id \<Rightarrow> u128 \<Rightarrow> contract \<Rightarrow> contract" where
  "internal_transfer_nbtc a amount s =
     schedule (nbtc_account_id (cfg s)) (FtTransfer a amount) (Some (CbTransferNbtc a amount)) s"

definition internal_withdraw_protocol_fee :: "ctx \<Rightarrow> u128 \<Rightarrow> contract \<Rightarrow> contract" where
  "internal_withdraw_protocol_fee e amount s =
     schedule (nbtc_account_id (cfg s)) (FtTransfer (predecessor e) amount)
       (Some (CbWithdrawProtocolFee amount)) s"

definition withdraw_protocol_fee_callback :: "ctx \<Rightarrow> u128 \<Rightarrow> contract \<Rightarrow> (bool \<times> contract) res" where
  "withdraw_protocol_fee_callback e amount s =
     private_call e (
     let ok = is_promise_success e in
     bindR (if \<not> ok then fee_unclaim amount s else Inr s) (\<lambda>s.
     Inr (ok, emit (EvWithdrawBridgeProtocolFee amount ok) s)))"

definition transfer_nbtc_callback :: "ctx \<Rightarrow> account_id \<Rightarrow> u128 \<Rightarrow> contract \<Rightarrow> (bool \<times> contract) res" where
  "transfer_nbtc_callback e a amount s =
     private_call e (
     let ok = is_promise_success e in
     bindR (if \<not> ok then
              bindR (case lost_found s a of Some v \<Rightarrow> chk_add U128_MAX v amount Inr | None \<Rightarrow> Inr amount)
                (\<lambda>v. Inr (emit (EvLostFoundNbtc a amount) (s\<lparr>lost_found := (lost_found s)(a \<mapsto> v)\<rparr>)))
            else Inr s) (\<lambda>s.
     Inr (ok, emit (EvTransferNbtc a amount ok) s)))"

definition claim_lost_found :: "ctx \<Rightarrow> contract \<Rightarrow> contract res" where
  "claim_lost_found e s =
     unless_paused e s ''claim_lost_found'' (
     assert_one_yocto e (
     expect (lost_found s (predecessor e)) ''The account does not have lostfound'' (\<lambda>amount.
     Inr (internal_transfer_nbtc (predecessor e) amount
       (s\<lparr>lost_found := (lost_found s)(predecessor e := None)\<rparr>)))))"

section \<open>The burn callbacks\<close>

text \<open>Registering the change outputs of a confirmed transaction: the keys and balances added.\<close>

fun register_change ::
    "ctx \<Rightarrow> string \<Rightarrow> bytes \<Rightarrow> tx_out list \<Rightarrow> usize \<Rightarrow> string list \<times> u128 list \<times> contract
     \<Rightarrow> (string list \<times> u128 list \<times> contract) res" where
  "register_change e tx_id change [] index acc = Inr acc"
| "register_change e tx_id change (out # outs) index (keys, balances, s) =
     (if change = txo_script out then
        try_into U32_MAX index ''Index overflow'' (\<lambda>vout.
        let key = generate_utxo_storage_key tx_id vout;
            u = \<lparr>utxo_path = current_account e, utxo_tx_bytes = [], utxo_vout = index,
                 utxo_balance = txo_value out\<rparr> in
        register_change e tx_id change outs (Suc index)
          (keys @ [key], balances @ [utxo_balance u], internal_set_utxo key u s))
      else register_change e tx_id change outs (Suc index) (keys, balances, s))"

definition confirmed_outputs :: "crates \<Rightarrow> contract \<Rightarrow> pending_info \<Rightarrow> tx_out list res" where
  "confirmed_outputs X s p =
     expect (tx_bytes_with_sign p) ''unwrap'' (\<lambda>bs.
     expect (tx_decode X bs (chain_cfg (cfg s))) ''Deserialization tx_bytes failed'' (\<lambda>tx.
     Inr (tx_output tx)))"

definition cancel_refund :: "pending_info \<Rightarrow> u128 res" where
  \<comment> \<open>what a cancelled withdrawal returns to the user\<close>
  "cancel_refund p =
     (if is_cancel_withdraw_rbf p
      then chk_add U128_MAX (withdraw_fee p) (burn_amount p) (\<lambda>used. Inr (transfer_amount p - used))
      else Inr 0)"

definition settle_withdraw :: "pending_info \<Rightarrow> string \<Rightarrow> contract \<Rightarrow> contract res" where
  \<comment> \<open>dropping the original of the confirmed withdrawal and its fee reservation\<close>
  "settle_withdraw p tx_id s =
     (case get_original_tx_id p of
        Some orig \<Rightarrow>
          let s = s\<lparr>rbf_txs := (rbf_txs s)(orig := None)\<rparr> in
          bindR (remove_pending_verify (pi_account_id p) orig s) (\<lambda>s.
          internal_remove_btc_pending_info s orig (\<lambda>original s.
          bindR (get_cancel_rbf_reserved original) (\<lambda>reserved.
          case reserved of
            Some r \<Rightarrow>
              if r > 0 then
                if is_cancel_withdraw_rbf p then
                  chk_sub (transfer_amount p) (withdraw_fee p) (\<lambda>balance.
                  fee_settle r (burn_amount p - balance) s)
                else fee_settle r 0 s
              else Inr s
          | None \<Rightarrow> Inr s)))
      | None \<Rightarrow>
          bindR (remove_pending_verify (pi_account_id p) tx_id s) (\<lambda>s.
          let s = s\<lparr>rbf_txs := (rbf_txs s)(tx_id := None)\<rparr> in
          bindR (get_cancel_rbf_reserved p) (\<lambda>reserved.
          case reserved of
            Some r \<Rightarrow> if r > 0 then fee_settle r 0 s else Inr s
          | None \<Rightarrow> Inr s)))"

definition verify_withdraw_burn_callback ::
    "crates \<Rightarrow> ctx \<Rightarrow> string \<Rightarrow> u128 \<Rightarrow> u128 \<Rightarrow> contract \<Rightarrow> (bool \<times> contract) res" where
  "verify_withdraw_burn_callback X e tx_id protocol_fee relayer_fee s =
     private_call e (
     let ok = is_promise_success e in
     internal_unwrap_btc_pending_info s tx_id (\<lambda>p.
     bindR (cancel_refund p) (\<lambda>refund.
     let burn_event = EvVerifyWithdrawDetails (pi_account_id p) (burn_amount p) protocol_fee (signer e)
           relayer_fee refund ok in
     bindR (if ok then
         bindR (confirmed_outputs X s p) (\<lambda>outs.
         bindR (get_change_script_pubkey X (cfg s)) (\<lambda>change.
         bindR (register_change e tx_id change outs 0 ([], [], s)) (\<lambda>(keys, balances, s).
         bindR (settle_withdraw p tx_id s) (\<lambda>s.
         bindR (if protocol_fee > 0 then fee_collect protocol_fee s else Inr s) (\<lambda>s.
         let s = (if refund > 0 then internal_transfer_nbtc (pi_account_id p) refund s else s) in
         internal_remove_btc_pending_info s tx_id (\<lambda>_ s.
         Inr (emit (EvUtxoAdded keys (Some balances)) s)))))))
       else Inr (write_pending tx_id (to_pending_verify_stage p) s)) (\<lambda>s.
     Inr (ok, emit burn_event s)))))"

definition settle_active :: "pending_info \<Rightarrow> string \<Rightarrow> contract \<Rightarrow> contract res" where
  "settle_active p tx_id s =
     (case get_original_tx_id p of
        Some orig \<Rightarrow>
          let s = s\<lparr>rbf_txs := (rbf_txs s)(orig := None)\<rparr> in
          bindR (remove_pending_verify (pi_account_id p) orig s) (\<lambda>s.
          internal_remove_btc_pending_info s orig (\<lambda>original s.
          bindR (get_max_gas_fee original) (\<lambda>reserved. fee_settle reserved (burn_amount p) s)))
      | None \<Rightarrow>
          bindR (remove_pending_verify (pi_account_id p) tx_id s) (\<lambda>s.
          bindR (get_max_gas_fee p) (\<lambda>reserved.
          bindR (fee_settle reserved (burn_amount p) s) (\<lambda>s.
          Inr (s\<lparr>rbf_txs := (rbf_txs s)(tx_id := None)\<rparr>)))))"

definition verify_active_utxo_management_burn_callback ::
    "crates \<Rightarrow> ctx \<Rightarrow> string \<Rightarrow> contract \<Rightarrow> (bool \<times> contract) res" where
  "verify_active_utxo_management_burn_callback X e tx_id s =
     private_call e (
     let ok = is_promise_success e in
     internal_unwrap_btc_pending_info s tx_id (\<lambda>p.
     let burn_event = EvVerifyActiveUtxoManagementDetails (pi_account_id p) (burn_amount p) ok in
     bindR (if ok then
         bindR (confirmed_outputs X s p) (\<lambda>outs.
         bindR (get_change_script_pubkey X (cfg s)) (\<lambda>change.
         bindR (register_change e tx_id change outs 0 ([], [], s)) (\<lambda>(keys, balances, s).
         bindR (settle_active p tx_id s) (\<lambda>s.
         internal_remove_btc_pending_info s tx_id (\<lambda>_ s.
         Inr (emit (EvUtxoAdded keys (Some balances)) s))))))
       else Inr (write_pending tx_id (to_pending_verify_stage p) s)) (\<lambda>s.
     Inr (ok, emit burn_event s))))"

section \<open>Claiming protocol fees\<close>

definition withdraw_protocol_fee :: "ctx \<Rightarrow> u128 option \<Rightarrow> contract \<Rightarrow> contract res" where
  "withdraw_protocol_fee e amount s =
     access_control_any e s [DAO] (
     assert_one_yocto e (
     let available = cur_available_protocol_fee s;
         amount = (case amount of Some v \<Rightarrow> v | None \<Rightarrow> available) in
     require (amount > 0 \<and> amount \<le> available) ''Invalid amount'' (
     bindR (fee_claim amount s) (\<lambda>s. Inr (internal_withdraw_protocol_fee e amount s)))))"

end
