(* ===== verification/Deposit.thy ===== *)
theory Deposit
  imports Deposit_Msg Finalize
begin

text \<open>
  Deposits: \<open>btc_light_client/deposit.rs\<close>, \<open>nbtc/mint.rs\<close>, the contract side of
  \<open>block_amount_ring.rs\<close> and \<open>verify_deposit_v2\<close> of \<open>api/bridge.rs\<close>.  A relayer submits the
  transaction; the light client answers with its height; the callback charges the height in the
  ring, checks the confirmations, marks the output verified and mints; the mint callback either
  makes the output a UTXO of the bridge or takes all of it back.
\<close>

section \<open>Confirmations of a block's cumulative amount\<close>

definition bump_and_check_confirmations ::
    "u64 \<Rightarrow> u64 \<Rightarrow> u128 \<Rightarrow> u64 \<Rightarrow> contract \<Rightarrow> contract res" where
  "bump_and_check_confirmations h tip_height amount delta s =
     bindR (ring_bump (block_bridge_amounts s) h amount) (\<lambda>(ring, bumped).
     let s = s\<lparr>block_bridge_amounts := ring\<rparr>;
         cumulative = (case bumped of Some v \<Rightarrow> v | None \<Rightarrow> U128_MAX) in
     bindR (get_confirmations (cfg s) cumulative) (\<lambda>n.
     chk_add U64_MAX n delta (\<lambda>required.
     let actual = sat_add U64_MAX (tip_height - h) 1 in
     require (actual \<ge> required) ''Not enough confirmations for the block-cumulative bridge amount''
       (Inr s))))"

definition unbump_block_amount :: "u64 option \<Rightarrow> u128 \<Rightarrow> contract \<Rightarrow> contract res" where
  "unbump_block_amount height amount s =
     (case height of
        Some h \<Rightarrow> bindR (ring_unbump (block_bridge_amounts s) h amount)
          (\<lambda>ring. Inr (s\<lparr>block_bridge_amounts := ring\<rparr>))
      | None \<Rightarrow> Inr s)"

definition resize_block_amount_ring :: "contract \<Rightarrow> contract res" where
  "resize_block_amount_ring s =
     bindR (ring_resize (block_bridge_amounts s) (capacity_for (cfg s)))
       (\<lambda>ring. Inr (s\<lparr>block_bridge_amounts := ring\<rparr>))"

definition required_confirmations :: "contract \<Rightarrow> u64 \<Rightarrow> u128 \<Rightarrow> u64 res" where
  "required_confirmations s h amount =
     bindR (ring_peek (block_bridge_amounts s) h amount) (\<lambda>v.
     get_confirmations (cfg s) (case v of Some c \<Rightarrow> c | None \<Rightarrow> U128_MAX))"

definition get_required_confirmations ::
    "contract \<Rightarrow> u64 \<Rightarrow> u128 \<Rightarrow> account_id option \<Rightarrow> bool option \<Rightarrow> u64 res" where
  "get_required_confirmations s h amount relayer has_extra_msg =
     bindR (required_confirmations s h amount) (\<lambda>n.
     chk_add U64_MAX n (confirmations_delta_for (cfg s) (relayer_white_list s)
       (extra_msg_relayer_white_list s) relayer
       (case has_extra_msg of Some b \<Rightarrow> b | None \<Rightarrow> False)) Inr)"

section \<open>Entering a deposit\<close>

definition REQUIRED_BALANCE_FOR_DEPOSIT :: u128 where
  "REQUIRED_BALANCE_FOR_DEPOSIT = 1200000000000000000000"

definition is_safe_deposit :: "deposit_msg \<Rightarrow> bool" where
  "is_safe_deposit d \<longleftrightarrow> dm_safe_deposit d \<noteq> None"

definition assert_post_actions_supported :: "deposit_msg \<Rightarrow> unit res" where
  "assert_post_actions_supported d = Inr ()"

definition internal_resolve_deposit_tx ::
    "crates \<Rightarrow> contract \<Rightarrow> deposit_tx_proof \<Rightarrow> deposit_tx_summary res" where
  "internal_resolve_deposit_tx X s proof =
     (case proof of
        Full bs \<Rightarrow>
          expect (tx_decode X bs (chain_cfg (cfg s))) ''Deserialization tx_bytes failed'' (\<lambda>tx.
          Inr \<lparr>ts_tx_id = compute_txid X tx, ts_outputs = tx_output tx\<rparr>)
      | Compact \<Rightarrow> Inl (Panic ''A compact tx_bytes proof is not supported on Bitcoin''))"

definition internal_build_deposit_utxo_info ::
    "crates \<Rightarrow> ctx \<Rightarrow> contract \<Rightarrow> string \<Rightarrow> deposit_tx_summary \<Rightarrow> usize \<Rightarrow> pending_utxo_info res" where
  "internal_build_deposit_utxo_info X e s path summary vout =
     require (vout < length (ts_outputs summary)) ''vout is out of range'' (
     let out = ts_outputs summary ! vout; balance = txo_value out in
     require (balance > 0) ''Invalid deposit_amount'' (
     bindR (path_script X e s path ''Invalid deposit address'') (\<lambda>script.
     require (script = txo_script out) ''Invalid deposit tx_bytes'' (
     try_into U32_MAX vout ''vout overflow'' (\<lambda>v.
     Inr \<lparr>pu_tx_id = ts_tx_id summary,
          pu_key = generate_utxo_storage_key (ts_tx_id summary) v,
          pu_utxo = \<lparr>utxo_path = path, utxo_tx_bytes = [], utxo_vout = vout, utxo_balance = balance\<rparr>\<rparr>)))))"

definition internal_verify_deposit ::
    "crates \<Rightarrow> ctx \<Rightarrow> u128 \<Rightarrow> string \<Rightarrow> u64 \<Rightarrow> string list \<Rightarrow> string \<times> string list
     \<Rightarrow> pending_utxo_info \<Rightarrow> deposit_msg \<Rightarrow> contract \<Rightarrow> contract res" where
  "internal_verify_deposit X e deposit_amount blockhash tx_index merkle_proof coinbase_proof pu d s =
     require (deposit_amount \<ge> min_deposit_amount (cfg s)) ''Deposit amount is less than the minimum'' (
     let delta = (if dm_extra_msg d = None
           then relayer_delta (cfg s) (predecessor e \<in> relayer_white_list s)
           else extra_msg_relayer_delta (cfg s) (predecessor e \<in> extra_msg_relayer_white_list s)) in
     bindR (verify_transaction_inclusion_with_heights_call X (pu_tx_id pu) blockhash tx_index
       merkle_proof coinbase_proof) (\<lambda>c.
     bindR (get_fee (deposit_bridge_fee (cfg s)) deposit_amount) (\<lambda>deposit_fee.
     chk_sub deposit_amount deposit_fee (\<lambda>mint_amount.
     bindR (get_protocol_and_relayer_fee (deposit_bridge_fee (cfg s)) deposit_fee) (\<lambda>(pf, rf).
     bindR (check_deposit_msg X e d mint_amount s) (\<lambda>(post_actions, s).
     Inr (schedule (btc_light_client_account_id (cfg s)) c
       (Some (CbVerifyDeposit (dm_recipient_id d) mint_amount pf rf pu post_actions delta)) s)))))))"

definition internal_verify_deposit_entry ::
    "crates \<Rightarrow> ctx \<Rightarrow> deposit_msg \<Rightarrow> deposit_tx_summary \<Rightarrow> usize \<Rightarrow> string \<Rightarrow> u64 \<Rightarrow> string list
     \<Rightarrow> string \<times> string list \<Rightarrow> contract \<Rightarrow> contract res" where
  "internal_verify_deposit_entry X e d summary vout blockhash tx_index merkle_proof coinbase_proof s =
     require (dm_safe_deposit d = None) ''safe_deposit not supported in the standard deposit flow'' (
     require (tx_index \<noteq> 0) ''coinbase transaction is not allowed for deposit'' (
     bindR (internal_build_deposit_utxo_info X e s (get_deposit_path X d) summary vout) (\<lambda>pu.
     internal_verify_deposit X e (utxo_balance (pu_utxo pu)) blockhash tx_index merkle_proof
       coinbase_proof pu d s)))"

definition internal_safe_verify_deposit ::
    "crates \<Rightarrow> ctx \<Rightarrow> u128 \<Rightarrow> string \<Rightarrow> u64 \<Rightarrow> string list \<Rightarrow> string \<times> string list
     \<Rightarrow> pending_utxo_info \<Rightarrow> account_id \<Rightarrow> safe_deposit_msg \<Rightarrow> contract \<Rightarrow> contract res" where
  "internal_safe_verify_deposit X e deposit_amount blockhash tx_index merkle_proof coinbase_proof pu
     recipient sd s =
     require (deposit_amount \<ge> min_deposit_amount (cfg s)) ''Deposit amount is less than the minimum'' (
     let delta = relayer_delta (cfg s) (predecessor e \<in> relayer_white_list s) in
     bindR (verify_transaction_inclusion_with_heights_call X (pu_tx_id pu) blockhash tx_index
       merkle_proof coinbase_proof) (\<lambda>c.
     Inr (schedule (btc_light_client_account_id (cfg s)) c
       (Some (CbVerifySafeDeposit recipient deposit_amount (sd_msg sd) pu delta)) s)))"

definition internal_safe_verify_deposit_entry ::
    "crates \<Rightarrow> ctx \<Rightarrow> deposit_msg \<Rightarrow> deposit_tx_summary \<Rightarrow> usize \<Rightarrow> string \<Rightarrow> u64 \<Rightarrow> string list
     \<Rightarrow> string \<times> string list \<Rightarrow> contract \<Rightarrow> contract res" where
  "internal_safe_verify_deposit_entry X e d summary vout blockhash tx_index merkle_proof coinbase_proof s =
     require (tx_index \<noteq> 0) ''coinbase transaction is not allowed for deposit'' (
     bindR (charge_attached_deposit e REQUIRED_BALANCE_FOR_DEPOSIT s) (\<lambda>s.
     let sd = (case dm_safe_deposit d of Some m \<Rightarrow> m | None \<Rightarrow> \<lparr>sd_msg = []\<rparr>) in
     bindR (internal_build_deposit_utxo_info X e s (get_deposit_path X d) summary vout) (\<lambda>pu.
     internal_safe_verify_deposit X e (utxo_balance (pu_utxo pu)) blockhash tx_index merkle_proof
       coinbase_proof pu (dm_recipient_id d) sd s)))"

definition verify_deposit_v2 ::
    "crates \<Rightarrow> ctx \<Rightarrow> deposit_msg \<Rightarrow> deposit_tx_proof \<Rightarrow> usize \<Rightarrow> tx_inclusion_proof \<Rightarrow> contract \<Rightarrow> contract res" where
  "verify_deposit_v2 X e d tx_bytes vout proof s =
     trusted_relayer e (
     unless_paused e s ''verify_deposit_v2'' (
     bindR (assert_post_actions_supported d) (\<lambda>_.
     bindR (internal_resolve_deposit_tx X s tx_bytes) (\<lambda>summary.
     let coinbase_proof = (tip_coinbase_tx_id proof, tip_coinbase_proof proof) in
     if is_safe_deposit d
     then internal_safe_verify_deposit_entry X e d summary vout (tip_block_hash proof) (tip_tx_index proof)
       (tip_merkle_proof proof) coinbase_proof s
     else internal_verify_deposit_entry X e d summary vout (tip_block_hash proof) (tip_tx_index proof)
       (tip_merkle_proof proof) coinbase_proof s))))"

section \<open>The inclusion callbacks\<close>

definition process_inclusion_and_check ::
    "crates \<Rightarrow> ctx \<Rightarrow> pending_utxo_info \<Rightarrow> u64 \<Rightarrow> contract \<Rightarrow> (u64 \<times> contract) res" where
  "process_inclusion_and_check X e pu delta s =
     expect (promise_result_checked e MAX_INCLUSION_INFO_RESULT)
       ''Call verify_transaction_inclusion_with_heights failed'' (\<lambda>bs.
     expect (json_inclusion_info X bs)
       ''verify_transaction_inclusion_with_heights returned an unexpected payload'' (\<lambda>info.
     expect info ''Transaction not included in the BTC mainchain'' (\<lambda>i.
     bindR (bump_and_check_confirmations (tx_block_height i) (mainchain_tip_height i)
       (utxo_balance (pu_utxo pu)) delta s) (\<lambda>s. Inr (tx_block_height i, s)))))"

definition mark_verified :: "pending_utxo_info \<Rightarrow> contract \<Rightarrow> contract res" where
  \<comment> \<open>the middle of both callbacks: the output is verified once and in progress until minted\<close>
  "mark_verified pu s =
     require (pu_key pu \<notin> verified_deposit_utxo s) ''Already deposit utxo'' (
     Inr (internal_set_utxo_in_progress (pu_key pu) (DepositInProgress (VUTXO_Current (pu_utxo pu)))
       (s\<lparr>verified_deposit_utxo := insert (pu_key pu) (verified_deposit_utxo s)\<rparr>)))"

definition internal_mint_promise ::
    "ctx \<Rightarrow> account_id \<Rightarrow> u128 \<Rightarrow> u128 \<Rightarrow> u128 \<Rightarrow> pending_utxo_info \<Rightarrow> post_action list option
     \<Rightarrow> u64 option \<Rightarrow> contract \<Rightarrow> contract" where
  "internal_mint_promise e recipient mint_amount protocol_fee relayer_fee pu post_actions height s =
     schedule (nbtc_account_id (cfg s))
       (NbtcMint recipient mint_amount protocol_fee (signer e) relayer_fee post_actions)
       (Some (CbMint recipient mint_amount protocol_fee relayer_fee pu height)) s"

definition verify_deposit_callback ::
    "crates \<Rightarrow> ctx \<Rightarrow> account_id \<Rightarrow> u128 \<Rightarrow> u128 \<Rightarrow> u128 \<Rightarrow> pending_utxo_info
     \<Rightarrow> post_action list option \<Rightarrow> u64 \<Rightarrow> contract \<Rightarrow> contract res" where
  "verify_deposit_callback X e recipient mint_amount protocol_fee relayer_fee pu post_actions delta s =
     private_call e (
     bindR (process_inclusion_and_check X e pu delta s) (\<lambda>(height, s).
     bindR (mark_verified pu s) (\<lambda>s.
     Inr (internal_mint_promise e recipient mint_amount protocol_fee relayer_fee pu post_actions
       (Some height) s))))"

definition verify_safe_deposit_callback ::
    "crates \<Rightarrow> ctx \<Rightarrow> account_id \<Rightarrow> u128 \<Rightarrow> string \<Rightarrow> pending_utxo_info \<Rightarrow> u64 \<Rightarrow> contract \<Rightarrow> contract res" where
  "verify_safe_deposit_callback X e recipient mint_amount msg pu delta s =
     private_call e (
     bindR (process_inclusion_and_check X e pu delta s) (\<lambda>(height, s).
     bindR (mark_verified pu s) (\<lambda>s.
     let m = (if msg \<noteq> [] then Some (inject_utxo_id_in_msg X msg (pu_key pu)) else None) in
     Inr (schedule (nbtc_account_id (cfg s)) (NbtcSafeMint recipient mint_amount m)
       (Some (CbSafeMint recipient mint_amount pu (Some height))) s))))"

section \<open>The mint callbacks\<close>

definition accept_utxo :: "pending_utxo_info \<Rightarrow> contract \<Rightarrow> contract" where
  "accept_utxo pu s =
     internal_set_utxo (pu_key pu) (pu_utxo pu)
       (emit (EvUtxoAdded [pu_key pu] (Some [utxo_balance (pu_utxo pu)])) s)"

definition unverify :: "pending_utxo_info \<Rightarrow> u64 option \<Rightarrow> contract \<Rightarrow> contract res" where
  "unverify pu height s =
     unbump_block_amount height (utxo_balance (pu_utxo pu))
       (s\<lparr>verified_deposit_utxo := verified_deposit_utxo s - {pu_key pu}\<rparr>)"

definition mint_callback ::
    "ctx \<Rightarrow> account_id \<Rightarrow> u128 \<Rightarrow> u128 \<Rightarrow> u128 \<Rightarrow> pending_utxo_info \<Rightarrow> u64 option \<Rightarrow> contract
     \<Rightarrow> (bool \<times> contract) res" where
  "mint_callback e recipient mint_amount protocol_fee relayer_fee pu height s =
     private_call e (
     let ok = is_promise_success e;
         s = internal_remove_utxo_in_progress (pu_key pu) s in
     bindR (if ok then
              bindR (if protocol_fee > 0 then fee_collect protocol_fee (create_account_if_missing recipient s)
                     else Inr (create_account_if_missing recipient s))
                (\<lambda>s. Inr (accept_utxo pu s))
            else unverify pu height s) (\<lambda>s.
     Inr (ok, emit (EvVerifyDepositDetails recipient mint_amount protocol_fee (signer e) relayer_fee ok) s)))"

definition is_refund_required :: "crates \<Rightarrow> ctx \<Rightarrow> bool" where
  "is_refund_required X e =
     (case promise_result_checked e MAX_FT_TRANSFER_CALL_RESULT of
        Some bs \<Rightarrow> (case json_u128 X bs of Some amount \<Rightarrow> amount = 0 | None \<Rightarrow> False)
      | None \<Rightarrow> False)"

definition safe_mint_callback ::
    "crates \<Rightarrow> ctx \<Rightarrow> account_id \<Rightarrow> u128 \<Rightarrow> pending_utxo_info \<Rightarrow> u64 option \<Rightarrow> contract
     \<Rightarrow> (bool \<times> contract) res" where
  "safe_mint_callback X e recipient mint_amount pu height s =
     private_call e (
     let ok = \<not> is_refund_required X e;
         s = internal_remove_utxo_in_progress (pu_key pu) s in
     bindR (if ok then Inr (accept_utxo pu s)
            else bindR (unverify pu height s) (\<lambda>s.
              let s = schedule (nbtc_account_id (cfg s))
                        (NbtcBurn (current_account e) mint_amount (signer e) 0) None s in
              Inr (schedule (signer e) (NearTransfer REQUIRED_BALANCE_FOR_DEPOSIT) None s))) (\<lambda>s.
     Inr (ok, emit (EvVerifyDepositDetails recipient mint_amount 0 (signer e) 0 ok) s)))"

end
