(* ===== verification/Refund.thy ===== *)
theory Refund
  imports Deposit
begin

text \<open>
  Refunds: \<open>refund.rs\<close>, \<open>bitcoin_utils/refund.rs\<close>, the refund methods and \<open>verify_withdraw_v2\<close> of
  \<open>api/bridge.rs\<close>.  A deposit that was never verified can be requested back; after a timelock the
  request is executed, which blocks the deposit and sends the output to the refund address through
  the signing pipeline; the request is dropped when the refund is confirmed.
\<close>

section \<open>Requesting\<close>

definition MAX_REQUEST_REFUND_TX_BYTES :: usize where "MAX_REQUEST_REFUND_TX_BYTES = 200000"

definition required_balance_for_execute_refund :: u128 where
  "required_balance_for_execute_refund = 10 ^ 24"

definition required_balance_for_request_refund :: u128 where
  "required_balance_for_request_refund = 2 * 10 ^ 24"

definition rr_deposit_msg :: "crates \<Rightarrow> refund_request \<Rightarrow> deposit_msg res" where
  "rr_deposit_msg X r = expect (deposit_msg_of_json X (deposit_msg_json r)) ''Invalid deposit_msg_json'' Inr"

definition get_refund_gas_fee :: "config \<Rightarrow> u128" where
  "get_refund_gas_fee c = max_btc_gas_fee c"

definition assert_valid_refund_address :: "crates \<Rightarrow> contract \<Rightarrow> string \<Rightarrow> 'a res \<Rightarrow> 'a res" where
  "assert_valid_refund_address X s a k =
     (case parse_address X a (chain_cfg (cfg s)) of
        Inl _ \<Rightarrow> Inl (Panic ''Invalid refund address'') | Inr _ \<Rightarrow> k)"

definition internal_request_refund ::
    "crates \<Rightarrow> ctx \<Rightarrow> deposit_msg \<Rightarrow> string \<Rightarrow> deposit_tx_proof \<Rightarrow> usize \<Rightarrow> tx_inclusion_proof
     \<Rightarrow> u128 option \<Rightarrow> contract \<Rightarrow> contract res" where
  "internal_request_refund X e d address tx_bytes vout proof gas s =
     require (attached_deposit e \<ge> required_balance_for_request_refund) ''Insufficient deposit for storage'' (
     require (case tx_bytes of Full bs \<Rightarrow> length bs \<le> MAX_REQUEST_REFUND_TX_BYTES | Compact \<Rightarrow> True)
       ''tx_bytes too large for refund request'' (
     require (case dm_refund_address d of Some a \<Rightarrow> a = address | None \<Rightarrow> True)
       ''refund_address does not match deposit_msg.refund_address'' (
     assert_valid_refund_address X s address (
     bindR (internal_resolve_deposit_tx X s tx_bytes) (\<lambda>summary.
     require (vout < length (ts_outputs summary)) ''vout is out of range'' (
     bindR (verify_transaction_inclusion_with_heights_call X (ts_tx_id summary) (tip_block_hash proof)
       (tip_tx_index proof) (tip_merkle_proof proof) (tip_coinbase_tx_id proof, tip_coinbase_proof proof)) (\<lambda>c.
     Inr (schedule (btc_light_client_account_id (cfg s)) c
       (Some (CbRequestRefund d address (ts_tx_id summary) (ts_outputs summary ! vout) vout gas)) s))))))))"

definition request_refund ::
    "crates \<Rightarrow> ctx \<Rightarrow> deposit_msg \<Rightarrow> string \<Rightarrow> deposit_tx_proof \<Rightarrow> usize \<Rightarrow> tx_inclusion_proof
     \<Rightarrow> u128 option \<Rightarrow> contract \<Rightarrow> contract res" where
  "request_refund X e d address tx_bytes vout proof gas s =
     unless_paused e s ''request_refund'' (
     require (gas = None \<or> acl_has_role s DAO (predecessor e) \<or> acl_has_role s Operator (predecessor e))
       ''Only DAO or Operator can specify custom gas_fee'' (
     internal_request_refund X e d address tx_bytes vout proof gas s))"

definition request_refund_callback ::
    "crates \<Rightarrow> ctx \<Rightarrow> deposit_msg \<Rightarrow> string \<Rightarrow> string \<Rightarrow> tx_out \<Rightarrow> usize \<Rightarrow> u128 option \<Rightarrow> contract
     \<Rightarrow> (bool \<times> contract) res" where
  "request_refund_callback X e d address tx_id out vout gas s =
     private_call e (
     expect (promise_result_checked e MAX_INCLUSION_INFO_RESULT)
       ''Call verify_transaction_inclusion_with_heights failed'' (\<lambda>bs.
     expect (json_inclusion_info X bs)
       ''verify_transaction_inclusion_with_heights returned an unexpected payload'' (\<lambda>info.
     expect info ''Transaction not included in the BTC mainchain'' (\<lambda>i.
     (let required = max_required_confirmations (cfg s) in
     chk_add U64_MAX (mainchain_tip_height i - tx_block_height i) 1 (\<lambda>actual.
     require (actual \<ge> required) ''Refund request: not enough confirmations (max-tier required)'' (
     bindR (path_script X e s (get_deposit_path X d) ''Invalid deposit address'') (\<lambda>script.
     require (script = txo_script out) ''Output script_pubkey does not match deposit address'' (
     let amount = txo_value out in
     try_into U32_MAX vout ''vout overflow'' (\<lambda>v.
     let key = generate_utxo_storage_key tx_id v in
     require (key \<notin> verified_deposit_utxo s) ''UTXO already verified via deposit'' (
     require (refund_requests s key = None) ''Refund request already exists for this UTXO'' (
     let fee = (case gas of Some g \<Rightarrow> g | None \<Rightarrow> get_refund_gas_fee (cfg s)) in
     require (fee \<le> amount) ''Gas fee must be less than deposit amount'' (
     require (amount - fee \<ge> min_change_amount (cfg s)) ''Refund amount after gas fee is dust'' (
     bindR (nano_to_sec (block_timestamp e)) (\<lambda>now.
     let s = emit (EvRefundRequested d key amount address fee) s;
         r = \<lparr>deposit_msg_json = json_of_deposit_msg X d, rr_utxo_storage_key = key, rr_tx_bytes = [],
              rr_vout = vout, rr_amount = amount, rr_refund_address = address, rr_gas_fee = fee,
              created_at_sec = now, executed = False\<rparr> in
     Inr (True, s\<lparr>refund_requests := (refund_requests s)(key \<mapsto> VRefund_Current r)\<rparr>))))))))))))))))"

section \<open>Rejecting\<close>

definition internal_reject_refund :: "string \<Rightarrow> contract \<Rightarrow> contract res" where
  "internal_reject_refund key s =
     require (refund_requests s key \<noteq> None) ''Refund request not found'' (
     Inr (emit (EvRefundRejected key) (s\<lparr>refund_requests := (refund_requests s)(key := None)\<rparr>)))"

definition reject_refund :: "ctx \<Rightarrow> string \<Rightarrow> contract \<Rightarrow> contract res" where
  "reject_refund e key s =
     (let is_privileged = acl_has_role s DAO (predecessor e) \<or> acl_has_role s Operator (predecessor e);
          already_executed = (case refund_requests s key of Some r \<Rightarrow> executed (of_vrefund r) | None \<Rightarrow> False) in
      require (\<not> already_executed) ''Refund already executed, cannot reject'' (
      let is_already_deposited = key \<in> verified_deposit_utxo s \<and> utxos_in_progress s key = None in
      require (is_privileged \<or> is_already_deposited)
        ''Only DAO/Operator can reject, or UTXO must be already verified via deposit'' (
      internal_reject_refund key s)))"

section \<open>Executing\<close>

definition resolve_execute_refund_timelock :: "crates \<Rightarrow> ctx \<Rightarrow> contract \<Rightarrow> string \<Rightarrow> u64 res" where
  "resolve_execute_refund_timelock X e s key =
     require (attached_deposit e \<ge> required_balance_for_execute_refund) ''Insufficient deposit for storage'' (
     let is_privileged = acl_has_role s DAO (predecessor e) \<or> acl_has_role s RefundOperator (predecessor e) in
     expect (refund_requests s key) ''Refund request not found'' (\<lambda>v.
     bindR (rr_deposit_msg X (of_vrefund v)) (\<lambda>d.
     Inr (if dm_refund_address d \<noteq> None
          then (if is_privileged then 0 else refund_timelock_sec (cfg s))
          else unsafe_refund_timelock_sec (cfg s)))))"

definition load_refund_request_for_execute ::
    "ctx \<Rightarrow> contract \<Rightarrow> string \<Rightarrow> u64 \<Rightarrow> refund_request res" where
  "load_refund_request_for_execute e s key timelock_sec =
     expect (refund_requests s key) ''Refund request not found'' (\<lambda>v.
     let r = of_vrefund v in
     bindR (nano_to_sec (block_timestamp e)) (\<lambda>now.
     chk_add U64_MAX (created_at_sec r) timelock_sec (\<lambda>ready.
     require (now \<ge> ready) ''Refund timelock has not passed yet'' (
     require (key \<notin> verified_deposit_utxo s \<or> executed r)
       ''UTXO already verified via deposit, cannot refund'' (Inr r)))))"

definition refund_execution_inputs ::
    "crates \<Rightarrow> ctx \<Rightarrow> contract \<Rightarrow> refund_request \<Rightarrow> (out_point \<times> tx_out \<times> u128) res" where
  "refund_execution_inputs X e s r =
     bindR (if rr_tx_bytes r = [] then
          expect (parse_txid X (key_txid (rr_utxo_storage_key r))) ''Invalid utxo_storage_key'' (\<lambda>txid.
          bindR (rr_deposit_msg X r) (\<lambda>d.
          bindR (path_script X e s (get_deposit_path X d) ''Invalid deposit address'') (\<lambda>script.
          try_into U64_MAX (rr_amount r) ''Amount overflow'' (\<lambda>v.
          Inr (txid, \<lparr>txo_value = v, txo_script = script\<rparr>)))))
        else
          expect (tx_decode X (rr_tx_bytes r) (chain_cfg (cfg s))) ''Deserialization tx_bytes failed'' (\<lambda>tx.
          require (rr_vout r < length (tx_output tx)) ''vout is out of range'' (
          Inr (compute_txid X tx, tx_output tx ! rr_vout r)))) (\<lambda>(txid, deposit_output).
     try_into U32_MAX (rr_vout r) ''vout overflow'' (\<lambda>vout.
     require (rr_gas_fee r \<le> rr_amount r) ''Deposit amount too small to cover gas fee'' (
     let refund_amount = rr_amount r - rr_gas_fee r in
     require (refund_amount \<ge> min_change_amount (cfg s)) ''Refund amount after gas fee is dust'' (
     Inr (\<lparr>op_txid = txid, op_vout = vout\<rparr>, deposit_output, refund_amount)))))"

definition build_refund_output :: "crates \<Rightarrow> contract \<Rightarrow> string \<Rightarrow> u128 \<Rightarrow> tx_out res" where
  "build_refund_output X s address refund_amount =
     (case parse_address X address (chain_cfg (cfg s)) of
        Inl _ \<Rightarrow> Inl (Panic ''Invalid refund address'')
      | Inr a \<Rightarrow> (case script_pubkey X a of
          Inl _ \<Rightarrow> Inl (Panic ''Invalid refund script_pubkey'')
        | Inr script \<Rightarrow> try_into U64_MAX refund_amount ''Refund amount overflow'' (\<lambda>v.
            Inr \<lparr>txo_value = v, txo_script = script\<rparr>)))"

definition finalize_refund_with_psbt ::
    "crates \<Rightarrow> ctx \<Rightarrow> account_id \<Rightarrow> refund_request \<Rightarrow> psbt \<Rightarrow> u128 \<Rightarrow> string \<Rightarrow> contract \<Rightarrow> contract res" where
  "finalize_refund_with_psbt X e caller r p refund_amount key s =
     bindR (rr_deposit_msg X r) (\<lambda>d.
     try_into U64_MAX (rr_amount r) ''Amount overflow'' (\<lambda>balance.
     let v = VUTXO_Current \<lparr>utxo_path = get_deposit_path X d, utxo_tx_bytes = rr_tx_bytes r,
               utxo_vout = rr_vout r, utxo_balance = balance\<rparr>;
         hex = psbt_serialize X p; expiry = get_expiry_height p in
     bindR (get_pending_id X p) (\<lambda>tx_id.
     let s = create_account_if_missing caller s in
     require_pending_sign_capacity s caller (
     bindR (nano_to_sec (block_timestamp e)) (\<lambda>now.
     bindR (insert_new_pending tx_id
       \<lparr>pi_account_id = caller, pi_btc_pending_id = tx_id, transfer_amount = 0,
        actual_received_amount = refund_amount, withdraw_fee = 0, gas_fee = rr_gas_fee r, burn_amount = 0,
        psbt_hex = hex, vutxos = [v], signatures = [None], tx_bytes_with_sign = None,
        create_time_sec = now, last_sign_time_sec = 0,
        pi_state = Refund \<lparr>os_stage = PendingSign, max_gas_fee = rr_gas_fee r,
          last_rbf_time_sec = None, cancel_rbf_reserved = None\<rparr>\<rparr> s) (\<lambda>s.
     bindR (add_pending_sign_id caller tx_id s) (\<lambda>s.
     let s = s\<lparr>verified_deposit_utxo := insert key (verified_deposit_utxo s)\<rparr>;
         s = emit (EvGenerateBtcPendingInfo caller tx_id expiry)
               (emit (EvRefundExecuted key (rr_amount r) (rr_refund_address r)) s) in
     Inr (s\<lparr>refund_requests := (refund_requests s)(key \<mapsto> VRefund_Current (r\<lparr>executed := True\<rparr>))\<rparr>))))))))"

definition internal_execute_refund :: "crates \<Rightarrow> ctx \<Rightarrow> string \<Rightarrow> u64 \<Rightarrow> contract \<Rightarrow> contract res" where
  "internal_execute_refund X e key timelock_sec s =
     bindR (load_refund_request_for_execute e s key timelock_sec) (\<lambda>r.
     bindR (refund_execution_inputs X e s r) (\<lambda>(outpoint, deposit_output, refund_amount).
     bindR (build_refund_output X s (rr_refund_address r) refund_amount) (\<lambda>refund_output.
     bindR (psbt_new X [outpoint] [refund_output]) (\<lambda>p.
     bindR (set_input_utxo p [deposit_output]) (\<lambda>p.
     finalize_refund_with_psbt X e (predecessor e) r p refund_amount key s)))))"

definition execute_refund :: "crates \<Rightarrow> ctx \<Rightarrow> string \<Rightarrow> contract \<Rightarrow> contract res" where
  "execute_refund X e key s =
     unless_paused e s ''execute_refund'' (
     bindR (resolve_execute_refund_timelock X e s key) (\<lambda>timelock_sec.
     internal_execute_refund X e key timelock_sec s))"

section \<open>Finalising\<close>

definition require_single_key :: "psbt \<Rightarrow> (string \<Rightarrow> 'a res) \<Rightarrow> 'a res" where
  "require_single_key p k =
     (let keys = get_utxo_storage_keys p in
      require (length keys = 1) ''refund transaction must spend exactly one input'' (k (keys ! 0)))"

definition internal_verify_refund_finalize_entry ::
    "crates \<Rightarrow> ctx \<Rightarrow> string \<Rightarrow> tx_inclusion_proof \<Rightarrow> contract \<Rightarrow> contract res" where
  "internal_verify_refund_finalize_entry X e tx_id proof s =
     internal_unwrap_btc_pending_info s tx_id (\<lambda>p.
     assert_refund_pending_verify_tx p (
     require (tx_bytes_with_sign p \<noteq> None) ''Missing tx_bytes_with_sign'' (
     verify_inclusion_then X e tx_id (tip_block_hash proof) (tip_tx_index proof) (tip_merkle_proof proof)
       (Some (tip_coinbase_tx_id proof, tip_coinbase_proof proof)) p (CbVerifyRefundFinalize tx_id) s)))"

definition verify_refund_finalize_callback ::
    "crates \<Rightarrow> ctx \<Rightarrow> string \<Rightarrow> contract \<Rightarrow> (bool \<times> contract) res" where
  "verify_refund_finalize_callback X e tx_id s =
     private_call e (
     require_included X e (
     internal_unwrap_btc_pending_info s tx_id (\<lambda>p.
     assert_refund_pending_verify_tx p (
     bindR (get_psbt X p) (\<lambda>q.
     require_single_key q (\<lambda>key.
     let s = s\<lparr>refund_requests := (refund_requests s)(key := None)\<rparr> in
     internal_remove_btc_pending_info s tx_id (\<lambda>_ s.
     bindR (remove_pending_verify (pi_account_id p) tx_id s) (\<lambda>s. Inr (True, s)))))))))"

definition internal_remove_refund_pending_tx_id :: "crates \<Rightarrow> string \<Rightarrow> contract \<Rightarrow> contract res" where
  "internal_remove_refund_pending_tx_id X tx_id s =
     internal_unwrap_btc_pending_info s tx_id (\<lambda>p.
     assert_refund_related p (
     bindR (get_psbt X p) (\<lambda>q.
     require_single_key q (\<lambda>key.
     require (refund_requests s key = None) ''refund request still active'' (
     internal_remove_btc_pending_info s tx_id (\<lambda>_ s.
     internal_unwrap_mut_account s (pi_account_id p) (\<lambda>acc s.
     Inr (internal_set_account (pi_account_id p)
       (acc\<lparr>btc_pending_sign_ids := btc_pending_sign_ids acc - {tx_id},
            btc_pending_verify_list := btc_pending_verify_list acc - {tx_id}\<rparr>) s))))))))"

definition remove_refund_pending_tx_id :: "crates \<Rightarrow> ctx \<Rightarrow> string \<Rightarrow> contract \<Rightarrow> contract res" where
  "remove_refund_pending_tx_id X e tx_id s =
     trusted_relayer e (
     unless_paused e s ''remove_refund_pending_tx_id'' (
     internal_remove_refund_pending_tx_id X tx_id s))"

definition verify_withdraw_v2 ::
    "crates \<Rightarrow> ctx \<Rightarrow> string \<Rightarrow> tx_inclusion_proof \<Rightarrow> contract \<Rightarrow> contract res" where
  "verify_withdraw_v2 X e tx_id proof s =
     trusted_relayer e (
     unless_paused e s ''verify_withdraw_v2'' (
     internal_unwrap_btc_pending_info s tx_id (\<lambda>p.
     let coinbase_proof = Some (tip_coinbase_tx_id proof, tip_coinbase_proof proof) in
     if info_kind p \<in> {KWithdraw, KUserRbf, KCancelWithdraw} then
       internal_verify_withdraw_entry X e tx_id (tip_block_hash proof) (tip_tx_index proof)
         (tip_merkle_proof proof) coinbase_proof s
     else if info_kind p \<in> {KActive, KActiveRbf, KCancelActive} then
       internal_verify_active_utxo_management_entry X e tx_id (tip_block_hash proof) (tip_tx_index proof)
         (tip_merkle_proof proof) coinbase_proof s
     else internal_verify_refund_finalize_entry X e tx_id proof s)))"

section \<open>Deposit addresses\<close>

definition get_user_deposit_address :: "crates \<Rightarrow> ctx \<Rightarrow> deposit_msg \<Rightarrow> contract \<Rightarrow> (string \<times> contract) res" where
  "get_user_deposit_address X e d s =
     bindR (assert_post_actions_supported d) (\<lambda>_.
     (case dm_refund_address d of
        Some a \<Rightarrow> assert_valid_refund_address X s a | None \<Rightarrow> id) (
     let path = get_deposit_path X d in
     bindR (generate_utxo_chain_address X e s path) (\<lambda>a.
     expect (display_address X a) ''a Display implementation returned an error unexpectedly'' (\<lambda>addr.
     Inr (addr, emit (EvLogDepositAddress d path addr) s)))))"

end
