(* ===== verification/Management.thy ===== *)
theory Management
  imports Refund
begin

text \<open>
  The DAO methods of \<open>api/management.rs\<close>: roles, white lists, templates, limits, the configuration
  and its strategy, and completing a deposit whose mint callback failed.  The \<open>acl_*\<close> operations
  are those of the access-control plugin: \<open>None\<close> when the caller may not, otherwise whether the
  call changed anything.
\<close>

section \<open>The access-control plugin\<close>

definition acl_is_admin :: "contract \<Rightarrow> role \<Rightarrow> account_id \<Rightarrow> bool" where
  "acl_is_admin s r a \<longleftrightarrow> a \<in> super_admins s \<or> (r, a) \<in> role_admins s"

definition acl_add_super_admin :: "ctx \<Rightarrow> account_id \<Rightarrow> contract \<Rightarrow> (bool \<times> contract) option" where
  "acl_add_super_admin e a s =
     (if predecessor e \<in> super_admins s
      then Some (a \<notin> super_admins s, s\<lparr>super_admins := insert a (super_admins s)\<rparr>) else None)"

definition acl_revoke_super_admin :: "ctx \<Rightarrow> account_id \<Rightarrow> contract \<Rightarrow> (bool \<times> contract) option" where
  "acl_revoke_super_admin e a s =
     (if predecessor e \<in> super_admins s
      then Some (a \<in> super_admins s, s\<lparr>super_admins := super_admins s - {a}\<rparr>) else None)"

definition acl_grant_role :: "ctx \<Rightarrow> role \<Rightarrow> account_id \<Rightarrow> contract \<Rightarrow> (bool \<times> contract) option" where
  "acl_grant_role e r a s =
     (if acl_is_admin s r (predecessor e)
      then Some ((r, a) \<notin> role_members s, s\<lparr>role_members := insert (r, a) (role_members s)\<rparr>) else None)"

definition acl_revoke_role :: "ctx \<Rightarrow> role \<Rightarrow> account_id \<Rightarrow> contract \<Rightarrow> (bool \<times> contract) option" where
  "acl_revoke_role e r a s =
     (if acl_is_admin s r (predecessor e)
      then Some ((r, a) \<in> role_members s, s\<lparr>role_members := role_members s - {(r, a)}\<rparr>) else None)"

text \<open>\<open>require!(op.unwrap(), msg)\<close>, and an operation whose result is ignored.\<close>

definition acl_must :: "(bool \<times> contract) option \<Rightarrow> string \<Rightarrow> contract res" where
  "acl_must r msg = expect r ''unwrap'' (\<lambda>(ok, s). require ok msg (Inr s))"

definition acl_try :: "(bool \<times> contract) option \<Rightarrow> contract \<Rightarrow> contract" where
  "acl_try r s = (case r of Some (_, s') \<Rightarrow> s' | None \<Rightarrow> s)"

section \<open>Roles\<close>

definition dao_call :: "ctx \<Rightarrow> contract \<Rightarrow> 'a res \<Rightarrow> 'a res" where
  \<comment> \<open>\<open>#[payable] #[access_control_any(roles(Role::DAO))]\<close> with \<open>assert_one_yocto()\<close>\<close>
  "dao_call e s k = access_control_any e s [DAO] (assert_one_yocto e k)"

definition add_super_admin :: "ctx \<Rightarrow> account_id \<Rightarrow> contract \<Rightarrow> contract res" where
  "add_super_admin e a s =
     dao_call e s (
     bindR (acl_must (acl_add_super_admin e a s) ''acl_add_super_admin failed'') (\<lambda>s.
     bindR (acl_must (acl_grant_role e DAO a s) ''acl_grant_role DAO failed'') (\<lambda>s.
     bindR (acl_must (acl_grant_role e PauseManager a s) ''acl_grant_role PauseManager failed'') (\<lambda>s.
     bindR (acl_must (acl_grant_role e UnpauseManager a s) ''acl_grant_role UnpauseManager failed'') (\<lambda>s.
     Inr (create_account_if_missing a s))))))"

definition remove_super_admin :: "ctx \<Rightarrow> account_id \<Rightarrow> contract \<Rightarrow> contract res" where
  "remove_super_admin e a s =
     dao_call e s (
     require (predecessor e \<noteq> a) ''cannot remove oneself'' (
     bindR (acl_must (acl_revoke_role e DAO a s) ''acl_revoke_role DAO failed'') (\<lambda>s.
     bindR (acl_must (acl_revoke_role e PauseManager a s) ''acl_revoke_role PauseManager failed'') (\<lambda>s.
     let s = acl_try (acl_revoke_role e UnpauseManager a s) s in
     acl_must (acl_revoke_super_admin e a s) ''acl_revoke_super_admin failed''))))"

definition extend_operators :: "ctx \<Rightarrow> account_id list \<Rightarrow> contract \<Rightarrow> contract res" where
  "extend_operators e as s =
     dao_call e s (fold_res (\<lambda>a s.
       bindR (acl_must (acl_grant_role e Operator a s) ''Already exist operator'') (\<lambda>s.
       Inr (create_account_if_missing a s))) as s)"

definition remove_operators :: "ctx \<Rightarrow> account_id list \<Rightarrow> contract \<Rightarrow> contract res" where
  "remove_operators e as s =
     dao_call e s (fold_res (\<lambda>a s. acl_must (acl_revoke_role e Operator a s) ''Invalid operator'') as s)"

section \<open>White lists, limits and templates\<close>

text \<open>The loops that insert into and remove from an \<open>IterableSet\<close>, panicking on an element that is
  there already or is missing.\<close>

definition insert_all :: "string \<Rightarrow> 'a list \<Rightarrow> 'a set \<Rightarrow> 'a set res" where
  "insert_all msg xs A = fold_res (\<lambda>x A. require (x \<notin> A) msg (Inr (insert x A))) xs A"

definition remove_all :: "string \<Rightarrow> 'a list \<Rightarrow> 'a set \<Rightarrow> 'a set res" where
  "remove_all msg xs A = fold_res (\<lambda>x A. require (x \<in> A) msg (Inr (A - {x}))) xs A"

definition extend_relayer_white_list :: "ctx \<Rightarrow> account_id list \<Rightarrow> contract \<Rightarrow> contract res" where
  "extend_relayer_white_list e as s =
     dao_call e s (bindR (insert_all ''Already exist relayer_id'' as (relayer_white_list s))
       (\<lambda>A. Inr (s\<lparr>relayer_white_list := A\<rparr>)))"

definition remove_relayer_white_list :: "ctx \<Rightarrow> account_id list \<Rightarrow> contract \<Rightarrow> contract res" where
  "remove_relayer_white_list e as s =
     dao_call e s (bindR (remove_all ''Invalid relayer_id'' as (relayer_white_list s))
       (\<lambda>A. Inr (s\<lparr>relayer_white_list := A\<rparr>)))"

definition extend_extra_msg_relayer_white_list :: "ctx \<Rightarrow> account_id list \<Rightarrow> contract \<Rightarrow> contract res" where
  "extend_extra_msg_relayer_white_list e as s =
     dao_call e s (bindR (insert_all ''Already exist relayer_id'' as (extra_msg_relayer_white_list s))
       (\<lambda>A. Inr (s\<lparr>extra_msg_relayer_white_list := A\<rparr>)))"

definition remove_extra_msg_relayer_white_list :: "ctx \<Rightarrow> account_id list \<Rightarrow> contract \<Rightarrow> contract res" where
  "remove_extra_msg_relayer_white_list e as s =
     dao_call e s (bindR (remove_all ''Invalid relayer_id'' as (extra_msg_relayer_white_list s))
       (\<lambda>A. Inr (s\<lparr>extra_msg_relayer_white_list := A\<rparr>)))"

definition extend_post_action_receiver_id_white_list ::
    "ctx \<Rightarrow> account_id list \<Rightarrow> contract \<Rightarrow> contract res" where
  "extend_post_action_receiver_id_white_list e as s =
     dao_call e s (bindR (insert_all ''Already exist receiver_id'' as (post_action_receiver_id_white_list s))
       (\<lambda>A. Inr (s\<lparr>post_action_receiver_id_white_list := A\<rparr>)))"

definition remove_post_action_receiver_id_white_list ::
    "ctx \<Rightarrow> account_id list \<Rightarrow> contract \<Rightarrow> contract res" where
  "remove_post_action_receiver_id_white_list e as s =
     dao_call e s (bindR (remove_all ''Invalid receiver_id'' as (post_action_receiver_id_white_list s))
       (\<lambda>A. Inr (s\<lparr>post_action_receiver_id_white_list := A\<rparr>)))"

definition set_pending_tx_limit :: "ctx \<Rightarrow> account_id \<Rightarrow> u32 option \<Rightarrow> contract \<Rightarrow> contract res" where
  "set_pending_tx_limit e a max_pending s =
     dao_call e s (case max_pending of
       Some n \<Rightarrow> require (n \<ge> 1) ''Invalid max_pending value''
         (Inr (s\<lparr>pending_tx_limits := (pending_tx_limits s)(a \<mapsto> n)\<rparr>))
     | None \<Rightarrow> require (pending_tx_limits s a \<noteq> None) ''Invalid account_id''
         (Inr (s\<lparr>pending_tx_limits := (pending_tx_limits s)(a := None)\<rparr>)))"

text \<open>The templates come as a set: their order cannot be observed, since a panic reverts the call.\<close>

definition extend_post_action_msg_templates ::
    "ctx \<Rightarrow> account_id \<Rightarrow> string set \<Rightarrow> contract \<Rightarrow> contract res" where
  "extend_post_action_msg_templates e contract_id templates s =
     dao_call e s (
     require (templates \<noteq> {}) ''empty templates.'' (
     case post_action_msg_templates s contract_id of
       Some old \<Rightarrow> require (old \<inter> templates = {}) ''template is exist.''
         (Inr (s\<lparr>post_action_msg_templates := (post_action_msg_templates s)(contract_id \<mapsto> old \<union> templates)\<rparr>))
     | None \<Rightarrow>
         Inr (s\<lparr>post_action_msg_templates := (post_action_msg_templates s)(contract_id \<mapsto> templates)\<rparr>)))"

definition remove_post_action_msg_templates ::
    "ctx \<Rightarrow> account_id \<Rightarrow> string set option \<Rightarrow> contract \<Rightarrow> contract res" where
  "remove_post_action_msg_templates e contract_id templates s =
     dao_call e s (
     expect (post_action_msg_templates s contract_id) ''Invalid contract_id.'' (\<lambda>old.
     let removed = s\<lparr>post_action_msg_templates := (post_action_msg_templates s)(contract_id := None)\<rparr> in
     case templates of
       None \<Rightarrow> Inr removed
     | Some ts \<Rightarrow>
         require (ts \<noteq> {}) ''empty templates.'' (
         require (ts \<subseteq> old) ''template is not exist.'' (
         if old - ts = {} then Inr removed
         else Inr (s\<lparr>post_action_msg_templates :=
                (post_action_msg_templates s)(contract_id \<mapsto> old - ts)\<rparr>)))))"

section \<open>The configuration\<close>

definition update_config :: "ctx \<Rightarrow> config_update \<Rightarrow> contract \<Rightarrow> contract res" where
  "update_config e u s =
     dao_call e s (
     bindR (config_apply u (cfg s)) (\<lambda>c.
     resize_block_amount_ring (s\<lparr>cfg := c\<rparr>)))"

definition strategy_without :: "string \<Rightarrow> (string \<times> u8) list \<Rightarrow> (string \<times> u8) list" where
  "strategy_without key strategy = filter (\<lambda>kv. fst kv \<noteq> key) strategy"

definition set_confirmations_strategy :: "ctx \<Rightarrow> u128 \<Rightarrow> u8 \<Rightarrow> contract \<Rightarrow> contract res" where
  "set_confirmations_strategy e range_upper_bound confirmations s =
     dao_call e s (
     let key = show_nat range_upper_bound;
         c = cfg s\<lparr>confirmations_strategy :=
               (key, confirmations) # strategy_without key (confirmations_strategy (cfg s))\<rparr> in
     bindR (resize_block_amount_ring (s\<lparr>cfg := c\<rparr>)) (\<lambda>s.
     bindR (config_assert_valid (cfg s)) (\<lambda>_. Inr s)))"

definition remove_confirmations_strategy :: "ctx \<Rightarrow> u128 \<Rightarrow> contract \<Rightarrow> contract res" where
  "remove_confirmations_strategy e range_upper_bound s =
     dao_call e s (
     let key = show_nat range_upper_bound;
         strategy = strategy_without key (confirmations_strategy (cfg s)) in
     require (key \<in> fst ` set (confirmations_strategy (cfg s))) ''Invalid range_upper_bound'' (
     require (strategy \<noteq> []) ''confirmations_strategy must not be empty'' (
     bindR (resize_block_amount_ring (s\<lparr>cfg := cfg s\<lparr>confirmations_strategy := strategy\<rparr>\<rparr>)) (\<lambda>s.
     bindR (config_assert_valid (cfg s)) (\<lambda>_. Inr s)))))"

section \<open>Completing a deposit\<close>

definition complete_failed_deposit_mint ::
    "crates \<Rightarrow> ctx \<Rightarrow> deposit_msg \<Rightarrow> deposit_tx_proof \<Rightarrow> usize \<Rightarrow> u128 \<Rightarrow> contract
     \<Rightarrow> (string \<times> contract) res" where
  "complete_failed_deposit_mint X e d tx_bytes vout protocol_fee s =
     dao_call e s (
     bindR (internal_resolve_deposit_tx X s tx_bytes) (\<lambda>summary.
     bindR (internal_build_deposit_utxo_info X e s (get_deposit_path X d) summary vout) (\<lambda>pu.
     let key = pu_key pu in
     require (key \<in> verified_deposit_utxo s) ''Deposit is not verified'' (
     require (utxos s key = None) ''UTXO already registered'' (
     require (unavailable_utxos s key = None) ''UTXO is unavailable'' (
     require (refund_requests s key = None) ''UTXO is claimed by a refund'' (
     let s = internal_set_utxo key (pu_utxo pu) s;
         s = internal_remove_utxo_in_progress key s;
         s = create_account_if_missing (dm_recipient_id d) s in
     bindR (if protocol_fee > 0 then fee_collect protocol_fee s else Inr s) (\<lambda>s.
     Inr (key, emit (EvUtxoAdded [key] (Some [utxo_balance (pu_utxo pu)])) s)))))))))"

end
