(* ===== verification/Result_Rules.thy ===== *)
theory Result_Rules
  imports Management
begin

text \<open>
  Weakest preconditions for the result combinators: \<open>ensures r P\<close> says that every success of \<open>r\<close>
  satisfies \<open>P\<close>.  The rules in \<open>wp\<close> walk through a method from its last continuation to its
  guards; \<open>ensures_any\<close> skips a call whose value does not matter.  The second half is what every
  primitive of the state does to the \<open>core\<close>: the fee counters, the pending records, the deposit
  and refund maps and the callbacks that act on them.
\<close>

named_theorems wp \<open>introduction rules for \<open>ensures\<close>\<close>

definition ensures :: "'a res \<Rightarrow> ('a \<Rightarrow> bool) \<Rightarrow> bool" where
  "ensures r P \<longleftrightarrow> (\<forall>x. r = Inr x \<longrightarrow> P x)"

lemma ensuresD: "ensures r P \<Longrightarrow> r = Inr x \<Longrightarrow> P x"
  by (simp add: ensures_def)

lemma ensuresI: "(\<And>x. r = Inr x \<Longrightarrow> P x) \<Longrightarrow> ensures r P"
  by (simp add: ensures_def)

lemma ensures_weaken: "ensures r Q \<Longrightarrow> (\<And>x. Q x \<Longrightarrow> P x) \<Longrightarrow> ensures r P"
  by (simp add: ensures_def)

lemma ensures_any: "(\<And>x. r = Inr x \<Longrightarrow> P x) \<Longrightarrow> ensures r P"
  by (simp add: ensures_def)

section \<open>Combinators\<close>

lemma ensures_Inr [wp]: "P x \<Longrightarrow> ensures (Inr x) P"
  by (simp add: ensures_def)

lemma ensures_Inl [wp]: "ensures (Inl e) P"
  by (simp add: ensures_def)

lemma ensures_require [wp]: "(b \<Longrightarrow> ensures k P) \<Longrightarrow> ensures (require b m k) P"
  by (simp add: ensures_def require_def)

lemma ensures_expect [wp]: "(\<And>v. x = Some v \<Longrightarrow> ensures (k v) P) \<Longrightarrow> ensures (expect x m k) P"
  by (simp add: ensures_def expect_def split: option.split)

lemma ensures_bindR [wp]: "ensures r (\<lambda>v. ensures (k v) P) \<Longrightarrow> ensures (bindR r k) P"
  by (auto simp: ensures_def bindR_Inr)

lemma ensures_chk_add [wp]: "(a + b \<le> mx \<Longrightarrow> ensures (k (a + b)) P) \<Longrightarrow> ensures (chk_add mx a b k) P"
  by (simp add: ensures_def chk_add_def)

lemma ensures_chk_sub [wp]: "(b \<le> a \<Longrightarrow> ensures (k (a - b)) P) \<Longrightarrow> ensures (chk_sub a b k) P"
  by (simp add: ensures_def chk_sub_def)

lemma ensures_chk_mul [wp]: "(a * b \<le> mx \<Longrightarrow> ensures (k (a * b)) P) \<Longrightarrow> ensures (chk_mul mx a b k) P"
  by (simp add: ensures_def chk_mul_def)

lemma ensures_index_at [wp]: "(i < length xs \<Longrightarrow> ensures (k (xs ! i)) P) \<Longrightarrow> ensures (index_at xs i k) P"
  by (simp add: ensures_def index_at_def)

lemma ensures_try_into [wp]: "(a \<le> mx \<Longrightarrow> ensures (k a) P) \<Longrightarrow> ensures (try_into mx a m k) P"
  by (simp add: ensures_def try_into_def)

lemma ensures_Let [wp]: "(\<And>v. v = x \<Longrightarrow> ensures (f v) P) \<Longrightarrow> ensures (Let x f) P"
  by (simp add: ensures_def)

lemma ensures_if [wp]:
  "(b \<Longrightarrow> ensures x P) \<Longrightarrow> (\<not> b \<Longrightarrow> ensures y P) \<Longrightarrow> ensures (if b then x else y) P"
  by (simp add: ensures_def)

lemma ensures_prod [wp]: "(\<And>a b. v = (a, b) \<Longrightarrow> ensures (f a b) P) \<Longrightarrow> ensures (case v of (a, b) \<Rightarrow> f a b) P"
  by (simp add: ensures_def split: prod.split)

lemma ensures_option [wp]:
  "(x = None \<Longrightarrow> ensures a P) \<Longrightarrow> (\<And>v. x = Some v \<Longrightarrow> ensures (f v) P) \<Longrightarrow>
   ensures (case x of None \<Rightarrow> a | Some v \<Rightarrow> f v) P"
  by (simp split: option.split)

lemma ensures_sum [wp]:
  "(\<And>e. x = Inl e \<Longrightarrow> ensures (f e) P) \<Longrightarrow> (\<And>v. x = Inr v \<Longrightarrow> ensures (g v) P) \<Longrightarrow>
   ensures (case x of Inl e \<Rightarrow> f e | Inr v \<Rightarrow> g v) P"
  by (simp split: sum.split)

lemma ensures_fold_res:
  assumes "\<And>x s. x \<in> set xs \<Longrightarrow> I s \<Longrightarrow> ensures (f x s) I" "I s" "\<And>s. I s \<Longrightarrow> P s"
  shows "ensures (fold_res f xs s) P"
  unfolding ensures_def using fold_res_inv[of f xs s _ I] assms by (auto simp: ensures_def)

lemma ensures_state_case [wp]:
  assumes "\<And>o1. x = WithdrawOriginal o1 \<Longrightarrow> ensures (f1 o1) P" "\<And>r. x = WithdrawUserRbf r \<Longrightarrow> ensures (f2 r) P"
    "\<And>r. x = WithdrawCancelRbf r \<Longrightarrow> ensures (f3 r) P"
    "\<And>o1. x = ActiveUtxoManagementOriginal o1 \<Longrightarrow> ensures (f4 o1) P"
    "\<And>r. x = ActiveUtxoManagementRbf r \<Longrightarrow> ensures (f5 r) P"
    "\<And>r. x = ActiveUtxoManagementCancelRbf r \<Longrightarrow> ensures (f6 r) P" "\<And>o1. x = Refund o1 \<Longrightarrow> ensures (f7 o1) P"
  shows "ensures (case_pending_state f1 f2 f3 f4 f5 f6 f7 x) P"
  using assms by (cases x) simp_all

lemma ensures_message_case [wp]:
  "(x = MsgDepositProtocolFee \<Longrightarrow> ensures f P) \<Longrightarrow>
   (\<And>a b c d. x = MsgWithdraw a b c d \<Longrightarrow> ensures (g a b c d) P) \<Longrightarrow>
   ensures (case_token_receiver_message f g x) P"
  by (cases x) simp_all

section \<open>Guards\<close>

lemma ensures_unless_paused [wp]: "ensures k P \<Longrightarrow> ensures (unless_paused e s f k) P"
  by (simp add: unless_paused_def ensures_require)

lemma ensures_access_control [wp]: "ensures k P \<Longrightarrow> ensures (access_control_any e s rs k) P"
  by (simp add: access_control_any_def ensures_require)

lemma ensures_trusted_relayer [wp]: "ensures k P \<Longrightarrow> ensures (trusted_relayer e k) P"
  by (simp add: trusted_relayer_def ensures_require)

lemma ensures_one_yocto [wp]: "ensures k P \<Longrightarrow> ensures (assert_one_yocto e k) P"
  by (simp add: assert_one_yocto_def ensures_require)

lemma ensures_private [wp]: "(predecessor e = current_account e \<Longrightarrow> ensures k P) \<Longrightarrow> ensures (private_call e k) P"
  by (simp add: private_call_def ensures_require)

lemma ensures_dao [wp]: "ensures k P \<Longrightarrow> ensures (dao_call e s k) P"
  by (simp add: dao_call_def ensures_access_control ensures_one_yocto)

lemma ensures_capacity [wp]: "ensures k P \<Longrightarrow> ensures (require_pending_sign_capacity s a k) P"
  by (simp add: require_pending_sign_capacity_def ensures_expect ensures_require)

lemma ensures_included [wp]: "ensures k P \<Longrightarrow> ensures (require_included X e k) P"
  by (simp add: require_included_def ensures_expect ensures_require)

lemma ensures_refund_address [wp]: "ensures k P \<Longrightarrow> ensures (assert_valid_refund_address X s a k) P"
  by (simp add: assert_valid_refund_address_def ensures_sum ensures_Inl)

lemma ensures_pending_sign [wp]: "(info_stage p = PendingSign \<Longrightarrow> ensures k P) \<Longrightarrow> ensures (assert_pending_sign p k) P"
  by (simp add: ensures_def assert_pending_sign_Inr)

lemma ensures_pending_verify [wp]:
  "(info_stage p = PendingVerify \<Longrightarrow> ensures k P) \<Longrightarrow> ensures (assert_pending_verify p k) P"
  by (simp add: ensures_def assert_pending_verify_Inr)

lemma ensures_withdraw_related [wp]:
  "(info_kind p \<in> {KWithdraw, KUserRbf, KCancelWithdraw} \<Longrightarrow> info_stage p = PendingVerify \<Longrightarrow> ensures k P) \<Longrightarrow>
   ensures (assert_withdraw_related_pending_verify_tx p k) P"
  by (simp add: ensures_def assert_withdraw_related_Inr)

lemma ensures_active_related [wp]:
  "(info_kind p \<in> {KActive, KActiveRbf, KCancelActive} \<Longrightarrow> info_stage p = PendingVerify \<Longrightarrow> ensures k P) \<Longrightarrow>
   ensures (assert_active_utxo_management_related_pending_verify_tx p k) P"
  by (simp add: ensures_def assert_active_related_Inr)

lemma ensures_refund_verify [wp]:
  "(info_kind p = KRefund \<Longrightarrow> info_stage p = PendingVerify \<Longrightarrow> ensures k P) \<Longrightarrow>
   ensures (assert_refund_pending_verify_tx p k) P"
  by (simp add: ensures_def assert_refund_pending_verify_Inr)

lemma ensures_refund_related [wp]:
  "(info_kind p = KRefund \<Longrightarrow> ensures k P) \<Longrightarrow> ensures (assert_refund_related p k) P"
  by (simp add: ensures_def assert_refund_related_Inr)

lemma ensures_withdraw_original [wp]:
  "(info_kind p = KWithdraw \<Longrightarrow> info_stage p = PendingVerify \<Longrightarrow> ensures k P) \<Longrightarrow>
   ensures (assert_withdraw_original_pending_verify_tx p k) P"
  by (simp add: ensures_def assert_withdraw_original_Inr)

lemma ensures_active_original [wp]:
  "(info_kind p = KActive \<Longrightarrow> info_stage p = PendingVerify \<Longrightarrow> ensures k P) \<Longrightarrow>
   ensures (assert_active_utxo_management_original_pending_verify_tx p k) P"
  by (simp add: ensures_def assert_active_original_Inr)

lemma ensures_not_canceled [wp]: "ensures k P \<Longrightarrow> ensures (assert_not_canceled p k) P"
  by (auto simp: ensures_def assert_not_canceled_def res_Inr)

lemma ensures_original_pending [wp]: "ensures k P \<Longrightarrow> ensures (assert_original_still_pending s p k) P"
  by (auto simp: ensures_def assert_original_still_pending_def res_Inr split: option.splits)

lemma ensures_cancel_allowed [wp]: "ensures k P \<Longrightarrow> ensures (assert_cancel_allowed e s p k) P"
  by (auto simp: ensures_def assert_cancel_allowed_def res_Inr)

lemma ensures_gas_increase [wp]: "ensures k P \<Longrightarrow> ensures (check_withdraw_chain_specific p g k) P"
  by (auto simp: ensures_def check_withdraw_chain_specific_def res_Inr)

lemma ensures_single_key [wp]: "(\<And>k. ensures (f k) P) \<Longrightarrow> ensures (require_single_key p f) P"
  by (auto simp: ensures_def require_single_key_def res_Inr Let_def)

section \<open>The core of the state\<close>

definition callbacks_of :: "effect list \<Rightarrow> callback list" where
  "callbacks_of es = concat (map (\<lambda>x. case x of Scheduled _ _ (Some cb) \<Rightarrow> [cb] | _ \<Rightarrow> []) es)"

lemma callbacks_of_simps [simp]:
  "callbacks_of [] = []"
  "callbacks_of (es @ fs) = callbacks_of es @ callbacks_of fs"
  "callbacks_of [Emitted ev] = []"
  "callbacks_of [Scheduled t c None] = []"
  "callbacks_of [Scheduled t c (Some cb)] = [cb]"
  by (simp_all add: callbacks_of_def)

text \<open>The callbacks that change what the core records; the others change it under guards of their own.\<close>

fun hot :: "callback \<Rightarrow> bool" where
  "hot (CbMint _ _ _ _ _ _) = True"
| "hot (CbSafeMint _ _ _ _) = True"
| "hot (CbVerifyWithdraw _) = True"
| "hot (CbVerifyActiveUtxoManagement _) = True"
| "hot (CbVerifyWithdrawBurn _ _ _) = True"
| "hot (CbVerifyActiveUtxoManagementBurn _) = True"
| "hot _ = False"

definition hots :: "contract \<Rightarrow> callback list" where
  "hots s = filter hot (callbacks_of (effects s))"

definition fees :: "contract \<Rightarrow> u128 \<times> u128 \<times> u128 \<times> u128 \<times> u128" where
  "fees s = (acc_collected_protocol_fee s, cur_available_protocol_fee s, acc_claimed_protocol_fee s,
     cur_reserved_protocol_fee s, acc_protocol_fee_for_gas s)"

definition claims :: "contract \<Rightarrow> string set \<times> (string \<rightharpoonup> utxo_status) \<times> (string \<rightharpoonup> vrefund_request)" where
  "claims s = (verified_deposit_utxo s, utxos_in_progress s, refund_requests s)"

lemma fees_simps [simp]:
  "fees (emit ev s) = fees s" "fees (schedule t c cb s) = fees s"
  "fees (s\<lparr>cfg := a1\<rparr>) = fees s" "fees (s\<lparr>accounts := a2\<rparr>) = fees s" "fees (s\<lparr>utxos := a3\<rparr>) = fees s"
  "fees (s\<lparr>utxos_in_progress := a4\<rparr>) = fees s" "fees (s\<lparr>verified_deposit_utxo := a5\<rparr>) = fees s"
  "fees (s\<lparr>btc_pending_infos := a6\<rparr>) = fees s" "fees (s\<lparr>rbf_txs := a7\<rparr>) = fees s"
  "fees (s\<lparr>relayer_white_list := a8\<rparr>) = fees s" "fees (s\<lparr>extra_msg_relayer_white_list := a9\<rparr>) = fees s"
  "fees (s\<lparr>post_action_receiver_id_white_list := a10\<rparr>) = fees s"
  "fees (s\<lparr>post_action_msg_templates := a11\<rparr>) = fees s" "fees (s\<lparr>pending_tx_limits := a12\<rparr>) = fees s"
  "fees (s\<lparr>lost_found := a13\<rparr>) = fees s" "fees (s\<lparr>refund_requests := a14\<rparr>) = fees s"
  "fees (s\<lparr>block_bridge_amounts := a15\<rparr>) = fees s" "fees (s\<lparr>role_members := a16\<rparr>) = fees s"
  "fees (s\<lparr>super_admins := a17\<rparr>) = fees s" "fees (s\<lparr>effects := a18\<rparr>) = fees s"
  "fees (internal_set_account a acc s) = fees s" "fees (create_account_if_missing a s) = fees s"
  "fees (internal_set_utxo k u s) = fees s" "fees (internal_set_utxo_in_progress k st s) = fees s"
  "fees (internal_remove_utxo_in_progress k s) = fees s" "fees (write_pending i p s) = fees s"
  by (simp_all add: fees_def emit_def schedule_def internal_set_account_def create_account_if_missing_def
      internal_set_utxo_def internal_set_utxo_in_progress_def internal_remove_utxo_in_progress_def
      write_pending_def)

lemma claims_simps [simp]:
  "claims (emit ev s) = claims s" "claims (schedule t c cb s) = claims s"
  "claims (s\<lparr>cfg := a1\<rparr>) = claims s" "claims (s\<lparr>accounts := a2\<rparr>) = claims s" "claims (s\<lparr>utxos := a3\<rparr>) = claims s"
  "claims (s\<lparr>btc_pending_infos := a6\<rparr>) = claims s" "claims (s\<lparr>rbf_txs := a7\<rparr>) = claims s"
  "claims (s\<lparr>relayer_white_list := a8\<rparr>) = claims s" "claims (s\<lparr>extra_msg_relayer_white_list := a9\<rparr>) = claims s"
  "claims (s\<lparr>post_action_receiver_id_white_list := a10\<rparr>) = claims s"
  "claims (s\<lparr>post_action_msg_templates := a11\<rparr>) = claims s" "claims (s\<lparr>pending_tx_limits := a12\<rparr>) = claims s"
  "claims (s\<lparr>lost_found := a13\<rparr>) = claims s"
  "claims (s\<lparr>block_bridge_amounts := a15\<rparr>) = claims s" "claims (s\<lparr>role_members := a16\<rparr>) = claims s"
  "claims (s\<lparr>super_admins := a17\<rparr>) = claims s" "claims (s\<lparr>effects := a18\<rparr>) = claims s"
  "claims (internal_set_account a acc s) = claims s" "claims (create_account_if_missing a s) = claims s"
  "claims (internal_set_utxo k u s) = claims s" "claims (write_pending i p s) = claims s"
  by (simp_all add: claims_def emit_def schedule_def internal_set_account_def create_account_if_missing_def
      internal_set_utxo_def write_pending_def)

lemma pendings_simps [simp]:
  "btc_pending_infos (emit ev s) = btc_pending_infos s"
  "btc_pending_infos (schedule t c cb s) = btc_pending_infos s"
  "btc_pending_infos (internal_set_account a acc s) = btc_pending_infos s"
  "btc_pending_infos (create_account_if_missing a s) = btc_pending_infos s"
  "btc_pending_infos (internal_set_utxo k u s) = btc_pending_infos s"
  "btc_pending_infos (internal_set_utxo_in_progress k st s) = btc_pending_infos s"
  "btc_pending_infos (internal_remove_utxo_in_progress k s) = btc_pending_infos s"
  "btc_pending_infos (write_pending i p s) = (btc_pending_infos s)(i \<mapsto> VPending_Current p)"
  by (simp_all add: emit_def schedule_def internal_set_account_def create_account_if_missing_def
      internal_set_utxo_def internal_set_utxo_in_progress_def internal_remove_utxo_in_progress_def
      write_pending_def)

lemma hots_simps [simp]:
  "hots (emit ev s) = hots s"
  "hots (schedule t c None s) = hots s"
  "hots (schedule t c (Some cb) s) = hots s @ (if hot cb then [cb] else [])"
  "hots (s\<lparr>cfg := a1\<rparr>) = hots s" "hots (s\<lparr>accounts := a2\<rparr>) = hots s" "hots (s\<lparr>utxos := a3\<rparr>) = hots s"
  "hots (s\<lparr>utxos_in_progress := a4\<rparr>) = hots s" "hots (s\<lparr>verified_deposit_utxo := a5\<rparr>) = hots s"
  "hots (s\<lparr>btc_pending_infos := a6\<rparr>) = hots s" "hots (s\<lparr>rbf_txs := a7\<rparr>) = hots s"
  "hots (s\<lparr>relayer_white_list := a8\<rparr>) = hots s" "hots (s\<lparr>extra_msg_relayer_white_list := a9\<rparr>) = hots s"
  "hots (s\<lparr>post_action_receiver_id_white_list := a10\<rparr>) = hots s"
  "hots (s\<lparr>post_action_msg_templates := a11\<rparr>) = hots s" "hots (s\<lparr>pending_tx_limits := a12\<rparr>) = hots s"
  "hots (s\<lparr>lost_found := a13\<rparr>) = hots s" "hots (s\<lparr>refund_requests := a14\<rparr>) = hots s"
  "hots (s\<lparr>block_bridge_amounts := a15\<rparr>) = hots s" "hots (s\<lparr>role_members := a16\<rparr>) = hots s"
  "hots (s\<lparr>super_admins := a17\<rparr>) = hots s"
  "hots (internal_set_account a acc s) = hots s" "hots (create_account_if_missing a s) = hots s"
  "hots (internal_set_utxo k u s) = hots s" "hots (internal_set_utxo_in_progress k st s) = hots s"
  "hots (internal_remove_utxo_in_progress k s) = hots s" "hots (write_pending i p s) = hots s"
  by (simp_all add: hots_def emit_def schedule_def internal_set_account_def create_account_if_missing_def
      internal_set_utxo_def internal_set_utxo_in_progress_def internal_remove_utxo_in_progress_def
      write_pending_def)

definition core ::
    "contract \<Rightarrow> (u128 \<times> u128 \<times> u128 \<times> u128 \<times> u128) \<times> (string \<rightharpoonup> vpending_info) \<times>
      (string set \<times> (string \<rightharpoonup> utxo_status) \<times> (string \<rightharpoonup> vrefund_request)) \<times> callback list" where
  "core s = (fees s, btc_pending_infos s, claims s, hots s)"

lemma core_eq: "core s' = core s \<longleftrightarrow> fees s' = fees s \<and> btc_pending_infos s' = btc_pending_infos s \<and>
   claims s' = claims s \<and> hots s' = hots s"
  by (simp add: core_def)

section \<open>Calls that leave the core alone\<close>

lemma ensures_unwrap_mut_account [wp]:
  "(\<And>acc s'. s' = internal_set_account a acc s \<Longrightarrow> ensures (k acc s') P) \<Longrightarrow>
   ensures (internal_unwrap_mut_account s a k) P"
  by (auto simp: ensures_def internal_unwrap_mut_account_def res_Inr)

lemma ensures_unwrap_pending [wp]:
  "(\<And>v. btc_pending_infos s i = Some v \<Longrightarrow> ensures (k (of_vpending v)) P) \<Longrightarrow>
   ensures (internal_unwrap_btc_pending_info s i k) P"
  by (auto simp: ensures_def internal_unwrap_btc_pending_info_def res_Inr)

lemma add_pending_sign_id_core: "ensures (add_pending_sign_id a i s) (\<lambda>s'. core s' = core s)"
  unfolding add_pending_sign_id_def
  by (rule wp | rule ensures_any | (simp add: core_eq; fail))+

lemma remove_pending_verify_core: "ensures (remove_pending_verify a i s) (\<lambda>s'. core s' = core s)"
  unfolding remove_pending_verify_def
  by (rule wp | rule ensures_any | (simp add: core_eq; fail))+

lemma charge_core: "ensures (charge_attached_deposit e r s) (\<lambda>s'. core s' = core s)"
  unfolding charge_attached_deposit_def
  by (rule wp | rule ensures_any | (simp add: core_eq; fail))+

lemma resize_core: "ensures (resize_block_amount_ring s) (\<lambda>s'. core s' = core s)"
  unfolding resize_block_amount_ring_def
  by (rule wp | rule ensures_any | (simp add: core_eq; fail))+

lemma unbump_core: "ensures (unbump_block_amount h a s) (\<lambda>s'. core s' = core s)"
  unfolding unbump_block_amount_def
  by (rule wp | rule ensures_any | (simp add: core_eq; fail))+

lemma bump_core: "ensures (bump_and_check_confirmations h t a d s) (\<lambda>s'. core s' = core s)"
  unfolding bump_and_check_confirmations_def
  by (rule wp | rule ensures_any | (simp add: core_eq; fail))+

lemma generate_vutxos_core: "ensures (generate_vutxos X e p s) (\<lambda>(ks, vs, p', s'). core s' = core s)"
  by (auto simp: ensures_def core_eq dest!: generate_vutxos_Inr)

lemma check_withdraw_valid_core:
  "ensures (check_withdraw_psbt_valid X e s t c p vs a f m) (\<lambda>(x, g, s'). core s' = core s)"
  by (auto simp: ensures_def core_eq dest!: check_withdraw_psbt_valid_Inr)

lemma check_deposit_msg_effect:
  assumes "check_deposit_msg X e d m s = Inr (r, s')" shows "s' = s \<or> (\<exists>ev. s' = emit ev s)"
proof -
  have inv: "s'' = s \<or> (\<exists>ev. s'' = emit ev s)"
    if "invalid_action i msg s = Inr (q :: post_action list option, s'')" for i msg q s''
    using that by (auto simp: invalid_action_def)
  show ?thesis
  proof (cases "dm_post_actions d")
    case (Some as)
    show ?thesis
    proof (cases "as = [] \<or> length as > MAX_POST_ACTIONS_NUM")
      case False
      with Some assms obtain q s1 where c: "check_post_actions X e 0 as 0 0 s = Inr (q, s1)"
        by (auto simp: check_deposit_msg_def bindR_Inr)
      show ?thesis
      proof (cases q)
        case None
        with check_post_actions_state[OF c] Some False assms c show ?thesis
          by (auto simp: check_deposit_msg_def)
      next
        case (Some gm)
        obtain g t where gm: "gm = (g, t)" by (cases gm)
        with check_post_actions_state[OF c] Some have "s1 = s" by simp
        with \<open>dm_post_actions d = Some as\<close> False assms c Some gm show ?thesis
          by (simp add: check_deposit_msg_def split: if_splits) (use inv in blast)+
      qed
    qed (use assms Some inv in \<open>auto simp: check_deposit_msg_def split: if_splits\<close>)
  qed (use assms in \<open>simp add: check_deposit_msg_def\<close>)
qed

lemma check_deposit_msg_core: "ensures (check_deposit_msg X e d m s) (\<lambda>(r, s'). core s' = core s)"
  by (auto simp: ensures_def core_eq dest!: check_deposit_msg_effect)

lemma acl_must_core:
  "(\<And>b s'. r = Some (b, s') \<Longrightarrow> core s' = core s) \<Longrightarrow> ensures (acl_must r m) (\<lambda>s'. core s' = core s)"
  by (auto simp: ensures_def acl_must_def res_Inr)

lemma acl_ops_core [simp]:
  "acl_add_super_admin e a s = Some (b, s') \<Longrightarrow> core s' = core s"
  "acl_revoke_super_admin e a s = Some (b, s') \<Longrightarrow> core s' = core s"
  "acl_grant_role e r a s = Some (b, s') \<Longrightarrow> core s' = core s"
  "acl_revoke_role e r a s = Some (b, s') \<Longrightarrow> core s' = core s"
  "core (acl_try (acl_revoke_role e r a s) s) = core s"
  by (auto simp: acl_add_super_admin_def acl_revoke_super_admin_def acl_grant_role_def
      acl_revoke_role_def acl_try_def core_eq split: if_splits)

lemma ensures_acl [wp]:
  "(\<And>s'. core s' = core s \<Longrightarrow> P s') \<Longrightarrow> ensures (acl_must (acl_add_super_admin e a s) m) P"
  "(\<And>s'. core s' = core s \<Longrightarrow> P s') \<Longrightarrow> ensures (acl_must (acl_revoke_super_admin e a s) m) P"
  "(\<And>s'. core s' = core s \<Longrightarrow> P s') \<Longrightarrow> ensures (acl_must (acl_grant_role e r a s) m) P"
  "(\<And>s'. core s' = core s \<Longrightarrow> P s') \<Longrightarrow> ensures (acl_must (acl_revoke_role e r a s) m) P"
  by (rule ensures_weaken[OF acl_must_core[where s = s]]; simp)+

lemmas core_frames [wp] = add_pending_sign_id_core[THEN ensures_weaken]
  remove_pending_verify_core[THEN ensures_weaken] charge_core[THEN ensures_weaken]
  resize_core[THEN ensures_weaken] unbump_core[THEN ensures_weaken] bump_core[THEN ensures_weaken]
  generate_vutxos_core[THEN ensures_weaken] check_withdraw_valid_core[THEN ensures_weaken]
  check_deposit_msg_core[THEN ensures_weaken]

end
