(* ===== verification/Ledger.thy ===== *)
theory Ledger
  imports Result_Rules
begin

text \<open>
  What every method does to the core of the state.
\<close>

section \<open>Methods that leave the core alone\<close>

lemma sync_chain_signatures_root_public_key_core: "ensures (sync_chain_signatures_root_public_key e s) (\<lambda>s'. core s' = core s)"
  unfolding sync_chain_signatures_root_public_key_def 
  by (rule wp | rule ensures_any | (simp add: core_eq; fail))+

lemma sync_root_public_key_callback_core: "ensures (sync_root_public_key_callback X e s) (\<lambda>(_, s'). core s' = core s)"
  unfolding sync_root_public_key_callback_def 
  by (rule wp | rule ensures_any | (simp add: core_eq; fail))+

lemma internal_sign_btc_transaction_core: "ensures (internal_sign_btc_transaction X e i n v s) (\<lambda>s'. core s' = core s)"
  unfolding internal_sign_btc_transaction_def sign_promise_def
  by (rule wp | rule ensures_any | (simp add: core_eq; fail))+

lemma verify_deposit_v2_core: "ensures (verify_deposit_v2 X e d t v pr s) (\<lambda>s'. core s' = core s)"
  unfolding verify_deposit_v2_def internal_safe_verify_deposit_entry_def internal_safe_verify_deposit_def internal_verify_deposit_entry_def internal_verify_deposit_def
  by (rule wp | rule ensures_any | (simp add: core_eq; fail))+

lemma request_refund_core: "ensures (request_refund X e d a t v pr g s) (\<lambda>s'. core s' = core s)"
  unfolding request_refund_def internal_request_refund_def
  by (rule wp | rule ensures_any | (simp add: core_eq; fail))+

lemma claim_lost_found_core: "ensures (claim_lost_found e s) (\<lambda>s'. core s' = core s)"
  unfolding claim_lost_found_def internal_transfer_nbtc_def
  by (rule wp | rule ensures_any | (simp add: core_eq; fail))+

lemma transfer_nbtc_callback_core: "ensures (transfer_nbtc_callback e a n s) (\<lambda>(_, s'). core s' = core s)"
  unfolding transfer_nbtc_callback_def 
  by (rule wp | rule ensures_any | (simp add: core_eq; fail))+

lemma add_super_admin_core: "ensures (add_super_admin e a s) (\<lambda>s'. core s' = core s)"
  unfolding add_super_admin_def 
  by (rule wp | rule ensures_any | (simp add: core_eq; fail))+

lemma remove_super_admin_core: "ensures (remove_super_admin e a s) (\<lambda>s'. core s' = core s)"
  unfolding remove_super_admin_def 
  by (rule wp | rule ensures_any | (simp add: core_eq; fail))+

lemma extend_relayer_white_list_core: "ensures (extend_relayer_white_list e as s) (\<lambda>s'. core s' = core s)"
  unfolding extend_relayer_white_list_def 
  by (rule wp | rule ensures_any | (simp add: core_eq; fail))+

lemma remove_relayer_white_list_core: "ensures (remove_relayer_white_list e as s) (\<lambda>s'. core s' = core s)"
  unfolding remove_relayer_white_list_def 
  by (rule wp | rule ensures_any | (simp add: core_eq; fail))+

lemma extend_extra_msg_relayer_white_list_core: "ensures (extend_extra_msg_relayer_white_list e as s) (\<lambda>s'. core s' = core s)"
  unfolding extend_extra_msg_relayer_white_list_def 
  by (rule wp | rule ensures_any | (simp add: core_eq; fail))+

lemma remove_extra_msg_relayer_white_list_core: "ensures (remove_extra_msg_relayer_white_list e as s) (\<lambda>s'. core s' = core s)"
  unfolding remove_extra_msg_relayer_white_list_def 
  by (rule wp | rule ensures_any | (simp add: core_eq; fail))+

lemma extend_post_action_receiver_id_white_list_core: "ensures (extend_post_action_receiver_id_white_list e as s) (\<lambda>s'. core s' = core s)"
  unfolding extend_post_action_receiver_id_white_list_def 
  by (rule wp | rule ensures_any | (simp add: core_eq; fail))+

lemma remove_post_action_receiver_id_white_list_core: "ensures (remove_post_action_receiver_id_white_list e as s) (\<lambda>s'. core s' = core s)"
  unfolding remove_post_action_receiver_id_white_list_def 
  by (rule wp | rule ensures_any | (simp add: core_eq; fail))+

lemma set_pending_tx_limit_core: "ensures (set_pending_tx_limit e a n s) (\<lambda>s'. core s' = core s)"
  unfolding set_pending_tx_limit_def 
  by (rule wp | rule ensures_any | (simp add: core_eq; fail))+

lemma extend_post_action_msg_templates_core: "ensures (extend_post_action_msg_templates e c t s) (\<lambda>s'. core s' = core s)"
  unfolding extend_post_action_msg_templates_def 
  by (rule wp | rule ensures_any | (simp add: core_eq; fail))+

lemma remove_post_action_msg_templates_core: "ensures (remove_post_action_msg_templates e c t s) (\<lambda>s'. core s' = core s)"
  unfolding remove_post_action_msg_templates_def 
  by (rule wp | rule ensures_any | (simp add: core_eq; fail))+

lemma update_config_core: "ensures (update_config e u s) (\<lambda>s'. core s' = core s)"
  unfolding update_config_def 
  by (rule wp | rule ensures_any | (simp add: core_eq; fail))+

lemma set_confirmations_strategy_core: "ensures (set_confirmations_strategy e b c s) (\<lambda>s'. core s' = core s)"
  unfolding set_confirmations_strategy_def 
  by (rule wp | rule ensures_any | (simp add: core_eq; fail))+

lemma remove_confirmations_strategy_core: "ensures (remove_confirmations_strategy e b s) (\<lambda>s'. core s' = core s)"
  unfolding remove_confirmations_strategy_def 
  by (rule wp | rule ensures_any | (simp add: core_eq; fail))+

lemma extend_operators_core: "ensures (extend_operators e as s) (\<lambda>s'. core s' = core s)"
  unfolding extend_operators_def
  by (rule wp ensures_fold_res[where I = "\<lambda>s'. core s' = core s"] | (simp add: core_eq; fail))+

lemma remove_operators_core: "ensures (remove_operators e as s) (\<lambda>s'. core s' = core s)"
  unfolding remove_operators_def
  by (rule wp ensures_fold_res[where I = "\<lambda>s'. core s' = core s"] | (simp add: core_eq; fail))+

section \<open>The books\<close>

text \<open>
  What a pending transaction holds in reserve: an active-management transaction its highest gas
  fee, a cancelled withdrawal the part of the gas that exceeds the user's balance.  What a
  transaction will use of the reservation of its original (or of its own) when it is confirmed is
  its charge.
\<close>

definition reserve_of :: "pending_info \<Rightarrow> u128" where
  "reserve_of p = (case pi_state p of
     WithdrawOriginal st \<Rightarrow> (case cancel_rbf_reserved st of Some r \<Rightarrow> r | None \<Rightarrow> 0)
   | ActiveUtxoManagementOriginal st \<Rightarrow> max_gas_fee st
   | _ \<Rightarrow> 0)"

definition charge :: "pending_info \<Rightarrow> u128" where
  "charge p = (case info_kind p of
     KCancelWithdraw \<Rightarrow> burn_amount p - (transfer_amount p - withdraw_fee p)
   | KActive \<Rightarrow> burn_amount p | KActiveRbf \<Rightarrow> burn_amount p | KCancelActive \<Rightarrow> burn_amount p
   | _ \<Rightarrow> 0)"

definition covers :: "pending_info \<Rightarrow> pending_info \<Rightarrow> bool" where
  \<comment> \<open>the first is a possible original of the second\<close>
  "covers q p \<longleftrightarrow>
     info_kind q = (if info_kind p \<in> {KUserRbf, KCancelWithdraw} then KWithdraw else KActive) \<and>
     charge p \<le> reserve_of q"

definition record_ok :: "(string \<rightharpoonup> vpending_info) \<Rightarrow> pending_info \<Rightarrow> bool" where
  "record_ok P p \<longleftrightarrow>
     (info_kind p = KActive \<longrightarrow> charge p \<le> reserve_of p) \<and>
     (info_kind p = KCancelWithdraw \<longrightarrow> withdraw_fee p \<le> transfer_amount p) \<and>
     (\<forall>j v. get_original_tx_id p = Some j \<longrightarrow> P j = Some v \<longrightarrow> covers (of_vpending v) p)"

definition records_ok :: "(string \<rightharpoonup> vpending_info) \<Rightarrow> bool" where
  "records_ok P \<longleftrightarrow> (\<forall>i v. P i = Some v \<longrightarrow> record_ok P (of_vpending v))"

definition held :: "(string \<rightharpoonup> vpending_info) \<Rightarrow> u128" where
  "held P = msum (\<lambda>_ v. reserve_of (of_vpending v)) P"

fun ledger_of :: "u128 \<times> u128 \<times> u128 \<times> u128 \<times> u128 \<Rightarrow> (string \<rightharpoonup> vpending_info) \<Rightarrow> bool" where
  "ledger_of (collected, available, claimed, reserved, gas) P \<longleftrightarrow>
     collected = available + claimed + reserved + gas \<and> reserved = held P \<and> finite (dom P) \<and> records_ok P"

definition ledger :: "contract \<Rightarrow> bool" where
  "ledger s \<longleftrightarrow> ledger_of (fees s) (btc_pending_infos s)"

lemma ledger_core: "core s' = core s \<Longrightarrow> ledger s' = ledger s"
  by (simp add: ledger_def core_eq)

text \<open>An id no stored replacement names as its original.\<close>

definition fresh_id :: "string \<Rightarrow> (string \<rightharpoonup> vpending_info) \<Rightarrow> bool" where
  "fresh_id i P \<longleftrightarrow> (\<forall>j v. P j = Some v \<longrightarrow> get_original_tx_id (of_vpending v) \<noteq> Some i)"

definition fresh_ids :: "(string \<rightharpoonup> vpending_info) \<Rightarrow> (string \<rightharpoonup> vpending_info) \<Rightarrow> bool" where
  "fresh_ids P P' \<longleftrightarrow> (\<forall>i. P i = None \<longrightarrow> P' i \<noteq> None \<longrightarrow> fresh_id i P)"

text \<open>
  A change of the state is sound when it keeps the books as long as new transactions have fresh ids,
  never changes the kind of a record, and leaves the claims on deposits and the callbacks that
  touch claims or books alone.
\<close>

definition kinds_kept :: "(string \<rightharpoonup> vpending_info) \<Rightarrow> (string \<rightharpoonup> vpending_info) \<Rightarrow> bool" where
  "kinds_kept P P' \<longleftrightarrow> (\<forall>i v v'. P i = Some v \<longrightarrow> P' i = Some v' \<longrightarrow>
     info_kind (of_vpending v') = info_kind (of_vpending v))"

definition books :: "contract \<Rightarrow> contract \<Rightarrow> bool" where
  "books s s' \<longleftrightarrow> kinds_kept (btc_pending_infos s) (btc_pending_infos s') \<and>
     (ledger s \<longrightarrow> fresh_ids (btc_pending_infos s) (btc_pending_infos s') \<longrightarrow> ledger s')"

definition sound :: "contract \<Rightarrow> contract \<Rightarrow> bool" where
  "sound s s' \<longleftrightarrow> books s s' \<and> claims s' = claims s \<and> hots s' = hots s"

lemma of_vpending_Current [simp]: "of_vpending (VPending_Current p) = p"
  by (simp add: of_vpending_def)

lemma original_iff_kind: "get_original_tx_id p = None \<longleftrightarrow> info_kind p \<in> {KWithdraw, KActive, KRefund}"
  by (cases "pi_state p") (simp_all add: get_original_tx_id_def info_kind_def)

lemma reserve_of_child: "get_original_tx_id p = Some j \<Longrightarrow> reserve_of p = 0"
  by (cases "pi_state p") (simp_all add: get_original_tx_id_def reserve_of_def)

section \<open>Changing one record\<close>

lemma records_insert:
  assumes "records_ok P" "P i = None" "fresh_id i P" "record_ok (P(i \<mapsto> VPending_Current p)) p"
  shows "records_ok (P(i \<mapsto> VPending_Current p))"
  unfolding records_ok_def
proof (intro allI impI)
  fix j v assume v: "(P(i \<mapsto> VPending_Current p)) j = Some v"
  show "record_ok (P(i \<mapsto> VPending_Current p)) (of_vpending v)"
  proof (cases "j = i")
    case False
    with v assms(1,3) have "record_ok P (of_vpending v)" "get_original_tx_id (of_vpending v) \<noteq> Some i"
      by (auto simp: records_ok_def fresh_id_def)
    then show ?thesis by (auto simp: record_ok_def)
  qed (use v assms(4) in auto)
qed

lemma records_delete: "records_ok P \<Longrightarrow> records_ok (P(i := None))"
  by (auto simp: records_ok_def record_ok_def split: if_splits)

lemma records_update:
  assumes ok: "records_ok P" and v: "P i = Some v"
    and kind: "info_kind p = info_kind (of_vpending v)" "get_original_tx_id p = get_original_tx_id (of_vpending v)"
      "charge p = charge (of_vpending v)" "withdraw_fee p = withdraw_fee (of_vpending v)"
      "transfer_amount p = transfer_amount (of_vpending v)"
    and le: "reserve_of (of_vpending v) \<le> reserve_of p"
  shows "records_ok (P(i \<mapsto> VPending_Current p))"
  unfolding records_ok_def
proof (intro allI impI)
  let ?P = "P(i \<mapsto> VPending_Current p)"
  fix j w assume w: "?P j = Some w"
  have step: "record_ok ?P q" if "record_ok P q" for q
    using that v kind le by (auto simp: record_ok_def covers_def)
  have "record_ok P (of_vpending v)" using ok v by (auto simp: records_ok_def)
  then have "record_ok P p" using kind le by (auto simp: record_ok_def covers_def)
  with w ok step show "record_ok ?P (of_vpending w)" by (auto simp: records_ok_def split: if_splits)
qed

lemma held_insert: "finite (dom P) \<Longrightarrow> P i = None \<Longrightarrow> held (P(i \<mapsto> VPending_Current p)) = held P + reserve_of p"
  by (simp add: held_def msum_insert)

lemma held_delete: "finite (dom P) \<Longrightarrow> P i = Some v \<Longrightarrow> held P = held (P(i := None)) + reserve_of (of_vpending v)"
  by (simp add: held_def msum_remove)

lemma held_update:
  "finite (dom P) \<Longrightarrow> P i = Some v \<Longrightarrow>
   held (P(i \<mapsto> VPending_Current p)) + reserve_of (of_vpending v) = held P + reserve_of p"
  using msum_update[of P i v "\<lambda>_ v. reserve_of (of_vpending v)" "VPending_Current p"] by (simp add: held_def)

section \<open>Changing the books\<close>

lemma ledger_new:
  assumes "ledger_of (c, v, cl, r, g) P" "P i = None" "fresh_id i P" "get_original_tx_id p = None"
    "info_kind p = KActive \<longrightarrow> charge p \<le> reserve_of p" "reserve_of p \<le> v"
  shows "ledger_of (c, v - reserve_of p, cl, r + reserve_of p, g) (P(i \<mapsto> VPending_Current p))"
proof -
  have "info_kind p \<noteq> KCancelWithdraw" using assms(4) by (auto simp: original_iff_kind)
  with assms have "records_ok (P(i \<mapsto> VPending_Current p))"
    by (intro records_insert) (simp_all add: record_ok_def)
  with assms show ?thesis by (simp add: held_insert)
qed

lemma ledger_write:
  assumes "ledger_of f P" "P i = Some v" "info_kind p = info_kind (of_vpending v)"
    "get_original_tx_id p = get_original_tx_id (of_vpending v)" "charge p = charge (of_vpending v)"
    "withdraw_fee p = withdraw_fee (of_vpending v)" "transfer_amount p = transfer_amount (of_vpending v)"
    "reserve_of p = reserve_of (of_vpending v)"
  shows "ledger_of f (P(i \<mapsto> VPending_Current p))"
proof -
  obtain c va cl r g where f: "f = (c, va, cl, r, g)" by (cases f)
  have "records_ok (P(i \<mapsto> VPending_Current p))"
    by (rule records_update[of P i v p]) (use assms f in auto)
  with assms f held_update[of P i v p] show ?thesis by simp
qed

lemma ledger_replace:
  assumes ok: "ledger_of (c, v, cl, r, g) P" and w: "P j = Some w"
    and q: "info_kind q = info_kind (of_vpending w)" "get_original_tx_id q = get_original_tx_id (of_vpending w)"
      "charge q = charge (of_vpending w)" "withdraw_fee q = withdraw_fee (of_vpending w)"
      "transfer_amount q = transfer_amount (of_vpending w)"
    and d: "reserve_of q = reserve_of (of_vpending w) + d" "d \<le> v"
    and p: "P i = None" "fresh_id i P" "get_original_tx_id p = Some j" "covers q p"
      "info_kind p = KCancelWithdraw \<longrightarrow> withdraw_fee p \<le> transfer_amount p"
  shows "ledger_of (c, v - d, cl, r + d, g) (P(j \<mapsto> VPending_Current q, i \<mapsto> VPending_Current p))"
proof -
  let ?P = "P(j \<mapsto> VPending_Current q)"
  have ij: "i \<noteq> j" using p(1) w by auto
  have P: "records_ok P" "finite (dom P)" "r = held P" "c = v + cl + r + g" using ok by simp_all
  have 1: "records_ok ?P" by (rule records_update[of P j w q]) (use P(1) w q d in simp_all)
  have fresh: "fresh_id i ?P" using p(2) q(2) w by (auto simp: fresh_id_def)
  have kind: "info_kind p \<noteq> KActive" using p(3) original_iff_kind[of p] by auto
  have "records_ok (?P(i \<mapsto> VPending_Current p))"
    by (rule records_insert[of ?P i p]) (use 1 fresh p ij kind in \<open>auto simp: record_ok_def\<close>)
  moreover have "held (?P(i \<mapsto> VPending_Current p)) = held ?P"
    using held_insert[of ?P i p] P(2) p(1,3) ij reserve_of_child[of p j] by simp
  moreover have "held ?P = held P + d" using held_update[OF P(2) w, of q] d by simp
  ultimately show ?thesis using P d by simp
qed

lemma ledger_settle:
  assumes "ledger_of (c, v, cl, r, g) P" "P i = Some w" "u \<le> reserve_of (of_vpending w)"
  shows "ledger_of (c, v + (reserve_of (of_vpending w) - u), cl, r - reserve_of (of_vpending w), g + u) (P(i := None))"
    and "reserve_of (of_vpending w) \<le> r"
  using assms held_delete[of P i w] records_delete[of P i] by auto

lemma ledger_drop:
  assumes "ledger_of f P" "P i = Some w" "reserve_of (of_vpending w) = 0"
  shows "ledger_of f (P(i := None))"
  using assms held_delete[of P i w] records_delete[of P i] by (cases f) auto

section \<open>The fee operations\<close>

definition unpaid ::
    "contract \<Rightarrow> (string \<rightharpoonup> vpending_info) \<times>
      (string set \<times> (string \<rightharpoonup> utxo_status) \<times> (string \<rightharpoonup> vrefund_request)) \<times> callback list" where
  "unpaid s = (btc_pending_infos s, claims s, hots s)"

lemma unpaid_eq: "unpaid s' = unpaid s \<longleftrightarrow> btc_pending_infos s' = btc_pending_infos s \<and>
   claims s' = claims s \<and> hots s' = hots s"
  by (simp add: unpaid_def)

lemmas fee_op_defs = fees_def unpaid_def claims_def hots_def

lemma fee_collect_wp [wp]:
  assumes "\<And>s' c v cl r g. fees s = (c, v, cl, r, g) \<Longrightarrow> fees s' = (c + a, v + a, cl, r, g) \<Longrightarrow>
    unpaid s' = unpaid s \<Longrightarrow> Q s'"
  shows "ensures (fee_collect a s) Q"
  unfolding fee_collect_def by (intro wp assms) (simp_all add: fee_op_defs)

definition reserved_more :: "u128 \<Rightarrow> u128 \<times> u128 \<times> u128 \<times> u128 \<times> u128 \<Rightarrow> u128 \<times> u128 \<times> u128 \<times> u128 \<times> u128 \<Rightarrow> bool" where
  "reserved_more d f f' \<longleftrightarrow> (case f of (c, v, cl, r, g) \<Rightarrow> d \<le> v \<and> f' = (c, v - d, cl, r + d, g))"

lemma reserved_more_0 [simp]: "reserved_more 0 f f"
  by (cases f) (simp add: reserved_more_def)

lemma fee_reserve_wp [wp]:
  assumes "\<And>s'. reserved_more a (fees s) (fees s') \<Longrightarrow> unpaid s' = unpaid s \<Longrightarrow> Q s'"
  shows "ensures (fee_reserve a s) Q"
  unfolding fee_reserve_def by (intro wp assms) (simp_all add: fee_op_defs reserved_more_def)

definition fee_settled :: "u128 \<Rightarrow> u128 \<Rightarrow> u128 \<times> u128 \<times> u128 \<times> u128 \<times> u128 \<Rightarrow> u128 \<times> u128 \<times> u128 \<times> u128 \<times> u128 \<Rightarrow> bool" where
  "fee_settled x u f f' \<longleftrightarrow> (case f of (c, v, cl, r, g) \<Rightarrow> x \<le> r \<and> u \<le> x \<and> f' = (c, v + (x - u), cl, r - x, g + u))"

lemma fee_settled_0: "u = 0 \<Longrightarrow> f' = f \<Longrightarrow> fee_settled 0 u f f'"
  by (cases f) (simp add: fee_settled_def)

lemma fee_settle_wp [wp]:
  assumes "\<And>s'. fee_settled x u (fees s) (fees s') \<Longrightarrow> unpaid s' = unpaid s \<Longrightarrow> Q s'"
  shows "ensures (fee_settle x u s) Q"
  unfolding fee_settle_def by (intro wp assms) (simp_all add: fee_op_defs fee_settled_def)

lemma fee_claim_wp [wp]:
  assumes "\<And>s' c v cl r g. fees s = (c, v, cl, r, g) \<Longrightarrow> a \<le> v \<Longrightarrow> fees s' = (c, v - a, cl + a, r, g) \<Longrightarrow>
    unpaid s' = unpaid s \<Longrightarrow> Q s'"
  shows "ensures (fee_claim a s) Q"
  unfolding fee_claim_def by (intro wp assms) (simp_all add: fee_op_defs)

lemma fee_unclaim_wp [wp]:
  assumes "\<And>s' c v cl r g. fees s = (c, v, cl, r, g) \<Longrightarrow> a \<le> cl \<Longrightarrow> fees s' = (c, v + a, cl - a, r, g) \<Longrightarrow>
    unpaid s' = unpaid s \<Longrightarrow> Q s'"
  shows "ensures (fee_unclaim a s) Q"
  unfolding fee_unclaim_def by (intro wp assms) (simp_all add: fee_op_defs)

lemma unwrap_or_create_wp [wp]:
  "(\<And>acc s'. s' = internal_set_account a acc s \<Longrightarrow> ensures (k acc s') P) \<Longrightarrow>
   ensures (internal_unwrap_or_create_mut_account s a k) P"
  by (simp add: internal_unwrap_or_create_mut_account_def Let_def)

lemma insert_new_pending_wp [wp]:
  "(btc_pending_infos s i = None \<Longrightarrow> Q (write_pending i p s)) \<Longrightarrow> ensures (insert_new_pending i p s) Q"
  by (auto simp: ensures_def insert_new_pending_def res_Inr)

lemma remove_pending_wp [wp]:
  assumes "\<And>v s'. btc_pending_infos s i = Some v \<Longrightarrow>
    s' = s\<lparr>btc_pending_infos := (btc_pending_infos s)(i := None)\<rparr> \<Longrightarrow> ensures (k (of_vpending v) s') Q"
  shows "ensures (internal_remove_btc_pending_info s i k) Q"
  using assms by (auto simp: ensures_def internal_remove_btc_pending_info_def res_Inr)

end
