(* ===== verification/Ledger_Steps.thy ===== *)
theory Ledger_Steps
  imports Ledger
begin

text \<open>
  Every method keeps the books: the protocol fee counters balance, the reserved counter is exactly
  what the pending transactions hold, and no pending transaction can use more than its original
  reserved.
\<close>

section \<open>Updates of an original\<close>

definition same_terms :: "pending_info \<Rightarrow> pending_info \<Rightarrow> bool" where
  "same_terms q p \<longleftrightarrow> info_kind q = info_kind p \<and> get_original_tx_id q = get_original_tx_id p \<and>
     charge q = charge p \<and> withdraw_fee q = withdraw_fee p \<and> transfer_amount q = transfer_amount p"

lemmas terms_defs = same_terms_def charge_def reserve_of_def info_kind_def get_original_tx_id_def

lemma update_max_gas_fee_wp [wp]:
  assumes "\<And>q. same_terms q p \<Longrightarrow> (info_kind p = KWithdraw \<Longrightarrow> reserve_of q = reserve_of p) \<Longrightarrow>
    (info_kind p = KActive \<Longrightarrow> reserve_of q = fee) \<Longrightarrow> Q q"
  shows "ensures (update_max_gas_fee e p fee) Q"
  using assms by (cases "pi_state p") (auto simp: ensures_def update_max_gas_fee_def res_Inr terms_defs)

lemma do_cancel_wp [wp]:
  assumes "\<And>q. same_terms q p \<Longrightarrow> (info_kind p = KWithdraw \<Longrightarrow> reserve_of q = reserved) \<Longrightarrow>
    (info_kind p = KActive \<Longrightarrow> reserve_of q = max (reserve_of p) fee) \<Longrightarrow> Q q"
  shows "ensures (do_cancel e p fee reserved) Q"
  using assms by (cases "pi_state p") (auto simp: ensures_def do_cancel_def res_Inr terms_defs)

lemma max_gas_fee_active: "info_kind p = KActive \<Longrightarrow> get_max_gas_fee p = Inr m \<longleftrightarrow> m = reserve_of p"
  by (cases "pi_state p") (auto simp: get_max_gas_fee_def terms_defs)

lemma cancel_reserved_withdraw:
  "info_kind p = KWithdraw \<Longrightarrow> get_cancel_rbf_reserved p = Inr r \<Longrightarrow>
   reserve_of p = (case r of Some x \<Rightarrow> x | None \<Rightarrow> 0)"
  by (cases "pi_state p") (auto simp: get_cancel_rbf_reserved_def terms_defs)

lemma init_rbf_wp [wp]:
  assumes "\<And>info. pi_state info = st \<Longrightarrow> transfer_amount info = transfer_amount original \<Longrightarrow>
    withdraw_fee info = withdraw_fee original \<Longrightarrow> Q info"
  shows "ensures (init_rbf_btc_pending_info e original st) Q"
  unfolding init_rbf_btc_pending_info_def by (rule wp | rule ensures_any | rule assms | simp)+

lemma to_pending_verify_terms: "same_terms (to_pending_verify_stage p) p" "reserve_of (to_pending_verify_stage p) = reserve_of p"
  by (cases "pi_state p"; simp add: to_pending_verify_stage_def terms_defs)+

lemma to_pending_burn_wp [wp]:
  assumes "\<And>q. same_terms q p \<Longrightarrow> reserve_of q = reserve_of p \<Longrightarrow> Q q"
  shows "ensures (to_pending_burn_stage p) Q"
  using assms by (cases "pi_state p") (auto simp: ensures_def to_pending_burn_stage_def terms_defs)

section \<open>The books after a change\<close>

lemma core_sound: "core s' = core s \<Longrightarrow> sound s s'"
  by (simp add: sound_def books_def core_eq kinds_kept_def ledger_def)

lemma soundI: "books s s' \<Longrightarrow> claims s' = claims s \<Longrightarrow> hots s' = hots s \<Longrightarrow> sound s s'"
  by (simp add: sound_def)

lemma sound_cong:
  assumes "sound s1 s2" "core s1 = core s" "core s' = core s2"
  shows "sound s s'"
  using assms by (simp add: sound_def books_def core_eq ledger_def)

lemma kinds_insert:
  assumes "P i = None \<or> (\<exists>v. P i = Some v \<and> info_kind p = info_kind (of_vpending v))"
  shows "kinds_kept P (P(i \<mapsto> VPending_Current p))"
  using assms by (auto simp: kinds_kept_def)

lemma kinds_replace:
  "P j = Some w \<Longrightarrow> info_kind q = info_kind (of_vpending w) \<Longrightarrow> (P(j \<mapsto> VPending_Current q)) i = None \<Longrightarrow>
   kinds_kept P (P(j \<mapsto> VPending_Current q, i \<mapsto> VPending_Current p))"
  by (auto simp: kinds_kept_def)

lemma books_new_free:
  assumes "btc_pending_infos s' = (btc_pending_infos s)(i \<mapsto> VPending_Current p)"
    "btc_pending_infos s i = None" "fees s' = fees s"
    "info_kind p \<in> {KWithdraw, KRefund}" "reserve_of p = 0"
  shows "books s s'"
proof -
  obtain c v cl r g where f: "fees s = (c, v, cl, r, g)" by (cases "fees s")
  have "ledger s'" if "ledger s" "fresh_ids (btc_pending_infos s) (btc_pending_infos s')"
  proof -
    have "fresh_id i (btc_pending_infos s)" using assms(1,2) that(2) by (auto simp: fresh_ids_def)
    with ledger_new[of c v cl r g "btc_pending_infos s" i p] assms f that(1) show ?thesis
      by (auto simp: ledger_def original_iff_kind)
  qed
  then show ?thesis using assms by (simp add: books_def kinds_insert)
qed

lemma books_written:
  assumes "btc_pending_infos s' = (btc_pending_infos s)(i \<mapsto> VPending_Current p)"
    "btc_pending_infos s i = Some v" "fees s' = fees s"
    "same_terms p (of_vpending v)" "reserve_of p = reserve_of (of_vpending v)"
  shows "books s s'"
  using assms ledger_write[of "fees s" "btc_pending_infos s" i v p]
  by (simp add: ledger_def same_terms_def books_def kinds_insert)

section \<open>New transactions\<close>

lemma create_btc_pending_info_sound:
  "ensures (create_btc_pending_info X e a n t p m s)
    (sound s)"
  unfolding create_btc_pending_info_def
  by (rule wp | rule ensures_any | rule soundI | rule books_new_free | assumption
      | (simp add: core_eq terms_defs; fail))+

lemma books_new_reserved:
  assumes "btc_pending_infos s' = (btc_pending_infos s)(i \<mapsto> VPending_Current p)"
    "btc_pending_infos s i = None" "reserved_more (reserve_of p) (fees s) (fees s')"
    "info_kind p = KActive" "charge p = reserve_of p"
  shows "books s s'"
proof -
  obtain c v cl r g where f: "fees s = (c, v, cl, r, g)" by (cases "fees s")
  have "ledger s'" if "ledger s" "fresh_ids (btc_pending_infos s) (btc_pending_infos s')"
  proof -
    have "fresh_id i (btc_pending_infos s)" using assms(1,2) that(2) by (auto simp: fresh_ids_def)
    with ledger_new[of c v cl r g "btc_pending_infos s" i p] assms f that(1) show ?thesis
      by (auto simp: ledger_def original_iff_kind reserved_more_def)
  qed
  then show ?thesis using assms by (simp add: books_def kinds_insert)
qed

lemma books_replaced:
  assumes "btc_pending_infos s' = (btc_pending_infos s)(j \<mapsto> VPending_Current q, i \<mapsto> VPending_Current p)"
    "btc_pending_infos s j = Some w" "((btc_pending_infos s)(j \<mapsto> VPending_Current q)) i = None"
    "reserved_more d (fees s) (fees s')" "reserve_of q = reserve_of (of_vpending w) + d"
    "same_terms q (of_vpending w)"
    "get_original_tx_id p = Some j" "covers q p"
    "info_kind p = KCancelWithdraw \<longrightarrow> withdraw_fee p \<le> transfer_amount p"
  shows "books s s'"
proof -
  obtain c v cl r g where f: "fees s = (c, v, cl, r, g)" by (cases "fees s")
  have i: "btc_pending_infos s i = None" using assms(3) by (auto split: if_splits)
  have "ledger s'" if "ledger s" "fresh_ids (btc_pending_infos s) (btc_pending_infos s')"
  proof -
    have "fresh_id i (btc_pending_infos s)" using assms(1) i that(2) by (auto simp: fresh_ids_def)
    with ledger_replace[of c v cl r g "btc_pending_infos s" j w q d i p] assms f i that(1) show ?thesis
      by (auto simp: ledger_def reserved_more_def same_terms_def)
  qed
  then show ?thesis using assms kinds_replace[of "btc_pending_infos s" j w q i p]
    by (simp add: books_def same_terms_def)
qed

lemma create_active_sound:
  "ensures (create_active_utxo_management_pending_info X e a p s)
    (sound s)"
  unfolding create_active_utxo_management_pending_info_def
  by (rule wp | rule ensures_any | rule soundI | rule books_new_reserved
      | (simp add: core_eq unpaid_eq terms_defs; fail))+

section \<open>Replacements\<close>

lemma same_terms_record:
  assumes "pi_state q = pi_state p" "burn_amount q = burn_amount p" "withdraw_fee q = withdraw_fee p"
    "transfer_amount q = transfer_amount p"
  shows "same_terms q p"
  using assms by (cases "pi_state p") (simp_all add: terms_defs)

lemma set_rbf_written:
  assumes "\<And>i s'. btc_pending_infos s i = None \<Longrightarrow>
    btc_pending_infos s' = (btc_pending_infos s)(i \<mapsto> VPending_Current (info\<lparr>pi_btc_pending_id := i, psbt_hex := psbt_serialize X p\<rparr>)) \<Longrightarrow>
    fees s' = fees s \<Longrightarrow> claims s' = claims s \<Longrightarrow> hots s' = hots s \<Longrightarrow> Q (i, s')"
  shows "ensures (set_rbf_pending_info X j info p b s) Q"
  unfolding set_rbf_pending_info_def
  by (rule wp | rule ensures_any | rule assms | simp)+

lemma set_rbf_wp [wp]:
  assumes "\<And>i s' info'. btc_pending_infos s i = None \<Longrightarrow>
    btc_pending_infos s' = (btc_pending_infos s)(i \<mapsto> VPending_Current info') \<Longrightarrow>
    same_terms info' info \<Longrightarrow> fees s' = fees s \<Longrightarrow> claims s' = claims s \<Longrightarrow> hots s' = hots s \<Longrightarrow> Q (i, s')"
  shows "ensures (set_rbf_pending_info X j info p b s) Q"
proof (rule set_rbf_written)
  fix i s'
  let ?p = "info\<lparr>pi_btc_pending_id := i, psbt_hex := psbt_serialize X p\<rparr>"
  assume "btc_pending_infos s i = None" "fees s' = fees s" "claims s' = claims s" "hots s' = hots s"
    "btc_pending_infos s' = (btc_pending_infos s)(i \<mapsto> VPending_Current ?p)"
  then show "Q (i, s')" by (intro assms[of i s' ?p] same_terms_record) simp_all
qed

lemma kind_of_state:
  "pi_state p = WithdrawUserRbf r \<Longrightarrow> info_kind p = KUserRbf \<and> get_original_tx_id p = Some (original_tx_id r)"
  "pi_state p = WithdrawCancelRbf r \<Longrightarrow> info_kind p = KCancelWithdraw \<and> get_original_tx_id p = Some (original_tx_id r)"
  "pi_state p = ActiveUtxoManagementRbf r \<Longrightarrow> info_kind p = KActiveRbf \<and> get_original_tx_id p = Some (original_tx_id r)"
  "pi_state p = ActiveUtxoManagementCancelRbf r \<Longrightarrow> info_kind p = KCancelActive \<and> get_original_tx_id p = Some (original_tx_id r)"
  by (simp_all add: info_kind_def get_original_tx_id_def)

lemma terms_update:
  "info_kind (p\<lparr>gas_fee := g, actual_received_amount := a, burn_amount := b\<rparr>) = info_kind p"
  "info_kind (p\<lparr>gas_fee := g, burn_amount := b, actual_received_amount := a\<rparr>) = info_kind p"
  "get_original_tx_id (p\<lparr>gas_fee := g, actual_received_amount := a, burn_amount := b\<rparr>) = get_original_tx_id p"
  "get_original_tx_id (p\<lparr>gas_fee := g, burn_amount := b, actual_received_amount := a\<rparr>) = get_original_tx_id p"
  "charge (p\<lparr>gas_fee := g, actual_received_amount := a, burn_amount := b\<rparr>) = (case info_kind p of
     KCancelWithdraw \<Rightarrow> b - (transfer_amount p - withdraw_fee p)
   | KActive \<Rightarrow> b | KActiveRbf \<Rightarrow> b | KCancelActive \<Rightarrow> b | _ \<Rightarrow> 0)"
  "charge (p\<lparr>gas_fee := g, burn_amount := b, actual_received_amount := a\<rparr>) = (case info_kind p of
     KCancelWithdraw \<Rightarrow> b - (transfer_amount p - withdraw_fee p)
   | KActive \<Rightarrow> b | KActiveRbf \<Rightarrow> b | KCancelActive \<Rightarrow> b | _ \<Rightarrow> 0)"
  by (cases "pi_state p"; simp add: terms_defs)+

lemma reserve_gas_increase_wp [wp]:
  assumes "\<And>s' m. get_max_gas_fee p = Inr m \<Longrightarrow> m < gas \<Longrightarrow> reserved_more (gas - m) (fees s) (fees s') \<Longrightarrow>
    unpaid s' = unpaid s \<Longrightarrow> Q s'"
  shows "ensures (reserve_gas_increase p gas s) Q"
  unfolding reserve_gas_increase_def
  by (rule wp | rule ensures_any | rule assms | assumption | (simp; fail))+

lemmas replaced_simps = core_eq unpaid_eq same_terms_def kind_of_state covers_def terms_update

lemma internal_withdraw_rbf_sound:
  "ensures (internal_withdraw_rbf X e a i p pr s)
    (\<lambda>(_, s'). sound s s')"
  unfolding internal_withdraw_rbf_def
  by (rule wp | rule ensures_any | rule case_prodI | rule soundI | rule books_replaced[where d = 0]
      | (simp add: replaced_simps; fail))+

lemma internal_active_rbf_sound:
  "ensures (internal_active_utxo_management_rbf X e a i p pr s)
    (\<lambda>(_, s'). sound s s')"
  unfolding internal_active_utxo_management_rbf_def
  by (rule wp | rule ensures_any | rule case_prodI | rule soundI | rule books_replaced | assumption
      | (simp add: replaced_simps max_gas_fee_active; fail))+

lemma internal_cancel_active_sound:
  "ensures (internal_cancel_active_utxo_management X e a i p pr s)
    (\<lambda>(_, s'). sound s s')"
  unfolding internal_cancel_active_utxo_management_def
  by (rule wp | rule ensures_any | rule case_prodI | rule soundI | rule books_replaced | assumption
      | (simp add: replaced_simps max_gas_fee_active; fail))+

lemma reserve_difference: "prev + (excess - prev) = max prev (excess::nat)"
  by simp

lemma reserved_none: "f' = f \<Longrightarrow> reserved_more 0 f f'"
  by simp

lemma internal_cancel_withdraw_sound:
  "ensures (internal_cancel_withdraw X e a i p pr s)
    (\<lambda>(_, s'). sound s s')"
  unfolding internal_cancel_withdraw_def
  by (rule wp | rule ensures_any | rule case_prodI | rule soundI | rule books_replaced
      | (simp add: replaced_simps; fail) | (rule reserved_none, simp add: replaced_simps; fail)
      | (simp add: replaced_simps cancel_reserved_withdraw reserve_difference max_absorb1; fail))+

lemma rbf_method_sound:
  assumes "\<And>p. ensures (f X e a i p (predecessor e) s)
    (\<lambda>(_, s'). sound s s')"
  shows "ensures (rbf_method f X e a i out s) (sound s)"
  unfolding rbf_method_def
  by (rule wp | rule assms[THEN ensures_weaken] | rule ensures_any
      | (clarsimp, erule sound_cong; simp add: core_eq; fail))+

text \<open>Composing with calls that leave the core alone.\<close>

lemma sound_after_core:
  assumes "core s1 = core s" "ensures r (sound s1)" shows "ensures r (sound s)"
  using assms by (auto simp: ensures_def intro: sound_cong)

lemma withdraw_rbf_sound: "ensures (withdraw_rbf X e i out s) (sound s)"
  unfolding withdraw_rbf_def
  by (rule wp | erule sound_after_core | rule rbf_method_sound | rule internal_withdraw_rbf_sound)+

lemma cancel_withdraw_sound: "ensures (cancel_withdraw X e i out s) (sound s)"
  unfolding cancel_withdraw_def
  by (rule rbf_method_sound internal_cancel_withdraw_sound | rule wp)+

lemma active_rbf_sound: "ensures (active_utxo_management_rbf X e i out s) (sound s)"
  unfolding active_utxo_management_rbf_def
  by (rule rbf_method_sound internal_active_rbf_sound | rule wp)+

lemma cancel_active_sound: "ensures (cancel_active_utxo_management X e i out s) (sound s)"
  unfolding cancel_active_utxo_management_def
  by (rule rbf_method_sound internal_cancel_active_sound | rule wp)+

lemma active_sound: "ensures (active_utxo_management X e inp out s) (sound s)"
  unfolding active_utxo_management_def active_utxo_management_chain_specific_def
  by (rule create_active_sound | rule wp | rule ensures_any)+

section \<open>Dropping records and moving fees\<close>

lemma books_dropped:
  assumes "btc_pending_infos s' = (btc_pending_infos s)(i := None)" "btc_pending_infos s i = Some v"
    "fees s' = fees s" "reserve_of (of_vpending v) = 0"
  shows "books s s'"
  using assms ledger_drop[of "fees s" "btc_pending_infos s" i v]
  by (auto simp: books_def ledger_def kinds_kept_def)

lemma books_fees:
  assumes "btc_pending_infos s' = btc_pending_infos s" "fees s = (c, v, cl, r, g)" "fees s' = (c', v', cl', r, g')"
    "c = v + cl + r + g \<longrightarrow> c' = v' + cl' + r + g'"
  shows "books s s'"
  using assms by (simp add: books_def ledger_def kinds_kept_def)

definition shrinks :: "contract \<Rightarrow> contract \<Rightarrow> bool" where
  "shrinks s s' \<longleftrightarrow> sound s s' \<and> btc_pending_infos s' \<subseteq>\<^sub>m btc_pending_infos s"

lemma shrinksI: "sound s s' \<Longrightarrow> btc_pending_infos s' = (btc_pending_infos s)(i := None) \<Longrightarrow> shrinks s s'"
  by (auto simp: shrinks_def map_le_def)

lemma shrinks_refl: "shrinks s s"
  by (simp add: shrinks_def core_sound)

lemma no_new_ids: "P' \<subseteq>\<^sub>m P \<Longrightarrow> fresh_ids P P'"
  unfolding fresh_ids_def map_le_def by (metis domIff)

lemma shrinks_trans:
  assumes "shrinks s s1" "shrinks s1 s2" shows "shrinks s s2"
proof -
  let ?P = btc_pending_infos
  have m: "?P s1 \<subseteq>\<^sub>m ?P s" "?P s2 \<subseteq>\<^sub>m ?P s1" using assms by (simp_all add: shrinks_def)
  have k: "kinds_kept (?P s) (?P s1)" "kinds_kept (?P s1) (?P s2)"
    using assms by (simp_all add: shrinks_def sound_def books_def)
  have "kinds_kept (?P s) (?P s2)"
    unfolding kinds_kept_def
  proof (intro allI impI)
    fix i v v' assume v: "?P s i = Some v" "?P s2 i = Some v'"
    then have "?P s1 i = Some v'" using m(2) by (metis domI map_le_def)
    with v k(1) show "info_kind (of_vpending v') = info_kind (of_vpending v)" by (simp add: kinds_kept_def)
  qed
  then show ?thesis using assms m no_new_ids
    by (simp add: shrinks_def sound_def books_def map_le_trans[OF m(2,1)])
qed

lemma clear_invalid_shrinks: "ensures (internal_clear_invalid_pending_verify_rbf i s) (shrinks s)"
  unfolding internal_clear_invalid_pending_verify_rbf_def
  by (rule wp | rule shrinksI[where i = i] | rule soundI | rule books_dropped | (simp add: reserve_of_child; fail))+

lemma clear_invalid_sound: "ensures (clear_invalid_pending_verify_rbf e i s) (sound s)"
  unfolding clear_invalid_pending_verify_rbf_def
  by (rule wp, rule ensures_weaken[OF clear_invalid_shrinks], simp add: shrinks_def)

lemma batch_clear_sound: "ensures (batch_clear_invalid_pending_verify_rbf e is s) (sound s)"
  unfolding batch_clear_invalid_pending_verify_rbf_def
  by (rule wp ensures_fold_res[where I = "shrinks s"] ensures_weaken[OF clear_invalid_shrinks]
      | (erule (1) shrinks_trans) | rule shrinks_refl | (simp add: shrinks_def; fail))+

section \<open>Requests, signing and claims of fees\<close>

lemma ft_on_transfer_sound: "ensures (ft_on_transfer X e a n msg s) (\<lambda>(_, s'). sound s s')"
  unfolding ft_on_transfer_def ft_on_transfer_withdraw_chain_specific_def
  by (rule wp | rule create_btc_pending_info_sound[THEN ensures_weaken] | rule case_prodI | assumption
      | rule soundI | erule books_fees[rotated] | (simp add: unpaid_eq; fail) | rule ensures_any)+

lemma sign_sound: "ensures (sign_btc_transaction X e i n v s) (\<lambda>(_, s'). sound s s')"
  unfolding sign_btc_transaction_def
  by (rule wp | rule internal_sign_btc_transaction_core[THEN ensures_weaken] | rule case_prodI
      | (erule core_sound; fail) | rule soundI | rule books_dropped
      | (simp split: option.splits add: reserve_of_child; fail))+

lemma withdraw_protocol_fee_sound: "ensures (withdraw_protocol_fee e n s) (sound s)"
  unfolding withdraw_protocol_fee_def internal_withdraw_protocol_fee_def
  by (rule wp | rule soundI | erule books_fees[rotated] | (simp add: unpaid_eq; fail))+

lemma withdraw_protocol_fee_callback_sound: "ensures (withdraw_protocol_fee_callback e n s) (\<lambda>(_, s'). sound s s')"
  unfolding withdraw_protocol_fee_callback_def
  by (rule wp | rule case_prodI | (rule core_sound, simp add: core_eq; fail) | rule soundI
      | erule books_fees[rotated] | (simp add: unpaid_eq; fail))+

lemma record_signature_wp [wp]:
  assumes "\<And>q p'. same_terms p' p \<Longrightarrow> reserve_of p' = reserve_of p \<Longrightarrow> Q (q, p')"
  shows "ensures (record_signature X e n sg k p) Q"
  unfolding record_signature_def
  by (rule wp | rule ensures_any | rule assms same_terms_record | (simp add: reserve_of_def; fail))+

lemma same_terms_trans: "same_terms p q \<Longrightarrow> same_terms q r \<Longrightarrow> same_terms p r"
  by (simp add: same_terms_def)

lemma signed_terms:
  assumes "same_terms p q"
  shows "same_terms (to_pending_verify_stage (p\<lparr>tx_bytes_with_sign := b\<rparr>)) q"
  by (rule same_terms_trans[OF to_pending_verify_terms(1)], rule same_terms_trans[OF _ assms],
      rule same_terms_record) simp_all

lemma signed_reserve: "reserve_of (to_pending_verify_stage (p\<lparr>tx_bytes_with_sign := b\<rparr>)) = reserve_of p"
  by (simp add: to_pending_verify_terms(2)) (simp add: reserve_of_def)

lemma sign_callback_sound: "ensures (sign_btc_transaction_callback X e a i n s) (\<lambda>(_, s'). sound s s')"
  unfolding sign_btc_transaction_callback_def finish_signing_def
  by (rule wp | rule case_prodI | (rule core_sound, simp add: core_eq; fail) | rule soundI
      | rule books_written[where i = i] | (simp add: signed_terms signed_reserve; fail) | rule ensures_any)+

section \<open>Confirmed transactions\<close>

text \<open>The kinds a callback of the confirmation pipeline relies on.\<close>

definition withdraw_kinds :: "tx_kind set" where "withdraw_kinds = {KWithdraw, KUserRbf, KCancelWithdraw}"
definition active_kinds :: "tx_kind set" where "active_kinds = {KActive, KActiveRbf, KCancelActive}"

fun callback_kinds :: "callback \<Rightarrow> (string \<times> tx_kind set) option" where
  "callback_kinds (CbVerifyWithdraw i) = Some (i, withdraw_kinds)"
| "callback_kinds (CbVerifyWithdrawBurn i _ _) = Some (i, withdraw_kinds)"
| "callback_kinds (CbVerifyActiveUtxoManagement i) = Some (i, active_kinds)"
| "callback_kinds (CbVerifyActiveUtxoManagementBurn i) = Some (i, active_kinds)"
| "callback_kinds _ = None"

definition callback_ok :: "(string \<rightharpoonup> vpending_info) \<Rightarrow> callback \<Rightarrow> bool" where
  "callback_ok P cb \<longleftrightarrow> (case callback_kinds cb of
     Some (i, K) \<Rightarrow> (case P i of Some v \<Rightarrow> info_kind (of_vpending v) \<in> K | None \<Rightarrow> True) | None \<Rightarrow> True)"

text \<open>A change that keeps the books and the claims and schedules at most one callback, of the
  confirmation pipeline.\<close>

definition confirms :: "contract \<Rightarrow> contract \<Rightarrow> bool" where
  "confirms s s' \<longleftrightarrow> books s s' \<and> claims s' = claims s \<and>
     (\<exists>cb. hots s' = hots s @ [cb] \<and> callback_kinds cb \<noteq> None \<and> callback_ok (btc_pending_infos s') cb)"

lemma callback_kinds_hot: "callback_kinds cb \<noteq> None \<Longrightarrow> hot cb"
  by (cases cb) simp_all

lemma books_schedule: "books s (schedule t c cb s') = books s s'"
  by (simp add: books_def ledger_def)

lemma scheduled_confirms:
  assumes "sound s s'" "callback_kinds cb = Some (i, K)"
    "\<And>v. btc_pending_infos s' i = Some v \<Longrightarrow> info_kind (of_vpending v) \<in> K"
  shows "confirms s (schedule t c (Some cb) s')"
  using assms callback_kinds_hot[of cb]
  by (auto simp: confirms_def sound_def books_schedule callback_ok_def split: option.split)

lemma verify_withdraw_v2_confirms: "ensures (verify_withdraw_v2 X e i pr s) (\<lambda>s'. sound s s' \<or> confirms s s')"
  unfolding verify_withdraw_v2_def internal_verify_withdraw_entry_def internal_verify_active_utxo_management_entry_def
    internal_verify_refund_finalize_entry_def verify_inclusion_then_def
  by (rule wp | rule ensures_any
      | (rule disjI1, rule core_sound, simp add: core_eq; fail)
      | (rule disjI2, rule scheduled_confirms, rule core_sound, rule refl, simp, simp add: withdraw_kinds_def active_kinds_def; fail))+

lemma written_sound:
  assumes "btc_pending_infos s i = Some v" "same_terms q (of_vpending v)" "reserve_of q = reserve_of (of_vpending v)"
  shows "sound s (write_pending i q s)"
  by (rule soundI, rule books_written[where i = i and p = q and v = v]) (use assms in simp_all)

lemma written_confirms:
  assumes "btc_pending_infos s i = Some v" "same_terms q (of_vpending v)" "reserve_of q = reserve_of (of_vpending v)"
    "callback_ok (btc_pending_infos s) cb0" "callback_kinds cb0 = Some (i, K)" "callback_kinds cb = Some (i, K)"
  shows "confirms s (schedule t c (Some cb) (write_pending i q s))"
  by (rule scheduled_confirms[where i = i and K = K], rule written_sound[OF assms(1-3)], rule assms(6))
    (use assms in \<open>simp add: callback_ok_def same_terms_def\<close>)

lemma verify_withdraw_callback_confirms:
  assumes "callback_ok (btc_pending_infos s) (CbVerifyWithdraw i)"
  shows "ensures (internal_verify_withdraw_callback X e i s) (confirms s)"
  unfolding internal_verify_withdraw_callback_def verify_withdraw_burn_promise_def
  by (rule wp | (rule written_confirms[OF _ _ _ assms]; simp; fail) | rule ensures_any)+

lemma verify_active_callback_confirms:
  assumes "callback_ok (btc_pending_infos s) (CbVerifyActiveUtxoManagement i)"
  shows "ensures (verify_active_utxo_management_callback X e i s) (confirms s)"
  unfolding verify_active_utxo_management_callback_def verify_active_utxo_management_burn_promise_def
  by (rule wp | (rule written_confirms[OF _ _ _ assms]; simp; fail) | rule ensures_any)+

section \<open>The burn callbacks\<close>

definition settled :: "pending_info \<Rightarrow> string \<Rightarrow> contract \<Rightarrow> contract \<Rightarrow> bool" where
  "settled p i s s' \<longleftrightarrow> (let P = btc_pending_infos s; j = (case get_original_tx_id p of Some j \<Rightarrow> j | None \<Rightarrow> i) in
     (\<exists>w. P j = Some w \<and> fee_settled (reserve_of (of_vpending w)) (charge p) (fees s) (fees s')) \<and>
     btc_pending_infos s' = (if get_original_tx_id p = None then P else P(j := None)))"

lemma ledger_settled:
  assumes "ledger s" "btc_pending_infos s i = Some v" "settled (of_vpending v) i s s1" "btc_pending_infos s1 i \<noteq> None"
    and "btc_pending_infos s' = (btc_pending_infos s1)(i := None)"
    "fees s1 = (c, va, cl, r, g)" "fees s' = (c + a, va + a, cl, r, g)"
  shows "ledger s'"
proof -
  let ?P = "btc_pending_infos s" and ?p = "of_vpending v"
  obtain c0 v0 cl0 r0 g0 where f: "fees s = (c0, v0, cl0, r0, g0)" by (cases "fees s")
  have "ledger_of (fees s1) (btc_pending_infos s')"
  proof (cases "get_original_tx_id ?p")
    case None
    with assms f ledger_settle(1)[of c0 v0 cl0 r0 g0 ?P i v "charge ?p"] show ?thesis
      by (simp add: ledger_def settled_def Let_def fee_settled_def del: ledger_of.simps)
  next
    case (Some j)
    then obtain w where w: "?P j = Some w" "fee_settled (reserve_of (of_vpending w)) (charge ?p) (fees s) (fees s1)"
      "btc_pending_infos s1 = ?P(j := None)" using assms(3) by (auto simp: settled_def Let_def)
    then have "ledger_of (fees s1) (?P(j := None))"
      using assms(1) f ledger_settle(1)[of c0 v0 cl0 r0 g0 ?P j w "charge ?p"]
      by (simp add: ledger_def fee_settled_def del: ledger_of.simps)
    moreover have "(?P(j := None)) i = Some v" using assms(2,4) w(3) by (auto split: if_splits)
    ultimately show ?thesis
      using ledger_drop[of "fees s1" "?P(j := None)" i v] reserve_of_child[OF Some] assms(5) w(3)
      by (simp del: ledger_of.simps)
  qed
  then show ?thesis using assms(6,7) by (simp add: ledger_def)
qed

lemma ledger_covers:
  "ledger s \<Longrightarrow> btc_pending_infos s i = Some v \<Longrightarrow> get_original_tx_id (of_vpending v) = Some j \<Longrightarrow>
   btc_pending_infos s j = Some w \<Longrightarrow> covers (of_vpending w) (of_vpending v)"
  by (cases "fees s") (auto simp: ledger_def records_ok_def record_ok_def)

lemma charge_withdraw:
  "info_kind p \<in> {KWithdraw, KUserRbf} \<Longrightarrow> charge p = 0"
  "info_kind p = KCancelWithdraw \<Longrightarrow> charge p = burn_amount p - (transfer_amount p - withdraw_fee p)"
  by (auto simp: charge_def)

lemma charge_active: "info_kind p \<in> active_kinds \<Longrightarrow> charge p = burn_amount p"
  by (auto simp: charge_def active_kinds_def)

lemma cancel_iff_kind: "is_cancel_withdraw_rbf p \<longleftrightarrow> info_kind p = KCancelWithdraw"
  by (cases "pi_state p") (simp_all add: is_cancel_withdraw_rbf_def info_kind_def)

lemma settledI_original:
  assumes "get_original_tx_id p = Some j" "btc_pending_infos s j = Some w"
    "fee_settled (reserve_of (of_vpending w)) (charge p) (fees s) (fees s')"
    "btc_pending_infos s' = (btc_pending_infos s)(j := None)"
  shows "settled p i s s'"
  using assms by (simp add: settled_def)

lemma settledI_self:
  assumes "get_original_tx_id p = None" "btc_pending_infos s i = Some v" "p = of_vpending v"
    "fee_settled (reserve_of p) (charge p) (fees s) (fees s')" "btc_pending_infos s' = btc_pending_infos s"
  shows "settled p i s s'"
  using assms by (simp add: settled_def)

lemma settle_withdraw_settled:
  assumes "ledger s" "btc_pending_infos s i = Some v" "info_kind (of_vpending v) \<in> withdraw_kinds"
  shows "ensures (settle_withdraw (of_vpending v) i s)
    (\<lambda>s'. settled (of_vpending v) i s s' \<and> claims s' = claims s \<and> hots s' = hots s)"
proof (cases "get_original_tx_id (of_vpending v)")
  case None
  have kind: "info_kind (of_vpending v) = KWithdraw"
    using None assms(3) by (auto simp: original_iff_kind withdraw_kinds_def)
  note facts = kind charge_withdraw cancel_reserved_withdraw[OF kind] fee_settled_0
  show ?thesis unfolding settle_withdraw_def None option.case
    by (rule wp | rule conjI | (rule settledI_self[OF None assms(2)]; simp add: core_eq unpaid_eq facts; fail)
        | (simp add: core_eq unpaid_eq; fail) | rule ensures_any)+
next
  case (Some j)
  have cov: "info_kind (of_vpending w) = KWithdraw \<and> charge (of_vpending v) \<le> reserve_of (of_vpending w)"
    if "btc_pending_infos s j = Some w" for w
    using ledger_covers[OF assms(1,2) Some that] assms(3) Some original_iff_kind[of "of_vpending v"]
    by (auto simp: covers_def withdraw_kinds_def)
  have kind: "info_kind (of_vpending v) = KCancelWithdraw \<or> info_kind (of_vpending v) = KUserRbf"
    using Some assms(3) original_iff_kind[of "of_vpending v"] by (auto simp: withdraw_kinds_def)
  have reserve: "reserve_of (of_vpending w) = (case r of Some x \<Rightarrow> x | None \<Rightarrow> 0)"
    if "btc_pending_infos s j = Some w" "get_cancel_rbf_reserved (of_vpending w) = Inr r" for w r
    using cancel_reserved_withdraw cov that by blast
  have free: "charge (of_vpending v) = 0"
    if "btc_pending_infos s j = Some w" "get_cancel_rbf_reserved (of_vpending w) = Inr r" "r = None \<or> r = Some 0" for w r
    using cov reserve that by fastforce
  have charge: "charge (of_vpending v) = (if is_cancel_withdraw_rbf (of_vpending v)
      then burn_amount (of_vpending v) - (transfer_amount (of_vpending v) - withdraw_fee (of_vpending v)) else 0)"
    using kind by (auto simp: charge_withdraw cancel_iff_kind)
  note facts = core_eq unpaid_eq reserve fee_settled_0 free
  show ?thesis unfolding settle_withdraw_def Some option.case
    by (rule wp | rule conjI
        | (rule settledI_original[OF Some], (simp add: facts; fail), (simp add: facts; fail), simp add: facts; fail)
        | (rule settledI_original[OF Some], (simp add: facts; fail), (simp add: facts charge; fail), simp add: facts; fail)
        | (simp add: facts; fail) | rule ensures_any)+
qed

lemma settle_active_settled:
  assumes "ledger s" "btc_pending_infos s i = Some v" "info_kind (of_vpending v) \<in> active_kinds"
  shows "ensures (settle_active (of_vpending v) i s)
    (\<lambda>s'. settled (of_vpending v) i s s' \<and> claims s' = claims s \<and> hots s' = hots s)"
proof (cases "get_original_tx_id (of_vpending v)")
  case None
  have kind: "info_kind (of_vpending v) = KActive"
    using None assms(3) by (auto simp: original_iff_kind active_kinds_def)
  note facts = core_eq unpaid_eq charge_active[OF assms(3)] max_gas_fee_active[OF kind]
  show ?thesis unfolding settle_active_def None option.case
    by (rule wp | rule conjI | (rule settledI_self[OF None assms(2)]; simp add: facts; fail)
        | (simp add: facts; fail) | rule ensures_any)+
next
  case (Some j)
  have kind: "info_kind (of_vpending w) = KActive" if "btc_pending_infos s j = Some w" for w
    using ledger_covers[OF assms(1,2) Some that] assms(3) by (auto simp: covers_def active_kinds_def)
  have reserve: "reserve_of (of_vpending w) = m"
    if "btc_pending_infos s j = Some w" "get_max_gas_fee (of_vpending w) = Inr m" for w m
    using max_gas_fee_active[OF kind[OF that(1)], of m] that(2) by simp
  note facts = core_eq unpaid_eq reserve charge_active[OF assms(3)]
  show ?thesis unfolding settle_active_def Some option.case
    by (rule wp | rule conjI
        | (rule settledI_original[OF Some], (simp add: facts; fail), (simp add: facts; fail), simp add: facts; fail)
        | (simp add: facts; fail) | rule ensures_any)+
qed

lemma register_change_core: "ensures (register_change e i c outs n (ks, bs, s)) (\<lambda>(_, _, s'). core s' = core s)"
proof (induction outs arbitrary: n ks bs s)
  case (Cons out outs)
  show ?case unfolding register_change.simps
    by (rule wp | rule ensures_weaken[OF Cons.IH] | (simp add: core_eq split: prod.splits; fail))+
qed (simp add: ensures_def core_eq)

lemma settled_sound:
  assumes "ledger s" "btc_pending_infos s i = Some v" "settled (of_vpending v) i s s1" "btc_pending_infos s1 i \<noteq> None"
    and "btc_pending_infos s' = (btc_pending_infos s1)(i := None)"
    "\<And>c va cl r g. fees s1 = (c, va, cl, r, g) \<Longrightarrow> fees s' = (c + a, va + a, cl, r, g)"
    "claims s' = claims s" "hots s' = hots s"
  shows "sound s s'"
proof -
  obtain c va cl r g where f: "fees s1 = (c, va, cl, r, g)" by (cases "fees s1")
  have "ledger s'" by (rule ledger_settled[OF assms(1-5) f assms(6)[OF f]])
  moreover have "kinds_kept (btc_pending_infos s) (btc_pending_infos s')"
    using assms(3,5) by (auto simp: kinds_kept_def settled_def Let_def split: if_splits)
  ultimately show ?thesis using assms(7,8) by (simp add: sound_def books_def)
qed

lemma settled_core: "core s0 = core s \<Longrightarrow> settled p i s0 s' \<longleftrightarrow> settled p i s s'"
  by (simp add: settled_def core_eq)

lemma back_to_verify_sound:
  assumes "btc_pending_infos s i = Some v" "core s' = core (write_pending i (to_pending_verify_stage (of_vpending v)) s)"
  shows "sound s s'"
  by (rule sound_cong[OF written_sound[OF assms(1) to_pending_verify_terms(1,2)]]) (simp_all add: assms)

lemma verify_active_burn_sound:
  assumes "ledger s" "callback_ok (btc_pending_infos s) (CbVerifyActiveUtxoManagementBurn i)"
  shows "ensures (verify_active_utxo_management_burn_callback X e i s) (\<lambda>(_, s'). sound s s')"
proof -
  have kind: "info_kind (of_vpending v) \<in> active_kinds" if "btc_pending_infos s i = Some v" for v
    using assms(2) that by (simp add: callback_ok_def)
  have settle: "ensures (settle_active (of_vpending v) i s0) P"
    if "core s0 = core s" "btc_pending_infos s i = Some v"
      "\<And>s'. settled (of_vpending v) i s s' \<Longrightarrow> claims s' = claims s \<Longrightarrow> hots s' = hots s \<Longrightarrow> P s'" for s0 v P
    by (rule ensures_weaken[OF settle_active_settled[of s0 i v]])
      (use assms(1) kind that in \<open>simp_all add: ledger_core[of s0 s] settled_core[of s0 s] core_eq\<close>)
  show ?thesis unfolding verify_active_utxo_management_burn_callback_def
    by (rule wp register_change_core[THEN ensures_weaken] settle | rule case_prodI | assumption
        | (clarsimp; fail) | (rule back_to_verify_sound, assumption, simp add: core_eq; fail)
        | (rule settled_sound[OF assms(1), where a = 0], assumption, assumption; simp; fail)
        | rule ensures_any)+
qed

lemma verify_withdraw_burn_sound:
  assumes "ledger s" "callback_ok (btc_pending_infos s) (CbVerifyWithdrawBurn i pf rf)"
  shows "ensures (verify_withdraw_burn_callback X e i pf rf s) (\<lambda>(_, s'). sound s s')"
proof -
  have kind: "info_kind (of_vpending v) \<in> withdraw_kinds" if "btc_pending_infos s i = Some v" for v
    using assms(2) that by (simp add: callback_ok_def)
  have settle: "ensures (settle_withdraw (of_vpending v) i s0) P"
    if "core s0 = core s" "btc_pending_infos s i = Some v"
      "\<And>s'. settled (of_vpending v) i s s' \<Longrightarrow> claims s' = claims s \<Longrightarrow> hots s' = hots s \<Longrightarrow> P s'" for s0 v P
    by (rule ensures_weaken[OF settle_withdraw_settled[of s0 i v]])
      (use assms(1) kind that in \<open>simp_all add: ledger_core[of s0 s] settled_core[of s0 s] core_eq\<close>)
  show ?thesis unfolding verify_withdraw_burn_callback_def internal_transfer_nbtc_def
    by (rule wp register_change_core[THEN ensures_weaken] settle | rule case_prodI | assumption
        | (clarsimp; fail) | (rule back_to_verify_sound, assumption, simp add: core_eq; fail)
        | (rule settled_sound[OF assms(1), where a = 0], assumption, assumption;
             simp add: unpaid_eq split: if_splits; fail)
        | (rule settled_sound[OF assms(1), where a = pf], assumption, assumption;
             simp add: unpaid_eq split: if_splits; fail)
        | rule ensures_any)+
qed

end
