(* ===== verification/Claim_Steps.thy ===== *)
theory Claim_Steps
  imports Ledger_Steps
begin

text \<open>
  What every method does to the claims on deposits: the verified outputs, the outputs whose mint is
  in progress and the refund requests.  Each method takes one labelled step of the claim machine,
  keeps the books, and schedules a mint exactly when it verifies an output.
\<close>

section \<open>The claim machine of the code\<close>

type_synonym claim_state = "string set \<times> (string \<rightharpoonup> utxo_status) \<times> (string \<rightharpoonup> vrefund_request)"

datatype claim_label = Silent | Verified string | Minted string | Mint_failed string
  | Requested string | Rejected string | Refund_executed string | Refund_closed string | Completed string

fun claim_step :: "claim_label \<Rightarrow> claim_state \<Rightarrow> claim_state \<Rightarrow> bool" where
  "claim_step Silent c c' \<longleftrightarrow> c' = c"
| "claim_step (Verified k) (V, U, R) c' \<longleftrightarrow> k \<notin> V \<and> (\<exists>st. c' = (insert k V, U(k \<mapsto> st), R))"
| "claim_step (Minted k) (V, U, R) c' \<longleftrightarrow> c' = (V, U(k := None), R)"
| "claim_step (Mint_failed k) (V, U, R) c' \<longleftrightarrow> c' = (V - {k}, U(k := None), R)"
| "claim_step (Requested k) (V, U, R) c' \<longleftrightarrow>
     k \<notin> V \<and> R k = None \<and> (\<exists>r. \<not> executed r \<and> c' = (V, U, R(k \<mapsto> VRefund_Current r)))"
| "claim_step (Rejected k) (V, U, R) c' \<longleftrightarrow>
     (\<exists>v. R k = Some v \<and> \<not> executed (of_vrefund v)) \<and> c' = (V, U, R(k := None))"
| "claim_step (Refund_executed k) (V, U, R) c' \<longleftrightarrow>
     (\<exists>v r. R k = Some v \<and> (k \<notin> V \<or> executed (of_vrefund v)) \<and> executed r \<and>
       c' = (insert k V, U, R(k \<mapsto> VRefund_Current r)))"
| "claim_step (Refund_closed k) (V, U, R) c' \<longleftrightarrow> c' = (V, U, R(k := None))"
| "claim_step (Completed k) (V, U, R) c' \<longleftrightarrow> k \<in> V \<and> R k = None \<and> c' = (V, U(k := None), R)"

fun mint_key :: "callback \<Rightarrow> string option" where
  "mint_key (CbMint _ _ _ _ pu _) = Some (pu_key pu)"
| "mint_key (CbSafeMint _ _ pu _) = Some (pu_key pu)"
| "mint_key _ = None"

definition mint_keys :: "callback list \<Rightarrow> string list" where
  "mint_keys cbs = List.map_filter mint_key cbs"

definition verified_by :: "claim_label \<Rightarrow> string list" where
  "verified_by L = (case L of Verified k \<Rightarrow> [k] | _ \<Rightarrow> [])"

definition acts :: "claim_label \<Rightarrow> contract \<Rightarrow> contract \<Rightarrow> bool" where
  "acts L s s' \<longleftrightarrow> books s s' \<and> claim_step L (claims s) (claims s') \<and>
     (\<exists>new. hots s' = hots s @ new \<and> mint_keys new = verified_by L \<and>
       (\<forall>cb\<in>set new. callback_ok (btc_pending_infos s') cb))"

lemma mint_keys_simps [simp]:
  "mint_keys [] = []" "mint_keys (cbs @ cbs') = mint_keys cbs @ mint_keys cbs'"
  "mint_keys [cb] = (case mint_key cb of Some k \<Rightarrow> [k] | None \<Rightarrow> [])"
  by (simp_all add: mint_keys_def List.map_filter_def split: option.split)

lemma sound_acts: "sound s s' \<Longrightarrow> acts Silent s s'"
  by (simp add: sound_def acts_def verified_by_def)

lemma confirms_acts: "confirms s s' \<Longrightarrow> acts Silent s s'"
proof (unfold confirms_def, elim conjE exE)
  fix cb
  assume a: "books s s'" "claims s' = claims s" "hots s' = hots s @ [cb]" "callback_kinds cb \<noteq> None"
    "callback_ok (btc_pending_infos s') cb"
  then have "mint_key cb = None" by (cases cb) simp_all
  with a show "acts Silent s s'" by (simp add: acts_def verified_by_def)
qed

lemma actsI:
  "books s s' \<Longrightarrow> claim_step L (claims s) (claims s') \<Longrightarrow> hots s' = hots s \<Longrightarrow> verified_by L = [] \<Longrightarrow> acts L s s'"
  by (simp add: acts_def)

lemma books_core: "fees s' = fees s \<Longrightarrow> btc_pending_infos s' = btc_pending_infos s \<Longrightarrow> books s s'"
  by (simp add: books_def ledger_def kinds_kept_def)

section \<open>Deposits\<close>

lemma bump_wp: "(\<And>s'. core s' = core s \<Longrightarrow> P s') \<Longrightarrow> ensures (bump_and_check_confirmations h t a d s) P"
  by (rule ensures_weaken[OF bump_core])

lemma mark_verified_wp [wp]:
  assumes "\<And>s'. books s s' \<Longrightarrow> hots s' = hots s \<Longrightarrow> claim_step (Verified (pu_key pu)) (claims s) (claims s') \<Longrightarrow> Q s'"
  shows "ensures (mark_verified pu s) Q"
  unfolding mark_verified_def
  by (rule wp | rule assms books_core
      | (simp add: claims_def internal_set_utxo_in_progress_def; blast) | (simp add: fees_def; fail))+

lemma books_after_core: "core s1 = core s \<Longrightarrow> books s1 s2 \<Longrightarrow> books s s2"
  by (simp add: books_def core_eq ledger_def)

lemma marked_acts:
  assumes "core s1 = core s" "books s1 s2" "hots s2 = hots s1"
    "claim_step (Verified (pu_key pu)) (claims s1) (claims s2)" "hot cb" "mint_key cb = Some (pu_key pu)"
  shows "acts (Verified (pu_key pu)) s (schedule t c (Some cb) s2)"
proof -
  have "callback_kinds cb = None" using assms(6) by (cases cb) simp_all
  then show ?thesis using assms books_after_core[OF assms(1,2)]
    by (simp add: acts_def core_eq books_schedule verified_by_def callback_ok_def)
qed

lemma verify_deposit_callback_acts:
  "ensures (verify_deposit_callback X e r m pf rf pu pa d s) (acts (Verified (pu_key pu)) s)"
  unfolding verify_deposit_callback_def process_inclusion_and_check_def internal_mint_promise_def
  by (rule wp | (clarsimp, rule marked_acts, assumption, assumption, assumption, assumption; simp; fail)
      | rule ensures_any)+

lemma verify_safe_deposit_callback_acts:
  "ensures (verify_safe_deposit_callback X e r m msg pu d s) (acts (Verified (pu_key pu)) s)"
  unfolding verify_safe_deposit_callback_def process_inclusion_and_check_def
  by (rule wp | (clarify, rule marked_acts, assumption, assumption, assumption, assumption; simp; fail)
      | rule ensures_any)+

section \<open>Mints\<close>

lemma claims_updates:
  "claims (internal_remove_utxo_in_progress k s) =
     (verified_deposit_utxo s, (utxos_in_progress s)(k := None), refund_requests s)"
  "claims (s\<lparr>verified_deposit_utxo := V\<rparr>) = (V, utxos_in_progress s, refund_requests s)"
  "claims (s\<lparr>refund_requests := R\<rparr>) = (verified_deposit_utxo s, utxos_in_progress s, R)"
  by (simp_all add: claims_def internal_remove_utxo_in_progress_def)

lemma removed_in_progress [simp]:
  "verified_deposit_utxo (internal_remove_utxo_in_progress k s) = verified_deposit_utxo s"
  "utxos_in_progress (internal_remove_utxo_in_progress k s) = (utxos_in_progress s)(k := None)"
  "refund_requests (internal_remove_utxo_in_progress k s) = refund_requests s"
  by (simp_all add: internal_remove_utxo_in_progress_def)

lemma accept_utxo_core [simp]: "core (accept_utxo pu s) = core s"
  by (simp add: accept_utxo_def core_eq)

lemma unverify_wp [wp]:
  assumes "\<And>s'. fees s' = fees s \<Longrightarrow> btc_pending_infos s' = btc_pending_infos s \<Longrightarrow> hots s' = hots s \<Longrightarrow>
    claims s' = (verified_deposit_utxo s - {pu_key pu}, utxos_in_progress s, refund_requests s) \<Longrightarrow> Q s'"
  shows "ensures (unverify pu h s) Q"
  unfolding unverify_def
  by (rule ensures_weaken[OF unbump_core], rule assms) (simp_all add: core_eq claims_updates)

lemma books_collected:
  assumes "fees s0 = (c, v, cl, r, g)" "fees s1 = (c + a, v + a, cl, r, g)" "unpaid s1 = unpaid s0"
    "fees s0 = fees s" "btc_pending_infos s0 = btc_pending_infos s" "core s' = core s1"
  shows "books s s'"
  by (rule books_fees[where c = c and v = v]) (use assms in \<open>auto simp: core_eq unpaid_eq\<close>)

lemma mint_callback_acts:
  "ensures (mint_callback e r m pf rf pu h s)
    (\<lambda>(_, s'). acts (if is_promise_success e then Minted (pu_key pu) else Mint_failed (pu_key pu)) s s')"
proof -
  have claims: "claims s = (verified_deposit_utxo s, utxos_in_progress s, refund_requests s)"
    by (simp add: claims_def)
  note facts = verified_by_def core_eq unpaid_eq claims claims_updates
  show ?thesis unfolding mint_callback_def
    by (rule wp | rule case_prodI | rule actsI | (erule (2) books_collected; simp add: facts accept_utxo_def; fail)
        | (rule books_core; simp add: facts accept_utxo_def; fail) | (simp add: facts accept_utxo_def; fail))+
qed

lemma safe_mint_callback_acts:
  "ensures (safe_mint_callback X e r m pu h s)
    (\<lambda>(_, s'). acts (if \<not> is_refund_required X e then Minted (pu_key pu) else Mint_failed (pu_key pu)) s s')"
proof -
  have claims: "claims s = (verified_deposit_utxo s, utxos_in_progress s, refund_requests s)"
    by (simp add: claims_def)
  note facts = verified_by_def core_eq unpaid_eq claims claims_updates
  show ?thesis unfolding safe_mint_callback_def
    by (rule wp | rule case_prodI | rule actsI 
        | (rule books_core; simp add: facts accept_utxo_def; fail) | (simp add: facts accept_utxo_def; fail))+
qed

section \<open>Completing a deposit by hand\<close>

lemma complete_failed_acts:
  "ensures (complete_failed_deposit_mint X e d t vo pf s) (\<lambda>(k, s'). acts (Completed k) s s')"
proof -
  have claims: "claims s = (verified_deposit_utxo s, utxos_in_progress s, refund_requests s)"
    by (simp add: claims_def)
  note facts = verified_by_def core_eq unpaid_eq claims claims_updates
  have set_utxo: "verified_deposit_utxo (internal_set_utxo k u s) = verified_deposit_utxo s"
    "utxos_in_progress (internal_set_utxo k u s) = utxos_in_progress s"
    "refund_requests (internal_set_utxo k u s) = refund_requests s" for k u
    by (simp_all add: internal_set_utxo_def)
  show ?thesis unfolding complete_failed_deposit_mint_def dao_call_def
    by (rule wp | rule case_prodI | rule actsI | (erule (2) books_collected; simp add: facts set_utxo; fail)
        | (rule books_core; simp add: facts set_utxo; fail) | (simp add: facts set_utxo; fail) | rule ensures_any)+
qed

section \<open>Refunds\<close>

lemma requested_acts:
  assumes "k \<notin> verified_deposit_utxo s" "refund_requests s k = None" "\<not> executed r"
    "core s1 = core s" "refund_requests s1 = refund_requests s"
  shows "acts (Requested k) s (s1\<lparr>refund_requests := (refund_requests s1)(k \<mapsto> VRefund_Current r)\<rparr>)"
proof (rule actsI)
  show "claim_step (Requested k) (claims s)
      (claims (s1\<lparr>refund_requests := (refund_requests s1)(k \<mapsto> VRefund_Current r)\<rparr>))"
    using assms by (auto simp: core_eq claims_def)
qed (use assms in \<open>simp_all add: core_eq verified_by_def books_core\<close>)

lemma request_refund_callback_acts:
  "ensures (request_refund_callback X e d a t out vo gas s)
    (\<lambda>(_, s'). acts (Requested (generate_utxo_storage_key t vo)) s s')"
  unfolding request_refund_callback_def
  by (rule wp | rule case_prodI | (clarify, rule requested_acts; simp add: core_eq emit_def claims_def hots_def fees_def)
      | rule ensures_any)+

lemma reject_refund_acts: "ensures (reject_refund e k s) (acts (Rejected k) s)"
proof -
  have claims: "claims s = (verified_deposit_utxo s, utxos_in_progress s, refund_requests s)"
    by (simp add: claims_def)
  note facts = verified_by_def claims claims_updates
  show ?thesis unfolding reject_refund_def internal_reject_refund_def
    by (rule wp | rule actsI | (rule books_core; simp; fail) | (simp add: facts split: option.splits; fail))+
qed

text \<open>Executing blocks the deposit for good and marks the request.\<close>

lemma emit_fields:
  "verified_deposit_utxo (emit ev s) = verified_deposit_utxo s" "utxos_in_progress (emit ev s) = utxos_in_progress s"
  "refund_requests (emit ev s) = refund_requests s"
  by (simp_all add: emit_def)

lemma executed_acts:
  assumes "refund_requests s k = Some v" "k \<notin> verified_deposit_utxo s \<or> executed (of_vrefund v)"
    and new: "core s1 = core (write_pending i p s0)" "core s0 = core s" "btc_pending_infos s0 i = None"
      "info_kind p = KRefund" "reserve_of p = 0"
    and "executed r"
    "claims s' = (insert k (verified_deposit_utxo s1), utxos_in_progress s1, (refund_requests s1)(k \<mapsto> VRefund_Current r))"
    "fees s' = fees s1" "btc_pending_infos s' = btc_pending_infos s1" "hots s' = hots s1"
  shows "acts (Refund_executed k) s s'"
proof (rule actsI)
  have "claims s1 = claims s" using new by (simp add: core_eq)
  then show "claim_step (Refund_executed k) (claims s) (claims s')"
    using assms(1,2,8,9) by (auto simp: claims_def)
  show "books s s'"
    by (rule books_new_free[where i = i and p = p]) (use assms in \<open>simp_all add: core_eq\<close>)
qed (use assms in \<open>simp_all add: verified_by_def core_eq\<close>)

lemma finalize_refund_acts:
  assumes "refund_requests s k = Some v" "k \<notin> verified_deposit_utxo s \<or> executed (of_vrefund v)"
  shows "ensures (finalize_refund_with_psbt X e a r p n k s) (acts (Refund_executed k) s)"
  unfolding finalize_refund_with_psbt_def
  by (rule wp | (clarify, erule executed_acts[OF assms]; simp add: core_eq claims_updates emit_fields
        info_kind_def reserve_of_def; fail)
      | rule ensures_any)+

lemma execute_refund_acts: "ensures (execute_refund X e k s) (acts (Refund_executed k) s)"
  unfolding execute_refund_def internal_execute_refund_def load_refund_request_for_execute_def
  by (rule wp finalize_refund_acts | assumption | (simp; fail) | rule ensures_any)+

lemma reserve_of_refund: "info_kind p = KRefund \<Longrightarrow> reserve_of p = 0"
  by (cases "pi_state p") (simp_all add: info_kind_def reserve_of_def)

lemma closed_acts:
  assumes "btc_pending_infos s i = Some v" "info_kind (of_vpending v) = KRefund"
    "core s' = core (s\<lparr>refund_requests := (refund_requests s)(k := None),
        btc_pending_infos := (btc_pending_infos s)(i := None)\<rparr>)"
  shows "acts (Refund_closed k) s s'"
proof (rule actsI)
  show "books s s'" by (rule books_dropped[where i = i and v = v])
      (use assms in \<open>simp_all add: core_eq reserve_of_refund fees_def\<close>)
qed (use assms(3) in \<open>simp_all add: core_eq verified_by_def claims_def hots_def\<close>)

lemma refund_finalize_callback_acts:
  "ensures (verify_refund_finalize_callback X e i s) (\<lambda>(_, s'). \<exists>k. acts (Refund_closed k) s s')"
  unfolding verify_refund_finalize_callback_def
  by (rule wp | rule case_prodI | (rule exI, rule closed_acts, assumption, assumption, simp; fail) | rule ensures_any)+

lemma remove_refund_pending_sound: "ensures (remove_refund_pending_tx_id X e i s) (sound s)"
  unfolding remove_refund_pending_tx_id_def internal_remove_refund_pending_tx_id_def
  by (rule wp | rule soundI | rule books_dropped[where i = i] | (simp add: reserve_of_refund; fail)
      | rule ensures_any)+

end
