(* ===== verification/Bridge_System.thy ===== *)
theory Bridge_System
  imports Claim_Steps
begin

text \<open>
  The bridge as a system: the contract with the promises it still waits for.  A step is a call of a
  public method, the reply to a promise, or a promise whose callback never took effect (the callback
  panicked or ran out of gas).  The invariants hold in every reachable state.
\<close>

section \<open>The public methods and the callbacks\<close>

datatype bridge_method =
    M_ft_on_transfer account_id u128 string
  | M_verify_deposit_v2 deposit_msg deposit_tx_proof usize tx_inclusion_proof
  | M_verify_withdraw_v2 string tx_inclusion_proof
  | M_withdraw_rbf string "tx_out list"
  | M_cancel_withdraw string "tx_out list"
  | M_active_utxo_management "out_point list" "tx_out list"
  | M_active_utxo_management_rbf string "tx_out list"
  | M_cancel_active_utxo_management string "tx_out list"
  | M_clear_invalid_pending_verify_rbf string
  | M_batch_clear_invalid_pending_verify_rbf "string list"
  | M_sign_btc_transaction string usize u32
  | M_sync_chain_signatures_root_public_key
  | M_request_refund deposit_msg string deposit_tx_proof usize tx_inclusion_proof "u128 option"
  | M_reject_refund string
  | M_execute_refund string
  | M_remove_refund_pending_tx_id string
  | M_claim_lost_found
  | M_withdraw_protocol_fee "u128 option"
  | M_complete_failed_deposit_mint deposit_msg deposit_tx_proof usize u128
  | M_add_super_admin account_id
  | M_remove_super_admin account_id
  | M_extend_operators "account_id list"
  | M_remove_operators "account_id list"
  | M_extend_relayer_white_list "account_id list"
  | M_remove_relayer_white_list "account_id list"
  | M_extend_extra_msg_relayer_white_list "account_id list"
  | M_remove_extra_msg_relayer_white_list "account_id list"
  | M_extend_post_action_receiver_id_white_list "account_id list"
  | M_remove_post_action_receiver_id_white_list "account_id list"
  | M_set_pending_tx_limit account_id "u32 option"
  | M_extend_post_action_msg_templates account_id "string set"
  | M_remove_post_action_msg_templates account_id "string set option"
  | M_update_config config_update
  | M_set_confirmations_strategy u128 u8
  | M_remove_confirmations_strategy u128

definition drop_result :: "('a \<times> contract) res \<Rightarrow> contract res" where
  "drop_result r = bindR r (\<lambda>(_, s). Inr s)"

fun run_method :: "crates \<Rightarrow> ctx \<Rightarrow> bridge_method \<Rightarrow> contract \<Rightarrow> contract res" where
  "run_method X e (M_ft_on_transfer a n msg) s = drop_result (ft_on_transfer X e a n msg s)"
| "run_method X e (M_verify_deposit_v2 d t v pr) s = verify_deposit_v2 X e d t v pr s"
| "run_method X e (M_verify_withdraw_v2 i pr) s = verify_withdraw_v2 X e i pr s"
| "run_method X e (M_withdraw_rbf i out) s = withdraw_rbf X e i out s"
| "run_method X e (M_cancel_withdraw i out) s = cancel_withdraw X e i out s"
| "run_method X e (M_active_utxo_management inp out) s = active_utxo_management X e inp out s"
| "run_method X e (M_active_utxo_management_rbf i out) s = active_utxo_management_rbf X e i out s"
| "run_method X e (M_cancel_active_utxo_management i out) s = cancel_active_utxo_management X e i out s"
| "run_method X e (M_clear_invalid_pending_verify_rbf i) s = clear_invalid_pending_verify_rbf e i s"
| "run_method X e (M_batch_clear_invalid_pending_verify_rbf is) s = batch_clear_invalid_pending_verify_rbf e is s"
| "run_method X e (M_sign_btc_transaction i n v) s = drop_result (sign_btc_transaction X e i n v s)"
| "run_method X e M_sync_chain_signatures_root_public_key s = sync_chain_signatures_root_public_key e s"
| "run_method X e (M_request_refund d a t v pr g) s = request_refund X e d a t v pr g s"
| "run_method X e (M_reject_refund k) s = reject_refund e k s"
| "run_method X e (M_execute_refund k) s = execute_refund X e k s"
| "run_method X e (M_remove_refund_pending_tx_id i) s = remove_refund_pending_tx_id X e i s"
| "run_method X e M_claim_lost_found s = claim_lost_found e s"
| "run_method X e (M_withdraw_protocol_fee a) s = withdraw_protocol_fee e a s"
| "run_method X e (M_complete_failed_deposit_mint d t v pf) s = drop_result (complete_failed_deposit_mint X e d t v pf s)"
| "run_method X e (M_add_super_admin a) s = add_super_admin e a s"
| "run_method X e (M_remove_super_admin a) s = remove_super_admin e a s"
| "run_method X e (M_extend_operators as) s = extend_operators e as s"
| "run_method X e (M_remove_operators as) s = remove_operators e as s"
| "run_method X e (M_extend_relayer_white_list as) s = extend_relayer_white_list e as s"
| "run_method X e (M_remove_relayer_white_list as) s = remove_relayer_white_list e as s"
| "run_method X e (M_extend_extra_msg_relayer_white_list as) s = extend_extra_msg_relayer_white_list e as s"
| "run_method X e (M_remove_extra_msg_relayer_white_list as) s = remove_extra_msg_relayer_white_list e as s"
| "run_method X e (M_extend_post_action_receiver_id_white_list as) s = extend_post_action_receiver_id_white_list e as s"
| "run_method X e (M_remove_post_action_receiver_id_white_list as) s = remove_post_action_receiver_id_white_list e as s"
| "run_method X e (M_set_pending_tx_limit a n) s = set_pending_tx_limit e a n s"
| "run_method X e (M_extend_post_action_msg_templates c ts) s = extend_post_action_msg_templates e c ts s"
| "run_method X e (M_remove_post_action_msg_templates c ts) s = remove_post_action_msg_templates e c ts s"
| "run_method X e (M_update_config u) s = update_config e u s"
| "run_method X e (M_set_confirmations_strategy b c) s = set_confirmations_strategy e b c s"
| "run_method X e (M_remove_confirmations_strategy b) s = remove_confirmations_strategy e b s"

fun run_callback :: "crates \<Rightarrow> ctx \<Rightarrow> callback \<Rightarrow> contract \<Rightarrow> contract res" where
  "run_callback X e CbSyncRootPublicKey s = drop_result (sync_root_public_key_callback X e s)"
| "run_callback X e (CbSignBtcTransaction a i n) s = drop_result (sign_btc_transaction_callback X e a i n s)"
| "run_callback X e (CbVerifyWithdraw i) s = internal_verify_withdraw_callback X e i s"
| "run_callback X e (CbVerifyActiveUtxoManagement i) s = verify_active_utxo_management_callback X e i s"
| "run_callback X e (CbVerifyWithdrawBurn i pf rf) s = drop_result (verify_withdraw_burn_callback X e i pf rf s)"
| "run_callback X e (CbVerifyActiveUtxoManagementBurn i) s = drop_result (verify_active_utxo_management_burn_callback X e i s)"
| "run_callback X e (CbVerifyDeposit r m pf rf pu pa d) s = verify_deposit_callback X e r m pf rf pu pa d s"
| "run_callback X e (CbVerifySafeDeposit r m msg pu d) s = verify_safe_deposit_callback X e r m msg pu d s"
| "run_callback X e (CbMint r m pf rf pu h) s = drop_result (mint_callback e r m pf rf pu h s)"
| "run_callback X e (CbSafeMint r m pu h) s = drop_result (safe_mint_callback X e r m pu h s)"
| "run_callback X e (CbRequestRefund d a t out v g) s = drop_result (request_refund_callback X e d a t out v g s)"
| "run_callback X e (CbVerifyRefundFinalize i) s = drop_result (verify_refund_finalize_callback X e i s)"
| "run_callback X e (CbWithdrawProtocolFee n) s = drop_result (withdraw_protocol_fee_callback e n s)"
| "run_callback X e (CbTransferNbtc a n) s = drop_result (transfer_nbtc_callback e a n s)"

lemma drop_result_ensures: "ensures r (\<lambda>(_, s). P s) \<Longrightarrow> ensures (drop_result r) P"
  by (auto simp: drop_result_def ensures_def bindR_Inr)

section \<open>What a call and a reply do\<close>

fun method_label :: "bridge_method \<Rightarrow> claim_label \<Rightarrow> bool" where
  "method_label (M_reject_refund k) L \<longleftrightarrow> L = Rejected k"
| "method_label (M_execute_refund k) L \<longleftrightarrow> L = Refund_executed k"
| "method_label (M_complete_failed_deposit_mint _ _ _ _) L \<longleftrightarrow> (\<exists>k. L = Completed k)"
| "method_label _ L \<longleftrightarrow> L = Silent"

lemma run_method_acts: "ensures (run_method X e m s) (\<lambda>s'. \<exists>L. method_label m L \<and> acts L s s')"
proof -
  have sound: "ensures r (\<lambda>s'. \<exists>L. L = Silent \<and> acts L s s')" if "ensures r (sound s)" for r
    by (rule ensures_weaken[OF that]) (simp add: sound_acts)
  have core: "ensures r (\<lambda>s'. \<exists>L. L = Silent \<and> acts L s s')" if "ensures r (\<lambda>s'. core s' = core s)" for r
    by (rule ensures_weaken[OF that]) (simp add: sound_acts core_sound)
  note sounds = withdraw_rbf_sound cancel_withdraw_sound active_sound active_rbf_sound cancel_active_sound
    clear_invalid_sound batch_clear_sound ft_on_transfer_sound[THEN drop_result_ensures]
    sign_sound[THEN drop_result_ensures] withdraw_protocol_fee_sound remove_refund_pending_sound
  note cores = verify_deposit_v2_core sync_chain_signatures_root_public_key_core request_refund_core
    claim_lost_found_core add_super_admin_core remove_super_admin_core extend_operators_core
    remove_operators_core extend_relayer_white_list_core remove_relayer_white_list_core
    extend_extra_msg_relayer_white_list_core remove_extra_msg_relayer_white_list_core
    extend_post_action_receiver_id_white_list_core remove_post_action_receiver_id_white_list_core
    set_pending_tx_limit_core extend_post_action_msg_templates_core remove_post_action_msg_templates_core
    update_config_core set_confirmations_strategy_core remove_confirmations_strategy_core
  show ?thesis
  proof (cases m)
    case (M_verify_withdraw_v2 i pr)
    then show ?thesis
      by (simp, intro ensures_weaken[OF verify_withdraw_v2_confirms]) (auto simp: sound_acts confirms_acts)
  next
    case (M_reject_refund k)
    then show ?thesis by (simp add: reject_refund_acts)
  next
    case (M_execute_refund k)
    then show ?thesis by (simp add: execute_refund_acts)
  next
    case (M_complete_failed_deposit_mint d t v pf)
    then show ?thesis
      by (simp, intro drop_result_ensures ensures_weaken[OF complete_failed_acts]) auto
  qed (simp_all only: run_method.simps method_label.simps sound[OF sounds(1)] sound[OF sounds(2)]
      sound[OF sounds(3)] sound[OF sounds(4)] sound[OF sounds(5)] sound[OF sounds(6)] sound[OF sounds(7)]
      sound[OF sounds(8)] sound[OF sounds(9)] sound[OF sounds(10)] sound[OF sounds(11)] cores[THEN core])
qed

text \<open>The output a mint callback accepted, and the label of a reply.\<close>

fun minted_by :: "crates \<Rightarrow> ctx \<Rightarrow> callback \<Rightarrow> string list" where
  "minted_by X e (CbMint _ _ _ _ pu _) = (if is_promise_success e then [pu_key pu] else [])"
| "minted_by X e (CbSafeMint _ _ pu _) = (if is_refund_required X e then [] else [pu_key pu])"
| "minted_by X e _ = []"

definition callback_label :: "crates \<Rightarrow> ctx \<Rightarrow> callback \<Rightarrow> claim_label \<Rightarrow> bool" where
  "callback_label X e cb L \<longleftrightarrow> (case mint_key cb of
     Some k \<Rightarrow> L = (if minted_by X e cb = [] then Mint_failed k else Minted k)
   | None \<Rightarrow> minted_by X e cb = [] \<and> (L = Silent \<or> (\<exists>k. L \<in> {Verified k, Requested k, Refund_closed k})))"

lemma run_callback_acts:
  assumes "ledger s" "callback_ok (btc_pending_infos s) cb"
  shows "ensures (run_callback X e cb s) (\<lambda>s'. \<exists>L. callback_label X e cb L \<and> acts L s s')"
proof (cases cb)
  case CbSyncRootPublicKey
  then show ?thesis
    by (simp, intro drop_result_ensures ensures_weaken[OF sync_root_public_key_callback_core])
      (auto simp: callback_label_def intro: sound_acts core_sound)
next
  case (CbTransferNbtc a n)
  then show ?thesis
    by (simp, intro drop_result_ensures ensures_weaken[OF transfer_nbtc_callback_core])
      (auto simp: callback_label_def intro: sound_acts core_sound)
next
  case (CbSignBtcTransaction a i n)
  then show ?thesis
    by (simp, intro drop_result_ensures ensures_weaken[OF sign_callback_sound])
      (auto simp: callback_label_def intro: sound_acts)
next
  case (CbWithdrawProtocolFee n)
  then show ?thesis
    by (simp, intro drop_result_ensures ensures_weaken[OF withdraw_protocol_fee_callback_sound])
      (auto simp: callback_label_def intro: sound_acts)
next
  case (CbVerifyWithdraw i)
  then show ?thesis using assms(2)
    by (simp, intro ensures_weaken[OF verify_withdraw_callback_confirms])
      (auto simp: callback_label_def intro: confirms_acts)
next
  case (CbVerifyActiveUtxoManagement i)
  then show ?thesis using assms(2)
    by (simp, intro ensures_weaken[OF verify_active_callback_confirms])
      (auto simp: callback_label_def intro: confirms_acts)
next
  case (CbVerifyWithdrawBurn i pf rf)
  then show ?thesis using assms
    by (simp, intro drop_result_ensures ensures_weaken[OF verify_withdraw_burn_sound])
      (auto simp: callback_label_def intro: sound_acts)
next
  case (CbVerifyActiveUtxoManagementBurn i)
  then show ?thesis using assms
    by (simp, intro drop_result_ensures ensures_weaken[OF verify_active_burn_sound])
      (auto simp: callback_label_def intro: sound_acts)
next
  case (CbVerifyDeposit r m pf rf pu pa d)
  then show ?thesis
    by (simp, intro ensures_weaken[OF verify_deposit_callback_acts]) (auto simp: callback_label_def)
next
  case (CbVerifySafeDeposit r m msg pu d)
  then show ?thesis
    by (simp, intro ensures_weaken[OF verify_safe_deposit_callback_acts]) (auto simp: callback_label_def)
next
  case (CbMint r m pf rf pu h)
  then show ?thesis
    by (simp, intro drop_result_ensures ensures_weaken[OF mint_callback_acts])
      (auto simp: callback_label_def split: if_splits)
next
  case (CbSafeMint r m pu h)
  then show ?thesis
    by (simp, intro drop_result_ensures ensures_weaken[OF safe_mint_callback_acts])
      (auto simp: callback_label_def split: if_splits)
next
  case (CbRequestRefund d a t out v g)
  then show ?thesis
    by (simp, intro drop_result_ensures ensures_weaken[OF request_refund_callback_acts])
      (auto simp: callback_label_def)
next
  case (CbVerifyRefundFinalize i)
  then show ?thesis
    by (simp, intro drop_result_ensures ensures_weaken[OF refund_finalize_callback_acts])
      (auto simp: callback_label_def)
qed

section \<open>The system\<close>

record world =
  bridge :: contract
  outstanding :: "callback list"
  minted :: "string list"
  refunded :: "string set"

definition start :: "world \<Rightarrow> bool" where
  "start w \<longleftrightarrow> (\<exists>e c. contract_new e c = Inr (bridge w)) \<and> outstanding w = [] \<and> minted w = [] \<and> refunded w = {}"

definition emptied :: "contract \<Rightarrow> contract" where
  "emptied s = s\<lparr>effects := []\<rparr>"

text \<open>
  The id of a new transaction is the hash of a transaction whose inputs have just been taken from
  the available outputs: no stored replacement and no outstanding confirmation names it yet.
\<close>

definition new_ids :: "world \<Rightarrow> contract \<Rightarrow> bool" where
  "new_ids w s' \<longleftrightarrow> fresh_ids (btc_pending_infos (bridge w)) (btc_pending_infos s') \<and>
     (\<forall>i. btc_pending_infos (bridge w) i = None \<longrightarrow> btc_pending_infos s' i \<noteq> None \<longrightarrow>
       (\<forall>cb\<in>set (outstanding w). \<forall>K. callback_kinds cb \<noteq> Some (i, K)))"

definition paid_back :: "bridge_method \<Rightarrow> string set" where
  "paid_back m = (case m of M_execute_refund k \<Rightarrow> {k} | _ \<Rightarrow> {})"

inductive step :: "crates \<Rightarrow> world \<Rightarrow> world \<Rightarrow> bool" for X where
  call: "run_method X e m (emptied (bridge w)) = Inr s' \<Longrightarrow> new_ids w s' \<Longrightarrow>
    step X w \<lparr>bridge = s', outstanding = outstanding w @ callbacks_of (effects s'),
      minted = minted w, refunded = refunded w \<union> paid_back m\<rparr>"
| reply: "outstanding w = before @ cb # after \<Longrightarrow>
    run_callback X e cb (emptied (bridge w)) = Inr s' \<Longrightarrow> new_ids w s' \<Longrightarrow>
    step X w \<lparr>bridge = s', outstanding = before @ after @ callbacks_of (effects s'),
      minted = minted w @ minted_by X e cb, refunded = refunded w\<rparr>"
| lost: "outstanding w = before @ cb # after \<Longrightarrow> step X w (w\<lparr>outstanding := before @ after\<rparr>)"

definition reachable :: "crates \<Rightarrow> world \<Rightarrow> bool" where
  "reachable X w \<longleftrightarrow> (\<exists>w0. start w0 \<and> (step X)\<^sup>*\<^sup>* w0 w)"

section \<open>Invariants of the system\<close>

text \<open>What holds at the start and is kept by every step holds in every reachable world.\<close>

locale system_invariant =
  fixes init :: "'w \<Rightarrow> bool" and trans :: "'w \<Rightarrow> 'w \<Rightarrow> bool" and inv :: "'w \<Rightarrow> bool"
  assumes inv_init: "init w \<Longrightarrow> inv w"
    and inv_step: "inv w \<Longrightarrow> trans w w' \<Longrightarrow> inv w'"
begin

lemma inv_steps: "trans\<^sup>*\<^sup>* w w' \<Longrightarrow> inv w \<Longrightarrow> inv w'"
  by (induction rule: rtranclp_induct) (auto intro: inv_step)

lemma inv_reachable: "init w0 \<Longrightarrow> trans\<^sup>*\<^sup>* w0 w \<Longrightarrow> inv w"
  using inv_init inv_steps by blast

end

definition books_balanced :: "world \<Rightarrow> bool" where
  "books_balanced w \<longleftrightarrow> ledger (bridge w) \<and>
     (\<forall>cb\<in>set (outstanding w). callback_ok (btc_pending_infos (bridge w)) cb)"

lemma emptied_simps [simp]:
  "fees (emptied s) = fees s" "btc_pending_infos (emptied s) = btc_pending_infos s"
  "claims (emptied s) = claims s" "hots (emptied s) = []"
  by (simp_all add: emptied_def hots_def)

lemma not_hot: "\<not> hot cb \<Longrightarrow> callback_kinds cb = None \<and> mint_key cb = None"
  by (cases cb) simp_all

lemma mint_keys_hot: "mint_keys (filter hot cbs) = mint_keys cbs"
  by (induction cbs) (auto simp: mint_keys_def List.map_filter_def dest: not_hot)

text \<open>A labelled step from a state without effects, seen from the system.\<close>

lemma acts_emptied:
  assumes "acts L (emptied s) s'"
  shows "books s s'" "claim_step L (claims s) (claims s')" "mint_keys (callbacks_of (effects s')) = verified_by L"
    "cb \<in> set (callbacks_of (effects s')) \<Longrightarrow> callback_ok (btc_pending_infos s') cb"
proof -
  have h: "filter hot (callbacks_of (effects s')) = hots s'" by (simp add: hots_def)
  show "books s s'" "claim_step L (claims s) (claims s')"
    using assms by (simp_all add: acts_def books_def ledger_def)
  show "mint_keys (callbacks_of (effects s')) = verified_by L"
    using assms mint_keys_hot[of "callbacks_of (effects s')"] by (auto simp: acts_def h)
  show "callback_ok (btc_pending_infos s') cb" if "cb \<in> set (callbacks_of (effects s'))"
  proof (cases "hot cb")
    case True
    with that have "cb \<in> set (hots s')" by (simp add: hots_def)
    then show ?thesis using assms by (auto simp: acts_def)
  qed (simp add: not_hot callback_ok_def)
qed

lemma callback_still_ok:
  assumes "callback_ok P cb" "kinds_kept P P'"
    and "\<And>i K. P i = None \<Longrightarrow> P' i \<noteq> None \<Longrightarrow> callback_kinds cb \<noteq> Some (i, K)"
  shows "callback_ok P' cb"
proof (cases "callback_kinds cb")
  case (Some a)
  then obtain i K where cb: "callback_kinds cb = Some (i, K)" by (cases a) auto
  have "info_kind (of_vpending v') \<in> K" if v': "P' i = Some v'" for v'
  proof (cases "P i")
    case (Some v)
    with assms(1,2) cb v' show ?thesis by (auto simp: callback_ok_def kinds_kept_def)
  qed (use assms(3)[of i K] cb v' in simp)
  then show ?thesis by (simp add: callback_ok_def cb split: option.split)
qed (simp add: callback_ok_def)

lemma books_balanced_acts:
  assumes "books_balanced w" "acts L (emptied (bridge w)) s'" "new_ids w s'"
    and "bridge w' = s'" "set (outstanding w') \<subseteq> set (outstanding w) \<union> set (callbacks_of (effects s'))"
  shows "books_balanced w'"
proof -
  note b = acts_emptied[OF assms(2)]
  have "ledger s'" using b(1) assms(1,3) by (simp add: books_def books_balanced_def new_ids_def)
  moreover have "callback_ok (btc_pending_infos s') cb" if "cb \<in> set (outstanding w)" for cb
    by (rule callback_still_ok[of "btc_pending_infos (bridge w)"])
      (use assms(1,3) b(1) that in \<open>auto simp: books_balanced_def books_def new_ids_def\<close>)
  ultimately show ?thesis using assms(4,5) b(4) by (auto simp: books_balanced_def)
qed

lemma books_balanced_step:
  assumes "books_balanced w" "step X w w'" shows "books_balanced w'"
  using assms(2)
proof cases
  case (call e m s')
  then obtain L where "acts L (emptied (bridge w)) s'"
    using ensuresD[OF run_method_acts] by blast
  then show ?thesis by (rule books_balanced_acts[OF assms(1)]) (use call in simp_all)
next
  case (reply before cb after e s')
  have "ledger (emptied (bridge w))" "callback_ok (btc_pending_infos (emptied (bridge w))) cb"
    using assms(1) reply(2) by (simp_all add: books_balanced_def ledger_def)
  from ensuresD[OF run_callback_acts[OF this] reply(3)]
  obtain L where "acts L (emptied (bridge w)) s'" by blast
  then show ?thesis by (rule books_balanced_acts[OF assms(1)]) (use reply in auto)
next
  case (lost before cb after)
  then show ?thesis using assms(1) by (simp add: books_balanced_def)
qed

lemma contract_new_empty:
  "contract_new e c = Inr s \<Longrightarrow> fees s = (0, 0, 0, 0, 0) \<and> btc_pending_infos s = Map.empty \<and>
   claims s = ({}, Map.empty, Map.empty)"
  by (auto simp: contract_new_def res_Inr fees_def claims_def internal_set_account_def)

lemma start_empty:
  "start w \<Longrightarrow> fees (bridge w) = (0, 0, 0, 0, 0) \<and> btc_pending_infos (bridge w) = Map.empty \<and>
   claims (bridge w) = ({}, Map.empty, Map.empty) \<and> outstanding w = [] \<and> minted w = [] \<and> refunded w = {}"
  using contract_new_empty by (auto simp: start_def)

lemma books_balanced_start: "start w \<Longrightarrow> books_balanced w"
  by (auto simp: books_balanced_def ledger_def records_ok_def held_def msum_def dest!: start_empty)

section \<open>One claim per output\<close>

fun claims_safe :: "string list \<Rightarrow> string list \<Rightarrow> string set \<Rightarrow> claim_state \<Rightarrow> bool" where
  "claims_safe minting credited paid (V, U, R) \<longleftrightarrow>
     distinct (minting @ credited) \<and> set (minting @ credited) \<subseteq> V \<and> paid \<subseteq> V \<and>
     set (minting @ credited) \<inter> paid = {} \<and>
     (\<forall>k v. R k = Some v \<longrightarrow> executed (of_vrefund v) \<longrightarrow> k \<in> paid)"

definition single_claims :: "world \<Rightarrow> bool" where
  "single_claims w \<longleftrightarrow> claims_safe (mint_keys (outstanding w)) (minted w) (refunded w) (claims (bridge w))"

lemma of_vrefund_Current [simp]: "of_vrefund (VRefund_Current r) = r"
  by (simp add: of_vrefund_def)

text \<open>
  The steps of the system seen through the mints that are running, the credited and the refunded
  outputs and the claims.
\<close>

type_synonym claims_view = "string list \<times> string list \<times> string set \<times> claim_state"

inductive view_step :: "claims_view \<Rightarrow> claims_view \<Rightarrow> bool" where
  vs_verified: "claim_step (Verified k) c c' \<Longrightarrow> view_step (ms, mt, pd, c) (ms @ [k], mt, pd, c')"
| vs_minted: "claim_step (Minted k) c c' \<Longrightarrow> view_step (xs @ k # ys, mt, pd, c) (xs @ ys, mt @ [k], pd, c')"
| vs_failed: "claim_step (Mint_failed k) c c' \<Longrightarrow> view_step (xs @ k # ys, mt, pd, c) (xs @ ys, mt, pd, c')"
| vs_lost: "view_step (xs @ k # ys, mt, pd, c) (xs @ ys, mt, pd, c)"
| vs_executed: "claim_step (Refund_executed k) c c' \<Longrightarrow> view_step (ms, mt, pd, c) (ms, mt, insert k pd, c')"
| vs_other: "L \<in> {Silent, Requested k, Rejected k, Refund_closed k, Completed k} \<Longrightarrow> claim_step L c c' \<Longrightarrow>
    view_step (ms, mt, pd, c) (ms, mt, pd, c')"

inductive_cases view_step_elim: "view_step (ms, mt, pd, c) v"

definition view :: "world \<Rightarrow> claims_view" where
  "view w = (mint_keys (outstanding w), minted w, refunded w, claims (bridge w))"

lemma mint_keys_Cons [simp]:
  "mint_keys (cb # cbs) = (case mint_key cb of Some k \<Rightarrow> k # mint_keys cbs | None \<Rightarrow> mint_keys cbs)"
  by (simp add: mint_keys_def List.map_filter_def split: option.split)

lemma paid_back_label: "method_label m L \<Longrightarrow>
   (\<exists>k. L = Refund_executed k \<and> paid_back m = {k}) \<or>
   (\<exists>k. L \<in> {Silent, Rejected k, Completed k} \<and> paid_back m = {})"
  by (cases m) (auto simp: paid_back_def)

lemma minted_by_label: "mint_key cb = Some k \<Longrightarrow> minted_by X e cb = [] \<or> minted_by X e cb = [k]"
  by (cases cb) auto

lemma step_view:
  assumes "books_balanced w" "step X w w'" shows "view_step (view w) (view w')"
  using assms(2)
proof cases
  case (call e m s')
  then obtain L where L: "method_label m L" "acts L (emptied (bridge w)) s'"
    using ensuresD[OF run_method_acts] by blast
  note a = acts_emptied[OF L(2)]
  from paid_back_label[OF L(1)] show ?thesis
  proof (elim disjE exE conjE)
    fix k assume "L = Refund_executed k" "paid_back m = {k}"
    then show ?thesis using call a vs_executed by (simp add: view_def verified_by_def)
  next
    fix k assume k: "L \<in> {Silent, Rejected k, Completed k}" "paid_back m = {}"
    then have "verified_by L = []" by (auto simp: verified_by_def)
    with k(2) call a(3) have v: "view w' = (mint_keys (outstanding w), minted w, refunded w, claims s')"
      by (simp add: view_def)
    show ?thesis unfolding v by (simp only: view_def, rule vs_other[OF _ a(2), of k]) (use k(1) in auto)
  qed
next
  case (reply before cb after e s')
  have "ledger (emptied (bridge w))" "callback_ok (btc_pending_infos (emptied (bridge w))) cb"
    using assms(1) reply(2) by (simp_all add: books_balanced_def ledger_def)
  from ensuresD[OF run_callback_acts[OF this] reply(3)]
  obtain L where L: "callback_label X e cb L" "acts L (emptied (bridge w)) s'" by blast
  note a = acts_emptied[OF L(2)]
  show ?thesis
  proof (cases "mint_key cb")
    case None
    with L(1) have mb: "minted_by X e cb = []" and
      "(\<exists>k. L = Verified k) \<or> (\<exists>k. L \<in> {Silent, Requested k, Rejected k, Refund_closed k, Completed k})"
      by (auto simp: callback_label_def)
    from this(2) show ?thesis
    proof (elim disjE exE)
      fix k assume "L = Verified k"
      then show ?thesis using reply a None mb vs_verified[of k _ _ "mint_keys before @ mint_keys after"]
        by (simp add: view_def verified_by_def)
    next
      fix k assume k: "L \<in> {Silent, Requested k, Rejected k, Refund_closed k, Completed k}"
      then have "verified_by L = []" by (auto simp: verified_by_def)
      with reply a(3) None mb have v: "view w' = (mint_keys (outstanding w), minted w, refunded w, claims s')"
        by (simp add: view_def)
      show ?thesis unfolding v by (simp only: view_def, rule vs_other[OF k a(2)])
    qed
  next
    case (Some k)
    from minted_by_label[OF Some, of X e] show ?thesis
    proof
      assume mb: "minted_by X e cb = []"
      with L(1) Some have "L = Mint_failed k" by (simp add: callback_label_def)
      then show ?thesis using reply a Some mb vs_failed by (simp add: view_def verified_by_def)
    next
      assume mb: "minted_by X e cb = [k]"
      with L(1) Some have "L = Minted k" by (simp add: callback_label_def)
      then show ?thesis using reply a Some mb vs_minted by (simp add: view_def verified_by_def)
    qed
  qed
next
  case (lost before cb after)
  then show ?thesis
  proof (cases "mint_key cb")
    case None
    with lost have "view w' = view w" by (simp add: view_def)
    then show ?thesis using vs_other[of Silent] by (simp add: view_def)
  next
    case (Some k)
    with lost show ?thesis using vs_lost[of "mint_keys before" k "mint_keys after"] by (simp add: view_def)
  qed
qed

lemma safe_executed:
  assumes "claims_safe ms mt pd c" "claim_step (Refund_executed k) c c'"
  shows "k \<in> pd \<or> (k \<notin> fst c \<and> k \<notin> pd \<and> k \<notin> set (ms @ mt))" "claims_safe ms mt (insert k pd) c'"
proof -
  obtain V U R where c: "c = (V, U, R)" by (cases c)
  with assms(2) obtain v r where v: "R k = Some v" "k \<notin> V \<or> executed (of_vrefund v)"
    "c' = (insert k V, U, R(k \<mapsto> VRefund_Current r))" by auto
  have "k \<notin> V \<or> k \<in> pd" using v assms(1) c by auto
  with assms(1) c v(3) show "claims_safe ms mt (insert k pd) c'"
    and "k \<in> pd \<or> (k \<notin> fst c \<and> k \<notin> pd \<and> k \<notin> set (ms @ mt))" by auto
qed

lemma safe_other:
  "claims_safe ms mt pd c \<Longrightarrow> L \<in> {Silent, Requested k, Rejected k, Refund_closed k, Completed k} \<Longrightarrow>
   claim_step L c c' \<Longrightarrow> claims_safe ms mt pd c' \<and> fst c' = fst c"
  by (cases c) (auto split: if_splits)

lemma view_step_safe:
  assumes "view_step (ms, mt, pd, c) (ms', mt', pd', c')" "claims_safe ms mt pd c"
  shows "claims_safe ms' mt' pd' c'"
  using assms
proof (cases rule: view_step.cases)
  case (vs_executed k)
  then show ?thesis using assms(2) safe_executed(2) by blast
next
  case (vs_other L k)
  then show ?thesis using assms(2) safe_other by blast
qed (use assms(2) in \<open>cases c; auto split: if_splits\<close>)+

lemma single_claims_step:
  assumes "single_claims w" "books_balanced w" "step X w w'" shows "single_claims w'"
  using view_step_safe[OF step_view[OF assms(2,3), unfolded view_def]] assms(1) by (simp add: single_claims_def)

lemma single_claims_start: "start w \<Longrightarrow> single_claims w"
  by (auto simp: single_claims_def dest!: start_empty)

text \<open>Both invariants together, since the callbacks rely on the books.\<close>

definition system_ok :: "world \<Rightarrow> bool" where
  "system_ok w \<longleftrightarrow> books_balanced w \<and> single_claims w"

interpretation bridge_inv: system_invariant start "step X" system_ok for X
  by unfold_locales
    (auto simp: system_ok_def intro: books_balanced_start single_claims_start books_balanced_step single_claims_step)

lemma reachable_ok: "reachable X w \<Longrightarrow> system_ok w"
  using bridge_inv.inv_reachable by (auto simp: reachable_def)

section \<open>The claim machine\<close>

text \<open>
  What the bridge promises about one deposited output, without its maps and callbacks: an output is
  free, its mint is running, its deposit was credited, it was paid back by a refund, or it was left
  verified by a mint whose callback was lost (the DAO completes those).  Credited and paid back are
  final.
\<close>

datatype output_state = Free | Minting | Credited | Paid_back | Stranded

fun output_move :: "output_state \<Rightarrow> output_state \<Rightarrow> bool" where
  "output_move Free st \<longleftrightarrow> st = Minting \<or> st = Paid_back"
| "output_move Minting st \<longleftrightarrow> st = Credited \<or> st = Free \<or> st = Stranded"
| "output_move Credited st \<longleftrightarrow> False"
| "output_move Paid_back st \<longleftrightarrow> False"
| "output_move Stranded st \<longleftrightarrow> False"

definition outputs_step :: "(string \<Rightarrow> output_state) \<Rightarrow> (string \<Rightarrow> output_state) \<Rightarrow> bool" where
  "outputs_step f f' \<longleftrightarrow> (\<exists>k st. output_move (f k) st \<and> f' = f(k := st))"

fun output_of :: "string list \<Rightarrow> string list \<Rightarrow> string set \<Rightarrow> claim_state \<Rightarrow> string \<Rightarrow> output_state" where
  "output_of minting credited paid (V, U, R) k =
     (if k \<in> paid then Paid_back else if k \<in> set credited then Credited
      else if k \<in> set minting then Minting else if k \<in> V then Stranded else Free)"

definition outputs :: "world \<Rightarrow> string \<Rightarrow> output_state" where
  "outputs w = output_of (mint_keys (outstanding w)) (minted w) (refunded w) (claims (bridge w))"

text \<open>A system refines another when every step is a step of the other or leaves its state alone.\<close>

locale system_refinement = system_invariant +
  fixes abs :: "'a \<Rightarrow> 'b" and abs_trans :: "'b \<Rightarrow> 'b \<Rightarrow> bool"
  assumes refines: "inv w \<Longrightarrow> trans w w' \<Longrightarrow> abs w' = abs w \<or> abs_trans (abs w) (abs w')"
begin

lemma refines_steps: "trans\<^sup>*\<^sup>* w w' \<Longrightarrow> inv w \<Longrightarrow> abs_trans\<^sup>*\<^sup>* (abs w) (abs w')"
proof (induction rule: rtranclp_induct)
  case (step w1 w2)
  then have "inv w1" using inv_steps by blast
  from refines[OF this step.hyps(2)] step.IH[OF step.prems] show ?case
    by (auto intro: rtranclp.rtrancl_into_rtrancl)
qed simp

end

definition view_output :: "claims_view \<Rightarrow> string \<Rightarrow> output_state" where
  "view_output v = (case v of (ms, mt, pd, c) \<Rightarrow> output_of ms mt pd c)"

lemma outputs_view: "outputs w = view_output (view w)"
  by (simp add: outputs_def view_output_def view_def)

lemma move_one:
  "output_move (f k) st \<Longrightarrow> (\<And>j. f' j = (if j = k then st else f j)) \<Longrightarrow> f' = f \<or> outputs_step f f'"
  by (intro disjI2) (auto simp: outputs_step_def intro!: exI[of _ k] exI[of _ st])

lemma view_step_output:
  assumes "view_step (ms, mt, pd, c) v'" "claims_safe ms mt pd c"
  shows "view_output v' = output_of ms mt pd c \<or> outputs_step (output_of ms mt pd c) (view_output v')"
proof -
  obtain V U R where c: "c = (V, U, R)" by (cases c)
  from assms(1) show ?thesis
  proof (cases rule: view_step.cases)
    case (vs_verified k c')
    then show ?thesis using assms(2) c
      by (intro move_one[of _ k Minting]) (auto simp: view_output_def)
  next
    case (vs_minted k c' xs ys)
    then show ?thesis using assms(2) c
      by (intro move_one[of _ k Credited]) (auto simp: view_output_def)
  next
    case (vs_failed k c' xs ys)
    then show ?thesis using assms(2) c
      by (intro move_one[of _ k Free]) (auto simp: view_output_def)
  next
    case (vs_lost xs k ys)
    then show ?thesis using assms(2) c
      by (intro move_one[of _ k Stranded]) (auto simp: view_output_def)
  next
    case (vs_executed k c')
    then show ?thesis
    proof (cases "k \<in> pd")
      case True
      with vs_executed assms(2) c have "view_output v' = output_of ms mt pd c"
        by (auto simp: view_output_def fun_eq_iff)
      then show ?thesis ..
    next
      case False
      then show ?thesis using vs_executed assms(2) c safe_executed(1)[OF assms(2), of k c']
        by (intro move_one[of _ k Paid_back]) (auto simp: view_output_def)
    qed
  next
    case (vs_other L k c')
    then have "fst c' = fst c" using safe_other[OF assms(2)] by blast
    then have "output_of ms mt pd c' = output_of ms mt pd c" by (cases c') (auto simp: c fun_eq_iff)
    then show ?thesis using vs_other by (simp add: view_output_def)
  qed
qed

lemma outputs_refined:
  assumes "system_ok w" "step X w w'"
  shows "outputs w' = outputs w \<or> outputs_step (outputs w) (outputs w')"
  using view_step_output[OF step_view[of w X w', unfolded view_def[of w]]] assms
  by (simp add: outputs_view system_ok_def single_claims_def) (simp add: view_output_def view_def)

interpretation output_machine: system_refinement start "step X" system_ok outputs outputs_step for X
  by unfold_locales (rule outputs_refined)

section \<open>What the bridge promises\<close>

text \<open>A world to apply the theorems to: the freshly initialised bridge and one call later.\<close>

definition genesis_config :: config where
  "genesis_config = sample_config\<lparr>chain_signatures_root_public_key := None, change_address := None\<rparr>"

definition genesis :: world where
  "genesis = \<lparr>bridge = projr (contract_new sample_ctx genesis_config), outstanding = [], minted = [], refunded = {}\<rparr>"

lemma genesis_config_valid: "config_assert_valid genesis_config = Inr ()"
  using sample_config_valid(1)
  by (simp add: genesis_config_def config_assert_valid_def parsed_tiers_def)

lemma genesis_contract: "contract_new sample_ctx genesis_config = Inr (bridge genesis)"
proof -
  have "0 < capacity_for genesis_config" by (simp add: capacity_for_def BLOCK_AMOUNT_RING_CAPACITY_SLACK_def)
  then obtain r where "ring_new (capacity_for genesis_config) = Inr r" using ring_new_ok by blast
  then have "\<exists>s. contract_new sample_ctx genesis_config = Inr s"
    using genesis_config_valid by (simp add: contract_new_def) (simp add: genesis_config_def)
  then obtain s where s: "contract_new sample_ctx genesis_config = Inr s" ..
  then show ?thesis by (simp add: genesis_def)
qed

lemma genesis_start: "start genesis"
  unfolding start_def using genesis_contract by (simp add: genesis_def) blast

lemma genesis_reachable: "reachable X genesis"
  using genesis_start by (auto simp: reachable_def)

text \<open>C1: in every reachable state the protocol fee books balance.  What was ever collected is what
  is available, claimed, reserved and spent on gas, and the reserved amount is exactly what the
  pending transactions hold: every active management transaction its highest gas fee, every
  cancelled withdrawal the gas beyond the user's balance.\<close>

theorem protocol_fee_books:
  assumes "reachable X w"
  shows "let s = bridge w in
    acc_collected_protocol_fee s = cur_available_protocol_fee s + acc_claimed_protocol_fee s +
      cur_reserved_protocol_fee s + acc_protocol_fee_for_gas s \<and>
    cur_reserved_protocol_fee s = held (btc_pending_infos s)"
  using reachable_ok[OF assms] by (simp add: system_ok_def books_balanced_def ledger_def fees_def)

theorem protocol_fee_books_witness:
  "let s = bridge genesis in
    acc_collected_protocol_fee s = cur_available_protocol_fee s + acc_claimed_protocol_fee s +
      cur_reserved_protocol_fee s + acc_protocol_fee_for_gas s \<and>
    cur_reserved_protocol_fee s = held (btc_pending_infos s)"
  by (rule protocol_fee_books[OF genesis_reachable[of sample_x]])

text \<open>C2: a deposited output is claimed at most once.  In every reachable state no output was
  credited twice, and no output that was credited, or whose mint is still running, was also paid
  back by an executed refund.\<close>

theorem one_claim_per_output:
  assumes "reachable X w"
  shows "distinct (minted w) \<and> set (minted w) \<inter> refunded w = {} \<and>
    distinct (mint_keys (outstanding w)) \<and>
    set (mint_keys (outstanding w)) \<inter> (set (minted w) \<union> refunded w) = {}"
proof -
  obtain V U R where c: "claims (bridge w) = (V, U, R)" by (cases "claims (bridge w)")
  show ?thesis using reachable_ok[OF assms] by (auto simp: system_ok_def single_claims_def c)
qed

theorem one_claim_per_output_witness:
  "distinct (minted genesis) \<and> set (minted genesis) \<inter> refunded genesis = {} \<and>
    distinct (mint_keys (outstanding genesis)) \<and>
    set (mint_keys (outstanding genesis)) \<inter> (set (minted genesis) \<union> refunded genesis) = {}"
  by (rule one_claim_per_output[OF genesis_reachable[of sample_x]])

text \<open>C3: the bridge refines the claim machine of an output: every step of the system leaves the
  states of all outputs alone or moves a single output along the machine, from free to minting or
  paid back and from minting to credited, back to free, or stranded.\<close>

theorem bridge_refines_claim_machine:
  assumes "reachable X w" "step X w w'"
  shows "outputs w' = outputs w \<or> outputs_step (outputs w) (outputs w')"
  by (rule output_machine.refines[OF reachable_ok[OF assms(1)] assms(2)])

lemma contract_new_roles:
  assumes "contract_new e c = Inr s"
  shows "relayer_white_list s = {}" "(DAO, predecessor e) \<in> role_members s" "effects s = []"
  using assms by (auto simp: contract_new_def res_Inr internal_set_account_def)

definition listed_world :: world where
  "listed_world = genesis\<lparr>bridge := bridge genesis\<lparr>relayer_white_list := {''relayer.near''}\<rparr>\<rparr>"

lemma genesis_call: "step X genesis listed_world"
proof -
  let ?s = "bridge genesis"
  note s = contract_new_roles[OF genesis_contract]
  have e: "emptied ?s = ?s" using s(3) by (simp add: emptied_def)
  have run: "run_method X sample_ctx (M_extend_relayer_white_list [''relayer.near'']) (emptied ?s) =
      Inr (?s\<lparr>relayer_white_list := {''relayer.near''}\<rparr>)"
    unfolding e using s(1,2)
    by (simp add: extend_relayer_white_list_def dao_call_def access_control_any_def acl_has_role_def
        assert_one_yocto_def insert_all_def) (simp add: sample_ctx_def)
  have "new_ids genesis (?s\<lparr>relayer_white_list := {''relayer.near''}\<rparr>)"
    by (simp add: new_ids_def fresh_ids_def)
  from step.call[OF run this] show ?thesis
    using s(3) by (simp add: listed_world_def genesis_def paid_back_def)
qed

theorem bridge_refines_claim_machine_witness:
  "outputs listed_world = outputs genesis \<or> outputs_step (outputs genesis) (outputs listed_world)"
  by (rule bridge_refines_claim_machine[OF genesis_reachable[of sample_x] genesis_call])

text \<open>An output whose claim is closed: it is verified, no mint of it is running and no refund of it was
  executed.\<close>

definition closed_claim :: "claims_view \<Rightarrow> string \<Rightarrow> bool" where
  "closed_claim v k \<longleftrightarrow> (case v of (ms, mt, pd, V, U, R) \<Rightarrow>
     k \<in> V \<and> k \<notin> set ms \<and> (\<forall>r. R k = Some r \<longrightarrow> \<not> executed (of_vrefund r)))"

lemma view_step_closed:
  assumes "view_step v v'" "closed_claim v k"
  shows "closed_claim v' k"
  using assms
  by (cases rule: view_step.cases) (auto simp: closed_claim_def split: if_splits)

lemma closed_claim_world: "closed_claim (view w) k \<longleftrightarrow> k \<in> verified_deposit_utxo (bridge w) \<and>
   k \<notin> set (mint_keys (outstanding w)) \<and>
   (\<forall>r. refund_requests (bridge w) k = Some r \<longrightarrow> \<not> executed (of_vrefund r))"
  by (simp add: closed_claim_def view_def claims_def)

lemma closed_claim_steps:
  "(step X)\<^sup>*\<^sup>* w w' \<Longrightarrow> system_ok w \<Longrightarrow> closed_claim (view w) k \<Longrightarrow> closed_claim (view w') k"
proof (induction rule: rtranclp_induct)
  case (step w1 w2)
  then have "system_ok w1" using bridge_inv.inv_steps by blast
  with step step_view[of w1 X w2] show ?case by (simp add: system_ok_def view_step_closed)
qed simp

lemma verified_not_again:
  assumes "pu_key pu \<in> verified_deposit_utxo s"
  shows "\<not> is_ok (verify_deposit_callback X e a m pf rf pu pacts delta s)"
    and "\<not> is_ok (verify_safe_deposit_callback X e a m msg pu delta s)"
  using assms
  by (auto simp: verify_deposit_callback_def verify_safe_deposit_callback_def private_call_def mark_verified_def res_Inr
      process_inclusion_and_check_def bump_and_check_confirmations_def Let_def)

lemma verified_not_refunded:
  assumes "k \<in> verified_deposit_utxo s" "\<forall>r. refund_requests s k = Some r \<longrightarrow> \<not> executed (of_vrefund r)"
  shows "\<not> is_ok (execute_refund X e k s)"
  using assms
  by (auto simp: execute_refund_def unless_paused_def internal_execute_refund_def load_refund_request_for_execute_def
      res_Inr Let_def)

text \<open>C7: a claim is closed for good.  In a state that keeps the invariants of the system, as every
  reachable one does, take an output that is verified, whose mint is not running any more (it was
  answered, or its callback was lost) and that no executed refund paid back.  Whatever is
  called from then on and whatever the replies are, the output stays verified, no mint of it is ever
  scheduled again, both inclusion callbacks that name it panic, and so does the execution of a
  refund of it.\<close>

theorem closed_claim_stays_closed:
  assumes "system_ok w" "(step X)\<^sup>*\<^sup>* w w'"
    and "k \<in> verified_deposit_utxo (bridge w)" "k \<notin> set (mint_keys (outstanding w))"
    and "\<forall>r. refund_requests (bridge w) k = Some r \<longrightarrow> \<not> executed (of_vrefund r)"
  shows "k \<in> verified_deposit_utxo (bridge w') \<and> k \<notin> set (mint_keys (outstanding w')) \<and>
    (\<forall>e a m pf rf pu pacts msg delta. pu_key pu = k \<longrightarrow>
       \<not> is_ok (run_callback X e (CbVerifyDeposit a m pf rf pu pacts delta) (emptied (bridge w'))) \<and>
       \<not> is_ok (run_callback X e (CbVerifySafeDeposit a m msg pu delta) (emptied (bridge w')))) \<and>
    (\<forall>e. \<not> is_ok (run_method X e (M_execute_refund k) (emptied (bridge w'))))"
proof -
  have "closed_claim (view w') k"
    using closed_claim_steps[OF assms(2,1)] assms(3-5) by (simp add: closed_claim_world)
  then have c: "k \<in> verified_deposit_utxo (bridge w')" "k \<notin> set (mint_keys (outstanding w'))"
    "\<forall>r. refund_requests (bridge w') k = Some r \<longrightarrow> \<not> executed (of_vrefund r)"
    by (auto simp: closed_claim_world)
  then have e: "k \<in> verified_deposit_utxo (emptied (bridge w'))"
    "\<forall>r. refund_requests (emptied (bridge w')) k = Some r \<longrightarrow> \<not> executed (of_vrefund r)"
    by (simp_all add: emptied_def)
  show ?thesis unfolding run_callback.simps run_method.simps
    by (intro conjI allI impI c(1,2) verified_not_again verified_not_refunded[OF e]) (simp_all add: e(1))
qed

text \<open>One output credited, the mint of another still running.\<close>

definition credited_world :: world where
  "credited_world = \<lparr>bridge = sample_contract\<lparr>verified_deposit_utxo := {''ab@0'', ''ab@1''}\<rparr>,
     outstanding = [CbSafeMint ''bob.near'' 50000 \<lparr>pu_tx_id = ''ab'', pu_key = ''ab@1'',
       pu_utxo = \<lparr>utxo_path = [], utxo_tx_bytes = [], utxo_vout = 1, utxo_balance = 50000\<rparr>\<rparr> (Some 100)],
     minted = [''ab@0''], refunded = {}\<rparr>"

definition stranded_world :: world where
  "stranded_world = credited_world\<lparr>outstanding := []\<rparr>"

lemma credited_world_ok: "system_ok credited_world"
  by (simp add: system_ok_def credited_world_def books_balanced_def single_claims_def sample_contract_def
      ledger_def fees_def claims_def records_ok_def held_def msum_def callback_ok_def)

lemma credited_world_step: "step X credited_world stranded_world"
  unfolding stranded_world_def
  using step.lost[of credited_world "[]" _ "[]" X] by (simp add: credited_world_def)

theorem closed_claim_stays_closed_witness:
  "''ab@0'' \<in> verified_deposit_utxo (bridge stranded_world) \<and>
   (\<forall>e. \<not> is_ok (run_method sample_x e (M_execute_refund ''ab@0'') (emptied (bridge stranded_world))))"
proof -
  have "''ab@0'' \<in> verified_deposit_utxo (bridge credited_world)"
    "''ab@0'' \<notin> set (mint_keys (outstanding credited_world))"
    "refund_requests (bridge credited_world) ''ab@0'' = None"
    by (simp_all add: credited_world_def sample_contract_def)
  then show ?thesis
    using closed_claim_stays_closed[OF credited_world_ok r_into_rtranclp[of "step sample_x", OF credited_world_step]]
    by simp
qed

section \<open>Settling\<close>

lemma root_reserve:
  assumes "ledger s" "btc_pending_infos s i = Some v" "info_kind (of_vpending v) \<in> withdraw_kinds \<union> active_kinds"
    and "btc_pending_infos s (case get_original_tx_id (of_vpending v) of Some j \<Rightarrow> j | None \<Rightarrow> i) = Some w"
  shows "charge (of_vpending v) \<le> reserve_of (of_vpending w)"
    and "reserve_of (of_vpending w) \<le> cur_reserved_protocol_fee s"
    and "info_kind (of_vpending w) = (if info_kind (of_vpending v) \<in> withdraw_kinds then KWithdraw else KActive)"
proof -
  obtain c va cl r g where f: "fees s = (c, va, cl, r, g)" by (cases "fees s")
  with assms(1) have l: "ledger_of (c, va, cl, r, g) (btc_pending_infos s)" by (simp add: ledger_def)
  have r: "r = cur_reserved_protocol_fee s" using f by (simp add: fees_def)
  show le: "reserve_of (of_vpending w) \<le> cur_reserved_protocol_fee s"
    using ledger_settle(2)[OF l assms(4), of 0] r by simp
  have "charge (of_vpending v) \<le> reserve_of (of_vpending w) \<and>
    info_kind (of_vpending w) = (if info_kind (of_vpending v) \<in> withdraw_kinds then KWithdraw else KActive)"
  proof (cases "get_original_tx_id (of_vpending v)")
    case None
    with assms(2,4) have vw: "w = v" by simp
    have "record_ok (btc_pending_infos s) (of_vpending v)" using l assms(2) by (auto simp: records_ok_def)
    with None assms(3) vw show ?thesis
      by (auto simp: record_ok_def original_iff_kind withdraw_kinds_def active_kinds_def charge_withdraw)
  next
    case (Some j)
    have "covers (of_vpending w) (of_vpending v)"
      by (rule ledger_covers[OF assms(1,2) Some]) (use assms(4) Some in simp)
    with Some assms(3) original_iff_kind[of "of_vpending v"] show ?thesis
      by (auto simp: covers_def withdraw_kinds_def active_kinds_def)
  qed
  then show "charge (of_vpending v) \<le> reserve_of (of_vpending w)"
    "info_kind (of_vpending w) = (if info_kind (of_vpending v) \<in> withdraw_kinds then KWithdraw else KActive)"
    by blast+
qed

lemma fee_settle_ok:
  assumes "ledger s0" "fees s = fees s0" "r \<le> cur_reserved_protocol_fee s" "u \<le> r" "acc_collected_protocol_fee s \<le> U128_MAX"
  shows "fee_settle r u s = Inr (s\<lparr>cur_reserved_protocol_fee := cur_reserved_protocol_fee s - r,
     acc_protocol_fee_for_gas := acc_protocol_fee_for_gas s + u,
     cur_available_protocol_fee := cur_available_protocol_fee s + (r - u)\<rparr>)"
proof -
  have "acc_collected_protocol_fee s = cur_available_protocol_fee s + acc_claimed_protocol_fee s +
      cur_reserved_protocol_fee s + acc_protocol_fee_for_gas s"
    using assms(1,2) by (simp add: ledger_def fees_def)
  with assms(3-5) show ?thesis by (simp add: fee_settle_def chk_sub_def chk_add_def)
qed

lemma remove_pending_verify_ok:
  "accounts s a = Some v \<Longrightarrow> \<exists>acc. remove_pending_verify a j s = Inr (s\<lparr>accounts := acc\<rparr>)"
  by (auto simp: remove_pending_verify_def internal_unwrap_mut_account_def internal_set_account_def expect_def)

text \<open>The case that succeeds.\<close>

lemma settles:
  assumes "ledger s" "acc_collected_protocol_fee s \<le> U128_MAX" "btc_pending_infos s i = Some v"
    and "info_kind (of_vpending v) \<in> active_kinds" "accounts s (pi_account_id (of_vpending v)) \<noteq> None"
    and "btc_pending_infos s (case get_original_tx_id (of_vpending v) of Some j \<Rightarrow> j | None \<Rightarrow> i) = Some w"
  shows "\<exists>s'. settle_active (of_vpending v) i s = Inr s' \<and>
    cur_reserved_protocol_fee s' + reserve_of (of_vpending w) = cur_reserved_protocol_fee s \<and>
    acc_protocol_fee_for_gas s' = acc_protocol_fee_for_gas s + burn_amount (of_vpending v) \<and>
    cur_available_protocol_fee s' + burn_amount (of_vpending v) =
      cur_available_protocol_fee s + reserve_of (of_vpending w)"
proof -
  note r = root_reserve[OF assms(1,3) _ assms(6)]
  have le: "burn_amount (of_vpending v) \<le> reserve_of (of_vpending w)"
    "reserve_of (of_vpending w) \<le> cur_reserved_protocol_fee s" "info_kind (of_vpending w) = KActive"
    using r assms(4) charge_active[OF assms(4)] by (auto simp: withdraw_kinds_def active_kinds_def)
  have m: "get_max_gas_fee (of_vpending w) = Inr (reserve_of (of_vpending w))"
    using max_gas_fee_active[OF le(3)] by simp
  obtain a where a: "accounts s (pi_account_id (of_vpending v)) = Some a" using assms(5) by blast
  show ?thesis
  proof (cases "get_original_tx_id (of_vpending v)")
    case None
    with assms(3,6) have vw: "w = v" by simp
    obtain acc where acc: "remove_pending_verify (pi_account_id (of_vpending v)) i s = Inr (s\<lparr>accounts := acc\<rparr>)"
      using remove_pending_verify_ok[OF a] by blast
    show ?thesis unfolding settle_active_def None option.case acc
      using le m by (simp add: vw fee_settle_ok[OF assms(1)] fees_def assms(2))
  next
    case (Some j)
    obtain acc where acc: "remove_pending_verify (pi_account_id (of_vpending v)) j (s\<lparr>rbf_txs := (rbf_txs s)(j := None)\<rparr>) =
        Inr (s\<lparr>rbf_txs := (rbf_txs s)(j := None), accounts := acc\<rparr>)"
      using remove_pending_verify_ok[of "s\<lparr>rbf_txs := (rbf_txs s)(j := None)\<rparr>" "pi_account_id (of_vpending v)" a j] a
      by auto
    show ?thesis unfolding settle_active_def Some option.case Let_def acc
      using le m assms(6) Some
      by (simp add: internal_remove_btc_pending_info_def fee_settle_ok[OF assms(1)] fees_def assms(2))
  qed
qed

lemma no_account_no_settle:
  "accounts s (pi_account_id p) = None \<Longrightarrow> \<not> is_ok (settle_active p i s)"
  by (auto simp: settle_active_def Let_def remove_pending_verify_def internal_unwrap_mut_account_def res_Inr split: option.splits)

lemma no_original_no_settle:
  "get_original_tx_id p = Some j \<Longrightarrow> btc_pending_infos s j = None \<Longrightarrow> \<not> is_ok (settle_active p i s)"
  by (auto simp: settle_active_def Let_def remove_pending_verify_def internal_unwrap_mut_account_def internal_set_account_def
      internal_remove_btc_pending_info_def res_Inr)

text \<open>C6: when a confirmed active-management transaction can be settled.  In a state whose books
  balance (by C1 every reachable one) and whose collected fees fit 128 bits, settling never fails on a
  fee counter: it succeeds exactly when
  the account of the transaction exists and its original, or itself when it is the original, is still
  pending; a replacement whose original is gone panics.  When it succeeds it ends exactly the
  reservation of the original, moves the gas that was burnt to the gas counter and makes the rest of
  the reservation available again.\<close>

theorem settling_succeeds:
  assumes "ledger s" "acc_collected_protocol_fee s \<le> U128_MAX" "btc_pending_infos s i = Some v" "p = of_vpending v"
    and "info_kind p \<in> active_kinds"
  shows "let root = (case get_original_tx_id p of Some j \<Rightarrow> j | None \<Rightarrow> i) in
    (is_ok (settle_active p i s) \<longleftrightarrow> accounts s (pi_account_id p) \<noteq> None \<and> btc_pending_infos s root \<noteq> None) \<and>
    (\<forall>s'. settle_active p i s = Inr s' \<longrightarrow> (\<exists>w. btc_pending_infos s root = Some w \<and>
      cur_reserved_protocol_fee s' + reserve_of (of_vpending w) = cur_reserved_protocol_fee s \<and>
      acc_protocol_fee_for_gas s' = acc_protocol_fee_for_gas s + burn_amount p \<and>
      cur_available_protocol_fee s' + burn_amount p = cur_available_protocol_fee s + reserve_of (of_vpending w)))"
proof -
  define root where "root = (case get_original_tx_id p of Some j \<Rightarrow> j | None \<Rightarrow> i)"
  have ok: "\<exists>s'. settle_active p i s = Inr s' \<and>
      cur_reserved_protocol_fee s' + reserve_of (of_vpending w) = cur_reserved_protocol_fee s \<and>
      acc_protocol_fee_for_gas s' = acc_protocol_fee_for_gas s + burn_amount p \<and>
      cur_available_protocol_fee s' + burn_amount p = cur_available_protocol_fee s + reserve_of (of_vpending w)"
    if "accounts s (pi_account_id p) \<noteq> None" "btc_pending_infos s root = Some w" for w
    using settles[of s i v w] assms that by (simp add: root_def)
  have acc: "is_ok (settle_active p i s) \<Longrightarrow> accounts s (pi_account_id p) \<noteq> None"
    using no_account_no_settle by blast
  have orig: "is_ok (settle_active p i s) \<Longrightarrow> btc_pending_infos s root \<noteq> None"
    using no_original_no_settle[of p _ s i] assms(3) by (auto simp: root_def split: option.splits)
  have "\<exists>w. btc_pending_infos s root = Some w \<and>
      cur_reserved_protocol_fee s' + reserve_of (of_vpending w) = cur_reserved_protocol_fee s \<and>
      acc_protocol_fee_for_gas s' = acc_protocol_fee_for_gas s + burn_amount p \<and>
      cur_available_protocol_fee s' + burn_amount p = cur_available_protocol_fee s + reserve_of (of_vpending w)"
    if "settle_active p i s = Inr s'" for s'
    using that acc orig ok by fastforce
  with ok acc orig show ?thesis unfolding Let_def root_def[symmetric] by blast
qed

text \<open>An active-management transaction of 500 satoshi gas that is being confirmed.\<close>

definition active_record :: pending_info where
  "active_record = \<lparr>pi_account_id = ''alice.near'', pi_btc_pending_id = ''t'', transfer_amount = 0,
     actual_received_amount = 9500, withdraw_fee = 0, gas_fee = 500, burn_amount = 500, psbt_hex = [],
     vutxos = [], signatures = [], tx_bytes_with_sign = Some [], create_time_sec = 0, last_sign_time_sec = 0,
     pi_state = ActiveUtxoManagementOriginal \<lparr>os_stage = PendingBurn, max_gas_fee = 500,
       last_rbf_time_sec = None, cancel_rbf_reserved = None\<rparr>\<rparr>"

definition active_state :: contract where
  "active_state = sample_contract\<lparr>accounts := [''alice.near'' \<mapsto> VAccount_Current (account_new ''alice.near'')],
     btc_pending_infos := [''t'' \<mapsto> VPending_Current active_record],
     acc_collected_protocol_fee := 900, cur_available_protocol_fee := 400, cur_reserved_protocol_fee := 500\<rparr>"

lemma active_state_ledger: "ledger active_state"
proof -
  have P: "btc_pending_infos active_state = [''t'' \<mapsto> VPending_Current active_record]" by (simp add: active_state_def)
  have "held (btc_pending_infos active_state) = 500"
    unfolding P using held_insert[of Map.empty "''t''" active_record]
    by (simp add: held_def msum_def active_record_def reserve_of_def)
  moreover have "records_ok (btc_pending_infos active_state)"
    by (simp add: P records_ok_def record_ok_def active_record_def info_kind_def get_original_tx_id_def
        charge_def reserve_of_def)
  ultimately show ?thesis
    by (simp add: ledger_def fees_def P) (simp add: active_state_def sample_contract_def)
qed

theorem settling_succeeds_witness:
  "\<exists>s'. settle_active active_record ''t'' active_state = Inr s' \<and> cur_reserved_protocol_fee s' + 500 = 500 \<and>
     acc_protocol_fee_for_gas s' = 0 + 500 \<and> cur_available_protocol_fee s' + 500 = 400 + 500"
proof -
  have f: "acc_collected_protocol_fee active_state = 900" "cur_reserved_protocol_fee active_state = 500"
    "cur_available_protocol_fee active_state = 400" "acc_protocol_fee_for_gas active_state = 0"
    "btc_pending_infos active_state ''t'' = Some (VPending_Current active_record)"
    "accounts active_state ''alice.near'' \<noteq> None"
    by (simp_all add: active_state_def sample_contract_def)
  have p: "info_kind active_record = KActive" "get_original_tx_id active_record = None" "burn_amount active_record = 500"
    "reserve_of active_record = 500" "pi_account_id active_record = ''alice.near''"
    by (simp_all add: active_record_def info_kind_def get_original_tx_id_def reserve_of_def)
  have v: "active_record = of_vpending (VPending_Current active_record)" by (simp add: of_vpending_def)
  have "acc_collected_protocol_fee active_state \<le> U128_MAX" "info_kind active_record \<in> active_kinds"
    using f p by (simp_all add: U128_MAX_def active_kinds_def)
  from settling_succeeds[OF active_state_ledger this(1) f(5) v this(2)] f p
  show ?thesis by (auto simp: Let_def)
qed

end
