(* ===== verification/Nbtc.thy ===== *)
theory Nbtc
  imports Bridge_Types
begin

text \<open>
  The nBTC token contract (\<open>contracts/nbtc/src/lib.rs\<close>).  The bridge account mints and burns; the
  controller administers.  The fungible token inside it is the NEP-141 implementation of
  \<open>near_contract_standards\<close>, a library the contract calls: its operations are the fields of
  \<open>ft_crate\<close>, over an abstract token state, and \<open>ft_crate_ok\<close> states their documented behaviour.
\<close>

section \<open>State and environment\<close>

record nbtc_ctx = ctx +
  prepaid_gas :: u64

record metadata =
  md_name :: string
  md_symbol :: string
  md_icon :: "string option"
  md_reference :: "string option"
  md_reference_hash :: "bytes option"
  md_decimals :: u8

datatype nbtc_effect =
    FtMintEvent account_id u128
  | FtBurnEvent account_id u128
  | OnTransferThenResolve account_id account_id u128 string   \<comment> \<open>receiver, sender, amount, message\<close>
  | CallHandlePostActions account_id "post_action list"
  | CallHandlePostAction account_id account_id u128 "string option" string "u64 option"

record 't nbtc =
  controller :: account_id
  bridge_id :: account_id
  token :: 't
  metadata :: metadata
  withdraw_relayer_address :: "account_id option"
  nbtc_effects :: "nbtc_effect list"

record storage_balance =
  sb_total :: u128
  sb_available :: u128

record storage_balance_bounds =
  bounds_min :: u128
  bounds_max :: "u128 option"

record 't ft_crate =
  ft_empty :: 't
  ft_accounts :: "'t \<Rightarrow> account_id \<rightharpoonup> u128"
  ft_supply :: "'t \<Rightarrow> u128"
  internal_register_account :: "account_id \<Rightarrow> 't \<Rightarrow> 't res"
  internal_deposit :: "account_id \<Rightarrow> u128 \<Rightarrow> 't \<Rightarrow> 't res"
  internal_withdraw :: "account_id \<Rightarrow> u128 \<Rightarrow> 't \<Rightarrow> 't res"
  internal_transfer :: "account_id \<Rightarrow> account_id \<Rightarrow> u128 \<Rightarrow> string option \<Rightarrow> 't \<Rightarrow> 't res"
  token_ft_transfer :: "nbtc_ctx \<Rightarrow> account_id \<Rightarrow> u128 \<Rightarrow> string option \<Rightarrow> 't \<Rightarrow> 't res"
  token_ft_transfer_call :: "nbtc_ctx \<Rightarrow> account_id \<Rightarrow> u128 \<Rightarrow> string option \<Rightarrow> string \<Rightarrow> 't \<Rightarrow> 't res"
  token_resolve_transfer :: "nbtc_ctx \<Rightarrow> account_id \<Rightarrow> account_id \<Rightarrow> u128 \<Rightarrow> 't \<Rightarrow> (u128 \<times> u128 \<times> 't) res"
  token_storage_deposit :: "nbtc_ctx \<Rightarrow> account_id option \<Rightarrow> bool option \<Rightarrow> 't \<Rightarrow> (storage_balance \<times> 't) res"
  token_storage_withdraw :: "nbtc_ctx \<Rightarrow> u128 option \<Rightarrow> 't \<Rightarrow> (storage_balance \<times> 't) res"
  internal_storage_unregister :: "nbtc_ctx \<Rightarrow> bool option \<Rightarrow> 't \<Rightarrow> ((account_id \<times> u128) option \<times> 't) res"
  token_storage_balance_bounds :: "'t \<Rightarrow> storage_balance_bounds"
  token_storage_balance_of :: "'t \<Rightarrow> account_id \<Rightarrow> storage_balance option"

definition WITHDRAW_MEMO_PREFIX :: string where "WITHDRAW_MEMO_PREFIX = ''WITHDRAW_TO:''"
definition GAS_FOR_FT_TRANSFER_CALL :: u64 where "GAS_FOR_FT_TRANSFER_CALL = 30 * 10 ^ 12"

definition nbtc_emit :: "nbtc_effect \<Rightarrow> 't nbtc \<Rightarrow> 't nbtc" where
  "nbtc_emit ev s = s\<lparr>nbtc_effects := nbtc_effects s @ [ev]\<rparr>"

definition with_token :: "('t \<Rightarrow> 't res) \<Rightarrow> 't nbtc \<Rightarrow> 't nbtc res" where
  "with_token f s = bindR (f (token s)) (\<lambda>t. Inr (s\<lparr>token := t\<rparr>))"

section \<open>Guards\<close>

definition assert_bridge :: "nbtc_ctx \<Rightarrow> 't nbtc \<Rightarrow> 'a res \<Rightarrow> 'a res" where
  "assert_bridge e s k = require (bridge_id s = predecessor e) ''Not Allow'' k"

definition assert_controller :: "nbtc_ctx \<Rightarrow> 't nbtc \<Rightarrow> 'a res \<Rightarrow> 'a res" where
  "assert_controller e s k = require (predecessor e = controller s) ''ERR_MISSING_PERMISSION'' k"

definition nbtc_one_yocto :: "nbtc_ctx \<Rightarrow> 'a res \<Rightarrow> 'a res" where
  "nbtc_one_yocto e k = require (attached_deposit e = 1) ''Requires attached deposit of exactly 1 yoctoNEAR'' k"

section \<open>Administration\<close>

definition nbtc_new ::
    "'t ft_crate \<Rightarrow> account_id \<Rightarrow> account_id \<Rightarrow> string \<Rightarrow> string \<Rightarrow> string option \<Rightarrow> u8 \<Rightarrow> 't nbtc res" where
  "nbtc_new F ctrl bridge nm symbol icon decimals =
     with_token (internal_register_account F bridge)
       \<lparr>controller = ctrl, bridge_id = bridge, token = ft_empty F,
        metadata = \<lparr>md_name = nm, md_symbol = symbol, md_icon = icon, md_reference = None,
          md_reference_hash = None, md_decimals = decimals\<rparr>,
        withdraw_relayer_address = None, nbtc_effects = []\<rparr>"

definition set_controller :: "nbtc_ctx \<Rightarrow> account_id \<Rightarrow> 't nbtc \<Rightarrow> 't nbtc res" where
  "set_controller e c s = nbtc_one_yocto e (assert_controller e s (Inr (s\<lparr>controller := c\<rparr>)))"

definition set_metadata ::
    "nbtc_ctx \<Rightarrow> string option \<Rightarrow> string option \<Rightarrow> string option \<Rightarrow> bytes option \<Rightarrow> u8 option
     \<Rightarrow> string option \<Rightarrow> 't nbtc \<Rightarrow> 't nbtc res" where
  "set_metadata e nm symbol reference reference_hash decimals icon s =
     nbtc_one_yocto e (assert_controller e s (
     let m = metadata s;
         m = (case nm of Some x \<Rightarrow> m\<lparr>md_name := x\<rparr> | None \<Rightarrow> m);
         m = (case symbol of Some x \<Rightarrow> m\<lparr>md_symbol := x\<rparr> | None \<Rightarrow> m);
         m = (case reference of Some x \<Rightarrow> m\<lparr>md_reference := Some x\<rparr> | None \<Rightarrow> m);
         m = (case reference_hash of Some x \<Rightarrow> m\<lparr>md_reference_hash := Some x\<rparr> | None \<Rightarrow> m);
         m = (case decimals of Some x \<Rightarrow> if md_decimals m = 0 then m\<lparr>md_decimals := x\<rparr> else m | None \<Rightarrow> m);
         m = (case icon of Some x \<Rightarrow> m\<lparr>md_icon := Some x\<rparr> | None \<Rightarrow> m) in
     Inr (s\<lparr>metadata := m\<rparr>)))"

definition set_withdraw_relayer_address :: "nbtc_ctx \<Rightarrow> account_id \<Rightarrow> 't nbtc \<Rightarrow> 't nbtc res" where
  "set_withdraw_relayer_address e a s =
     nbtc_one_yocto e (assert_controller e s (Inr (s\<lparr>withdraw_relayer_address := Some a\<rparr>)))"

section \<open>Minting and burning\<close>

definition register_if_missing :: "'t ft_crate \<Rightarrow> account_id \<Rightarrow> 't \<Rightarrow> 't res" where
  "register_if_missing F a t =
     (if ft_accounts F t a = None then internal_register_account F a t else Inr t)"

definition mint_inner :: "'t ft_crate \<Rightarrow> account_id \<Rightarrow> u128 \<Rightarrow> 't nbtc \<Rightarrow> 't nbtc res" where
  "mint_inner F a amount s =
     bindR (with_token (\<lambda>t. bindR (register_if_missing F a t) (internal_deposit F a amount)) s)
       (\<lambda>s. Inr (nbtc_emit (FtMintEvent a amount) s))"

definition nbtc_mint ::
    "'t ft_crate \<Rightarrow> nbtc_ctx \<Rightarrow> account_id \<Rightarrow> u128 \<Rightarrow> u128 \<Rightarrow> account_id \<Rightarrow> u128 \<Rightarrow> post_action list option
     \<Rightarrow> 't nbtc \<Rightarrow> 't nbtc res" where
  "nbtc_mint F e account mint_amount protocol_fee relayer relayer_fee post_actions s =
     assert_bridge e s (
     bindR (mint_inner F account mint_amount s) (\<lambda>s.
     bindR (if protocol_fee > 0 then mint_inner F (bridge_id s) protocol_fee s else Inr s) (\<lambda>s.
     bindR (if relayer_fee > 0 then mint_inner F relayer relayer_fee s else Inr s) (\<lambda>s.
     Inr (case post_actions of
       Some as \<Rightarrow> nbtc_emit (CallHandlePostActions account as) s | None \<Rightarrow> s)))))"

definition nbtc_burn ::
    "'t ft_crate \<Rightarrow> nbtc_ctx \<Rightarrow> account_id \<Rightarrow> u128 \<Rightarrow> account_id \<Rightarrow> u128 \<Rightarrow> 't nbtc \<Rightarrow> 't nbtc res" where
  "nbtc_burn F e account burn relayer relayer_fee s =
     assert_bridge e s (
     bindR (with_token (internal_withdraw F (bridge_id s) burn) s) (\<lambda>s.
     bindR (if relayer_fee > 0 then
              with_token (\<lambda>t. bindR (register_if_missing F relayer t)
                (internal_transfer F (bridge_id s) relayer relayer_fee None)) s
            else Inr s) (\<lambda>s.
     Inr (nbtc_emit (FtBurnEvent account burn) s))))"

section \<open>Transfers\<close>

definition nbtc_ft_transfer ::
    "'t ft_crate \<Rightarrow> nbtc_ctx \<Rightarrow> account_id \<Rightarrow> u128 \<Rightarrow> string option \<Rightarrow> 't nbtc \<Rightarrow> 't nbtc res" where
  "nbtc_ft_transfer F e receiver amount memo s =
     (let legacy = receiver = current_account e \<and>
            (case memo of Some m \<Rightarrow> take (length WITHDRAW_MEMO_PREFIX) m = WITHDRAW_MEMO_PREFIX | None \<Rightarrow> False);
          target = (case withdraw_relayer_address s of
                      Some r \<Rightarrow> if legacy then r else receiver | None \<Rightarrow> receiver) in
      with_token (token_ft_transfer F e target amount memo) s)"

definition nbtc_ft_transfer_call ::
    "'t ft_crate \<Rightarrow> nbtc_ctx \<Rightarrow> account_id \<Rightarrow> u128 \<Rightarrow> string option \<Rightarrow> string \<Rightarrow> 't nbtc \<Rightarrow> 't nbtc res" where
  "nbtc_ft_transfer_call F e receiver amount memo msg s =
     bindR (with_token (token_ft_transfer_call F e receiver amount memo msg) s)
       (\<lambda>s. Inr (nbtc_emit (OnTransferThenResolve receiver (predecessor e) amount msg) s))"

text \<open>The first component is the returned value, \<open>None\<close> when the call returns the promise.\<close>

definition safe_mint ::
    "'t ft_crate \<Rightarrow> nbtc_ctx \<Rightarrow> account_id \<Rightarrow> u128 \<Rightarrow> string option \<Rightarrow> 't nbtc \<Rightarrow> (u128 option \<times> 't nbtc) res" where
  "safe_mint F e account amount msg s =
     assert_bridge e s (
     require (account \<noteq> bridge_id s) ''safe_mint: account_id must not be the bridge'' (
     bindR (with_token (internal_deposit F (bridge_id s) amount) s) (\<lambda>s.
     if ft_accounts F (token s) account = None then Inr (Some 0, s)
     else (case msg of
       Some m \<Rightarrow> bindR (nbtc_ft_transfer_call F e account amount None m s) (\<lambda>s. Inr (None, s))
     | None \<Rightarrow> bindR (nbtc_ft_transfer F e account amount None s) (\<lambda>s. Inr (Some amount, s))))))"

definition nbtc_ft_resolve_transfer ::
    "'t ft_crate \<Rightarrow> nbtc_ctx \<Rightarrow> account_id \<Rightarrow> account_id \<Rightarrow> u128 \<Rightarrow> 't nbtc \<Rightarrow> (u128 \<times> 't nbtc) res" where
  "nbtc_ft_resolve_transfer F e sender receiver amount s =
     require (predecessor e = current_account e) ''Method is private'' (
     bindR (token_resolve_transfer F e sender receiver amount (token s)) (\<lambda>(used, burned, t).
     Inr (used, s\<lparr>token := t\<rparr>)))"

definition ft_total_supply :: "'t ft_crate \<Rightarrow> 't nbtc \<Rightarrow> u128" where
  "ft_total_supply F s = ft_supply F (token s)"

definition ft_balance_of :: "'t ft_crate \<Rightarrow> 't nbtc \<Rightarrow> account_id \<Rightarrow> u128" where
  "ft_balance_of F s a = (case ft_accounts F (token s) a of Some b \<Rightarrow> b | None \<Rightarrow> 0)"

section \<open>Post actions\<close>

definition handle_post_actions ::
    "nbtc_ctx \<Rightarrow> account_id \<Rightarrow> post_action list \<Rightarrow> 't nbtc \<Rightarrow> 't nbtc res" where
  "handle_post_actions e sender as s =
     require (predecessor e = current_account e) ''Method is private''
     (Inr (fold (\<lambda>a. nbtc_emit (CallHandlePostAction sender (pa_receiver_id a) (pa_amount a) (pa_memo a)
       (pa_msg a) (pa_gas a))) as s))"

definition handle_post_action ::
    "'t ft_crate \<Rightarrow> nbtc_ctx \<Rightarrow> account_id \<Rightarrow> account_id \<Rightarrow> u128 \<Rightarrow> string option \<Rightarrow> string \<Rightarrow> 't nbtc
     \<Rightarrow> 't nbtc res" where
  "handle_post_action F e sender receiver amount memo msg s =
     require (predecessor e = current_account e) ''Method is private'' (
     require (prepaid_gas e > GAS_FOR_FT_TRANSFER_CALL) ''More gas is required'' (
     require (receiver \<noteq> bridge_id s) ''handle_post_action: receiver_id must not be the bridge'' (
     bindR (with_token (internal_transfer F sender receiver amount memo) s) (\<lambda>s.
     Inr (nbtc_emit (OnTransferThenResolve receiver sender amount msg) s)))))"

section \<open>Storage management and metadata\<close>

definition with_token_value :: "('t \<Rightarrow> ('a \<times> 't) res) \<Rightarrow> 't nbtc \<Rightarrow> ('a \<times> 't nbtc) res" where
  "with_token_value f s = bindR (f (token s)) (\<lambda>(v, t). Inr (v, s\<lparr>token := t\<rparr>))"

definition storage_deposit ::
    "'t ft_crate \<Rightarrow> nbtc_ctx \<Rightarrow> account_id option \<Rightarrow> bool option \<Rightarrow> 't nbtc \<Rightarrow> (storage_balance \<times> 't nbtc) res" where
  "storage_deposit F e account registration_only s =
     with_token_value (token_storage_deposit F e account registration_only) s"

definition storage_withdraw ::
    "'t ft_crate \<Rightarrow> nbtc_ctx \<Rightarrow> u128 option \<Rightarrow> 't nbtc \<Rightarrow> (storage_balance \<times> 't nbtc) res" where
  "storage_withdraw F e amount s = with_token_value (token_storage_withdraw F e amount) s"

definition storage_unregister ::
    "'t ft_crate \<Rightarrow> nbtc_ctx \<Rightarrow> bool option \<Rightarrow> 't nbtc \<Rightarrow> (bool \<times> 't nbtc) res" where
  "storage_unregister F e force s =
     bindR (with_token_value (internal_storage_unregister F e force) s) (\<lambda>(closed, s).
     Inr (case closed of Some (account, balance) \<Rightarrow> True | None \<Rightarrow> False, s))"

definition storage_balance_bounds :: "'t ft_crate \<Rightarrow> 't nbtc \<Rightarrow> storage_balance_bounds" where
  "storage_balance_bounds F s = token_storage_balance_bounds F (token s)"

definition storage_balance_of :: "'t ft_crate \<Rightarrow> 't nbtc \<Rightarrow> account_id \<Rightarrow> storage_balance option" where
  "storage_balance_of F s a = token_storage_balance_of F (token s) a"

definition ft_metadata :: "'t nbtc \<Rightarrow> metadata" where
  "ft_metadata s = metadata s"

section \<open>The documented behaviour of the token library\<close>

text \<open>
  Registration opens an account with balance zero and refuses a second one.  Deposits and
  withdrawals move one registered balance and the supply, refusing overflow and overdraft.  A
  transfer needs two different registered accounts, a positive amount and a sufficient balance;
  the public transfers are internal ones from the caller with one yocto attached.  Resolving a
  transfer takes what the receiver did not use and still has back to the sender, or burns it when
  the sender is gone.  Unregistering closes the caller's account, and what it holds is burned.
\<close>

type_synonym holdings = "account_id \<rightharpoonup> u128"

definition moved :: "holdings \<Rightarrow> account_id \<Rightarrow> account_id \<Rightarrow> u128 \<Rightarrow> holdings" where
  "moved m a b n = m(a := map_option (\<lambda>x. x - n) (m a), b := map_option (\<lambda>x. x + n) (m b))"

definition transfer_ok :: "holdings \<Rightarrow> account_id \<Rightarrow> account_id \<Rightarrow> u128 \<Rightarrow> bool" where
  "transfer_ok m a b n \<longleftrightarrow> a \<noteq> b \<and> n > 0 \<and> m b \<noteq> None \<and> (\<exists>x. m a = Some x \<and> n \<le> x)"

definition taken_back :: "holdings \<Rightarrow> u128 \<Rightarrow> account_id \<Rightarrow> account_id \<Rightarrow> u128 \<Rightarrow> u128 \<times> u128 \<times> holdings \<times> u128" where
  \<comment> \<open>the amounts used and burned and the new ledger, for \<open>x > 0\<close> taken back from \<open>b\<close> for \<open>a\<close>\<close>
  "taken_back m supply a b x =
     (let m1 = m(b := map_option (\<lambda>v. v - x) (m b)) in
      case m1 a of Some v \<Rightarrow> (x, 0, m1(a \<mapsto> v + x), supply) | None \<Rightarrow> (0, x, m1, supply - x))"

definition register_spec :: "'t ft_crate \<Rightarrow> account_id \<Rightarrow> 't \<Rightarrow> 't \<Rightarrow> bool" where
  "register_spec F a t t' \<longleftrightarrow> ft_accounts F t a = None \<and>
     ft_accounts F t' = (ft_accounts F t)(a \<mapsto> 0) \<and> ft_supply F t' = ft_supply F t"

definition deposit_spec :: "'t ft_crate \<Rightarrow> account_id \<Rightarrow> u128 \<Rightarrow> 't \<Rightarrow> 't \<Rightarrow> bool" where
  "deposit_spec F a n t t' \<longleftrightarrow>
     (\<exists>x. ft_accounts F t a = Some x \<and> ft_accounts F t' = (ft_accounts F t)(a \<mapsto> x + n)) \<and>
     ft_supply F t' = ft_supply F t + n \<and> ft_supply F t' \<le> U128_MAX"

definition withdraw_spec :: "'t ft_crate \<Rightarrow> account_id \<Rightarrow> u128 \<Rightarrow> 't \<Rightarrow> 't \<Rightarrow> bool" where
  "withdraw_spec F a n t t' \<longleftrightarrow>
     (\<exists>x. ft_accounts F t a = Some x \<and> n \<le> x \<and> ft_accounts F t' = (ft_accounts F t)(a \<mapsto> x - n)) \<and>
     n \<le> ft_supply F t \<and> ft_supply F t' = ft_supply F t - n"

definition transfer_spec :: "'t ft_crate \<Rightarrow> account_id \<Rightarrow> account_id \<Rightarrow> u128 \<Rightarrow> 't \<Rightarrow> 't \<Rightarrow> bool" where
  "transfer_spec F a b n t t' \<longleftrightarrow> transfer_ok (ft_accounts F t) a b n \<and>
     ft_accounts F t' = moved (ft_accounts F t) a b n \<and> ft_supply F t' = ft_supply F t"

definition resolve_spec :: "'t ft_crate \<Rightarrow> account_id \<Rightarrow> account_id \<Rightarrow> u128 \<Rightarrow> u128 \<Rightarrow> u128 \<Rightarrow> 't \<Rightarrow> 't \<Rightarrow> bool" where
  "resolve_spec F a b n used burned t t' \<longleftrightarrow>
     (ft_accounts F t' = ft_accounts F t \<and> ft_supply F t' = ft_supply F t \<and> used = n \<and> burned = 0) \<or>
     (\<exists>x v back. 0 < x \<and> x \<le> n \<and> ft_accounts F t b = Some v \<and> x \<le> v \<and> used = n - back \<and>
        (back, burned, ft_accounts F t', ft_supply F t') = taken_back (ft_accounts F t) (ft_supply F t) a b x)"

definition unregister_spec :: "'t ft_crate \<Rightarrow> nbtc_ctx \<Rightarrow> bool option \<Rightarrow> (account_id \<times> u128) option \<Rightarrow> 't \<Rightarrow> 't \<Rightarrow> bool" where
  "unregister_spec F e force closed t t' \<longleftrightarrow> attached_deposit e = 1 \<and>
     (case closed of
        None \<Rightarrow> ft_accounts F t (predecessor e) = None \<and> ft_accounts F t' = ft_accounts F t \<and> ft_supply F t' = ft_supply F t
      | Some (a, v) \<Rightarrow> a = predecessor e \<and> ft_accounts F t a = Some v \<and> (v = 0 \<or> force = Some True) \<and>
          ft_accounts F t' = (ft_accounts F t)(a := None) \<and> ft_supply F t' = ft_supply F t - v)"

definition same_ledger :: "'t ft_crate \<Rightarrow> 't \<Rightarrow> 't \<Rightarrow> bool" where
  "same_ledger F t t' \<longleftrightarrow> ft_accounts F t' = ft_accounts F t \<and> ft_supply F t' = ft_supply F t"

definition ft_crate_ok :: "'t ft_crate \<Rightarrow> bool" where
  "ft_crate_ok F \<longleftrightarrow>
     ft_accounts F (ft_empty F) = Map.empty \<and> ft_supply F (ft_empty F) = 0 \<and>
     (\<forall>a t t'. internal_register_account F a t = Inr t' \<longrightarrow> register_spec F a t t') \<and>
     (\<forall>a n t t'. internal_deposit F a n t = Inr t' \<longrightarrow> deposit_spec F a n t t') \<and>
     (\<forall>a n t t'. internal_withdraw F a n t = Inr t' \<longrightarrow> withdraw_spec F a n t t') \<and>
     (\<forall>a b n m t t'. internal_transfer F a b n m t = Inr t' \<longrightarrow> transfer_spec F a b n t t') \<and>
     (\<forall>e b n m t t'. token_ft_transfer F e b n m t = Inr t' \<longrightarrow>
        attached_deposit e = 1 \<and> transfer_spec F (predecessor e) b n t t') \<and>
     (\<forall>e b n m msg t t'. token_ft_transfer_call F e b n m msg t = Inr t' \<longrightarrow>
        attached_deposit e = 1 \<and> transfer_spec F (predecessor e) b n t t') \<and>
     (\<forall>e a b n t used burned t'. token_resolve_transfer F e a b n t = Inr (used, burned, t') \<longrightarrow>
        resolve_spec F a b n used burned t t') \<and>
     (\<forall>e a r t sb t'. token_storage_deposit F e a r t = Inr (sb, t') \<longrightarrow> same_ledger F t t' \<or>
        register_spec F (case a of Some b \<Rightarrow> b | None \<Rightarrow> predecessor e) t t') \<and>
     (\<forall>e n t sb t'. token_storage_withdraw F e n t = Inr (sb, t') \<longrightarrow> same_ledger F t t') \<and>
     (\<forall>e f t c t'. internal_storage_unregister F e f t = Inr (c, t') \<longrightarrow> unregister_spec F e f c t t')"

lemma ft_crate_okD:
  assumes "ft_crate_ok F"
  shows "internal_register_account F a t = Inr t' \<Longrightarrow> register_spec F a t t'"
    "internal_deposit F a n t = Inr t' \<Longrightarrow> deposit_spec F a n t t'"
    "internal_withdraw F a n t = Inr t' \<Longrightarrow> withdraw_spec F a n t t'"
    "internal_transfer F a b n m t = Inr t' \<Longrightarrow> transfer_spec F a b n t t'"
    "token_ft_transfer F e b n m t = Inr t' \<Longrightarrow> attached_deposit e = 1 \<and> transfer_spec F (predecessor e) b n t t'"
    "token_ft_transfer_call F e b n m msg t = Inr t' \<Longrightarrow> attached_deposit e = 1 \<and> transfer_spec F (predecessor e) b n t t'"
    "token_resolve_transfer F e a b n t = Inr (used, burned, t') \<Longrightarrow> resolve_spec F a b n used burned t t'"
    "token_storage_deposit F e o1 r t = Inr (sb, t') \<Longrightarrow> same_ledger F t t' \<or>
       register_spec F (case o1 of Some b \<Rightarrow> b | None \<Rightarrow> predecessor e) t t'"
    "token_storage_withdraw F e o2 t = Inr (sb, t') \<Longrightarrow> same_ledger F t t'"
    "internal_storage_unregister F e f t = Inr (c, t') \<Longrightarrow> unregister_spec F e f c t t'"
proof -
  note d = assms[unfolded ft_crate_ok_def, THEN conjunct2, THEN conjunct2]
  show "internal_register_account F a t = Inr t' \<Longrightarrow> register_spec F a t t'"
    by (rule d[THEN conjunct1, rule_format])
  show "internal_deposit F a n t = Inr t' \<Longrightarrow> deposit_spec F a n t t'"
    by (rule d[THEN conjunct2, THEN conjunct1, rule_format])
  show "internal_withdraw F a n t = Inr t' \<Longrightarrow> withdraw_spec F a n t t'"
    by (rule d[THEN conjunct2, THEN conjunct2, THEN conjunct1, rule_format])
  show "internal_transfer F a b n m t = Inr t' \<Longrightarrow> transfer_spec F a b n t t'"
    by (rule d[THEN conjunct2, THEN conjunct2, THEN conjunct2, THEN conjunct1, rule_format])
  show "token_ft_transfer F e b n m t = Inr t' \<Longrightarrow> attached_deposit e = 1 \<and> transfer_spec F (predecessor e) b n t t'"
    by (rule d[THEN conjunct2, THEN conjunct2, THEN conjunct2, THEN conjunct2, THEN conjunct1, rule_format])
  show "token_ft_transfer_call F e b n m msg t = Inr t' \<Longrightarrow> attached_deposit e = 1 \<and> transfer_spec F (predecessor e) b n t t'"
    by (rule d[THEN conjunct2, THEN conjunct2, THEN conjunct2, THEN conjunct2, THEN conjunct2, THEN conjunct1, rule_format])
  show "token_resolve_transfer F e a b n t = Inr (used, burned, t') \<Longrightarrow> resolve_spec F a b n used burned t t'"
    by (rule d[THEN conjunct2, THEN conjunct2, THEN conjunct2, THEN conjunct2, THEN conjunct2, THEN conjunct2, THEN conjunct1, rule_format])
  show "token_storage_deposit F e o1 r t = Inr (sb, t') \<Longrightarrow> same_ledger F t t' \<or>
       register_spec F (case o1 of Some b \<Rightarrow> b | None \<Rightarrow> predecessor e) t t'"
    by (rule d[THEN conjunct2, THEN conjunct2, THEN conjunct2, THEN conjunct2, THEN conjunct2, THEN conjunct2, THEN conjunct2, THEN conjunct1, rule_format])
  show "token_storage_withdraw F e o2 t = Inr (sb, t') \<Longrightarrow> same_ledger F t t'"
    by (rule d[THEN conjunct2, THEN conjunct2, THEN conjunct2, THEN conjunct2, THEN conjunct2, THEN conjunct2, THEN conjunct2, THEN conjunct2, THEN conjunct1, rule_format])
  show "internal_storage_unregister F e f t = Inr (c, t') \<Longrightarrow> unregister_spec F e f c t t'"
    by (rule d[THEN conjunct2, THEN conjunct2, THEN conjunct2, THEN conjunct2, THEN conjunct2, THEN conjunct2, THEN conjunct2, THEN conjunct2, THEN conjunct2, rule_format])
qed

lemma ft_empty_ledger:
  assumes "ft_crate_ok F" shows "ft_accounts F (ft_empty F) = Map.empty" "ft_supply F (ft_empty F) = 0"
  using assms unfolding ft_crate_ok_def by blast+

end
