(* ===== verification/Nbtc_System.thy ===== *)
theory Nbtc_System
  imports Nbtc Bridge_System
begin

text \<open>
  The nBTC contract as a system: its public methods in any order by any caller.  The supply is the
  sum of the balances, only the bridge creates tokens, and nobody but the holder, the bridge on its
  own account and the contract's private callbacks can lower a balance.  The effect of every method on
  the ledger of the library is one or two of the moves of \<open>ft_crate_ok\<close>.
\<close>

section \<open>Methods and reachable states\<close>

datatype nbtc_method =
    N_mint account_id u128 u128 account_id u128 "post_action list option"
  | N_burn account_id u128 account_id u128
  | N_safe_mint account_id u128 "string option"
  | N_ft_transfer account_id u128 "string option"
  | N_ft_transfer_call account_id u128 "string option" string
  | N_ft_resolve_transfer account_id account_id u128
  | N_handle_post_actions account_id "post_action list"
  | N_handle_post_action account_id account_id u128 "string option" string
  | N_storage_deposit "account_id option" "bool option"
  | N_storage_withdraw "u128 option"
  | N_storage_unregister "bool option"
  | N_set_controller account_id
  | N_set_metadata "string option" "string option" "string option" "bytes option" "u8 option" "string option"
  | N_set_withdraw_relayer_address account_id

definition drop_value :: "('a \<times> 's) res \<Rightarrow> 's res" where
  "drop_value r = bindR r (\<lambda>(_, s). Inr s)"

fun run_nbtc :: "'t ft_crate \<Rightarrow> nbtc_ctx \<Rightarrow> nbtc_method \<Rightarrow> 't nbtc \<Rightarrow> 't nbtc res" where
  "run_nbtc F e (N_mint a n pf r rf pas) s = nbtc_mint F e a n pf r rf pas s"
| "run_nbtc F e (N_burn a n r rf) s = nbtc_burn F e a n r rf s"
| "run_nbtc F e (N_safe_mint a n msg) s = drop_value (safe_mint F e a n msg s)"
| "run_nbtc F e (N_ft_transfer b n memo) s = nbtc_ft_transfer F e b n memo s"
| "run_nbtc F e (N_ft_transfer_call b n memo msg) s = nbtc_ft_transfer_call F e b n memo msg s"
| "run_nbtc F e (N_ft_resolve_transfer a b n) s = drop_value (nbtc_ft_resolve_transfer F e a b n s)"
| "run_nbtc F e (N_handle_post_actions a pas) s = handle_post_actions e a pas s"
| "run_nbtc F e (N_handle_post_action a b n memo msg) s = handle_post_action F e a b n memo msg s"
| "run_nbtc F e (N_storage_deposit a r) s = drop_value (storage_deposit F e a r s)"
| "run_nbtc F e (N_storage_withdraw n) s = drop_value (storage_withdraw F e n s)"
| "run_nbtc F e (N_storage_unregister force) s = drop_value (storage_unregister F e force s)"
| "run_nbtc F e (N_set_controller c) s = set_controller e c s"
| "run_nbtc F e (N_set_metadata nm sy rf rh d ic) s = set_metadata e nm sy rf rh d ic s"
| "run_nbtc F e (N_set_withdraw_relayer_address a) s = set_withdraw_relayer_address e a s"

inductive nbtc_step :: "'t ft_crate \<Rightarrow> 't nbtc \<Rightarrow> 't nbtc \<Rightarrow> bool" for F where
  "run_nbtc F e m (s\<lparr>nbtc_effects := []\<rparr>) = Inr s' \<Longrightarrow> nbtc_step F s s'"

definition nbtc_start :: "'t ft_crate \<Rightarrow> 't nbtc \<Rightarrow> bool" where
  "nbtc_start F s \<longleftrightarrow> (\<exists>c b nm sy ic d. nbtc_new F c b nm sy ic d = Inr s)"

definition nbtc_reachable :: "'t ft_crate \<Rightarrow> 't nbtc \<Rightarrow> bool" where
  "nbtc_reachable F s \<longleftrightarrow> (\<exists>s0. nbtc_start F s0 \<and> (nbtc_step F)\<^sup>*\<^sup>* s0 s)"

section \<open>Moves of the ledger\<close>

text \<open>A ledger is the balances with the supply; every library call is one of these moves.\<close>

type_synonym ledger_state = "holdings \<times> u128"

inductive move :: "ledger_state \<Rightarrow> ledger_state \<Rightarrow> bool" where
  open_account: "m a = None \<Longrightarrow> move (m, t) (m(a \<mapsto> 0), t)"
| create: "m a = Some x \<Longrightarrow> t + n \<le> U128_MAX \<Longrightarrow> move (m, t) (m(a \<mapsto> x + n), t + n)"
| destroy: "m a = Some x \<Longrightarrow> n \<le> x \<Longrightarrow> n \<le> t \<Longrightarrow> move (m, t) (m(a \<mapsto> x - n), t - n)"
| pass: "transfer_ok m a b n \<Longrightarrow> move (m, t) (moved m a b n, t)"
| take_back: "m b = Some v \<Longrightarrow> 0 < x \<Longrightarrow> x \<le> v \<Longrightarrow> taken_back m t a b x = (u, w, m', t') \<Longrightarrow> move (m, t) (m', t')"
| close: "m a = Some v \<Longrightarrow> move (m, t) (m(a := None), t - v)"

abbreviation moves :: "ledger_state \<Rightarrow> ledger_state \<Rightarrow> bool" where
  "moves \<equiv> move\<^sup>*\<^sup>*"

definition held_sum :: "holdings \<Rightarrow> nat" where
  "held_sum m = (\<Sum>a\<in>dom m. the (m a))"

lemma held_sum_update:
  assumes "finite (dom m)"
  shows "held_sum (m(a \<mapsto> y)) + (case m a of Some x \<Rightarrow> x | None \<Rightarrow> 0) = held_sum m + y"
proof -
  have s: "(\<Sum>b\<in>dom m - {a}. the ((m(a \<mapsto> y)) b)) = (\<Sum>b\<in>dom m - {a}. the (m b))" by (rule sum.cong) auto
  have "held_sum (m(a \<mapsto> y)) = y + (\<Sum>b\<in>dom m - {a}. the (m b))"
    using assms s by (simp add: held_sum_def sum.insert_remove)
  moreover have "held_sum m = (case m a of Some x \<Rightarrow> x | None \<Rightarrow> 0) + (\<Sum>b\<in>dom m - {a}. the (m b))"
    using assms sum.remove[of "dom m" a "\<lambda>b. the (m b)"] by (cases "m a") (auto simp: held_sum_def domIff)
  ultimately show ?thesis by simp
qed

lemma held_sum_close:
  assumes "finite (dom m)" "m a = Some v" shows "held_sum (m(a := None)) + v = held_sum m"
proof -
  have "(\<Sum>b\<in>dom m - {a}. the ((m(a := None)) b)) = (\<Sum>b\<in>dom m - {a}. the (m b))" by (rule sum.cong) auto
  with assms sum.remove[of "dom m" a "\<lambda>b. the (m b)"] show ?thesis by (simp add: held_sum_def domI)
qed

lemma moved_total:
  assumes "finite (dom m)" "transfer_ok m a b n" shows "held_sum (moved m a b n) = held_sum m"
proof -
  obtain x y where xy: "m a = Some x" "m b = Some y" "n \<le> x" "a \<noteq> b" using assms(2) by (auto simp: transfer_ok_def)
  have 1: "held_sum (m(a \<mapsto> x - n)) + x = held_sum m + (x - n)" using held_sum_update[OF assms(1), of a "x - n"] xy by simp
  have 2: "held_sum (m(a \<mapsto> x - n, b \<mapsto> y + n)) + y = held_sum (m(a \<mapsto> x - n)) + (y + n)"
    using held_sum_update[of "m(a \<mapsto> x - n)" b "y + n"] assms(1) xy by simp
  show ?thesis using 1 2 xy by (simp add: moved_def)
qed

lemma taken_back_total:
  assumes "finite (dom m)" "m b = Some v" "x \<le> v" "taken_back m t a b x = (u, w, m', t')" "held_sum m = t"
  shows "held_sum m' = t' \<and> finite (dom m')"
proof -
  let ?m1 = "m(b \<mapsto> v - x)"
  have 1: "held_sum ?m1 + v = held_sum m + (v - x)" using held_sum_update[OF assms(1), of b "v - x"] assms(2) by simp
  show ?thesis
  proof (cases "?m1 a")
    case None
    then have "m' = ?m1" "t' = t - x" using assms(2,4) by (auto simp: taken_back_def Let_def)
    with 1 assms show ?thesis by simp
  next
    case (Some y)
    then have m': "m' = ?m1(a \<mapsto> y + x)" "t' = t" using assms(2,4) by (auto simp: taken_back_def Let_def)
    have "held_sum (?m1(a \<mapsto> y + x)) + y = held_sum ?m1 + (y + x)"
      using held_sum_update[of ?m1 a "y + x"] assms(1) Some by simp
    with 1 m' assms show ?thesis by simp
  qed
qed

definition conserved :: "ledger_state \<Rightarrow> bool" where
  "conserved l \<longleftrightarrow> finite (dom (fst l)) \<and> held_sum (fst l) = snd l \<and> snd l \<le> U128_MAX"

lemma moved_dom: "finite (dom m) \<Longrightarrow> finite (dom (moved m a b n))"
  by (rule finite_subset[of _ "insert a (insert b (dom m))"]) (auto simp: moved_def split: if_splits)

lemma taken_back_supply: "taken_back m t a b x = (u, w, m', t') \<Longrightarrow> t' \<le> t"
  by (auto simp: taken_back_def Let_def split: option.splits)

lemma move_conserved:
  assumes "move l l'" "conserved l" shows "conserved l'"
  using assms
proof (cases rule: move.cases)
  case (open_account m a t)
  then show ?thesis using assms(2) held_sum_update[of m a 0] by (simp add: conserved_def)
next
  case (create m a x t n)
  then show ?thesis using assms(2) held_sum_update[of m a "x + n"] by (simp add: conserved_def)
next
  case (destroy m a x n t)
  have "held_sum (m(a \<mapsto> x - n)) + x = held_sum m + (x - n)"
    using destroy assms(2) held_sum_update[of m a "x - n"] by (simp add: conserved_def)
  with destroy assms(2) have "held_sum (m(a \<mapsto> x - n)) = t - n" by (auto simp: conserved_def)
  with destroy assms(2) show ?thesis by (auto simp: conserved_def)
next
  case (pass m a b n t)
  then show ?thesis using assms(2) moved_total by (simp add: conserved_def moved_dom)
next
  case (take_back m b v x t a u w m' t')
  then show ?thesis using assms(2) taken_back_total[of m b v x t a u w m' t'] taken_back_supply[of m t a b x u w m' t']
    by (auto simp: conserved_def)
next
  case (close m a v t)
  then show ?thesis using assms(2) held_sum_close[of m a v] by (auto simp: conserved_def)
qed

lemma moves_conserved: "moves l l' \<Longrightarrow> conserved l \<Longrightarrow> conserved l'"
  by (induction rule: rtranclp_induct) (auto intro: move_conserved)

section \<open>What a call may do\<close>

text \<open>From one ledger to another by moves, lowering only the balances of \<open>A\<close>, and raising the supply only
  when \<open>minting\<close>.\<close>

definition bal :: "holdings \<Rightarrow> account_id \<Rightarrow> nat" where
  "bal m a = (case m a of Some x \<Rightarrow> x | None \<Rightarrow> 0)"

definition fair :: "account_id set \<Rightarrow> bool \<Rightarrow> ledger_state \<Rightarrow> ledger_state \<Rightarrow> bool" where
  "fair A minting l l' \<longleftrightarrow> moves l l' \<and> (minting \<or> snd l' \<le> snd l) \<and>
     (\<forall>a. a \<notin> A \<longrightarrow> bal (fst l) a \<le> bal (fst l') a)"

definition view_of :: "'t ft_crate \<Rightarrow> 't \<Rightarrow> ledger_state" where
  "view_of F t = (ft_accounts F t, ft_supply F t)"

lemma fair_refl: "fair A minting l l"
  by (simp add: fair_def)

lemma fair_trans: "fair A minting l1 l2 \<Longrightarrow> fair A minting l2 l3 \<Longrightarrow> fair A minting l1 l3"
  unfolding fair_def by (meson le_trans rtranclp_trans)

lemma register_fair: "register_spec F a t t' \<Longrightarrow> fair A minting (view_of F t) (view_of F t')"
  using open_account[of "ft_accounts F t" a "ft_supply F t"]
  by (auto simp: register_spec_def fair_def view_of_def bal_def)

lemma deposit_fair: "deposit_spec F a n t t' \<Longrightarrow> fair A True (view_of F t) (view_of F t')"
  using create[of "ft_accounts F t" a _ "ft_supply F t" n]
  by (auto simp: deposit_spec_def fair_def view_of_def bal_def)

lemma withdraw_fair: "withdraw_spec F a n t t' \<Longrightarrow> a \<in> A \<Longrightarrow> fair A minting (view_of F t) (view_of F t')"
  using destroy[of "ft_accounts F t" a _ n "ft_supply F t"]
  by (auto simp: withdraw_spec_def fair_def view_of_def bal_def)

lemma transfer_fair: "transfer_spec F a b n t t' \<Longrightarrow> a \<in> A \<Longrightarrow> fair A minting (view_of F t) (view_of F t')"
  using pass[of "ft_accounts F t" a b n "ft_supply F t"]
  by (auto simp: transfer_spec_def fair_def view_of_def bal_def moved_def transfer_ok_def split: option.split)

lemma resolve_fair:
  assumes "resolve_spec F a b n used burned t t'" shows "fair UNIV minting (view_of F t) (view_of F t')"
  using assms unfolding resolve_spec_def
proof (elim disjE exE conjE)
  fix x v ret
  assume x: "0 < x" "ft_accounts F t b = Some v" "x \<le> v"
    "(ret, burned, ft_accounts F t', ft_supply F t') = taken_back (ft_accounts F t) (ft_supply F t) a b x"
  show ?thesis
    using take_back[OF x(2,1,3) x(4)[symmetric]] taken_back_supply[OF x(4)[symmetric]] by (simp add: fair_def view_of_def)
qed (simp add: fair_def view_of_def)

lemma unregister_fair:
  "unregister_spec F e f c t t' \<Longrightarrow> predecessor e \<in> A \<Longrightarrow> fair A minting (view_of F t) (view_of F t')"
  using close[of "ft_accounts F t" "predecessor e" _ "ft_supply F t"]
  by (auto simp: unregister_spec_def fair_def view_of_def bal_def split: option.splits if_splits)

lemma same_fair: "same_ledger F t t' \<Longrightarrow> fair A minting (view_of F t) (view_of F t')"
  by (simp add: same_ledger_def fair_def view_of_def)

section \<open>What the methods do\<close>

lemma with_token_Inr: "with_token f s = Inr s' \<longleftrightarrow> (\<exists>t. f (token s) = Inr t \<and> s' = s\<lparr>token := t\<rparr>)"
  by (auto simp: with_token_def res_Inr)

lemma with_token_value_Inr:
  "with_token_value f s = Inr (v, s') \<longleftrightarrow> (\<exists>t. f (token s) = Inr (v, t) \<and> s' = s\<lparr>token := t\<rparr>)"
  by (auto simp: with_token_value_def res_Inr)

lemma register_if_missing_fair:
  "ft_crate_ok F \<Longrightarrow> register_if_missing F a t = Inr t' \<Longrightarrow> fair A minting (view_of F t) (view_of F t')"
  by (auto simp: register_if_missing_def fair_refl intro: register_fair ft_crate_okD(1) split: if_splits)

text \<open>Everything but the token is kept.\<close>

definition same_offices :: "'t nbtc \<Rightarrow> 't nbtc \<Rightarrow> bool" where
  "same_offices s s' \<longleftrightarrow> controller s' = controller s \<and> bridge_id s' = bridge_id s \<and> metadata s' = metadata s \<and>
     withdraw_relayer_address s' = withdraw_relayer_address s"

lemma same_offices_trans: "same_offices s1 s2 \<Longrightarrow> same_offices s2 s3 \<Longrightarrow> same_offices s1 s3"
  by (simp add: same_offices_def)

lemma mint_inner_fair:
  assumes "ft_crate_ok F" "mint_inner F a n s = Inr s'"
  shows "fair A True (view_of F (token s)) (view_of F (token s')) \<and> same_offices s s'"
proof -
  obtain t1 t2 where t: "register_if_missing F a (token s) = Inr t1" "internal_deposit F a n t1 = Inr t2"
    "s' = nbtc_emit (FtMintEvent a n) (s\<lparr>token := t2\<rparr>)"
    using assms(2) by (auto simp: mint_inner_def with_token_Inr res_Inr)
  have "fair A True (view_of F (token s)) (view_of F t2)"
    using fair_trans register_if_missing_fair[OF assms(1) t(1)] deposit_fair[OF ft_crate_okD(2)[OF assms(1) t(2)]] by blast
  then show ?thesis by (simp add: t(3) nbtc_emit_def same_offices_def)
qed

definition honours :: "'t ft_crate \<Rightarrow> account_id set \<Rightarrow> bool \<Rightarrow> 't nbtc \<Rightarrow> 't nbtc \<Rightarrow> bool" where
  "honours F A minting s s' \<longleftrightarrow>
     fair A minting (view_of F (token s)) (view_of F (token s')) \<and> same_offices s s'"

lemma honours_trans: "honours F A minting s1 s2 \<Longrightarrow> honours F A minting s2 s3 \<Longrightarrow> honours F A minting s1 s3"
  unfolding honours_def by (meson fair_trans same_offices_trans)

lemma honours_refl: "honours F A minting s s"
  by (simp add: honours_def fair_refl same_offices_def)

lemma honours_token: "fair A minting (view_of F (token s)) (view_of F t) \<Longrightarrow> honours F A minting s (s\<lparr>token := t\<rparr>)"
  by (simp add: honours_def same_offices_def)

lemma honours_emit [simp]: "honours F A minting s (nbtc_emit ev s') = honours F A minting s s'"
  by (simp add: honours_def nbtc_emit_def same_offices_def)

lemma mint_inner_honours: "ft_crate_ok F \<Longrightarrow> mint_inner F a n s = Inr s' \<Longrightarrow> honours F A True s s'"
  using mint_inner_fair unfolding honours_def by blast

lemma nbtc_mint_honours:
  assumes "ft_crate_ok F" "nbtc_mint F e a n pf r rf pas s = Inr s'"
  shows "predecessor e = bridge_id s \<and> honours F A True s s'"
proof -
  obtain s1 s2 s3 where 1: "bridge_id s = predecessor e" "mint_inner F a n s = Inr s1"
    "(if pf > 0 then mint_inner F (bridge_id s1) pf s1 else Inr s1) = Inr s2"
    "(if rf > 0 then mint_inner F r rf s2 else Inr s2) = Inr s3"
    "s' = (case pas of Some as \<Rightarrow> nbtc_emit (CallHandlePostActions a as) s3 | None \<Rightarrow> s3)"
    using assms(2) by (auto simp: nbtc_mint_def assert_bridge_def res_Inr)
  note m = mint_inner_honours[OF assms(1), where A = A]
  have "honours F A True s s1" by (rule m[OF 1(2)])
  moreover have "honours F A True s1 s2" using 1(3) m by (auto simp: honours_refl split: if_splits)
  moreover have "honours F A True s2 s3" using 1(4) m by (auto simp: honours_refl split: if_splits)
  ultimately have "honours F A True s s3" using honours_trans by blast
  then show ?thesis using 1(1,5) by (simp split: option.split)
qed

lemma nbtc_burn_honours:
  assumes "ft_crate_ok F" "nbtc_burn F e a n r rf s = Inr s'" "bridge_id s \<in> A"
  shows "predecessor e = bridge_id s \<and> honours F A minting s s'"
proof -
  obtain s1 s2 where 0: "bridge_id s = predecessor e" "with_token (internal_withdraw F (bridge_id s) n) s = Inr s1"
    "(if rf > 0 then with_token (\<lambda>t. bindR (register_if_missing F r t) (internal_transfer F (bridge_id s1) r rf None)) s1
      else Inr s1) = Inr s2" "s' = nbtc_emit (FtBurnEvent a n) s2"
    using assms(2) unfolding nbtc_burn_def assert_bridge_def require_Inr bindR_Inr by auto
  obtain t1 where t1: "internal_withdraw F (bridge_id s) n (token s) = Inr t1" "s1 = s\<lparr>token := t1\<rparr>"
    using 0(2) by (auto simp: with_token_Inr)
  have "fair A minting (view_of F (token s)) (view_of F t1)"
    by (rule withdraw_fair[OF ft_crate_okD(3)[OF assms(1) t1(1)] assms(3)])
  then have "honours F A minting s s1" unfolding t1(2) by (rule honours_token)
  moreover have "honours F A minting s1 s2"
  proof (cases "rf > 0")
    case True
    then obtain t t2 where t: "register_if_missing F r t1 = Inr t" "internal_transfer F (bridge_id s) r rf None t = Inr t2"
      "s2 = s1\<lparr>token := t2\<rparr>"
      using 0(3) t1(2) by (auto simp: with_token_Inr bindR_Inr)
    have "fair A minting (view_of F t1) (view_of F t2)"
      using register_if_missing_fair[OF assms(1) t(1)] transfer_fair[OF ft_crate_okD(4)[OF assms(1) t(2)] assms(3)]
      by (rule fair_trans)
    then show ?thesis using honours_token[of A minting F s1 t2] t(3) t1(2) by simp
  qed (use 0(3) in \<open>simp add: honours_refl\<close>)
  ultimately show ?thesis using 0(1,4) honours_trans by fastforce
qed

lemma ft_transfer_honours:
  "ft_crate_ok F \<Longrightarrow> nbtc_ft_transfer F e b n memo s = Inr s' \<Longrightarrow> predecessor e \<in> A \<Longrightarrow> honours F A minting s s'"
  by (auto simp: nbtc_ft_transfer_def Let_def with_token_Inr intro!: honours_token transfer_fair dest!: ft_crate_okD(5))

lemma ft_transfer_call_honours:
  "ft_crate_ok F \<Longrightarrow> nbtc_ft_transfer_call F e b n memo msg s = Inr s' \<Longrightarrow> predecessor e \<in> A \<Longrightarrow> honours F A minting s s'"
  by (auto simp: nbtc_ft_transfer_call_def with_token_Inr res_Inr intro!: honours_token transfer_fair dest!: ft_crate_okD(6))

lemma safe_mint_honours:
  assumes "ft_crate_ok F" "safe_mint F e a n msg s = Inr (v, s')" "predecessor e \<in> A"
  shows "predecessor e = bridge_id s \<and> honours F A True s s'"
proof -
  obtain t where 1: "bridge_id s = predecessor e" "internal_deposit F (bridge_id s) n (token s) = Inr t"
    "s' = s\<lparr>token := t\<rparr> \<or> (\<exists>m. nbtc_ft_transfer_call F e a n None m (s\<lparr>token := t\<rparr>) = Inr s') \<or>
      nbtc_ft_transfer F e a n None (s\<lparr>token := t\<rparr>) = Inr s'"
    using assms(2)
    by (auto simp: safe_mint_def assert_bridge_def with_token_Inr res_Inr split: option.splits if_splits) blast
  have "honours F A True s (s\<lparr>token := t\<rparr>)" by (intro honours_token deposit_fair[OF ft_crate_okD(2)[OF assms(1) 1(2)]])
  moreover have "honours F A True (s\<lparr>token := t\<rparr>) s'"
    using 1(3) ft_transfer_honours[OF assms(1) _ assms(3)] ft_transfer_call_honours[OF assms(1) _ assms(3)] honours_refl
    by metis
  ultimately show ?thesis using 1(1) honours_trans by metis
qed

lemma resolve_honours:
  "ft_crate_ok F \<Longrightarrow> nbtc_ft_resolve_transfer F e a b n s = Inr (v, s') \<Longrightarrow>
   predecessor e = current_account e \<and> honours F UNIV minting s s'"
  by (auto simp: nbtc_ft_resolve_transfer_def res_Inr intro!: honours_token dest!: ft_crate_okD(7) resolve_fair)

lemma handle_post_actions_honours:
  "handle_post_actions e a pas s = Inr s' \<Longrightarrow> honours F A minting s s'"
proof -
  have "honours F A minting s0 (fold (\<lambda>p. nbtc_emit (f p)) pas s0)" for f s0
  proof (induction pas arbitrary: s0)
    case (Cons p pas)
    have h: "honours F A minting s0 (nbtc_emit (f p) s0)" by (simp add: honours_refl)
    show ?case using honours_trans[OF h Cons.IH] by simp
  qed (simp add: honours_refl)
  then show "handle_post_actions e a pas s = Inr s' \<Longrightarrow> honours F A minting s s'"
    by (auto simp: handle_post_actions_def res_Inr)
qed

lemma handle_post_action_honours:
  "ft_crate_ok F \<Longrightarrow> handle_post_action F e a b n memo msg s = Inr s' \<Longrightarrow>
   predecessor e = current_account e \<and> honours F UNIV minting s s'"
  by (auto simp: handle_post_action_def with_token_Inr res_Inr intro!: honours_token transfer_fair dest!: ft_crate_okD(4))

lemma storage_honours:
  assumes "ft_crate_ok F"
  shows "storage_deposit F e acc r s = Inr (v, s') \<Longrightarrow> honours F A minting s s'"
    "storage_withdraw F e m s = Inr (v, s') \<Longrightarrow> honours F A minting s s'"
    "storage_unregister F e f s = Inr (c, s') \<Longrightarrow> predecessor e \<in> A \<Longrightarrow> honours F A minting s s'"
proof -
  show "storage_deposit F e acc r s = Inr (v, s') \<Longrightarrow> honours F A minting s s'"
    using ft_crate_okD(8)[OF assms] same_fair register_fair
    by (fastforce simp: storage_deposit_def with_token_value_Inr intro!: honours_token)
  show "storage_withdraw F e m s = Inr (v, s') \<Longrightarrow> honours F A minting s s'"
    using ft_crate_okD(9)[OF assms] same_fair
    by (fastforce simp: storage_withdraw_def with_token_value_Inr intro!: honours_token)
  show "storage_unregister F e f s = Inr (c, s') \<Longrightarrow> predecessor e \<in> A \<Longrightarrow> honours F A minting s s'"
    using ft_crate_okD(10)[OF assms] unregister_fair
    by (fastforce simp: storage_unregister_def with_token_value_Inr res_Inr intro!: honours_token)
qed

lemma drop_value_Inr: "drop_value r = Inr s \<longleftrightarrow> (\<exists>v. r = Inr (v, s))"
  by (auto simp: drop_value_def res_Inr)

definition may_lower :: "nbtc_ctx \<Rightarrow> account_id set" where
  "may_lower e = (if predecessor e = current_account e then UNIV else {predecessor e})"

lemma caller_may_lower: "predecessor e \<in> may_lower e"
  by (simp add: may_lower_def)

lemma private_may_lower: "predecessor e = current_account e \<Longrightarrow> may_lower e = UNIV"
  by (simp add: may_lower_def)

lemma fair_weaken: "fair A False l l' \<Longrightarrow> fair A minting l l'"
  by (simp add: fair_def)

definition office_ok :: "nbtc_ctx \<Rightarrow> 't nbtc \<Rightarrow> 't nbtc \<Rightarrow> bool" where
  "office_ok e s s' \<longleftrightarrow> bridge_id s' = bridge_id s \<and> (predecessor e = controller s \<or> same_offices s s')"

lemma honours_same: "honours F A minting s s' \<Longrightarrow> office_ok e s s'"
  by (simp add: honours_def office_ok_def same_offices_def)

lemma honours_weaken: "honours F A False s s' \<Longrightarrow> honours F A minting s s'"
  using fair_weaken by (auto simp: honours_def)

text \<open>A method of the token moves the ledger within the caller's rights; an administrative one leaves
  it alone.\<close>

lemma run_nbtc_cases:
  assumes F: "ft_crate_ok F" and r: "run_nbtc F e m s = Inr s'"
  shows "honours F (may_lower e) (predecessor e = bridge_id s) s s' \<or> (token s' = token s \<and> office_ok e s s')"
    (is "?h \<or> ?o")
proof (cases m)
  case N_mint
  then have ?h using r nbtc_mint_honours[OF F] by fastforce
  then show ?thesis ..
next
  case (N_burn a n r1 rf)
  then have b: "nbtc_burn F e a n r1 rf s = Inr s'" using r by simp
  then have "predecessor e = bridge_id s" by (auto simp: nbtc_burn_def assert_bridge_def res_Inr)
  then have ?h using nbtc_burn_honours[OF F b] caller_may_lower[of e] by simp
  then show ?thesis ..
next
  case N_safe_mint
  then have ?h using r safe_mint_honours[OF F _ caller_may_lower[of e]] by (fastforce simp: drop_value_Inr)
  then show ?thesis ..
next
  case N_ft_transfer
  then have ?h using r ft_transfer_honours[OF F _ caller_may_lower[of e]] by simp
  then show ?thesis ..
next
  case N_ft_transfer_call
  then have ?h using r ft_transfer_call_honours[OF F _ caller_may_lower[of e]] by simp
  then show ?thesis ..
next
  case N_ft_resolve_transfer
  then have ?h using r resolve_honours[OF F] by (fastforce simp: drop_value_Inr private_may_lower)
  then show ?thesis ..
next
  case N_handle_post_actions
  then have ?h using r handle_post_actions_honours by simp
  then show ?thesis ..
next
  case N_handle_post_action
  then have ?h using r handle_post_action_honours[OF F] by (fastforce simp: private_may_lower)
  then show ?thesis ..
next
  case N_storage_deposit
  then have ?h using r storage_honours(1)[OF F] by (auto simp: drop_value_Inr)
  then show ?thesis ..
next
  case N_storage_withdraw
  then have ?h using r storage_honours(2)[OF F] by (auto simp: drop_value_Inr)
  then show ?thesis ..
next
  case N_storage_unregister
  then have ?h using r storage_honours(3)[OF F _ caller_may_lower[of e]] by (auto simp: drop_value_Inr)
  then show ?thesis ..
qed (use r in \<open>auto simp: set_controller_def set_metadata_def set_withdraw_relayer_address_def nbtc_one_yocto_def
    assert_controller_def res_Inr Let_def office_ok_def\<close>)

lemma run_nbtc_fair:
  assumes "ft_crate_ok F" "run_nbtc F e m s = Inr s'"
  shows "fair (may_lower e) (predecessor e = bridge_id s) (view_of F (token s)) (view_of F (token s'))"
    "office_ok e s s'"
  using run_nbtc_cases[OF assms] honours_same[of F _ _ s s' e] by (auto simp: honours_def fair_refl)

section \<open>Supply and authority\<close>

lemma nbtc_step_conserved:
  assumes "ft_crate_ok F" "nbtc_step F s s'" "conserved (view_of F (token s))"
  shows "conserved (view_of F (token s'))"
proof -
  obtain e m where r: "run_nbtc F e m (s\<lparr>nbtc_effects := []\<rparr>) = Inr s'" using assms(2) by (auto elim: nbtc_step.cases)
  have "moves (view_of F (token s)) (view_of F (token s'))"
    using run_nbtc_fair(1)[OF assms(1) r] by (simp add: fair_def)
  then show ?thesis using moves_conserved assms(3) by blast
qed

lemma nbtc_start_conserved:
  assumes "ft_crate_ok F" "nbtc_start F s" shows "conserved (view_of F (token s))"
proof -
  obtain b t where t: "internal_register_account F b (ft_empty F) = Inr t" "token s = t"
    using assms(2) by (auto simp: nbtc_start_def nbtc_new_def with_token_Inr)
  have "moves (view_of F (ft_empty F)) (view_of F t)"
    using register_fair[OF ft_crate_okD(1)[OF assms(1) t(1)]] by (simp add: fair_def)
  moreover have "conserved (view_of F (ft_empty F))"
    using ft_empty_ledger[OF assms(1)] by (simp add: conserved_def view_of_def held_sum_def)
  ultimately show ?thesis using moves_conserved t(2) by blast
qed

interpretation nbtc_inv: system_invariant "nbtc_start F" "nbtc_step F"
    "\<lambda>s. ft_crate_ok F \<longrightarrow> conserved (view_of F (token s))" for F
  by unfold_locales (auto intro: nbtc_start_conserved nbtc_step_conserved)

text \<open>When the library keeps its documented contract, the nBTC supply is always what its holders have.  In every state the token contract can reach,
  by any sequence of calls of any accounts, finitely many accounts are open, the supply is the sum of
  their balances, and it fits 128 bits.\<close>

theorem nbtc_supply_is_sum:
  assumes "ft_crate_ok F" "nbtc_reachable F s"
  shows "finite (dom (ft_accounts F (token s))) \<and>
    ft_total_supply F s = (\<Sum>a\<in>dom (ft_accounts F (token s)). ft_balance_of F s a) \<and>
    ft_total_supply F s \<le> U128_MAX"
proof -
  have c: "conserved (view_of F (token s))"
    using assms nbtc_inv.inv_reachable unfolding nbtc_reachable_def by blast
  have "(\<Sum>a\<in>dom (ft_accounts F (token s)). ft_balance_of F s a) = held_sum (ft_accounts F (token s))"
    unfolding held_sum_def by (rule sum.cong) (auto simp: ft_balance_of_def)
  with c show ?thesis by (simp add: conserved_def view_of_def ft_total_supply_def)
qed

lemma mint_inner_exact:
  assumes "ft_crate_ok F" "mint_inner F a n s = Inr s'"
  shows "ft_total_supply F s' = ft_total_supply F s + n \<and> bridge_id s' = bridge_id s \<and>
    (\<forall>b. ft_balance_of F s' b = ft_balance_of F s b + (if b = a then n else 0)) \<and>
    nbtc_effects s' = nbtc_effects s @ [FtMintEvent a n]"
proof -
  obtain t1 t2 where t: "register_if_missing F a (token s) = Inr t1" "internal_deposit F a n t1 = Inr t2"
    "s' = nbtc_emit (FtMintEvent a n) (s\<lparr>token := t2\<rparr>)"
    using assms(2) by (auto simp: mint_inner_def with_token_Inr res_Inr)
  have reg: "ft_supply F t1 = ft_supply F (token s) \<and> (ft_accounts F t1 = ft_accounts F (token s) \<or>
      ft_accounts F (token s) a = None \<and> ft_accounts F t1 = (ft_accounts F (token s))(a \<mapsto> 0))"
    using t(1) ft_crate_okD(1)[OF assms(1), of a "token s" t1]
    by (auto simp: register_if_missing_def register_spec_def split: if_splits)
  obtain x where "ft_accounts F t1 a = Some x" "ft_accounts F t2 = (ft_accounts F t1)(a \<mapsto> x + n)"
    "ft_supply F t2 = ft_supply F t1 + n"
    using ft_crate_okD(2)[OF assms(1) t(2)] by (auto simp: deposit_spec_def)
  with reg show ?thesis by (auto simp: t(3) nbtc_emit_def ft_total_supply_def ft_balance_of_def)
qed

text \<open>C18: a mint credits exactly whom and what it names.  It is accepted from the bridge only; it raises the
  balance of the account by the minted amount, that of the bridge by the protocol fee and that of the
  relayer by the relayer's fee (added up where these coincide), no other balance changes, and the
  supply grows by the three amounts together; the events and the call that handles the post actions
  follow in this order, without an event for a fee of zero.\<close>

theorem mint_credits_exactly:
  assumes F: "ft_crate_ok F" and r: "nbtc_mint F e a n pf rel rf pas s = Inr s'"
  shows "predecessor e = bridge_id s \<and> ft_total_supply F s' = ft_total_supply F s + n + pf + rf \<and>
    (\<forall>b. ft_balance_of F s' b = ft_balance_of F s b + (if b = a then n else 0) +
       (if b = bridge_id s then pf else 0) + (if b = rel then rf else 0)) \<and>
    nbtc_effects s' = nbtc_effects s @ [FtMintEvent a n] @
       (if pf > 0 then [FtMintEvent (bridge_id s) pf] else []) @ (if rf > 0 then [FtMintEvent rel rf] else []) @
       (case pas of Some as \<Rightarrow> [CallHandlePostActions a as] | None \<Rightarrow> [])"
proof -
  obtain s1 s2 s3 where 1: "predecessor e = bridge_id s" "mint_inner F a n s = Inr s1"
    "(if pf > 0 then mint_inner F (bridge_id s1) pf s1 else Inr s1) = Inr s2"
    "(if rf > 0 then mint_inner F rel rf s2 else Inr s2) = Inr s3"
    "s' = (case pas of Some as \<Rightarrow> nbtc_emit (CallHandlePostActions a as) s3 | None \<Rightarrow> s3)"
    using r by (auto simp: nbtc_mint_def assert_bridge_def res_Inr)
  note m1 = mint_inner_exact[OF F 1(2)]
  have m2: "ft_total_supply F s2 = ft_total_supply F s1 + pf \<and> bridge_id s2 = bridge_id s \<and>
    (\<forall>b. ft_balance_of F s2 b = ft_balance_of F s1 b + (if b = bridge_id s then pf else 0)) \<and>
    nbtc_effects s2 = nbtc_effects s1 @ (if pf > 0 then [FtMintEvent (bridge_id s) pf] else [])"
    using 1(3) m1 mint_inner_exact[OF F, of "bridge_id s1" pf s1 s2] by (auto split: if_splits)
  have m3: "ft_total_supply F s3 = ft_total_supply F s2 + rf \<and>
    (\<forall>b. ft_balance_of F s3 b = ft_balance_of F s2 b + (if b = rel then rf else 0)) \<and>
    nbtc_effects s3 = nbtc_effects s2 @ (if rf > 0 then [FtMintEvent rel rf] else [])"
    using 1(4) mint_inner_exact[OF F, of rel rf s2 s3] by (auto split: if_splits)
  have "ft_total_supply F s' = ft_total_supply F s3 \<and> (\<forall>b. ft_balance_of F s' b = ft_balance_of F s3 b) \<and>
    nbtc_effects s' = nbtc_effects s3 @ (case pas of Some as \<Rightarrow> [CallHandlePostActions a as] | None \<Rightarrow> [])"
    by (simp add: 1(5) nbtc_emit_def ft_total_supply_def ft_balance_of_def split: option.split)
  then show ?thesis using 1(1) m1 m2 m3 by simp
qed

text \<open>C19: who may do what to nBTC.  A call raises the supply only when the bridge makes it; it lowers a
  balance only of its caller, unless it is one of the contract's private callbacks; no call replaces
  the bridge, and only the controller changes the controller, the metadata or the relayer address.\<close>

theorem only_bridge_mints:
  assumes "ft_crate_ok F" "run_nbtc F e m s = Inr s'"
  shows "(ft_total_supply F s < ft_total_supply F s' \<longrightarrow> predecessor e = bridge_id s) \<and>
    (\<forall>a. ft_balance_of F s' a < ft_balance_of F s a \<longrightarrow> a = predecessor e \<or> predecessor e = current_account e) \<and>
    bridge_id s' = bridge_id s \<and>
    (controller s' \<noteq> controller s \<or> metadata s' \<noteq> metadata s \<or>
       withdraw_relayer_address s' \<noteq> withdraw_relayer_address s \<longrightarrow> predecessor e = controller s)"
proof -
  have f: "fair (may_lower e) (predecessor e = bridge_id s) (view_of F (token s)) (view_of F (token s'))"
    and o: "office_ok e s s'" using run_nbtc_fair[OF assms] by blast+
  have b: "bal (ft_accounts F (token s1)) a = ft_balance_of F s1 a" for s1 a
    by (simp add: bal_def ft_balance_of_def)
  have "ft_balance_of F s a \<le> ft_balance_of F s' a" if "a \<noteq> predecessor e" "predecessor e \<noteq> current_account e" for a
    using f that by (simp add: fair_def view_of_def may_lower_def b)
  then show ?thesis
    using f o by (auto simp: fair_def view_of_def ft_total_supply_def office_ok_def same_offices_def not_less[symmetric])
qed

section \<open>An instance of the library\<close>

text \<open>The fungible token of the standard over a map of balances; \<open>json\<close> reads the amount a receiver
  did not use.\<close>

type_synonym std_token = "holdings \<times> u128"

definition std_register :: "account_id \<Rightarrow> std_token \<Rightarrow> std_token res" where
  "std_register a t = require (fst t a = None) ''The account is already registered'' (Inr ((fst t)(a \<mapsto> 0), snd t))"

definition std_deposit :: "account_id \<Rightarrow> u128 \<Rightarrow> std_token \<Rightarrow> std_token res" where
  "std_deposit a n t =
     expect (fst t a) ''The account is not registered'' (\<lambda>x.
     chk_add U128_MAX x n (\<lambda>y. chk_add U128_MAX (snd t) n (\<lambda>z. Inr ((fst t)(a \<mapsto> y), z))))"

definition std_withdraw :: "account_id \<Rightarrow> u128 \<Rightarrow> std_token \<Rightarrow> std_token res" where
  "std_withdraw a n t =
     expect (fst t a) ''The account is not registered'' (\<lambda>x.
     chk_sub x n (\<lambda>y. chk_sub (snd t) n (\<lambda>z. Inr ((fst t)(a \<mapsto> y), z))))"

definition std_transfer :: "account_id \<Rightarrow> account_id \<Rightarrow> u128 \<Rightarrow> std_token \<Rightarrow> std_token res" where
  "std_transfer a b n t =
     require (a \<noteq> b) ''Sender and receiver should be different'' (
     require (n > 0) ''The amount should be a positive number'' (
     bindR (std_withdraw a n t) (std_deposit b n)))"

definition std_resolve ::
    "(string \<Rightarrow> u128 option) \<Rightarrow> nbtc_ctx \<Rightarrow> account_id \<Rightarrow> account_id \<Rightarrow> u128 \<Rightarrow> std_token \<Rightarrow> (u128 \<times> u128 \<times> std_token) res" where
  "std_resolve json e a b n t =
     (let unused = (case promise_result e of
            Some str \<Rightarrow> (case json str of Some v \<Rightarrow> min n v | None \<Rightarrow> n) | None \<Rightarrow> n);
          x = min unused (bal (fst t) b) in
      if x = 0 then Inr (n, 0, t)
      else (case taken_back (fst t) (snd t) a b x of (ret, burned, t') \<Rightarrow> Inr (n - ret, burned, t')))"

definition std_storage_deposit ::
    "nbtc_ctx \<Rightarrow> account_id option \<Rightarrow> bool option \<Rightarrow> std_token \<Rightarrow> (storage_balance \<times> std_token) res" where
  "std_storage_deposit e acc reg t =
     (let a = (case acc of Some b \<Rightarrow> b | None \<Rightarrow> predecessor e); sb = \<lparr>sb_total = 1250, sb_available = 0\<rparr> in
      if fst t a \<noteq> None then Inr (sb, t)
      else require (attached_deposit e \<ge> 1250) ''The attached deposit is less than the minimum storage balance''
        (bindR (std_register a t) (\<lambda>t. Inr (sb, t))))"

definition std_unregister :: "nbtc_ctx \<Rightarrow> bool option \<Rightarrow> std_token \<Rightarrow> ((account_id \<times> u128) option \<times> std_token) res" where
  "std_unregister e force t =
     nbtc_one_yocto e (case fst t (predecessor e) of
       None \<Rightarrow> Inr (None, t)
     | Some v \<Rightarrow> require (v = 0 \<or> force = Some True) ''Can't unregister the account with the positive balance without force''
         (Inr (Some (predecessor e, v), ((fst t)(predecessor e := None), snd t - v))))"

definition std_ft :: "(string \<Rightarrow> u128 option) \<Rightarrow> std_token ft_crate" where
  "std_ft json = \<lparr>ft_empty = (Map.empty, 0), ft_accounts = fst, ft_supply = snd,
     internal_register_account = std_register, internal_deposit = std_deposit, internal_withdraw = std_withdraw,
     internal_transfer = (\<lambda>a b n memo. std_transfer a b n),
     token_ft_transfer = (\<lambda>e b n memo t. nbtc_one_yocto e (std_transfer (predecessor e) b n t)),
     token_ft_transfer_call = (\<lambda>e b n memo msg t. nbtc_one_yocto e (std_transfer (predecessor e) b n t)),
     token_resolve_transfer = std_resolve json, token_storage_deposit = std_storage_deposit,
     token_storage_withdraw = (\<lambda>e n t. nbtc_one_yocto e (require (fst t (predecessor e) \<noteq> None)
       ''The account is not registered'' (Inr (\<lparr>sb_total = 1250, sb_available = 0\<rparr>, t)))),
     internal_storage_unregister = std_unregister,
     token_storage_balance_bounds = (\<lambda>t. \<lparr>bounds_min = 1250, bounds_max = Some 1250\<rparr>),
     token_storage_balance_of = (\<lambda>t a. map_option (\<lambda>_. \<lparr>sb_total = 1250, sb_available = 0\<rparr>) (fst t a))\<rparr>"

lemma std_deposit_Inr:
  "std_deposit a n t = Inr t' \<longleftrightarrow> (\<exists>x. fst t a = Some x \<and> x + n \<le> U128_MAX \<and> snd t + n \<le> U128_MAX \<and>
     t' = ((fst t)(a \<mapsto> x + n), snd t + n))"
  by (auto simp: std_deposit_def res_Inr)

lemma std_withdraw_Inr:
  "std_withdraw a n t = Inr t' \<longleftrightarrow> (\<exists>x. fst t a = Some x \<and> n \<le> x \<and> n \<le> snd t \<and>
     t' = ((fst t)(a \<mapsto> x - n), snd t - n))"
  by (auto simp: std_withdraw_def res_Inr)

lemma std_transfer_spec: "std_transfer a b n t = Inr t' \<Longrightarrow> transfer_spec (std_ft json) a b n t t'"
  by (auto simp: std_transfer_def res_Inr std_withdraw_Inr std_deposit_Inr transfer_spec_def transfer_ok_def moved_def
      std_ft_def fun_eq_iff)

lemma std_resolve_spec:
  assumes "std_resolve json e a b n t = Inr (used, burned, t')"
  shows "resolve_spec (std_ft json) a b n used burned t t'"
proof -
  define unused where "unused = (case promise_result e of
            Some str \<Rightarrow> (case json str of Some v \<Rightarrow> min n v | None \<Rightarrow> n) | None \<Rightarrow> n)"
  have u: "unused \<le> n" by (auto simp: unused_def split: option.split)
  define x where "x = min unused (bal (fst t) b)"
  have r: "(if x = 0 then Inr (n, 0, t)
      else (case taken_back (fst t) (snd t) a b x of (ret, burned, t') \<Rightarrow> Inr (n - ret, burned, t'))) = (Inr (used, burned, t') :: (u128 \<times> u128 \<times> std_token) res)"
    using assms unfolding std_resolve_def Let_def unused_def x_def .
  show ?thesis
  proof (cases "x = 0")
    case True
    with r show ?thesis by (simp add: resolve_spec_def std_ft_def)
  next
    case False
    then obtain v where v: "fst t b = Some v" "x \<le> v" by (auto simp: x_def bal_def split: option.splits)
    have "x \<le> n" using u by (simp add: x_def)
    moreover obtain ret where "taken_back (fst t) (snd t) a b x = (ret, burned, t')" "used = n - ret"
      using r False by (auto split: prod.splits)
    ultimately show ?thesis using v False by (auto simp: resolve_spec_def std_ft_def)
  qed
qed

lemma std_ft_ok: "ft_crate_ok (std_ft json)"
proof -
  let ?F = "std_ft json"
  have f: "ft_accounts ?F = fst" "ft_supply ?F = snd" by (simp_all add: std_ft_def)
  have "std_register a t = Inr t' \<Longrightarrow> register_spec ?F a t t'" for a t t'
    by (auto simp: std_register_def register_spec_def res_Inr f)
  moreover have "std_deposit a n t = Inr t' \<Longrightarrow> deposit_spec ?F a n t t'" for a n t t'
    by (auto simp: std_deposit_Inr deposit_spec_def f)
  moreover have "std_withdraw a n t = Inr t' \<Longrightarrow> withdraw_spec ?F a n t t'" for a n t t'
    by (auto simp: std_withdraw_Inr withdraw_spec_def f)
  moreover have "std_storage_deposit e a r t = Inr (sb, t') \<Longrightarrow>
      same_ledger ?F t t' \<or> register_spec ?F (case a of Some b \<Rightarrow> b | None \<Rightarrow> predecessor e) t t'" for e a r t sb t'
    by (auto simp: std_storage_deposit_def std_register_def same_ledger_def register_spec_def res_Inr f Let_def split: if_splits)
  moreover have "std_unregister e fo t = Inr (c, t') \<Longrightarrow> unregister_spec ?F e fo c t t'" for e fo t c t'
    by (auto simp: std_unregister_def nbtc_one_yocto_def unregister_spec_def res_Inr f split: option.splits)
  ultimately show ?thesis
    using std_transfer_spec[where json = json] std_resolve_spec[where json = json] unfolding ft_crate_ok_def
    by (simp add: std_ft_def nbtc_one_yocto_def res_Inr same_ledger_def)
qed

section \<open>The token on concrete data\<close>

definition bridge_call :: nbtc_ctx where
  "bridge_call = ctx.extend (sample_ctx\<lparr>predecessor := ''bridge.near'', current_account := ''nbtc.near'',
     attached_deposit := 1\<rparr>) (nbtc_ctx.fields (10 ^ 14))"

definition new_nbtc :: "std_token nbtc" where
  "new_nbtc = \<lparr>controller = ''dao.near'', bridge_id = ''bridge.near'', token = ([''bridge.near'' \<mapsto> 0], 0),
     metadata = \<lparr>md_name = ''nBTC'', md_symbol = ''NBTC'', md_icon = None, md_reference = None,
       md_reference_hash = None, md_decimals = 8\<rparr>, withdraw_relayer_address = None, nbtc_effects = []\<rparr>"

definition minted_nbtc :: "std_token nbtc" where
  "minted_nbtc = new_nbtc\<lparr>token := ([''bridge.near'' \<mapsto> 90, ''alice.near'' \<mapsto> 900, ''relayer.near'' \<mapsto> 10], 1000),
     nbtc_effects := [FtMintEvent ''alice.near'' 900, FtMintEvent ''bridge.near'' 90, FtMintEvent ''relayer.near'' 10]\<rparr>"

lemma new_nbtc_starts: "nbtc_start (std_ft json) new_nbtc"
  unfolding nbtc_start_def
  by (rule exI[of _ "''dao.near''"], rule exI[of _ "''bridge.near''"], rule exI[of _ "''nBTC''"],
      rule exI[of _ "''NBTC''"], rule exI[of _ None], rule exI[of _ 8])
    (simp add: nbtc_new_def with_token_def std_ft_def std_register_def new_nbtc_def)

lemma sample_mint_runs:
  "run_nbtc (std_ft json) bridge_call (N_mint ''alice.near'' 900 90 ''relayer.near'' 10 None) (new_nbtc\<lparr>nbtc_effects := []\<rparr>)
     = Inr minted_nbtc"
  by (simp add: nbtc_mint_def assert_bridge_def bridge_call_def nbtc_ctx.defs ctx.defs new_nbtc_def mint_inner_def with_token_def
      register_if_missing_def std_ft_def std_register_def std_deposit_def chk_add_def U128_MAX_def nbtc_emit_def minted_nbtc_def
      fun_upd_twist)

lemma nbtc_supply_is_sum_witness:
  "nbtc_reachable (std_ft (\<lambda>_. None)) minted_nbtc \<and>
   (\<Sum>a\<in>dom (ft_accounts (std_ft (\<lambda>_. None)) (token minted_nbtc)). ft_balance_of (std_ft (\<lambda>_. None)) minted_nbtc a) = 1000"
proof -
  have "nbtc_step (std_ft (\<lambda>_. None)) new_nbtc minted_nbtc"
    using nbtc_step.intros[OF sample_mint_runs] .
  then have r: "nbtc_reachable (std_ft (\<lambda>_. None)) minted_nbtc"
    using new_nbtc_starts unfolding nbtc_reachable_def by blast
  have "ft_total_supply (std_ft (\<lambda>_. None)) minted_nbtc = 1000"
    by (simp add: ft_total_supply_def std_ft_def minted_nbtc_def)
  with nbtc_supply_is_sum[OF std_ft_ok r] r show ?thesis by simp
qed

lemma only_bridge_mints_witness:
  "predecessor bridge_call = bridge_id new_nbtc \<and> bridge_id minted_nbtc = bridge_id new_nbtc"
proof -
  have "ft_total_supply (std_ft (\<lambda>_. None)) (new_nbtc\<lparr>nbtc_effects := []\<rparr>) < ft_total_supply (std_ft (\<lambda>_. None)) minted_nbtc"
    by (simp add: ft_total_supply_def std_ft_def minted_nbtc_def new_nbtc_def)
  with only_bridge_mints[OF std_ft_ok sample_mint_runs, where json1 = "\<lambda>_. None"] show ?thesis by simp
qed

lemma mint_credits_exactly_witness:
  "ft_balance_of (std_ft (\<lambda>_. None)) minted_nbtc ''alice.near'' = 900 \<and>
   ft_balance_of (std_ft (\<lambda>_. None)) minted_nbtc ''bridge.near'' = 90 \<and>
   ft_total_supply (std_ft (\<lambda>_. None)) minted_nbtc = 1000"
proof -
  have e: "new_nbtc\<lparr>nbtc_effects := []\<rparr> = new_nbtc" by (simp add: new_nbtc_def)
  have run: "nbtc_mint (std_ft (\<lambda>_. None)) bridge_call ''alice.near'' 900 90 ''relayer.near'' 10 None new_nbtc = Inr minted_nbtc"
    using sample_mint_runs[of "\<lambda>_. None"] by (simp add: e)
  have z: "ft_balance_of (std_ft (\<lambda>_. None)) new_nbtc b = 0" "ft_total_supply (std_ft (\<lambda>_. None)) new_nbtc = 0"
    "bridge_id new_nbtc = ''bridge.near''" for b
    by (simp_all add: ft_balance_of_def ft_total_supply_def std_ft_def new_nbtc_def)
  from mint_credits_exactly[OF std_ft_ok run] z show ?thesis by simp
qed

end
