(* ===== verification/Nbtc_Migrate.thy ===== *)
theory Nbtc_Migrate
  imports Nbtc
begin

text \<open>
  Deployment of the nBTC contract (\<open>contracts/nbtc/src/migrate.rs\<close>): taking over the raw storage of the
  earlier token contract, reading the own state after a redeployment, and the controller's two calls.
  The storage is a map from key bytes to value bytes; the Borsh codecs are parameters, and what is
  relied on is that the values written here are read back.
\<close>

section \<open>Raw storage\<close>

type_synonym raw_storage = "bytes \<rightharpoonup> bytes"

record 't borsh =
  poa_decode :: "bytes \<Rightarrow> ('t \<times> bytes) option"   \<comment> \<open>the token and the key of the lazy metadata\<close>
  metadata_decode :: "bytes \<Rightarrow> metadata option"
  metadata_encode :: "metadata \<Rightarrow> bytes"
  contract_decode :: "bytes \<Rightarrow> (account_id \<times> account_id \<times> 't) option"
  contract_encode :: "account_id \<times> account_id \<times> 't \<Rightarrow> bytes"
  account_decode :: "bytes \<Rightarrow> account_id option"
  account_encode :: "account_id \<Rightarrow> bytes"

definition ascii_key :: "string \<Rightarrow> bytes" where
  "ascii_key str = map (\<lambda>c. word_of_nat (of_char c)) str"

definition STATE_KEY :: bytes where "STATE_KEY = ascii_key ''STATE''"
definition OWNABLE_KEY :: bytes where "OWNABLE_KEY = ascii_key ''__OWNER__''"
definition WITHDRAW_RELAYER_ADDRESS :: bytes where
  "WITHDRAW_RELAYER_ADDRESS = ascii_key ''WITHDRAW_RELAYER_ADDRESS''"

text \<open>\<open>StorageKey::Metadata\<close> in Borsh: the index of the variant.\<close>

definition METADATA_KEY :: bytes where "METADATA_KEY = [1]"

definition OUTER_UPGRADE_GAS :: u64 where "OUTER_UPGRADE_GAS = 15 * 10 ^ 12"

section \<open>Migration\<close>

definition nbtc_migrate :: "'t borsh \<Rightarrow> nbtc_ctx \<Rightarrow> raw_storage \<Rightarrow> raw_storage res" where
  "nbtc_migrate B e st =
     require (predecessor e = current_account e) ''Method migrate is private'' (
     expect (st STATE_KEY) ''ERR_FAILED_TO_READ_STATE'' (\<lambda>bs.
     expect (contract_decode B bs) ''Cannot deserialize the contract state.'' (\<lambda>c.
     Inr (st(STATE_KEY \<mapsto> contract_encode B c)))))"

definition migrate_from_poa ::
    "'t borsh \<Rightarrow> nbtc_ctx \<Rightarrow> account_id \<Rightarrow> account_id \<Rightarrow> account_id \<Rightarrow> raw_storage \<Rightarrow> raw_storage res" where
  "migrate_from_poa B e ctrl bridge withdraw_relayer st =
     require (predecessor e = current_account e) ''Method migrate_from_poa is private'' (
     require (st STATE_KEY \<noteq> None) ''Old state not found. Migration is not needed.'' (
     expect (st STATE_KEY) ''Failed to read state key.'' (\<lambda>bs.
     expect (poa_decode B bs) ''Old state not found. Migration is not needed.'' (\<lambda>(t, metadata_key).
     require (st OWNABLE_KEY \<noteq> None) ''Wrong token version for migration: __OWNER__ key not found'' (
     let st = st(OWNABLE_KEY := None);
         st = st(WITHDRAW_RELAYER_ADDRESS \<mapsto> account_encode B withdraw_relayer) in
     expect (st metadata_key) ''No value found for the given key'' (\<lambda>mbs.
     expect (metadata_decode B mbs) ''Cannot deserialize value with Borsh'' (\<lambda>m.
     Inr (st(METADATA_KEY \<mapsto> metadata_encode B m, STATE_KEY \<mapsto> contract_encode B (ctrl, bridge, t))))))))))"

section \<open>Calls of the controller\<close>

datatype upgrade_promise =
    AddFullAccessKey string
  | DeployThenMigrate bytes u64   \<comment> \<open>the code, and the gas of the chained call to \<open>migrate\<close>\<close>

definition attach_full_access_key :: "nbtc_ctx \<Rightarrow> string \<Rightarrow> 't nbtc \<Rightarrow> upgrade_promise res" where
  "attach_full_access_key e public_key s = assert_controller e s (Inr (AddFullAccessKey public_key))"

definition upgrade_and_migrate :: "nbtc_ctx \<Rightarrow> bytes option \<Rightarrow> u64 \<Rightarrow> 't nbtc \<Rightarrow> upgrade_promise res" where
  \<comment> \<open>both subtractions of gas saturate\<close>
  "upgrade_and_migrate e code_input used_gas s =
     assert_controller e s (
     expect code_input ''ERR_NO_INPUT'' (\<lambda>code.
     Inr (DeployThenMigrate code (prepaid_gas e - used_gas - OUTER_UPGRADE_GAS))))"

section \<open>What a migration does\<close>

text \<open>The contract that a storage holds.\<close>

definition load_nbtc :: "'t borsh \<Rightarrow> raw_storage \<Rightarrow> 't nbtc option" where
  "load_nbtc B st =
     (case st STATE_KEY of None \<Rightarrow> None | Some bs \<Rightarrow>
     (case contract_decode B bs of None \<Rightarrow> None | Some (ctrl, bridge, t) \<Rightarrow>
     (case st METADATA_KEY of None \<Rightarrow> None | Some mbs \<Rightarrow>
     (case metadata_decode B mbs of None \<Rightarrow> None | Some m \<Rightarrow>
     Some \<lparr>controller = ctrl, bridge_id = bridge, token = t, metadata = m,
       withdraw_relayer_address = Option.bind (st WITHDRAW_RELAYER_ADDRESS) (account_decode B), nbtc_effects = []\<rparr>))))"

lemma key_bytes [simp]:
  "METADATA_KEY \<noteq> STATE_KEY" "OWNABLE_KEY \<noteq> STATE_KEY" "WITHDRAW_RELAYER_ADDRESS \<noteq> STATE_KEY"
  "METADATA_KEY \<noteq> OWNABLE_KEY" "WITHDRAW_RELAYER_ADDRESS \<noteq> OWNABLE_KEY" "METADATA_KEY \<noteq> WITHDRAW_RELAYER_ADDRESS"
  by (simp_all add: METADATA_KEY_def STATE_KEY_def OWNABLE_KEY_def WITHDRAW_RELAYER_ADDRESS_def ascii_key_def)

text \<open>C31: a migration keeps the token and its metadata, installs the three accounts, touches no other
  entry, and cannot be repeated: the owner entry that identifies the earlier contract is gone.\<close>

theorem migration_from_poa:
  fixes B :: "'t borsh"
  assumes "migrate_from_poa B e ctrl bridge wr st = Inr st'"
    and "\<And>t. contract_decode B (contract_encode B (ctrl, bridge, t)) = Some (ctrl, bridge, t)"
    and "\<forall>mbs m. metadata_decode B mbs = Some m \<longrightarrow> metadata_decode B (metadata_encode B m) = Some m"
    and "account_decode B (account_encode B wr) = Some wr"
  shows "\<exists>bs t key m. st STATE_KEY = Some bs \<and> poa_decode B bs = Some (t, key) \<and>
    (key \<noteq> WITHDRAW_RELAYER_ADDRESS \<longrightarrow> (\<exists>mbs. st key = Some mbs \<and> metadata_decode B mbs = Some m)) \<and>
    load_nbtc B st' = Some \<lparr>controller = ctrl, bridge_id = bridge, token = t, metadata = m,
      withdraw_relayer_address = Some wr, nbtc_effects = []\<rparr> \<and>
    (\<forall>k. k \<notin> {STATE_KEY, OWNABLE_KEY, METADATA_KEY, WITHDRAW_RELAYER_ADDRESS} \<longrightarrow> st' k = st k) \<and>
    (\<forall>(B :: 't borsh) e ctrl bridge wr. \<not> is_ok (migrate_from_poa B e ctrl bridge wr st'))"
proof -
  obtain bs t key mbs m where 1: "st STATE_KEY = Some bs" "poa_decode B bs = Some (t, key)" "metadata_decode B mbs = Some m"
    "(st(OWNABLE_KEY := None, WITHDRAW_RELAYER_ADDRESS \<mapsto> account_encode B wr)) key = Some mbs"
    "st' = st(OWNABLE_KEY := None, WITHDRAW_RELAYER_ADDRESS \<mapsto> account_encode B wr, METADATA_KEY \<mapsto> metadata_encode B m,
       STATE_KEY \<mapsto> contract_encode B (ctrl, bridge, t))"
    using assms(1) unfolding migrate_from_poa_def Let_def by (auto simp: res_Inr simp del: fun_upd_apply)
  have owner: "st' OWNABLE_KEY = None" unfolding 1(5) by (simp add: key_bytes[symmetric])
  then have "\<not> is_ok (migrate_from_poa B e ctrl bridge wr st')" for B :: "'t borsh" and e ctrl bridge wr
    by (auto simp: migrate_from_poa_def res_Inr)
  moreover have "load_nbtc B st' = Some \<lparr>controller = ctrl, bridge_id = bridge, token = t, metadata = m,
      withdraw_relayer_address = Some wr, nbtc_effects = []\<rparr>"
    unfolding 1(5) using assms(2,4) assms(3)[rule_format, OF 1(3)] by (simp add: load_nbtc_def key_bytes[symmetric])
  moreover have "key \<noteq> WITHDRAW_RELAYER_ADDRESS \<Longrightarrow> st key = Some mbs"
    using 1(4) by (auto split: if_splits)
  ultimately show ?thesis using 1
    by (intro exI[of _ bs] exI[of _ t] exI[of _ key] exI[of _ m]) auto
qed

text \<open>Reading the own state after a redeployment changes nothing.\<close>

theorem migrate_reads_back:
  assumes "nbtc_migrate B e st = Inr st'" "\<And>c. contract_decode B (contract_encode B c) = Some c"
  shows "load_nbtc B st' = load_nbtc B st \<and> (\<forall>k. k \<noteq> STATE_KEY \<longrightarrow> st' k = st k)"
  using assms by (auto simp: nbtc_migrate_def res_Inr load_nbtc_def key_bytes[symmetric] split: option.split)

section \<open>On concrete data\<close>

definition poa_meta :: metadata where
  "poa_meta = \<lparr>md_name = ''Bitcoin'', md_symbol = ''BTC'', md_icon = None, md_reference = None,
     md_reference_hash = None, md_decimals = 8\<rparr>"

text \<open>A token is its supply, written in unary; the metadata and the relayer are fixed.\<close>

definition unary_borsh :: "nat borsh" where
  "unary_borsh = \<lparr>poa_decode = (\<lambda>bs. Some (length bs, [9])), metadata_decode = (\<lambda>_. Some poa_meta),
     metadata_encode = (\<lambda>_. [8]), contract_decode = (\<lambda>bs. Some (''dao.near'', ''bridge.near'', length bs)),
     contract_encode = (\<lambda>(_, _, n). replicate n 0), account_decode = (\<lambda>_. Some ''relayer.near''), account_encode = (\<lambda>_. [7])\<rparr>"

definition poa_storage :: raw_storage where
  "poa_storage = [STATE_KEY \<mapsto> [0, 0, 0], OWNABLE_KEY \<mapsto> [1], [9] \<mapsto> [8]]"

definition deploy_call :: nbtc_ctx where
  "deploy_call = \<lparr>predecessor = ''nbtc.near'', signer = ''dao.near'', current_account = ''nbtc.near'', block_timestamp = 0,
     attached_deposit = 0, storage_byte_cost = 0, promise_result = None, is_trusted_relayer = (\<lambda>_. False),
     prepaid_gas = 10 ^ 14\<rparr>"

lemma poa_migrates: "is_ok (migrate_from_poa unary_borsh deploy_call ''dao.near'' ''bridge.near'' ''relayer.near'' poa_storage)"
proof -
  have k: "[9] \<noteq> STATE_KEY" "[9] \<noteq> OWNABLE_KEY" "[9] \<noteq> WITHDRAW_RELAYER_ADDRESS"
    by (simp_all add: STATE_KEY_def OWNABLE_KEY_def WITHDRAW_RELAYER_ADDRESS_def ascii_key_def)
  show ?thesis
    by (simp add: migrate_from_poa_def deploy_call_def poa_storage_def unary_borsh_def
        key_bytes[symmetric] k k[symmetric])
qed

theorem migration_from_poa_witness:
  "\<exists>st'. migrate_from_poa unary_borsh deploy_call ''dao.near'' ''bridge.near'' ''relayer.near'' poa_storage = Inr st' \<and>
    map_option token (load_nbtc unary_borsh st') = Some 3 \<and>
    \<not> is_ok (migrate_from_poa unary_borsh deploy_call ''dao.near'' ''bridge.near'' ''relayer.near'' st')"
proof -
  obtain st' where st': "migrate_from_poa unary_borsh deploy_call ''dao.near'' ''bridge.near'' ''relayer.near'' poa_storage = Inr st'"
    using poa_migrates by blast
  have b: "contract_decode unary_borsh (contract_encode unary_borsh (''dao.near'', ''bridge.near'', t)) =
      Some (''dao.near'', ''bridge.near'', t)" for t
    by (simp add: unary_borsh_def)
  have m: "\<forall>mbs m. metadata_decode unary_borsh mbs = Some m \<longrightarrow>
      metadata_decode unary_borsh (metadata_encode unary_borsh m) = Some m"
    by (simp add: unary_borsh_def)
  have a: "account_decode unary_borsh (account_encode unary_borsh ''relayer.near'') = Some ''relayer.near''"
    by (simp add: unary_borsh_def)
  have t: "poa_storage STATE_KEY = Some [0, 0, 0]" by (simp add: poa_storage_def STATE_KEY_def OWNABLE_KEY_def ascii_key_def)
  from migration_from_poa[OF st' b m a] obtain bs n key md where w: "poa_storage STATE_KEY = Some bs"
    "poa_decode unary_borsh bs = Some (n, key)"
    "load_nbtc unary_borsh st' = Some \<lparr>controller = ''dao.near'', bridge_id = ''bridge.near'', token = n, metadata = md,
      withdraw_relayer_address = Some ''relayer.near'', nbtc_effects = []\<rparr>"
    "\<forall>(B :: nat borsh) e ctrl bridge wr. \<not> is_ok (migrate_from_poa B e ctrl bridge wr st')"
    by (elim exE conjE) (rule that; assumption)
  have "n = 3" using w(1,2) t by (auto simp: unary_borsh_def)
  then show ?thesis using st' w(3,4) by (intro exI[of _ st']) simp
qed

end
