(* ===== verification/Json_Format.thy ===== *)
theory Json_Format
  imports Bridge_Types
begin

text \<open>
  The serde helpers of \<open>utils.rs\<close>: integers that are decimal strings in JSON, and the check of a signed
  message.  A deserialiser that fails is \<open>None\<close>; serde turns it into the error of the whole argument.
\<close>

section \<open>Decimal strings\<close>

definition parse_u64 :: "string \<Rightarrow> u64 option" where
  "parse_u64 str = (case parse_u128 str of None \<Rightarrow> None | Some n \<Rightarrow> if n \<le> U64_MAX then Some n else None)"

definition deserialize_string :: "json \<Rightarrow> string option" where
  "deserialize_string j = (case j of JString str \<Rightarrow> Some str | _ \<Rightarrow> None)"

definition u64_dec_serialize :: "u64 \<Rightarrow> json" where
  "u64_dec_serialize num = JString (show_nat num)"

definition u64_dec_deserialize :: "json \<Rightarrow> u64 option" where
  "u64_dec_deserialize j = Option.bind (deserialize_string j) parse_u64"

definition u128_dec_serialize :: "u128 \<Rightarrow> json" where
  "u128_dec_serialize num = JString (show_nat num)"

definition u128_dec_deserialize :: "json \<Rightarrow> u128 option" where
  "u128_dec_deserialize j = Option.bind (deserialize_string j) parse_u128"

definition u128_dec_option_serialize :: "u128 option \<Rightarrow> json" where
  "u128_dec_option_serialize value = (case value of Some num \<Rightarrow> JString (show_nat num) | None \<Rightarrow> JNull)"

definition u128_dec_option_deserialize :: "json \<Rightarrow> u128 option option" where
  "u128_dec_option_deserialize j =
     (if j = JNull then Some None
      else Option.bind (deserialize_string j) (\<lambda>str. map_option Some (parse_u128 str)))"

lemma parse_u128_bound: "parse_u128 str = Some n \<Longrightarrow> n \<le> U128_MAX"
  by (auto simp: parse_u128_def Let_def split: if_splits option.splits)

text \<open>Every value of the type is read back, and only values of the type are read.\<close>

theorem dec_formats_read_back:
  "n \<le> U64_MAX \<Longrightarrow> u64_dec_deserialize (u64_dec_serialize n) = Some n"
  "a \<le> U128_MAX \<Longrightarrow> u128_dec_deserialize (u128_dec_serialize a) = Some a"
  "\<forall>b\<in>set_option v. b \<le> U128_MAX \<Longrightarrow> u128_dec_option_deserialize (u128_dec_option_serialize v) = Some v"
proof -
  show "n \<le> U64_MAX \<Longrightarrow> u64_dec_deserialize (u64_dec_serialize n) = Some n"
    using U64_le_U128 by (simp add: u64_dec_deserialize_def u64_dec_serialize_def deserialize_string_def parse_u64_def)
qed (auto simp: u128_dec_deserialize_def u128_dec_serialize_def deserialize_string_def
      u128_dec_option_deserialize_def u128_dec_option_serialize_def split: option.split)

theorem dec_formats_in_range:
  "u64_dec_deserialize j = Some n \<Longrightarrow> n \<le> U64_MAX"
  "u128_dec_deserialize j = Some a \<Longrightarrow> a \<le> U128_MAX"
  "u128_dec_option_deserialize j = Some (Some a) \<Longrightarrow> a \<le> U128_MAX"
  by (auto simp: u64_dec_deserialize_def u128_dec_deserialize_def u128_dec_option_deserialize_def parse_u64_def
      bind_eq_Some_conv dest: parse_u128_bound split: option.splits if_splits)

section \<open>Signed messages\<close>

text \<open>\<open>msg_hash\<close> is \<open>signed_msg_hash\<close> of the bitcoin crate, \<open>recover\<close> the host function \<open>ecrecover\<close>; both a
  \<open>None\<close> of it and its abort on a bad recovery id end the call.\<close>

definition verify_secp256k1_signature ::
    "(string \<Rightarrow> bytes) \<Rightarrow> (bytes \<Rightarrow> bytes \<Rightarrow> u8 \<Rightarrow> bytes option) \<Rightarrow> bytes \<Rightarrow> string \<Rightarrow> bytes \<Rightarrow> bool res" where
  "verify_secp256k1_signature msg_hash recover public_key message signature =
     index_at signature 0 (\<lambda>b.
     let recovery_id = unat b in
     bindR (if recovery_id \<ge> 31 then chk_sub recovery_id 31 Inr else chk_sub recovery_id 27 Inr) (\<lambda>recovery_id.
     if length signature < 65 then Inl OutOfBounds
     else expect (recover (msg_hash message) (take 64 (drop 1 signature)) recovery_id) ''unwrap'' (\<lambda>recovered_pk.
     Inr (recovered_pk = public_key))))"

text \<open>The check answers only for a signature of at least 65 bytes whose first byte is at least 27.  The two
  header ranges, for uncompressed and compressed keys, are folded onto the same recovery ids.\<close>

theorem signature_check_defined:
  "is_ok (verify_secp256k1_signature h R pk m sg) \<longleftrightarrow>
     65 \<le> length sg \<and> 27 \<le> unat (sg ! 0) \<and>
     R (h m) (take 64 (drop 1 sg)) (unat (sg ! 0) - (if 31 \<le> unat (sg ! 0) then 31 else 27)) \<noteq> None"
  by (cases sg) (auto simp: verify_secp256k1_signature_def index_at_def Let_def res_Inr)

end
