(* ===== verification/Deposit_Flow.thy ===== *)
theory Deposit_Flow
  imports Bridge_System
begin

text \<open>
  A deposit from the relayer's call to the mint: how the value of the output is split, what the
  inclusion callback guarantees when it mints, that the view a relayer asks beforehand predicts the
  callback's answer, and that a failed mint leaves nothing behind.  The ring is used through the
  interface \<open>amount_window\<close> only.
\<close>

section \<open>The confirmations check\<close>

definition recorded :: "contract \<Rightarrow> u64 \<Rightarrow> u128" where
  \<comment> \<open>what the ring remembers as bridged in a block\<close>
  "recorded s h = (case amounts (block_bridge_amounts s) h of None \<Rightarrow> 0 | Some x \<Rightarrow> x)"

definition block_depth :: "u64 \<Rightarrow> u64 \<Rightarrow> u64" where
  "block_depth h tip = sat_add U64_MAX (tip - h) 1"

lemma bump_check_charge:
  assumes "ring_ok (block_bridge_amounts s)" "amount \<le> U128_MAX"
    and "bump_and_check_confirmations h tip amount delta s = Inr s'"
  shows "\<exists>ring charged n. s' = s\<lparr>block_bridge_amounts := ring\<rparr> \<and> ring_ok ring \<and>
    ring_bump (block_bridge_amounts s) h amount = Inr (ring, charged) \<and>
    get_confirmations (cfg s) (case charged of Some c \<Rightarrow> c | None \<Rightarrow> U128_MAX) = Inr n \<and>
    n + delta \<le> block_depth h tip \<and>
    (case charged of Some c \<Rightarrow> c = sat_add U128_MAX (recorded s h) amount \<and> amounts ring h = Some c
     | None \<Rightarrow> ring = block_bridge_amounts s)"
proof -
  obtain ring charged n where r: "ring_bump (block_bridge_amounts s) h amount = Inr (ring, charged)"
    "get_confirmations (cfg s) (case charged of Some c \<Rightarrow> c | None \<Rightarrow> U128_MAX) = Inr n"
    "n + delta \<le> block_depth h tip" "s' = s\<lparr>block_bridge_amounts := ring\<rparr>"
    using assms(3) by (auto simp: bump_and_check_confirmations_def res_Inr Let_def block_depth_def)
  have "case charged of Some c \<Rightarrow> c = sat_add U128_MAX (recorded s h) amount \<and> amounts ring h = Some c
     | None \<Rightarrow> ring = block_bridge_amounts s"
    using r(1) ring.bump_counts[OF assms(1,2)] ring.bump_skips[OF assms(1)]
    by (auto simp: recorded_def split: option.split)
  with r ring.bump_keeps[OF assms(1,2) r(1)] show ?thesis by blast
qed

lemma bump_check_iff:
  assumes "ring_ok (block_bridge_amounts s)" "required_confirmations s h amount = Inr m" "m + delta \<le> U64_MAX"
  shows "is_ok (bump_and_check_confirmations h tip amount delta s) \<longleftrightarrow> m + delta \<le> block_depth h tip"
proof -
  obtain ring charged where b: "ring_bump (block_bridge_amounts s) h amount = Inr (ring, charged)"
    using ring.bump_total[OF assms(1), of h amount] by auto
  from assms(2) ring.peek_predicts[OF assms(1) b]
  have "get_confirmations (cfg s) (case charged of Some c \<Rightarrow> c | None \<Rightarrow> U128_MAX) = Inr m"
    by (simp add: required_confirmations_def)
  with b assms(3) show ?thesis
    by (simp add: bump_and_check_confirmations_def Let_def chk_add_def block_depth_def require_def)
qed

text \<open>C17: a relayer can ask first.  The number that \<open>get_required_confirmations\<close> returns for a
  block, an amount and the relayer's own account is exactly the depth from which the inclusion
  callback of that deposit accepts the block, as long as nothing else is charged in between.\<close>

theorem required_confirmations_predict:
  assumes "ring_ok (block_bridge_amounts s)" "get_required_confirmations s h amount (Some relayer) (Some extra) = Inr n"
    and "delta = (if extra then extra_msg_relayer_delta (cfg s) (relayer \<in> extra_msg_relayer_white_list s)
                  else relayer_delta (cfg s) (relayer \<in> relayer_white_list s))"
  shows "is_ok (bump_and_check_confirmations h tip amount delta s) \<longleftrightarrow> n \<le> block_depth h tip"
proof -
  obtain m where m: "required_confirmations s h amount = Inr m" "m + delta \<le> U64_MAX" "n = m + delta"
    using assms(2) by (auto simp: get_required_confirmations_def res_Inr confirmations_delta_for_def assms(3) split: if_splits)
  show ?thesis unfolding m(3) by (rule bump_check_iff[OF assms(1) m(1,2)])
qed

lemma sample_ring: "ring_ok (block_bridge_amounts sample_contract)"
  by (simp add: sample_contract_def ring_ok_def ring_capacity_def)

lemma sample_required: "required_confirmations sample_contract 100 50000 = Inr 2"
proof -
  have c: "sort_key fst (tiers_of (confirmations_strategy sample_config)) = [(100000000, 2), (1000000000, 4)]"
    by (simp add: tiers_of_def sample_config_def sample_parse)
  have "get_confirmations sample_config 50000 = Inr 2"
    unfolding get_confirmations_tiers[OF sample_config_valid(2)] c by (simp add: tier_lookup_def)
  then show ?thesis
    by (simp add: required_confirmations_def sample_contract_def ring_peek_def ring_slot_def ring_capacity_def)
qed

lemma sample_view:
  "get_required_confirmations sample_contract 100 50000 (Some ''relayer.near'') (Some False) = Inr 5"
  unfolding get_required_confirmations_def sample_required
  by (simp add: confirmations_delta_for_def relayer_delta_def chk_add_def U64_MAX_def)
    (simp add: sample_contract_def sample_config_def)

theorem required_confirmations_predict_witness:
  "is_ok (bump_and_check_confirmations 100 104 50000 3 sample_contract) \<and>
   \<not> is_ok (bump_and_check_confirmations 100 103 50000 3 sample_contract)"
proof -
  have d: "(3::u64) = (if False then extra_msg_relayer_delta (cfg sample_contract) (''relayer.near'' \<in> extra_msg_relayer_white_list sample_contract)
      else relayer_delta (cfg sample_contract) (''relayer.near'' \<in> relayer_white_list sample_contract))"
    by (simp add: sample_contract_def relayer_delta_def sample_config_def)
  show ?thesis
    using required_confirmations_predict[OF sample_ring sample_view d, of 104]
      required_confirmations_predict[OF sample_ring sample_view d, of 103]
    by (simp add: block_depth_def sat_add_def U64_MAX_def)
qed

section \<open>The inclusion callback\<close>

lemma process_inclusion:
  assumes "ring_ok (block_bridge_amounts s)" "utxo_balance (pu_utxo pu) \<le> U128_MAX"
    and "process_inclusion_and_check X e pu delta s = Inr (h, s')"
  shows "\<exists>bs i ring charged n. promise_result e = Some bs \<and> json_inclusion_info X bs = Some (Some i) \<and>
    h = tx_block_height i \<and> s' = s\<lparr>block_bridge_amounts := ring\<rparr> \<and> ring_ok ring \<and>
    ring_bump (block_bridge_amounts s) h (utxo_balance (pu_utxo pu)) = Inr (ring, charged) \<and>
    get_confirmations (cfg s) (case charged of Some c \<Rightarrow> c | None \<Rightarrow> U128_MAX) = Inr n \<and>
    n + delta \<le> block_depth h (mainchain_tip_height i) \<and>
    (case charged of Some c \<Rightarrow> c = sat_add U128_MAX (recorded s h) (utxo_balance (pu_utxo pu)) \<and> amounts ring h = Some c
     | None \<Rightarrow> ring = block_bridge_amounts s)"
proof -
  obtain bs i where i: "promise_result e = Some bs" "json_inclusion_info X bs = Some (Some i)" "h = tx_block_height i"
    and b: "bump_and_check_confirmations (tx_block_height i) (mainchain_tip_height i)
      (utxo_balance (pu_utxo pu)) delta s = Inr s'"
    using assms(3) by (auto simp: process_inclusion_and_check_def res_Inr promise_result_checked_def split: option.splits if_splits)
  from bump_check_charge[OF assms(1,2) b, folded i(3)] i show ?thesis by auto
qed

text \<open>C8: an inclusion callback mints only what the chain supports.  When it succeeds the light
  client reported the transaction in a block, the block is at least as deep as the amount bridged in
  it so far together with this output requires (all of it when the block is older than the window),
  the output had not been verified before and is verified now, the ring accounts for it, and exactly
  the mint of the deposit's amounts is scheduled.  A second verification of the same output panics.\<close>

theorem inclusion_callback_mints:
  assumes "ring_ok (block_bridge_amounts s)" "utxo_balance (pu_utxo pu) \<le> U128_MAX"
    and "verify_deposit_callback X e r amt pf rf pu pacts delta s = Inr s'"
  shows "\<exists>bs i n. promise_result e = Some bs \<and> json_inclusion_info X bs = Some (Some i) \<and>
    (let h = tx_block_height i in
      (get_confirmations (cfg s) (sat_add U128_MAX (recorded s h) (utxo_balance (pu_utxo pu))) = Inr n \<and>
         recorded s' h = sat_add U128_MAX (recorded s h) (utxo_balance (pu_utxo pu)) \<or>
       get_confirmations (cfg s) U128_MAX = Inr n \<and> block_bridge_amounts s' = block_bridge_amounts s) \<and>
      n + delta \<le> block_depth h (mainchain_tip_height i) \<and>
      effects s' = effects s @ [Scheduled (nbtc_account_id (cfg s)) (NbtcMint r amt pf (signer e) rf pacts)
        (Some (CbMint r amt pf rf pu (Some h)))]) \<and>
    pu_key pu \<notin> verified_deposit_utxo s \<and>
    verified_deposit_utxo s' = insert (pu_key pu) (verified_deposit_utxo s) \<and>
    utxos_in_progress s' (pu_key pu) = Some (DepositInProgress (VUTXO_Current (pu_utxo pu))) \<and>
    (\<forall>X e r amt pf rf pacts delta. \<not> is_ok (verify_deposit_callback X e r amt pf rf pu pacts delta s'))"
proof -
  obtain h s1 where 1: "process_inclusion_and_check X e pu delta s = Inr (h, s1)"
    and key: "pu_key pu \<notin> verified_deposit_utxo s1"
    and s': "s' = internal_mint_promise e r amt pf rf pu pacts (Some h)
      (internal_set_utxo_in_progress (pu_key pu) (DepositInProgress (VUTXO_Current (pu_utxo pu)))
        (s1\<lparr>verified_deposit_utxo := insert (pu_key pu) (verified_deposit_utxo s1)\<rparr>))"
    using assms(3) by (auto simp: verify_deposit_callback_def private_call_def mark_verified_def res_Inr)
  from process_inclusion[OF assms(1,2) 1] obtain bs i ring charged n where i: "promise_result e = Some bs"
    "json_inclusion_info X bs = Some (Some i)" "h = tx_block_height i" "s1 = s\<lparr>block_bridge_amounts := ring\<rparr>"
    "ring_bump (block_bridge_amounts s) h (utxo_balance (pu_utxo pu)) = Inr (ring, charged)"
    "get_confirmations (cfg s) (case charged of Some c \<Rightarrow> c | None \<Rightarrow> U128_MAX) = Inr n"
    "n + delta \<le> block_depth h (mainchain_tip_height i)"
    "case charged of Some c \<Rightarrow> c = sat_add U128_MAX (recorded s h) (utxo_balance (pu_utxo pu)) \<and> amounts ring h = Some c
     | None \<Rightarrow> ring = block_bridge_amounts s"
    by blast
  have v: "pu_key pu \<in> verified_deposit_utxo s'"
    by (simp add: s' internal_mint_promise_def schedule_def internal_set_utxo_in_progress_def)
  have again: "\<not> is_ok (verify_deposit_callback X e r amt pf rf pu pacts delta s')" for X e r amt pf rf pacts delta
    using v by (auto simp: verify_deposit_callback_def private_call_def mark_verified_def res_Inr
        process_inclusion_and_check_def bump_and_check_confirmations_def Let_def)
  show ?thesis
    by (rule exI[of _ bs], rule exI[of _ i], rule exI[of _ n], intro conjI allI again)
      (use i key in \<open>auto simp: s' internal_mint_promise_def schedule_def internal_set_utxo_in_progress_def
        Let_def recorded_def split: option.splits\<close>)
qed

definition sample_pu :: pending_utxo_info where
  "sample_pu = \<lparr>pu_tx_id = ''ab'', pu_key = ''ab@0'',
     pu_utxo = \<lparr>utxo_path = [], utxo_tx_bytes = [], utxo_vout = 0, utxo_balance = 50000\<rparr>\<rparr>"

definition callback_ctx :: ctx where
  "callback_ctx = sample_ctx\<lparr>predecessor := ''bridge.near''\<rparr>"

definition verified_sample :: contract where
  "verified_sample = projr (verify_deposit_callback sample_x callback_ctx ''alice.near'' 49000 900 100 sample_pu None 3 sample_contract)"

lemma sample_verified:
  "verify_deposit_callback sample_x callback_ctx ''alice.near'' 49000 900 100 sample_pu None 3 sample_contract =
     Inr verified_sample"
proof -
  have x: "json_inclusion_info sample_x bs = Some (Some \<lparr>tx_block_height = 100, mainchain_tip_height = 200\<rparr>)" for bs
    by (simp add: sample_x_def sample_ext_def addr_crates.defs crates.defs)
  have "is_ok (bump_and_check_confirmations 100 200 50000 3 sample_contract)"
    using bump_check_iff[OF sample_ring sample_required, of 3 200]
    by (simp add: U64_MAX_def block_depth_def sat_add_def)
  then obtain s1 where b: "bump_and_check_confirmations 100 200 50000 3 sample_contract = Inr s1" ..
  have v: "verified_deposit_utxo s1 = {}"
    using b by (auto simp: bump_and_check_confirmations_def res_Inr Let_def sample_contract_def)
  have "is_ok (verify_deposit_callback sample_x callback_ctx ''alice.near'' 49000 900 100 sample_pu None 3 sample_contract)"
    by (simp add: verify_deposit_callback_def private_call_def callback_ctx_def sample_ctx_def
        process_inclusion_and_check_def promise_result_checked_def MAX_INCLUSION_INFO_RESULT_def x
        sample_pu_def b mark_verified_def v)
  then show ?thesis by (auto simp: verified_sample_def)
qed

theorem inclusion_callback_mints_witness:
  "''ab@0'' \<in> verified_deposit_utxo verified_sample \<and>
   (\<forall>X e r amt pf rf pacts delta. \<not> is_ok (verify_deposit_callback X e r amt pf rf sample_pu pacts delta verified_sample))"
  using inclusion_callback_mints[OF sample_ring _ sample_verified]
  by (auto simp: sample_pu_def U128_MAX_def)

section \<open>The outcome of the mint\<close>

text \<open>C12: a failed mint takes the verification back.  When the mint of a just verified deposit, of an output
  that was not in progress, fails and its callback runs on the state the verification left, the output is verifiable again, its entry in
  progress is gone and the amount charged to its block is what it was (if the charge did not
  saturate); balances, UTXOs, fees and pending records are as before the verification.  The one thing
  that is not restored is the amount of an older block whose slot in the ring the charge took over:
  it stays forgotten.\<close>

theorem failed_mint_leaves_nothing:
  assumes "ring_ok (block_bridge_amounts s)" "utxos_in_progress s (pu_key pu) = None"
    and "recorded s h + utxo_balance (pu_utxo pu) \<le> U128_MAX"
    and "verify_deposit_callback X e r amt pf rf pu pacts delta s = Inr s1"
    and "effects s1 = effects s @ [Scheduled t c (Some (CbMint r amt pf rf pu (Some h)))]"
    and "mint_callback e' r amt pf rf pu (Some h) s1 = Inr (False, s2)"
  shows "verified_deposit_utxo s2 = verified_deposit_utxo s \<and> utxos_in_progress s2 = utxos_in_progress s \<and>
    recorded s2 h = recorded s h \<and>
    (\<forall>k. recorded s2 k \<noteq> recorded s k \<longrightarrow>
       k < h \<and> k mod ring_capacity (block_bridge_amounts s) = h mod ring_capacity (block_bridge_amounts s) \<and>
       recorded s2 k = 0) \<and>
    utxos s2 = utxos s \<and> accounts s2 = accounts s \<and>
    btc_pending_infos s2 = btc_pending_infos s \<and> fees s2 = fees s"
proof -
  have le: "utxo_balance (pu_utxo pu) \<le> U128_MAX" using assms(3) by simp
  obtain h' sa where 1: "process_inclusion_and_check X e pu delta s = Inr (h', sa)"
    and key: "pu_key pu \<notin> verified_deposit_utxo sa"
    and s1: "s1 = internal_mint_promise e r amt pf rf pu pacts (Some h')
      (internal_set_utxo_in_progress (pu_key pu) (DepositInProgress (VUTXO_Current (pu_utxo pu)))
        (sa\<lparr>verified_deposit_utxo := insert (pu_key pu) (verified_deposit_utxo sa)\<rparr>))"
    using assms(4) by (auto simp: verify_deposit_callback_def private_call_def mark_verified_def res_Inr)
  from process_inclusion[OF assms(1) le 1] obtain ring charged where sa: "sa = s\<lparr>block_bridge_amounts := ring\<rparr>"
    and ok: "ring_ok ring"
    and b: "ring_bump (block_bridge_amounts s) h' (utxo_balance (pu_utxo pu)) = Inr (ring, charged)"
    and c: "case charged of Some c \<Rightarrow> c = sat_add U128_MAX (recorded s h') (utxo_balance (pu_utxo pu)) \<and> amounts ring h' = Some c
     | None \<Rightarrow> ring = block_bridge_amounts s"
    by blast
  have h: "h' = h" using assms(5) sa by (simp add: s1 internal_mint_promise_def schedule_def internal_set_utxo_in_progress_def)
  obtain ring2 where u: "ring_unbump ring h (utxo_balance (pu_utxo pu)) = Inr ring2"
    and s2: "s2 = emit (EvVerifyDepositDetails r amt pf (signer e') rf False)
      (internal_remove_utxo_in_progress (pu_key pu) s1\<lparr>verified_deposit_utxo := verified_deposit_utxo s1 - {pu_key pu},
         block_bridge_amounts := ring2\<rparr>)"
    using assms(6) sa by (auto simp: mint_callback_def private_call_def res_Inr unverify_def unbump_block_amount_def
        s1 internal_mint_promise_def schedule_def internal_set_utxo_in_progress_def internal_remove_utxo_in_progress_def
        accept_utxo_def Let_def split: if_splits)
  have "recorded s2 h = recorded s h"
  proof (cases charged)
    case (Some x)
    show ?thesis
      using ring.undo_restores[OF assms(1) le b[unfolded Some h] u] assms(3)
      by (simp add: s2 recorded_def emit_def internal_remove_utxo_in_progress_def)
  next
    case None
    with c b h have "amounts (block_bridge_amounts s) h = None" "ring = block_bridge_amounts s"
      using ring_bump_miss[OF assms(1)] by auto
    then show ?thesis using ring.unbump_subtracts[OF ok u]
      by (simp add: s2 recorded_def emit_def internal_remove_utxo_in_progress_def)
  qed
  moreover have "k < h \<and> k mod ring_capacity (block_bridge_amounts s) = h mod ring_capacity (block_bridge_amounts s) \<and>
      recorded s2 k = 0" if k: "recorded s2 k \<noteq> recorded s k" for k
  proof -
    have kh: "k \<noteq> h" using k calculation by auto
    have "amounts ring2 k = amounts ring k" using ring.unbump_subtracts[OF ok u] kh by (simp split: option.split)
    then have r2: "recorded s2 k = (case amounts ring k of None \<Rightarrow> 0 | Some x \<Rightarrow> x)"
      by (simp add: s2 recorded_def emit_def internal_remove_utxo_in_progress_def)
    from ring_bump_others[OF assms(1) b[unfolded h] kh] k r2 show ?thesis by (auto simp: recorded_def)
  qed
  moreover have "(utxos_in_progress s)(pu_key pu := None) = utxos_in_progress s" using assms(2) by auto
  ultimately show ?thesis using key
    by (simp add: s2 s1 sa emit_def internal_remove_utxo_in_progress_def internal_mint_promise_def schedule_def
        internal_set_utxo_in_progress_def fees_def)
qed

definition failed_ctx :: ctx where
  "failed_ctx = callback_ctx\<lparr>promise_result := None\<rparr>"

lemma sample_mint_scheduled:
  "effects verified_sample = effects sample_contract @
     [Scheduled (nbtc_account_id sample_config) (NbtcMint ''alice.near'' 49000 900 ''relayer.near'' 100 None)
        (Some (CbMint ''alice.near'' 49000 900 100 sample_pu (Some 100)))]"
proof -
  obtain h s1 where 1: "process_inclusion_and_check sample_x callback_ctx sample_pu 3 sample_contract = Inr (h, s1)"
    and s': "verified_sample = internal_mint_promise callback_ctx ''alice.near'' 49000 900 100 sample_pu None (Some h)
      (internal_set_utxo_in_progress (pu_key sample_pu) (DepositInProgress (VUTXO_Current (pu_utxo sample_pu)))
        (s1\<lparr>verified_deposit_utxo := insert (pu_key sample_pu) (verified_deposit_utxo s1)\<rparr>))"
    using sample_verified by (auto simp: verify_deposit_callback_def private_call_def mark_verified_def res_Inr)
  have "h = 100" "effects s1 = effects sample_contract" "cfg s1 = sample_config"
    using 1 by (auto simp: process_inclusion_and_check_def res_Inr sample_x_def sample_ext_def addr_crates.defs
        crates.defs bump_and_check_confirmations_def Let_def sample_contract_def)
  then show ?thesis
    by (simp add: s' internal_mint_promise_def schedule_def internal_set_utxo_in_progress_def callback_ctx_def
        sample_ctx_def)
qed

lemma mint_failure_total:
  assumes "ring_ok (block_bridge_amounts s)" "predecessor e = current_account e" "promise_result e = None"
  shows "\<exists>s'. mint_callback e r amt pf rf pu (Some h) s = Inr (False, s')"
proof -
  obtain r2 where "ring_unbump (block_bridge_amounts s) h (utxo_balance (pu_utxo pu)) = Inr r2"
    using ring.unbump_total[OF assms(1)] by blast
  then show ?thesis using assms(2,3)
    by (simp add: mint_callback_def private_call_def is_promise_success_def unverify_def
        unbump_block_amount_def internal_remove_utxo_in_progress_def)
qed

lemma verified_sample_ring: "ring_ok (block_bridge_amounts verified_sample)"
proof -
  obtain h s1 where 1: "process_inclusion_and_check sample_x callback_ctx sample_pu 3 sample_contract = Inr (h, s1)"
    and v: "verified_sample = internal_mint_promise callback_ctx ''alice.near'' 49000 900 100 sample_pu None (Some h)
      (internal_set_utxo_in_progress (pu_key sample_pu) (DepositInProgress (VUTXO_Current (pu_utxo sample_pu)))
        (s1\<lparr>verified_deposit_utxo := insert (pu_key sample_pu) (verified_deposit_utxo s1)\<rparr>))"
    using sample_verified by (auto simp: verify_deposit_callback_def private_call_def mark_verified_def res_Inr)
  have s': "block_bridge_amounts verified_sample = block_bridge_amounts s1"
    by (simp add: v internal_mint_promise_def schedule_def internal_set_utxo_in_progress_def)
  have "utxo_balance (pu_utxo sample_pu) \<le> U128_MAX" by (simp add: sample_pu_def U128_MAX_def)
  from process_inclusion[OF sample_ring this 1] s' show ?thesis by auto
qed

theorem failed_mint_leaves_nothing_witness:
  "\<exists>s2. mint_callback failed_ctx ''alice.near'' 49000 900 100 sample_pu (Some 100) verified_sample = Inr (False, s2) \<and>
    verified_deposit_utxo s2 = {} \<and> utxos_in_progress s2 = Map.empty \<and> recorded s2 100 = 0"
proof -
  obtain s2 where s2: "mint_callback failed_ctx ''alice.near'' 49000 900 100 sample_pu (Some 100) verified_sample = Inr (False, s2)"
    using mint_failure_total[OF verified_sample_ring] by (force simp: failed_ctx_def callback_ctx_def sample_ctx_def)
  have p: "utxos_in_progress sample_contract (pu_key sample_pu) = None"
    "recorded sample_contract 100 = 0" "utxo_balance (pu_utxo sample_pu) \<le> U128_MAX"
    "verified_deposit_utxo sample_contract = {}" "utxos_in_progress sample_contract = Map.empty"
    by (simp_all add: sample_contract_def recorded_def amounts_def ring_capacity_def sample_pu_def U128_MAX_def)
  from failed_mint_leaves_nothing[OF sample_ring p(1) _ sample_verified sample_mint_scheduled s2] s2 p
  show ?thesis by simp
qed

section \<open>Entering a deposit\<close>

lemma check_deposit_msg_frame:
  assumes "check_deposit_msg X e d mintable s = Inr (r, s')"
  shows "s'\<lparr>effects := effects s\<rparr> = s \<and> (r = None \<or> r = dm_post_actions d)"
proof -
  have acts: "ensures (check_post_actions X e i as g m s) (\<lambda>(r, s'). s'\<lparr>effects := effects s\<rparr> = s)" for i as g m
    by (auto intro!: ensuresI dest!: check_post_actions_state simp: emit_def split: option.splits)
  have "ensures (check_deposit_msg X e d mintable s)
      (\<lambda>(r, s'). s'\<lparr>effects := effects s\<rparr> = s \<and> (r = None \<or> r = dm_post_actions d))"
    unfolding check_deposit_msg_def invalid_action_def emit_def
    by (rule wp | rule acts[THEN ensures_weaken] | (clarsimp; fail) | clarsimp)+
  with assms show ?thesis by (auto simp: ensures_def)
qed

text \<open>C14: what a relayer submits is what will be minted.  When \<open>verify_deposit_v2\<close> accepts a
  standard deposit, the transaction is not a coinbase, the named output pays the script derived from
  the deposit message, its value is at least the minimum and splits exactly into the minted amount,
  the protocol fee and the relayer fee, and the callback is scheduled with these amounts, this output
  and the confirmations delta of the calling relayer.  Nothing else of the state is written.\<close>

theorem deposit_entry_splits_value:
  assumes "verify_deposit_v2 X e d tx vout proof s = Inr s'" "dm_safe_deposit d = None"
  shows "\<exists>summary pu amt pf rf c pacts script.
    internal_resolve_deposit_tx X s tx = Inr summary \<and> tip_tx_index proof \<noteq> 0 \<and>
    vout < length (ts_outputs summary) \<and> txo_script (ts_outputs summary ! vout) = script \<and>
    path_script X e s (get_deposit_path X d) ''Invalid deposit address'' = Inr script \<and>
    pu_key pu = generate_utxo_storage_key (ts_tx_id summary) vout \<and>
    utxo_path (pu_utxo pu) = get_deposit_path X d \<and>
    utxo_balance (pu_utxo pu) = txo_value (ts_outputs summary ! vout) \<and>
    amt + pf + rf = utxo_balance (pu_utxo pu) \<and> min_deposit_amount (cfg s) \<le> utxo_balance (pu_utxo pu) \<and>
    Scheduled (btc_light_client_account_id (cfg s)) c (Some (CbVerifyDeposit (dm_recipient_id d) amt pf rf pu pacts
      (confirmations_delta_for (cfg s) (relayer_white_list s) (extra_msg_relayer_white_list s)
        (Some (predecessor e)) (dm_extra_msg d \<noteq> None)))) \<in> set (effects s') \<and>
    (pacts = None \<or> pacts = dm_post_actions d) \<and> s'\<lparr>effects := []\<rparr> = s\<lparr>effects := []\<rparr>"
proof -
  obtain summary where sm: "internal_resolve_deposit_tx X s tx = Inr summary"
    and en: "internal_verify_deposit_entry X e d summary vout (tip_block_hash proof) (tip_tx_index proof)
       (tip_merkle_proof proof) (tip_coinbase_tx_id proof, tip_coinbase_proof proof) s = Inr s'"
    using assms by (auto simp: verify_deposit_v2_def trusted_relayer_def unless_paused_def res_Inr is_safe_deposit_def
        assert_post_actions_supported_def Let_def)
  obtain pu where pu: "tip_tx_index proof \<noteq> 0"
      "internal_build_deposit_utxo_info X e s (get_deposit_path X d) summary vout = Inr pu"
    and iv: "internal_verify_deposit X e (utxo_balance (pu_utxo pu)) (tip_block_hash proof) (tip_tx_index proof)
       (tip_merkle_proof proof) (tip_coinbase_tx_id proof, tip_coinbase_proof proof) pu d s = Inr s'"
    using en by (auto simp: internal_verify_deposit_entry_def res_Inr)
  define delta where "delta = confirmations_delta_for (cfg s) (relayer_white_list s)
    (extra_msg_relayer_white_list s) (Some (predecessor e)) (dm_extra_msg d \<noteq> None)"
  have delta: "delta = (if dm_extra_msg d = None
           then relayer_delta (cfg s) (predecessor e \<in> relayer_white_list s)
           else extra_msg_relayer_delta (cfg s) (predecessor e \<in> extra_msg_relayer_white_list s))"
    by (simp add: delta_def confirmations_delta_for_def)
  obtain c fee pf rf pacts s1 where 1: "min_deposit_amount (cfg s) \<le> utxo_balance (pu_utxo pu)"
    "fee \<le> utxo_balance (pu_utxo pu)"
    "get_protocol_and_relayer_fee (deposit_bridge_fee (cfg s)) fee = Inr (pf, rf)"
    "check_deposit_msg X e d (utxo_balance (pu_utxo pu) - fee) s = Inr (pacts, s1)"
    "s' = schedule (btc_light_client_account_id (cfg s1)) c (Some (CbVerifyDeposit (dm_recipient_id d)
        (utxo_balance (pu_utxo pu) - fee) pf rf pu pacts delta)) s1"
    using iv unfolding internal_verify_deposit_def Let_def delta[symmetric] by (auto simp: res_Inr)
  have split: "pf + rf = fee" using fee_split_sum 1(3) by blast
  have frame: "s1\<lparr>effects := effects s\<rparr> = s" and pacts: "pacts = None \<or> pacts = dm_post_actions d"
    using check_deposit_msg_frame[OF 1(4)] by simp_all
  have eff: "s\<lparr>effects := []\<rparr> = s1\<lparr>effects := []\<rparr>"
    using arg_cong[OF frame, of "\<lambda>x. x\<lparr>effects := []\<rparr>"] by simp
  have cfg: "cfg s1 = cfg s" using arg_cong[OF frame, of cfg] by simp
  obtain script where b: "vout < length (ts_outputs summary)" "txo_script (ts_outputs summary ! vout) = script"
    "path_script X e s (get_deposit_path X d) ''Invalid deposit address'' = Inr script"
    "pu_key pu = generate_utxo_storage_key (ts_tx_id summary) vout"
    "utxo_path (pu_utxo pu) = get_deposit_path X d"
    "utxo_balance (pu_utxo pu) = txo_value (ts_outputs summary ! vout)"
    using pu(2) by (auto simp: internal_build_deposit_utxo_info_def Let_def res_Inr)
  show ?thesis unfolding delta_def[symmetric]
    using sm pu(1) b 1(1,2,5) split cfg eff pacts
    by (intro exI[of _ summary] exI[of _ pu] exI[of _ "utxo_balance (pu_utxo pu) - fee"] exI[of _ pf] exI[of _ rf]
        exI[of _ c] exI[of _ pacts] exI[of _ script]) (auto simp: schedule_def)
qed

definition hex_ext :: "psbt \<Rightarrow> crates" where
  "hex_ext p = (sample_ext (\<lambda>_. ''cd'') p)\<lparr>hex_decode := \<lambda>_. Some (replicate 32 1)\<rparr>"

definition path_witness_script :: "ctx \<Rightarrow> bytes \<Rightarrow> string \<Rightarrow> bytes" where
  "path_witness_script e root path = [0x00, 0x14] @
     take 20 (root @ map (\<lambda>c. word_of_nat (of_char c)) (derivation_path (current_account e) path))"

lemma hex_path_script:
  assumes "chain_signatures_root_public_key (cfg s) = Some root" "chain_cfg (cfg s) = BitcoinMainnet"
  shows "path_script (hex_ext p) e s path msg = Inr (path_witness_script e root path)"
proof -
  define pk where "pk = root @ map (\<lambda>c. word_of_nat (of_char c)) (derivation_path (current_account e) path)"
  have len: "20 \<le> length pk"
    by (simp add: pk_def derivation_path_def EPSILON_DERIVATION_PREFIX_def)
  have w: "p2wpkh_program (hex_ext p) pk = Some (take 20 pk)" "witness_program_ok (hex_ext p) = program_bounds"
    by (simp_all add: hex_ext_def sample_ext_def addr_crates.defs crates.defs sample_crates_def)
  have h: "scalar_from_repr (hex_ext p) bs = Some bs" "derive_key (hex_ext p) bs eps = bs @ eps"
    "sha3_256 (hex_ext p) str = map (\<lambda>c. word_of_nat (of_char c)) str" "compress_public_key (hex_ext p) bs = Some bs"
    "new_witness_program (hex_ext p) 0 prog = [version_byte 0, word_of_nat (length prog)] @ prog" for bs eps str prog
    by (simp_all add: hex_ext_def) (simp add: sample_ext_def addr_crates.defs crates.defs sample_crates_def)
  have "generate_utxo_chain_address (hex_ext p) e s path = Inr (Segwit 0 (take 20 pk) BitcoinMainnet)"
    using len by (simp add: generate_utxo_chain_address_def generate_btc_public_key_def generate_public_key_def
        derive_epsilon_def assms pk_def[symmetric] from_pubkey_def get_segwit_hrp_def w h program_bounds_def)
  then show ?thesis using len by (simp add: path_script_def script_pubkey_def path_witness_script_def pk_def[symmetric] h
        version_byte_def min_absorb2)
qed

text \<open>A deposit of 50000 satoshi for alice, submitted by the relayer.\<close>

definition plain_deposit :: deposit_msg where
  "plain_deposit = \<lparr>dm_recipient_id = ''alice.near'', dm_post_actions = None, dm_extra_msg = None,
     dm_safe_deposit = None, dm_refund_address = None\<rparr>"

definition relayer_ctx :: ctx where
  "relayer_ctx = sample_ctx\<lparr>predecessor := ''relayer.near''\<rparr>"

definition plain_psbt :: psbt where
  "plain_psbt = sample_psbt [\<lparr>op_txid = ''ef'', op_vout = 0\<rparr>]
     [\<lparr>txo_value = 50000, txo_script = path_witness_script relayer_ctx [2] ''alice.near''\<rparr>]"

definition plain_proof :: tx_inclusion_proof where
  "plain_proof = \<lparr>tip_block_hash = ''aa'', tip_tx_index = 7, tip_merkle_proof = [],
     tip_coinbase_tx_id = ''bb'', tip_coinbase_proof = []\<rparr>"

lemma hex_ext_simps:
  "hex_decode (hex_ext p) str = Some (replicate 32 1)" "sha256_hex (hex_ext p) str = str"
  "json_of_deposit_msg (hex_ext p) d = dm_recipient_id d"
  "tx_consensus_decode (hex_ext p) bs = Some (unsigned_tx p)" "compute_txid (hex_ext p) tx = ''cd''"
  by (simp_all add: hex_ext_def) (simp_all add: sample_ext_def addr_crates.defs crates.defs)

lemma plain_entry_ok:
  "is_ok (verify_deposit_v2 (hex_ext plain_psbt) relayer_ctx plain_deposit (Full []) 0 plain_proof sample_contract)"
proof -
  have c: "chain_signatures_root_public_key (cfg sample_contract) = Some [2]"
    "chain_cfg (cfg sample_contract) = BitcoinMainnet" "min_deposit_amount (cfg sample_contract) = 20000"
    "deposit_bridge_fee (cfg sample_contract) = \<lparr>fee_min = 1000, fee_rate = 0, protocol_fee_rate = 9000\<rparr>"
    by (simp_all add: sample_contract_def sample_config_def)
  have r: "predecessor relayer_ctx = ''relayer.near''" "is_trusted_relayer relayer_ctx ''relayer.near''"
    "\<not> pa_is_paused sample_contract f" for f
    by (simp_all add: relayer_ctx_def sample_ctx_def pa_is_paused_def sample_contract_def)
  have h: "h256_from_str (hex_ext p) str = Some (replicate 32 1)" for p str
    by (simp add: h256_from_str_def hex_ext_simps)
  have tx: "tx_decode (hex_ext p) bs ch = Some (unsigned_tx p)" for p bs ch
    by (simp add: tx_decode_def hex_ext_simps)
  show ?thesis
    by (simp add: verify_deposit_v2_def trusted_relayer_def unless_paused_def r assert_post_actions_supported_def
        internal_resolve_deposit_tx_def tx is_safe_deposit_def plain_deposit_def internal_verify_deposit_entry_def
        plain_proof_def internal_build_deposit_utxo_info_def hex_ext_simps plain_psbt_def sample_psbt_def sample_tx_def
        get_deposit_path_def Let_def hex_path_script[OF c(1,2)] try_into_def U32_MAX_def internal_verify_deposit_def c
        verify_transaction_inclusion_with_heights_call_def tx_inclusion_proof_new_def h parse_hashes_def
        get_fee_def chk_mul_def MAX_RATIO_def U128_MAX_def chk_sub_def get_protocol_and_relayer_fee_def
        check_deposit_msg_def)
qed

theorem deposit_entry_splits_value_witness:
  "\<exists>s' pu amt pf rf c delta.
    verify_deposit_v2 (hex_ext plain_psbt) relayer_ctx plain_deposit (Full []) 0 plain_proof sample_contract = Inr s' \<and>
    amt + pf + rf = 50000 \<and> utxo_balance (pu_utxo pu) = 50000 \<and>
    Scheduled ''lc.near'' c (Some (CbVerifyDeposit ''alice.near'' amt pf rf pu None delta)) \<in> set (effects s')"
proof -
  obtain s' where s': "verify_deposit_v2 (hex_ext plain_psbt) relayer_ctx plain_deposit (Full []) 0 plain_proof sample_contract = Inr s'"
    using plain_entry_ok by blast
  have d: "dm_safe_deposit plain_deposit = None" "dm_post_actions plain_deposit = None"
    "dm_recipient_id plain_deposit = ''alice.near''" "btc_light_client_account_id (cfg sample_contract) = ''lc.near''"
    by (simp_all add: plain_deposit_def sample_contract_def sample_config_def)
  have v: "txo_value (ts_outputs summary ! 0) = 50000"
    if "internal_resolve_deposit_tx (hex_ext plain_psbt) sample_contract (Full []) = Inr summary" for summary
    using that by (auto simp: internal_resolve_deposit_tx_def tx_decode_def hex_ext_simps plain_psbt_def sample_psbt_def
        sample_tx_def)
  from deposit_entry_splits_value[OF s' d(1)] obtain summary pu amt pf rf c pacts delta where
    w: "internal_resolve_deposit_tx (hex_ext plain_psbt) sample_contract (Full []) = Inr summary"
    "utxo_balance (pu_utxo pu) = txo_value (ts_outputs summary ! 0)" "amt + pf + rf = utxo_balance (pu_utxo pu)"
    "Scheduled ''lc.near'' c (Some (CbVerifyDeposit ''alice.near'' amt pf rf pu pacts delta)) \<in> set (effects s')"
    "pacts = None"
    unfolding d by blast
  have "amt + pf + rf = 50000" "utxo_balance (pu_utxo pu) = 50000" using w(2,3) v[OF w(1)] by simp_all
  with s' w(4)[unfolded w(5)] show ?thesis by blast
qed

section \<open>Completing a mint whose callback failed\<close>

lemma remove_vutxos_frame:
  "remove_vutxos ks s = Inr (vs, s') \<Longrightarrow> (\<exists>m. s' = s\<lparr>utxos := m\<rparr>) \<and> (\<forall>k\<in>set ks. utxos s' k = None)"
proof (induction ks arbitrary: s vs)
  case Nil
  then show ?case by (auto intro: exI[of _ "utxos s"])
next
  case (Cons k ks)
  then obtain ws where w: "remove_vutxos ks (s\<lparr>utxos := (utxos s)(k := None)\<rparr>) = Inr (ws, s')"
    by (auto simp: res_Inr)
  have keep: "remove_vutxos js t = Inr (us, t') \<Longrightarrow> utxos t k = None \<Longrightarrow> utxos t' k = None" for js t us t'
    by (induction js arbitrary: t us) (auto simp: res_Inr split: if_splits)
  from Cons.IH[OF w] keep[OF w] show ?case by auto
qed

text \<open>C36: the operation that registers the UTXO of a deposit whose mint callback failed does not see
  that the UTXO was already registered and spent.  When the outputs of a withdrawal have been taken
  from the UTXO set, a spent output that came from a verified deposit is accepted again, so that the
  bridge counts an output it no longer owns.\<close>

theorem spent_output_registered_again:
  assumes "remove_vutxos ks s0 = Inr (vs, s)" "pu_key pu \<in> set ks" "pu_key pu \<in> verified_deposit_utxo s0"
    and "unavailable_utxos s0 (pu_key pu) = None" "refund_requests s0 (pu_key pu) = None"
    and "acl_has_role s0 DAO (predecessor e)" "attached_deposit e = 1"
    and "internal_resolve_deposit_tx X s tx = Inr summary"
    and "internal_build_deposit_utxo_info X e s (get_deposit_path X d) summary vout = Inr pu"
  shows "\<exists>s'. complete_failed_deposit_mint X e d tx vout 0 s = Inr (pu_key pu, s') \<and>
    utxos s (pu_key pu) = None \<and> utxos s' (pu_key pu) = Some (VUTXO_Current (pu_utxo pu))"
proof -
  obtain m where s: "s = s0\<lparr>utxos := m\<rparr>" "utxos s (pu_key pu) = None"
    using remove_vutxos_frame[OF assms(1)] assms(2) by blast
  have "dao_call e s k = k" for k :: "(string \<times> contract) res"
    using assms(6,7) by (simp add: s(1) dao_call_def access_control_any_def acl_has_role_def assert_one_yocto_def)
  moreover have "pu_key pu \<in> verified_deposit_utxo s" "unavailable_utxos s (pu_key pu) = None"
    "refund_requests s (pu_key pu) = None"
    using assms(3-5) by (simp_all add: s(1))
  ultimately show ?thesis using s(2) assms(8,9)
    by (simp add: complete_failed_deposit_mint_def Let_def internal_set_utxo_def internal_remove_utxo_in_progress_def
        create_account_if_missing_def internal_set_account_def emit_def)
qed

definition dao_ctx :: ctx where
  "dao_ctx = sample_ctx\<lparr>predecessor := ''dao.near''\<rparr>"

definition dao_psbt :: psbt where
  "dao_psbt = sample_psbt [\<lparr>op_txid = ''ef'', op_vout = 0\<rparr>]
     [\<lparr>txo_value = 50000, txo_script = path_witness_script dao_ctx [2] ''alice.near''\<rparr>]"

definition spent_key :: string where
  "spent_key = generate_utxo_storage_key ''cd'' 0"

definition credited_state :: contract where
  "credited_state = sample_contract\<lparr>utxos := [spent_key \<mapsto> sample_vutxo], verified_deposit_utxo := {spent_key},
     role_members := {(DAO, ''dao.near'')}\<rparr>"

theorem spent_output_registered_again_witness:
  "\<exists>vs s s' (pu :: pending_utxo_info). remove_vutxos [spent_key] credited_state = Inr (vs, s) \<and> utxos s spent_key = None \<and>
    complete_failed_deposit_mint (hex_ext dao_psbt) dao_ctx plain_deposit (Full []) 0 0 s = Inr (spent_key, s') \<and>
    utxos s' spent_key = Some (VUTXO_Current (pu_utxo pu))"
proof -
  define s where "s = credited_state\<lparr>utxos := Map.empty\<rparr>"
  have rm: "remove_vutxos [spent_key] credited_state = Inr ([sample_vutxo], s)"
    by (simp add: credited_state_def s_def)
  have c: "chain_signatures_root_public_key (cfg s) = Some [2]" "chain_cfg (cfg s) = BitcoinMainnet"
    by (simp_all add: s_def credited_state_def sample_contract_def sample_config_def)
  define summary where "summary = \<lparr>ts_tx_id = ''cd'', ts_outputs = tx_output (unsigned_tx dao_psbt)\<rparr>"
  have sm: "internal_resolve_deposit_tx (hex_ext dao_psbt) s (Full []) = Inr summary"
    "ts_tx_id summary = ''cd''" "ts_outputs summary = tx_output (unsigned_tx dao_psbt)"
    by (simp_all add: internal_resolve_deposit_tx_def tx_decode_def hex_ext_simps summary_def)
  obtain pu where pu: "internal_build_deposit_utxo_info (hex_ext dao_psbt) dao_ctx s (get_deposit_path (hex_ext dao_psbt) plain_deposit)
      summary 0 = Inr pu" "pu_key pu = spent_key"
    by (simp add: internal_build_deposit_utxo_info_def sm(2,3) dao_psbt_def sample_psbt_def sample_tx_def Let_def
        get_deposit_path_def hex_ext_simps plain_deposit_def hex_path_script[OF c] try_into_def spent_key_def)
  have h: "pu_key pu \<in> set [spent_key]" "pu_key pu \<in> verified_deposit_utxo credited_state"
    "unavailable_utxos credited_state (pu_key pu) = None" "refund_requests credited_state (pu_key pu) = None"
    "acl_has_role credited_state DAO (predecessor dao_ctx)" "attached_deposit dao_ctx = 1"
    by (simp_all add: pu(2) credited_state_def sample_contract_def acl_has_role_def dao_ctx_def sample_ctx_def)
  from spent_output_registered_again[OF rm h sm(1) pu(1)] obtain s' where r:
    "complete_failed_deposit_mint (hex_ext dao_psbt) dao_ctx plain_deposit (Full []) 0 0 s = Inr (spent_key, s')"
    "utxos s spent_key = None" "utxos s' spent_key = Some (VUTXO_Current (pu_utxo pu))"
    unfolding pu(2) by blast
  show ?thesis
    by (rule exI[of _ "[sample_vutxo]"], rule exI[of _ s], rule exI[of _ s'], rule exI[of _ pu]) (intro conjI rm r)
qed

end
