(* ===== verification/Tx_Flow.thy ===== *)
theory Tx_Flow
  imports Bridge_System
begin

text \<open>
  What happens to one pending transaction: collecting the signatures of its inputs, one callback
  per input, until it can be broadcast; replacing it with a higher fee or cancelling it; and the
  refund of an output that was never minted.
\<close>

section \<open>Collecting signatures\<close>

definition missing :: "pending_info \<Rightarrow> nat" where
  "missing p = length (filter (\<lambda>sg. sg = None) (signatures p))"

lemma missing_update:
  assumes "j < length sgs" "sgs ! j = None"
  shows "Suc (length (filter (\<lambda>sg. sg = None) (sgs[j := Some x]))) = length (filter (\<lambda>sg. sg = None) sgs)"
  using assms by (induction sgs arbitrary: j) (auto simp: nth_Cons split: nat.splits)

lemma all_signed_missing: "is_all_signed p \<longleftrightarrow> missing p = 0"
  by (auto simp: is_all_signed_def missing_def filter_empty_conv)

lemma to_pending_verify_simps [simp]:
  "info_stage (to_pending_verify_stage p) = PendingVerify" "info_kind (to_pending_verify_stage p) = info_kind p"
  "get_original_tx_id (to_pending_verify_stage p) = get_original_tx_id p"
  "signatures (to_pending_verify_stage p) = signatures p" "missing (to_pending_verify_stage p) = missing p"
  "tx_bytes_with_sign (to_pending_verify_stage p) = tx_bytes_with_sign p"
  by (cases "pi_state p"; simp add: to_pending_verify_stage_def info_stage_def info_kind_def
      get_original_tx_id_def missing_def)+

lemma state_queries [simp]:
  "info_stage (p\<lparr>signatures := x, last_sign_time_sec := t, psbt_hex := h\<rparr>) = info_stage p"
  "get_original_tx_id (p\<lparr>signatures := x, last_sign_time_sec := t, psbt_hex := h\<rparr>) = get_original_tx_id p"
  "get_original_tx_id (q\<lparr>tx_bytes_with_sign := b\<rparr>) = get_original_tx_id q"
  "missing (q\<lparr>tx_bytes_with_sign := b\<rparr>) = missing q"
  by (simp_all add: info_stage_def get_original_tx_id_def missing_def)

lemma record_signature_effect:
  assumes "record_signature X e j sg pk p = Inr (q, p')"
  shows "\<exists>t h. p' = p\<lparr>signatures := (signatures p)[j := Some sg], last_sign_time_sec := t, psbt_hex := h\<rparr> \<and>
    j < length (signatures p) \<and> signatures p ! j = None \<and> Suc (missing p') = missing p"
  using assms by (auto simp: record_signature_def res_Inr Let_def missing_def missing_update)

text \<open>One signature: what a successful callback does to the record.\<close>

definition record_of :: "contract \<Rightarrow> string \<Rightarrow> pending_info option" where
  "record_of s i = map_option of_vpending (btc_pending_infos s i)"

lemma sign_callback_effect:
  assumes "sign_btc_transaction_callback X e a i j s = Inr (True, s')"
  shows "\<exists>p p' sg. record_of s i = Some p \<and> record_of s' i = Some p' \<and>
    j < length (signatures p) \<and> signatures p ! j = None \<and>
    signatures p' = (signatures p)[j := Some sg] \<and> Suc (missing p') = missing p \<and>
    get_original_tx_id p' = get_original_tx_id p \<and>
    (\<forall>k. k \<noteq> i \<longrightarrow> record_of s' k = record_of s k) \<and>
    (if missing p' = 0
     then info_stage p' = PendingVerify \<and> tx_bytes_with_sign p' \<noteq> None \<and>
       (\<exists>acc acc'. get_account s a = Some acc \<and> get_account s' a = Some acc' \<and>
          i \<in> btc_pending_sign_ids acc \<and> btc_pending_sign_ids acc' = btc_pending_sign_ids acc - {i} \<and>
          btc_pending_verify_list acc' = (if get_original_tx_id p = None
            then insert i (btc_pending_verify_list acc) else btc_pending_verify_list acc))
     else info_stage p' = info_stage p \<and> accounts s' = accounts s)"
proof -
  obtain bs sg w v pk q p1 where r: "promise_result_checked e MAX_SIGNATURE_RESULT = Some bs"
    "json_signature X bs = Some sg" "btc_pending_infos s i = Some w"
    "record_signature X e j sg pk (of_vpending w) = Inr (q, p1)"
    and fin: "(let s = emit (EvBtcInputSignature a i j sg) s in
         if is_all_signed p1 then finish_signing X a i q p1 s else Inr (write_pending i p1 s)) = Inr s'"
    using assms by (auto simp: sign_btc_transaction_callback_def private_call_def res_Inr
        internal_unwrap_btc_pending_info_def Let_def split: option.splits)
  define p where "p = of_vpending w"
  obtain t h where p1: "p1 = p\<lparr>signatures := (signatures p)[j := Some sg], last_sign_time_sec := t, psbt_hex := h\<rparr>"
    and j: "j < length (signatures p)" "signatures p ! j = None" "Suc (missing p1) = missing p"
    using record_signature_effect[OF r(4)] by (auto simp: p_def)
  have rec: "record_of s i = Some p" using r(3) by (simp add: record_of_def p_def)
  show ?thesis
  proof (cases "missing p1 = 0")
    case True
    then obtain b acc where b: "extract_tx_bytes_with_sign X q = Inr b" "accounts s a = Some acc"
      "i \<in> btc_pending_sign_ids (of_vaccount acc)"
      and s': "s' = (let p2 = to_pending_verify_stage (p1\<lparr>tx_bytes_with_sign := Some b\<rparr>);
          acc1 = (of_vaccount acc)\<lparr>btc_pending_sign_ids := btc_pending_sign_ids (of_vaccount acc) - {i}\<rparr> in
        internal_set_account a (if get_original_tx_id p2 = None
          then acc1\<lparr>btc_pending_verify_list := insert i (btc_pending_verify_list acc1)\<rparr> else acc1)
        (internal_set_account a (of_vaccount acc) (write_pending i p2
           (emit (EvSignedBtcTransaction a i b) (emit (EvBtcInputSignature a i j sg) s)))))"
      using fin by (auto simp: all_signed_missing finish_signing_def res_Inr Let_def
          internal_unwrap_mut_account_def write_pending_def emit_def)
    define p2 where "p2 = to_pending_verify_stage (p1\<lparr>tx_bytes_with_sign := Some b\<rparr>)"
    have o: "get_original_tx_id p2 = get_original_tx_id p" "missing p2 = missing p1"
      "signatures p2 = (signatures p)[j := Some sg]" "info_stage p2 = PendingVerify" "tx_bytes_with_sign p2 \<noteq> None"
      by (simp_all add: p2_def p1)
    show ?thesis
      by (rule exI[of _ p], rule exI[of _ p2], rule exI[of _ sg])
        (use rec j True b o in \<open>auto simp: s' Let_def p2_def[symmetric] record_of_def internal_set_account_def
          write_pending_def emit_def of_vpending_def get_account_def of_vaccount_def\<close>)
  next
    case False
    then have s': "s' = write_pending i p1 (emit (EvBtcInputSignature a i j sg) s)"
      using fin by (simp add: all_signed_missing Let_def)
    show ?thesis
      by (rule exI[of _ p], rule exI[of _ p1], rule exI[of _ sg])
        (use rec j False in \<open>auto simp: s' record_of_def write_pending_def emit_def of_vpending_def p1\<close>)
  qed
qed

text \<open>A run of signature callbacks of one transaction, each of which stores a signature.\<close>

definition sign_once :: "crates \<Rightarrow> string \<Rightarrow> ctx \<times> account_id \<times> usize \<Rightarrow> contract \<Rightarrow> contract res" where
  "sign_once X i = (\<lambda>(e, a, j) s. bindR (sign_btc_transaction_callback X e a i j s)
     (\<lambda>(stored, s). require stored ''not stored'' (Inr s)))"

lemma sign_once_effect:
  "sign_once X i (e, a, j) s = Inr s' \<Longrightarrow> sign_btc_transaction_callback X e a i j s = Inr (True, s')"
  by (auto simp: sign_once_def res_Inr)

definition ready :: "pending_info \<Rightarrow> bool" where
  "ready p \<longleftrightarrow> info_stage p = PendingVerify \<and> tx_bytes_with_sign p \<noteq> None"

definition verify_listed :: "contract \<Rightarrow> account_id \<Rightarrow> string \<Rightarrow> pending_info \<Rightarrow> bool" where
  "verify_listed s a i p \<longleftrightarrow> (\<exists>acc. get_account s a = Some acc \<and> i \<notin> btc_pending_sign_ids acc \<and>
     (get_original_tx_id p = None \<longrightarrow> i \<in> btc_pending_verify_list acc))"

lemma sign_once_step:
  assumes "sign_once X i (e, a, j) s = Inr s'" "record_of s i = Some p"
  obtains p' sg where "record_of s' i = Some p'" "j < length (signatures p)" "signatures p ! j = None"
    "signatures p' = (signatures p)[j := Some sg]" "Suc (missing p') = missing p"
    "get_original_tx_id p' = get_original_tx_id p" "missing p' = 0 \<longrightarrow> ready p' \<and> verify_listed s' a i p"
proof -
  from sign_callback_effect[OF sign_once_effect[OF assms(1)]] obtain p0 p' sg where e: "record_of s i = Some p0"
    "record_of s' i = Some p'" "j < length (signatures p0)" "signatures p0 ! j = None"
    "signatures p' = (signatures p0)[j := Some sg]" "Suc (missing p') = missing p0"
    "get_original_tx_id p' = get_original_tx_id p0"
    and f: "if missing p' = 0
     then info_stage p' = PendingVerify \<and> tx_bytes_with_sign p' \<noteq> None \<and>
       (\<exists>acc acc'. get_account s a = Some acc \<and> get_account s' a = Some acc' \<and>
          i \<in> btc_pending_sign_ids acc \<and> btc_pending_sign_ids acc' = btc_pending_sign_ids acc - {i} \<and>
          btc_pending_verify_list acc' = (if get_original_tx_id p0 = None
            then insert i (btc_pending_verify_list acc) else btc_pending_verify_list acc))
     else info_stage p' = info_stage p0 \<and> accounts s' = accounts s"
    by (elim exE conjE) (rule that)
  have p0: "p0 = p" using e(1) assms(2) by simp
  have r: "missing p' = 0 \<longrightarrow> ready p' \<and> verify_listed s' a i p"
    using f by (auto simp: ready_def verify_listed_def p0)
  show ?thesis by (rule that[OF e(2) _ _ _ _ _ r]) (use e(3-7) p0 in simp_all)
qed

lemma sign_run:
  assumes "fold_res (sign_once X i) cs s = Inr s'" "record_of s i = Some p"
  shows "\<exists>p'. record_of s' i = Some p' \<and> missing p' + length cs = missing p \<and>
    distinct (map (\<lambda>(e, a, j). j) cs) \<and> (\<forall>(e, a, j)\<in>set cs. j < length (signatures p) \<and> signatures p ! j = None) \<and>
    (cs \<noteq> [] \<longrightarrow> missing p' = 0 \<longrightarrow> ready p' \<and> verify_listed s' (fst (snd (last cs))) i p)"
  using assms
proof (induction cs arbitrary: s p)
  case Nil
  then show ?case by simp
next
  case (Cons c cs)
  obtain e a j where c: "c = (e, a, j)" by (cases c)
  obtain s1 where s1: "sign_once X i (e, a, j) s = Inr s1" "fold_res (sign_once X i) cs s1 = Inr s'"
    using Cons.prems(1) by (auto simp: c res_Inr)
  obtain p1 sg where p1: "record_of s1 i = Some p1" "j < length (signatures p)" "signatures p ! j = None"
    "signatures p1 = (signatures p)[j := Some sg]" "Suc (missing p1) = missing p"
    "get_original_tx_id p1 = get_original_tx_id p" "missing p1 = 0 \<longrightarrow> ready p1 \<and> verify_listed s1 a i p"
    by (rule sign_once_step[OF s1(1) Cons.prems(2)])
  from Cons.IH[OF s1(2) p1(1)] obtain p' where p': "record_of s' i = Some p'" "missing p' + length cs = missing p1"
    "distinct (map (\<lambda>(e, a, j). j) cs)"
    "\<forall>(e, a, j)\<in>set cs. j < length (signatures p1) \<and> signatures p1 ! j = None"
    "cs \<noteq> [] \<longrightarrow> missing p' = 0 \<longrightarrow> ready p' \<and> verify_listed s' (fst (snd (last cs))) i p1"
    by (elim exE conjE) (rule that)
  have other: "j' \<noteq> j \<and> j' < length (signatures p) \<and> signatures p ! j' = None" if "(e', a', j') \<in> set cs" for e' a' j'
  proof -
    have "j' < length (signatures p1)" "signatures p1 ! j' = None" using p'(4) that by auto
    then show ?thesis using p1(2) unfolding p1(4) by (cases "j' = j") simp_all
  qed
  have listed: "verify_listed s'' b i p1 = verify_listed s'' b i p" for s'' b
    by (simp add: verify_listed_def p1(6))
  show ?case
  proof (rule exI[of _ p'], intro conjI)
    show "record_of s' i = Some p'" "missing p' + length (c # cs) = missing p" using p'(1,2) p1(5) by simp_all
    show "distinct (map (\<lambda>(e, a, j). j) (c # cs))" using p'(3) other by (auto simp: c)
    show "\<forall>(e, a, j)\<in>set (c # cs). j < length (signatures p) \<and> signatures p ! j = None"
      using other p1(2,3) by (auto simp: c)
    show "c # cs \<noteq> [] \<longrightarrow> missing p' = 0 \<longrightarrow> ready p' \<and> verify_listed s' (fst (snd (last (c # cs)))) i p"
    proof (cases cs)
      case Nil
      with s1(2) p1(1) p'(1) have "s' = s1" "p' = p1" by simp_all
      then show ?thesis using p1(7) Nil by (simp add: c)
    next
      case Cons
      then show ?thesis using p'(5) by (simp add: listed)
    qed
  qed
qed

text \<open>C15: collecting signatures terminates.  A transaction takes at most as many signatures as it has
  unsigned inputs, each for another unsigned input; the callback that stores the last one produces
  the signed transaction, moves the record to verification, and takes the transaction out of the
  account's signing set, into its verification list when it is not a replacement.\<close>

theorem signing_terminates:
  assumes "record_of s i = Some p" "fold_res (sign_once X i) cs s = Inr s'"
  shows "length cs \<le> missing p \<and> distinct (map (\<lambda>(e, a, j). j) cs) \<and>
    (\<forall>(e, a, j)\<in>set cs. j < length (signatures p) \<and> signatures p ! j = None) \<and>
    (length cs = missing p \<and> cs \<noteq> [] \<longrightarrow> (\<exists>p'. record_of s' i = Some p' \<and> is_all_signed p' \<and> ready p' \<and>
      verify_listed s' (fst (snd (last cs))) i p))"
  using sign_run[OF assms(2,1)] by (auto simp: all_signed_missing)

text \<open>A withdrawal with one unsigned input.\<close>

definition unsigned_record :: pending_info where
  "unsigned_record = \<lparr>pi_account_id = ''alice.near'', pi_btc_pending_id = ''cd'', transfer_amount = 50000,
     actual_received_amount = 47500, withdraw_fee = 2000, gas_fee = 500, burn_amount = 48000, psbt_hex = ''00'',
     vutxos = [sample_vutxo], signatures = [None], tx_bytes_with_sign = None, create_time_sec = 0,
     last_sign_time_sec = 0, pi_state = WithdrawOriginal \<lparr>os_stage = PendingSign, max_gas_fee = 500,
       last_rbf_time_sec = None, cancel_rbf_reserved = None\<rparr>\<rparr>"

definition unsigned_state :: contract where
  "unsigned_state = sample_contract\<lparr>
     accounts := [''alice.near'' \<mapsto> VAccount_Current ((account_new ''alice.near'')\<lparr>btc_pending_sign_ids := {''cd''}\<rparr>)],
     btc_pending_infos := [''cd'' \<mapsto> VPending_Current unsigned_record]\<rparr>"

definition sign_ctx :: ctx where
  "sign_ctx = sample_ctx\<lparr>predecessor := ''bridge.near''\<rparr>"

lemma sample_sign_ok: "is_ok (sign_once sample_x ''cd'' (sign_ctx, ''alice.near'', 0) unsigned_state)"
proof -
  have x: "json_signature sample_x bs = Some \<lparr>big_r = ''02aa'', sig_s = ''bb'', recovery_id = 0\<rparr>"
    "ecdsa_from_compact sample_x c = Some c" "hex_decode sample_x h = Some []"
    "psbt_deserialize sample_x c = Some sample_withdraw_psbt" "extract_tx sample_x q = Some (unsigned_tx q)"
    "scalar_from_repr sample_x c = Some c" "compress_public_key sample_x c = Some c" for bs c h q
    by (simp_all add: sample_x_def) (simp_all add: sample_ext_def addr_crates.defs crates.defs)
  have pk: "is_ok (generate_btc_public_key sample_x sign_ctx unsigned_state path)" for path
    by (simp add: generate_btc_public_key_def generate_public_key_def derive_epsilon_def x unsigned_state_def
        sample_contract_def sample_config_def)
  then obtain k where k: "generate_btc_public_key sample_x sign_ctx unsigned_state (get_path sample_vutxo) = Inr k" by blast
  have now: "nano_to_sec (block_timestamp sign_ctx) = Inr 1700000000"
    by (simp add: sign_ctx_def sample_ctx_def nano_to_sec_def U32_MAX_def try_into_def)
  have in1: "psbt_inputs sample_withdraw_psbt = [empty_psbt_input]" by (rule sample_psbt_inputs)
  let ?sg = "\<lparr>big_r = ''02aa'', sig_s = ''bb'', recovery_id = 0\<rparr>"
  obtain q p1 where r: "record_signature sample_x sign_ctx 0 ?sg k unsigned_record = Inr (q, p1)"
    by (simp add: record_signature_def unsigned_record_def index_at_def now get_psbt_def psbt_deserialize_hex_def x
        save_signature_def to_btc_signature_def in1 Let_def)
  obtain t h where p1: "p1 = unsigned_record\<lparr>signatures := [Some ?sg], last_sign_time_sec := t, psbt_hex := h\<rparr>"
    using record_signature_effect[OF r] by (auto simp: unsigned_record_def)
  have all: "is_all_signed p1" by (simp add: p1 is_all_signed_def)
  have fin: "is_ok (finish_signing sample_x ''alice.near'' ''cd'' q p1 (emit ev unsigned_state))" for ev
    by (simp add: finish_signing_def extract_tx_bytes_with_sign_def x internal_unwrap_mut_account_def write_pending_def
        emit_def unsigned_state_def of_vaccount_def Let_def)
  have c: "predecessor sign_ctx = current_account sign_ctx"
    "promise_result_checked sign_ctx MAX_SIGNATURE_RESULT = Some ''true''"
    "btc_pending_infos unsigned_state ''cd'' = Some (VPending_Current unsigned_record)"
    "vutxos unsigned_record = [sample_vutxo]"
    by (simp_all add: sign_ctx_def sample_ctx_def promise_result_checked_def MAX_SIGNATURE_RESULT_def
        unsigned_state_def unsigned_record_def)
  obtain s' where "finish_signing sample_x ''alice.near'' ''cd'' q p1
      (emit (EvBtcInputSignature ''alice.near'' ''cd'' 0 ?sg) unsigned_state) = Inr s'"
    using fin by blast
  then show ?thesis
    by (simp add: sign_once_def sign_btc_transaction_callback_def private_call_def c x internal_unwrap_btc_pending_info_def
        of_vpending_def index_at_def k r all Let_def)
qed

theorem signing_terminates_witness:
  "\<exists>s' p'. fold_res (sign_once sample_x ''cd'') [(sign_ctx, ''alice.near'', 0)] unsigned_state = Inr s' \<and>
    record_of s' ''cd'' = Some p' \<and> is_all_signed p' \<and> info_stage p' = PendingVerify"
proof -
  obtain s' where s': "fold_res (sign_once sample_x ''cd'') [(sign_ctx, ''alice.near'', 0)] unsigned_state = Inr s'"
    using sample_sign_ok by auto
  have p: "record_of unsigned_state ''cd'' = Some unsigned_record" "missing unsigned_record = 1"
    by (simp_all add: record_of_def unsigned_state_def of_vpending_def missing_def unsigned_record_def)
  from signing_terminates[OF p(1) s'] p(2) s' show ?thesis by (auto simp: ready_def)
qed

section \<open>Replacing and cancelling\<close>

lemma set_rbf_pending_effect:
  assumes "set_rbf_pending_info X orig info p c s = Inr (t, s')"
  shows "\<exists>txs. record_of s t = None \<and>
    s' = s\<lparr>btc_pending_infos := (btc_pending_infos s)(t \<mapsto> VPending_Current (info\<lparr>pi_btc_pending_id := t, psbt_hex := psbt_serialize X p\<rparr>)),
       rbf_txs := (rbf_txs s)(orig \<mapsto> txs)\<rparr> \<and>
    txs = insert t (case rbf_txs s orig of Some u \<Rightarrow> u | None \<Rightarrow> {}) \<and> (c \<or> card txs \<le> rbf_num_limit (cfg s))"
  using assms by (auto simp: set_rbf_pending_info_def insert_new_pending_def write_pending_def record_of_def Let_def res_Inr)

text \<open>C27: a user's replacement always pays more.  An accepted replacement belongs to the owner of an
  original withdrawal that is being verified and was not cancelled; it pays a higher gas fee than every
  version before it, which becomes the fee to beat; it keeps the amount, the withdrawal fee and the
  UTXOs of the original, burns what the user receives plus the gas, starts unsigned, and the
  number of replacements stays within the configured limit.\<close>

theorem replacement_pays_more:
  assumes "internal_withdraw_rbf X e a orig q pred s = Inr (t, s')" "record_of s orig = Some p"
  shows "\<exists>p' r m. record_of s' orig = Some p' \<and> record_of s' t = Some r \<and> record_of s t = None \<and>
    pi_account_id p = a \<and> info_kind p = KWithdraw \<and> info_stage p = PendingVerify \<and> get_cancel_rbf_reserved p = Inr None \<and>
    get_max_gas_fee p = Inr m \<and> m < gas_fee r \<and> get_max_gas_fee p' = Inr (gas_fee r) \<and>
    info_kind r = KUserRbf \<and> info_stage r = PendingSign \<and> get_original_tx_id r = Some orig \<and>
    transfer_amount r = transfer_amount p \<and> withdraw_fee r = withdraw_fee p \<and> vutxos r = vutxos p \<and>
    burn_amount r = actual_received_amount r + gas_fee r \<and> set (signatures r) \<subseteq> {None} \<and>
    (\<forall>k. k \<noteq> orig \<and> k \<noteq> t \<longrightarrow> record_of s' k = record_of s k) \<and>
    card (the (rbf_txs s' orig)) \<le> rbf_num_limit (cfg s)"
proof -
  obtain info actual gas p' where 1: "pi_account_id p = a" "get_cancel_rbf_reserved p = Inr None"
    "info_kind p = KWithdraw" "info_stage p = PendingVerify"
    "init_rbf_btc_pending_info e p (WithdrawUserRbf \<lparr>rs_stage = PendingSign, original_tx_id = orig\<rparr>) = Inr info"
    "is_ok (check_withdraw_chain_specific p gas (Inr ()))"
    "update_max_gas_fee e p gas = Inr p'"
    "set_rbf_pending_info X orig (info\<lparr>gas_fee := gas, actual_received_amount := actual, burn_amount := actual + gas\<rparr>) q False
       (write_pending orig p' s) = Inr (t, s')"
    using assms by (auto simp: internal_withdraw_rbf_def record_of_def internal_unwrap_btc_pending_info_def res_Inr
        assert_not_canceled_def check_withdraw_chain_specific_def)
  from 1(6) obtain m where m: "get_max_gas_fee p = Inr m" "m < gas"
    by (auto simp: check_withdraw_chain_specific_def res_Inr)
  from 1(7) 1(3) obtain o1 where o1: "pi_state p = WithdrawOriginal o1" by (cases "pi_state p") (auto simp: info_kind_def)
  with 1(7) have mx: "get_max_gas_fee p' = Inr gas"
    by (auto simp: update_max_gas_fee_def res_Inr get_max_gas_fee_def)
  have info: "transfer_amount info = transfer_amount p" "withdraw_fee info = withdraw_fee p" "vutxos info = vutxos p"
    "pi_state info = WithdrawUserRbf \<lparr>rs_stage = PendingSign, original_tx_id = orig\<rparr>" "set (signatures info) \<subseteq> {None}"
    using 1(5) by (auto simp: init_rbf_btc_pending_info_def res_Inr)
  define r where "r = info\<lparr>gas_fee := gas, actual_received_amount := actual, burn_amount := actual + gas,
    pi_btc_pending_id := t, psbt_hex := psbt_serialize X q\<rparr>"
  note w = set_rbf_pending_effect[OF 1(8)]
  have "t \<noteq> orig" using w by (auto simp: record_of_def write_pending_def)
  show ?thesis
    by (rule exI[of _ p'], rule exI[of _ r], rule exI[of _ m])
      (use w 1(1-4) m mx info \<open>t \<noteq> orig\<close> in \<open>auto simp: r_def record_of_def write_pending_def of_vpending_def info_kind_def
        info_stage_def get_original_tx_id_def\<close>)
qed

definition top_up :: "u128 \<Rightarrow> contract \<Rightarrow> contract res" where
  \<comment> \<open>the conditional reservation inside \<open>internal_cancel_withdraw\<close>\<close>
  "top_up additional s = (if additional > 0
     then require (cur_available_protocol_fee s \<ge> additional) ''Insufficient protocol fee'' (fee_reserve additional s)
     else Inr s)"

definition covered_by_dao :: "contract \<Rightarrow> account_id \<Rightarrow> u128 \<Rightarrow> bool" where
  "covered_by_dao s pred excess \<longleftrightarrow> (excess > 0 \<longrightarrow> acl_has_role s DAO pred)"

lemmas cancel_withdraw_topped =
  internal_cancel_withdraw_def[unfolded Let_def, folded top_up_def covered_by_dao_def]

lemma top_up_effect:
  "top_up x s = Inr s' \<Longrightarrow> cur_reserved_protocol_fee s' = cur_reserved_protocol_fee s + x \<and>
     btc_pending_infos s' = btc_pending_infos s"
  by (auto simp: top_up_def fee_reserve_def res_Inr split: if_splits)

text \<open>C28: cancelling ends the user's replacements.  An accepted cancellation only comes after the
  waiting time, needs the DAO to charge the protocol for gas beyond the user's balance, reserves
  exactly the part of that gas that earlier cancellations did not reserve, and afterwards no further
  replacement by the user is accepted.\<close>

theorem cancellation_ends_replacements:
  assumes "internal_cancel_withdraw X e a orig q pred s = Inr (t, s')" "record_of s orig = Some p"
  shows "\<exists>p' r prev excess. record_of s' orig = Some p' \<and> record_of s' t = Some r \<and>
    create_time_sec p + max_btc_tx_pending_sec (cfg s) < block_timestamp e div 10 ^ 9 \<and>
    get_cancel_rbf_reserved p = Inr prev \<and> get_cancel_rbf_reserved p' = Inr (Some (max (case prev of Some x \<Rightarrow> x | None \<Rightarrow> 0) excess)) \<and>
    excess = gas_fee r - (transfer_amount p - withdraw_fee p) \<and> (0 < excess \<longrightarrow> acl_has_role s DAO pred) \<and>
    burn_amount r = gas_fee r \<and> info_kind r = KCancelWithdraw \<and> get_original_tx_id r = Some orig \<and>
    cur_reserved_protocol_fee s' = cur_reserved_protocol_fee s + (excess - (case prev of Some x \<Rightarrow> x | None \<Rightarrow> 0)) \<and>
    (\<forall>X e a q pred. \<not> is_ok (internal_withdraw_rbf X e a orig q pred s'))"
proof -
  obtain info actual gas prev p' s1 now where 1: "create_time_sec p \<le> now" "max_btc_tx_pending_sec (cfg s) < now - create_time_sec p"
    "nano_to_sec (block_timestamp e) = Inr now" "get_cancel_rbf_reserved p = Inr prev" "info_kind p = KWithdraw"
    "init_rbf_btc_pending_info e p (WithdrawCancelRbf \<lparr>rs_stage = PendingSign, original_tx_id = orig\<rparr>) = Inr info"
    "covered_by_dao s pred (gas - (transfer_amount info - withdraw_fee info))"
    "top_up (gas - (transfer_amount info - withdraw_fee info) - (case prev of Some r \<Rightarrow> r | None \<Rightarrow> 0)) s = Inr s1"
    "do_cancel e p gas (max (case prev of Some r \<Rightarrow> r | None \<Rightarrow> 0) (gas - (transfer_amount info - withdraw_fee info))) = Inr p'"
    "set_rbf_pending_info X orig (info\<lparr>gas_fee := gas, burn_amount := gas, actual_received_amount := actual\<rparr>) q True
       (write_pending orig p' s1) = Inr (t, s')"
    using assms by (auto simp: cancel_withdraw_topped record_of_def internal_unwrap_btc_pending_info_def res_Inr
        assert_cancel_allowed_def check_withdraw_chain_specific_def)
  define P where "P = (case prev of Some r \<Rightarrow> r | None \<Rightarrow> 0)"
  define E where "E = gas - (transfer_amount p - withdraw_fee p)"
  have info: "transfer_amount info = transfer_amount p" "withdraw_fee info = withdraw_fee p"
    "pi_state info = WithdrawCancelRbf \<lparr>rs_stage = PendingSign, original_tx_id = orig\<rparr>"
    using 1(6) by (auto simp: init_rbf_btc_pending_info_def res_Inr)
  have s1: "cur_reserved_protocol_fee s1 = cur_reserved_protocol_fee s + (E - P)" "btc_pending_infos s1 = btc_pending_infos s"
    using top_up_effect[OF 1(8)] by (simp_all add: info P_def E_def)
  from 1(5) obtain o1 where o1: "pi_state p = WithdrawOriginal o1" by (cases "pi_state p") (auto simp: info_kind_def)
  with 1(9) have mx: "get_cancel_rbf_reserved p' = Inr (Some (max P E))"
    by (auto simp: do_cancel_def res_Inr get_cancel_rbf_reserved_def info P_def E_def)
  note w = set_rbf_pending_effect[OF 1(10)]
  define r where "r = info\<lparr>gas_fee := gas, burn_amount := gas, actual_received_amount := actual,
    pi_btc_pending_id := t, psbt_hex := psbt_serialize X q\<rparr>"
  have "t \<noteq> orig" using w by (auto simp: record_of_def write_pending_def)
  with w have rec: "record_of s' orig = Some p'" "record_of s' t = Some r" "cur_reserved_protocol_fee s' = cur_reserved_protocol_fee s1"
    by (auto simp: record_of_def write_pending_def of_vpending_def r_def)
  have time: "create_time_sec p + max_btc_tx_pending_sec (cfg s) < block_timestamp e div 10 ^ 9"
    using 1(1-3) by (auto simp: nano_to_sec_def res_Inr)
  have no: "\<not> is_ok (internal_withdraw_rbf X e a orig q pred s')" for X e a q pred
    using rec(1) mx by (auto simp: internal_withdraw_rbf_def internal_unwrap_btc_pending_info_def record_of_def
        res_Inr assert_not_canceled_def)
  have ex: "0 < E \<longrightarrow> acl_has_role s DAO pred" using 1(7) by (simp add: info E_def covered_by_dao_def)
  have r: "gas_fee r = gas" "burn_amount r = gas" "info_kind r = KCancelWithdraw" "get_original_tx_id r = Some orig"
    by (simp_all add: r_def info_kind_def get_original_tx_id_def info)
  show ?thesis
    by (rule exI[of _ p'], rule exI[of _ r], rule exI[of _ prev], rule exI[of _ E])
      (intro conjI allI rec(1,2) time 1(4) mx[unfolded P_def] ex r(3,4) no,
        simp_all add: r(1,2) E_def rec(3) s1(1) P_def)
qed

text \<open>A signed withdrawal that is being verified; its replacement pays 1000 instead of 500.\<close>

definition signed_record :: pending_info where
  "signed_record = unsigned_record\<lparr>pi_btc_pending_id := ''t'', tx_bytes_with_sign := Some [],
     pi_state := WithdrawOriginal \<lparr>os_stage = PendingVerify, max_gas_fee = 500,
       last_rbf_time_sec = None, cancel_rbf_reserved = None\<rparr>\<rparr>"

definition signed_state :: contract where
  "signed_state = sample_contract\<lparr>btc_pending_infos := [''t'' \<mapsto> VPending_Current signed_record]\<rparr>"

lemma signed_record_of: "record_of signed_state ''t'' = Some signed_record"
  by (simp add: record_of_def signed_state_def of_vpending_def)

lemma signed_values:
  "cfg signed_state = sample_config" "btc_pending_infos signed_state = [''t'' \<mapsto> VPending_Current signed_record]"
  "pi_account_id signed_record = ''alice.near''" "vutxos signed_record = [sample_vutxo]"
  "transfer_amount signed_record = 50000" "withdraw_fee signed_record = 2000" "create_time_sec signed_record = 0"
  "tx_bytes_with_sign signed_record = Some []" "signatures signed_record = [None]" "psbt_hex signed_record = ''00''"
  "pi_state signed_record = WithdrawOriginal \<lparr>os_stage = PendingVerify, max_gas_fee = 500,
       last_rbf_time_sec = None, cancel_rbf_reserved = None\<rparr>"
  "rbf_txs signed_state = Map.empty" "role_members signed_state = {}"
  by (simp_all add: signed_state_def sample_contract_def signed_record_def unsigned_record_def)

lemma sample_now: "nano_to_sec (block_timestamp sample_ctx) = Inr 1700000000"
  by (simp add: sample_ctx_def nano_to_sec_def U32_MAX_def try_into_def)

lemma sample_recipient: "extract_recipient_address sample_x signed_state signed_record = Inr (sample_address (CHR ''u''))"
proof -
  have x: "hex_decode sample_x h = Some []" "psbt_deserialize sample_x c = Some sample_withdraw_psbt"
    "tx_consensus_decode sample_x c = Some (unsigned_tx sample_withdraw_psbt)" for h c
    by (simp_all add: sample_x_def)
  have b: "is_p2pkh sample_x = p2pkh_layout" "base58_encode_check sample_x = map (\<lambda>b. char_of (unat b))"
    by (simp_all add: sample_x_def sample_ext_def addr_crates.defs crates.defs sample_crates_def)
  have change: "get_change_script_pubkey sample_x sample_config = Inr (p2pkh_script 0x63)"
    using sample_change_script[of "\<lambda>_. ''cd''" sample_withdraw_psbt] by (simp add: sample_x_def)
  have f: "from_script sample_x (p2pkh_script 0x75) BitcoinMainnet = Some (P2pkh (replicate 20 0x75) BitcoinMainnet)"
    by (simp add: from_script_def b p2pkh_layout_def p2pkh_script_def slice_def hash_from_slice_def)
  show ?thesis
    by (simp add: extract_recipient_address_def get_psbt_def psbt_deserialize_hex_def x signed_values get_recipient_address_def
        change get_transaction_def tx_decode_def sample_withdraw_psbt_def sample_psbt_def sample_tx_def sample_config_values
        f display_address_def b get_pubkey_address_prefix_def sample_address_def
        char_of_def bit_0)
qed

lemma sample_rbf_ok:
  "is_ok (internal_withdraw_rbf sample_x sample_ctx ''alice.near'' ''t'' sample_withdraw_psbt ''alice.near'' signed_state)"
proof -
  have x: "tx_consensus_decode sample_x c = Some (unsigned_tx sample_withdraw_psbt)" "extract_tx sample_x q = Some (unsigned_tx q)"
    "compute_txid sample_x u = ''cd''" for c q u
    by (simp_all add: sample_x_def)
  have change: "get_change_script_pubkey sample_x sample_config = Inr (p2pkh_script 0x63)"
    using sample_change_script[of "\<lambda>_. ''cd''" sample_withdraw_psbt] by (simp add: sample_x_def)
  have "check_withdraw_psbt sample_x sample_ctx signed_state sample_withdraw_psbt (sample_address (CHR ''u'')) (p2pkh_script 0x63)
      [sample_vutxo] 50000 2000 = check_withdraw_psbt sample_x sample_ctx sample_contract
      sample_withdraw_psbt (sample_address (CHR ''u'')) (p2pkh_script 0x63) [sample_vutxo] 50000 2000"
    by (rule check_withdraw_psbt_cong) (simp_all add: signed_state_def sample_contract_def)
  then have ck: "check_withdraw_psbt sample_x sample_ctx signed_state sample_withdraw_psbt (sample_address (CHR ''u'')) (p2pkh_script 0x63)
      [sample_vutxo] 50000 2000 = Inr (1, 1, 47000, 1000)"
    by (simp add: sample_x_def sample_withdraw_check)
  have v: "check_withdraw_rbf_psbt_valid sample_x sample_ctx signed_state signed_record sample_withdraw_psbt = Inr (47000, 1000)"
    by (simp add: check_withdraw_rbf_psbt_valid_def signed_values change get_transaction_def tx_decode_def x
        sample_recipient ck get_output_num_def)
  show ?thesis
    by (simp add: internal_withdraw_rbf_def internal_unwrap_btc_pending_info_def signed_values of_vpending_def
        assert_not_canceled_def get_cancel_rbf_reserved_def assert_withdraw_original_pending_verify_tx_def
        os_assert_pending_verify_def init_rbf_btc_pending_info_def sample_now v chk_add_def U128_MAX_def
        check_withdraw_chain_specific_def get_max_gas_fee_def update_max_gas_fee_def set_rbf_pending_info_def Let_def
        get_pending_id_def x insert_new_pending_def write_pending_def sample_config_values)
qed

theorem replacement_pays_more_witness:
  "\<exists>t s' r. internal_withdraw_rbf sample_x sample_ctx ''alice.near'' ''t'' sample_withdraw_psbt ''alice.near'' signed_state = Inr (t, s') \<and>
    record_of s' t = Some r \<and> 500 < gas_fee r \<and> info_kind r = KUserRbf"
proof -
  obtain t s' where run: "internal_withdraw_rbf sample_x sample_ctx ''alice.near'' ''t'' sample_withdraw_psbt ''alice.near'' signed_state = Inr (t, s')"
    using sample_rbf_ok by auto
  have m: "get_max_gas_fee signed_record = Inr 500" by (simp add: get_max_gas_fee_def signed_values)
  from replacement_pays_more[OF run signed_record_of] run m show ?thesis by auto
qed

definition cancel_psbt :: psbt where
  "cancel_psbt = sample_psbt [\<lparr>op_txid = ''ab'', op_vout = 0\<rparr>] [\<lparr>txo_value = 77000, txo_script = p2pkh_script 0x63\<rparr>]"

lemma sample_cancel_ok:
  "is_ok (internal_cancel_withdraw sample_x sample_ctx ''alice.near'' ''t'' cancel_psbt ''dao.near'' signed_state)"
proof -
  have x: "extract_tx sample_x q = Some (unsigned_tx q)" "compute_txid sample_x u = ''cd''" for q u
    by (simp_all add: sample_x_def)
  have c: "unhealthy_utxo_amount sample_config = 1000" "max_change_amount sample_config = 100000000"
    "min_btc_gas_fee sample_config = 100" "max_btc_gas_fee sample_config = 80000" "min_change_amount sample_config = 0"
    by (simp_all add: sample_config_def)
  have amt: "get_amount sample_vutxo = 78000" by (simp add: sample_vutxo_def get_amount_def)
  have w: "word_of_nat (of_char (CHR ''c'')) = (0x63 :: 8 word)" by simp
  have change: "get_change_script_pubkey sample_x sample_config = Inr (p2pkh_script 0x63)"
    using sample_change_script[of "\<lambda>_. ''cd''" sample_withdraw_psbt] by (simp add: sample_x_def)
  have v: "check_cancel_withdraw_rbf_psbt_valid sample_x signed_state signed_record cancel_psbt = Inr (77000, 1000)"
    unfolding check_cancel_withdraw_rbf_psbt_valid_def check_psbt_output_all_change_address_def Let_def signed_values change w
    by (simp add: amt c cancel_psbt_def get_output_def sample_psbt_def sample_tx_def check_min_fee_chain_specific_def
        chk_add_def chk_sub_def U128_MAX_def)
  show ?thesis
    by (simp add: internal_cancel_withdraw_def internal_unwrap_btc_pending_info_def signed_values of_vpending_def
        assert_cancel_allowed_def sample_now chk_sub_def sample_config_values
        get_cancel_rbf_reserved_def assert_withdraw_original_pending_verify_tx_def
        os_assert_pending_verify_def init_rbf_btc_pending_info_def v
        check_withdraw_chain_specific_def get_max_gas_fee_def do_cancel_def set_rbf_pending_info_def Let_def
        get_pending_id_def x insert_new_pending_def write_pending_def)
qed

theorem cancellation_ends_replacements_witness:
  "\<exists>t s' r. internal_cancel_withdraw sample_x sample_ctx ''alice.near'' ''t'' cancel_psbt ''dao.near'' signed_state = Inr (t, s') \<and>
    record_of s' t = Some r \<and> info_kind r = KCancelWithdraw \<and>
    (\<forall>X e a q pred. \<not> is_ok (internal_withdraw_rbf X e a ''t'' q pred s'))"
proof -
  obtain t s' where run: "internal_cancel_withdraw sample_x sample_ctx ''alice.near'' ''t'' cancel_psbt ''dao.near'' signed_state = Inr (t, s')"
    using sample_cancel_ok by auto
  from cancellation_ends_replacements[OF run signed_record_of] run show ?thesis by blast
qed

section \<open>Refunding a deposit that was never minted\<close>

lemma finalize_refund_effect:
  assumes "finalize_refund_with_psbt X e a r q amount key s = Inr s'"
  shows "\<exists>t p. record_of s t = None \<and> record_of s' t = Some p \<and> info_kind p = KRefund \<and> info_stage p = PendingSign \<and>
    pi_account_id p = a \<and> actual_received_amount p = amount \<and> gas_fee p = rr_gas_fee r \<and> psbt_hex p = psbt_serialize X q \<and>
    signatures p = [None] \<and> get_pending_id X q = Inr t \<and>
    verified_deposit_utxo s' = insert key (verified_deposit_utxo s) \<and>
    refund_requests s' = (refund_requests s)(key \<mapsto> VRefund_Current (r\<lparr>executed := True\<rparr>))"
proof -
  have c: "btc_pending_infos (create_account_if_missing a s) = btc_pending_infos s"
    "refund_requests (create_account_if_missing a s) = refund_requests s"
    "verified_deposit_utxo (create_account_if_missing a s) = verified_deposit_utxo s"
    by (simp_all add: create_account_if_missing_def internal_set_account_def)
  obtain t now d balance v s1 s2 where 1: "get_pending_id X q = Inr t"
    "insert_new_pending t
       \<lparr>pi_account_id = a, pi_btc_pending_id = t, transfer_amount = 0,
        actual_received_amount = amount, withdraw_fee = 0, gas_fee = rr_gas_fee r, burn_amount = 0,
        psbt_hex = psbt_serialize X q, vutxos = [v], signatures = [None], tx_bytes_with_sign = None,
        create_time_sec = now, last_sign_time_sec = 0,
        pi_state = Refund \<lparr>os_stage = PendingSign, max_gas_fee = rr_gas_fee r,
          last_rbf_time_sec = None, cancel_rbf_reserved = None\<rparr>\<rparr> (create_account_if_missing a s) = Inr s1"
    "add_pending_sign_id a t s1 = Inr s2"
    "s' = (emit (EvGenerateBtcPendingInfo a t (get_expiry_height q))
       (emit (EvRefundExecuted key (rr_amount r) (rr_refund_address r))
        (s2\<lparr>verified_deposit_utxo := insert key (verified_deposit_utxo s2)\<rparr>)))
       \<lparr>refund_requests := (refund_requests s2)(key \<mapsto> VRefund_Current (r\<lparr>executed := True\<rparr>))\<rparr>"
    using assms by (auto simp: finalize_refund_with_psbt_def Let_def res_Inr require_pending_sign_capacity_def emit_def)
  from 1(3) obtain acc where s2: "s2 = s1\<lparr>accounts := acc\<rparr>"
    by (auto simp: add_pending_sign_id_def internal_unwrap_mut_account_def internal_set_account_def res_Inr)
  show ?thesis
    by (rule exI[of _ t], rule exI)
      (use 1(1,2,4) c s2 in \<open>auto simp: insert_new_pending_def write_pending_def res_Inr record_of_def emit_def of_vpending_def
        info_kind_def info_stage_def\<close>)
qed

text \<open>C11: a refund waits and pays exactly.  An executed refund was requested, waited the timelock of its
  kind (none only for the DAO or a refund operator when the depositor had named the address, the long
  one whenever the depositor had not), concerns an output that was not verified as a deposit (or whose
  refund had been executed before and is executed again), and creates an unsigned transaction that
  pays the whole amount less the requested gas fee to the requested address and nothing else.  In the
  state it leaves, neither inclusion callback can mint the output, standard or safe, the DAO cannot
  register it as a completed deposit, and the request cannot be rejected.\<close>

theorem refund_waits_and_pays:
  assumes "psbt_crate_ok X" "execute_refund X e key s = Inr s'" "refund_requests s key = Some v" "r = of_vrefund v"
  shows "\<exists>d t p q script a. deposit_msg_of_json X (deposit_msg_json r) = Some d \<and>
    created_at_sec r + (if dm_refund_address d = None then unsafe_refund_timelock_sec (cfg s)
       else if acl_has_role s DAO (predecessor e) \<or> acl_has_role s RefundOperator (predecessor e) then 0
       else refund_timelock_sec (cfg s)) \<le> block_timestamp e div 10 ^ 9 \<and>
    (key \<notin> verified_deposit_utxo s \<or> executed r) \<and>
    parse_address X (rr_refund_address r) (chain_cfg (cfg s)) = Inr a \<and> script_pubkey X a = Inr script \<and>
    record_of s t = None \<and> record_of s' t = Some p \<and> info_kind p = KRefund \<and> info_stage p = PendingSign \<and>
    psbt_hex p = psbt_serialize X q \<and> get_output q = [\<lparr>txo_value = actual_received_amount p, txo_script = script\<rparr>] \<and>
    get_input_num q = 1 \<and>
    actual_received_amount p + rr_gas_fee r = rr_amount r \<and> min_change_amount (cfg s) \<le> actual_received_amount p \<and>
    key \<in> verified_deposit_utxo s' \<and> (\<forall>e. \<not> is_ok (reject_refund e key s')) \<and>
    (\<forall>(X :: crates) e a amt pf rf pu pacts msg delta. pu_key pu = key \<longrightarrow>
       \<not> is_ok (verify_deposit_callback X e a amt pf rf pu pacts delta s') \<and>
       \<not> is_ok (verify_safe_deposit_callback X e a amt msg pu delta s')) \<and>
    (\<forall>(X :: crates) e d tx vout pf s2. complete_failed_deposit_mint X e d tx vout pf s' \<noteq> Inr (key, s2))"
proof -
  obtain d lock outp depo amount out q0 q where 1: "deposit_msg_of_json X (deposit_msg_json r) = Some d"
    "lock = (if dm_refund_address d \<noteq> None
          then (if acl_has_role s DAO (predecessor e) \<or> acl_has_role s RefundOperator (predecessor e) then 0
            else refund_timelock_sec (cfg s)) else unsafe_refund_timelock_sec (cfg s))"
    "load_refund_request_for_execute e s key lock = Inr r"
    "refund_execution_inputs X e s r = Inr (outp, depo, amount)"
    "build_refund_output X s (rr_refund_address r) amount = Inr out"
    "psbt_new X [outp] [out] = Inr q0" "set_input_utxo q0 [depo] = Inr q"
    "finalize_refund_with_psbt X e (predecessor e) r q amount key s = Inr s'"
    using assms(2,3) by (auto simp: execute_refund_def unless_paused_def res_Inr resolve_execute_refund_timelock_def
        internal_execute_refund_def rr_deposit_msg_def assms(4) Let_def load_refund_request_for_execute_def)
  have time: "created_at_sec r + lock \<le> block_timestamp e div 10 ^ 9" and nv: "key \<notin> verified_deposit_utxo s \<or> executed r"
    using 1(3) by (auto simp: load_refund_request_for_execute_def res_Inr Let_def nano_to_sec_def)
  have time': "created_at_sec r + (if dm_refund_address d = None then unsafe_refund_timelock_sec (cfg s)
       else if acl_has_role s DAO (predecessor e) \<or> acl_has_role s RefundOperator (predecessor e) then 0
       else refund_timelock_sec (cfg s)) \<le> block_timestamp e div 10 ^ 9"
    using time unfolding 1(2) by (cases "dm_refund_address d") auto
  have amount: "amount + rr_gas_fee r = rr_amount r" "min_change_amount (cfg s) \<le> amount"
    using 1(4) by (auto simp: refund_execution_inputs_def res_Inr Let_def)
  obtain a script where a: "parse_address X (rr_refund_address r) (chain_cfg (cfg s)) = Inr a" "script_pubkey X a = Inr script"
    "out = \<lparr>txo_value = amount, txo_script = script\<rparr>"
    using 1(5) by (auto simp: build_refund_output_def res_Inr split: sum.splits)
  have q: "get_output q = [out]" "get_input_num q = 1"
    using psbt_new_tx[OF assms(1) 1(6)] set_input_utxo_tx[OF 1(7)]
    by (simp_all add: get_output_def get_input_num_def) (metis length_map length_Cons list.size(3) One_nat_def)
  from finalize_refund_effect[OF 1(8)] obtain t p where f: "record_of s t = None" "record_of s' t = Some p" "info_kind p = KRefund"
    "info_stage p = PendingSign" "actual_received_amount p = amount" "psbt_hex p = psbt_serialize X q"
    "verified_deposit_utxo s' = insert key (verified_deposit_utxo s)"
    "refund_requests s' = (refund_requests s)(key \<mapsto> VRefund_Current (r\<lparr>executed := True\<rparr>))"
    by blast
  have rej: "\<not> is_ok (reject_refund e key s')" for e
    by (simp add: reject_refund_def f(8) of_vrefund_def Let_def)
  have "key \<in> verified_deposit_utxo s'" by (simp add: f(7))
  then have mint: "\<not> is_ok (verify_deposit_callback X e a amt pf rf pu pacts delta s')"
    "\<not> is_ok (verify_safe_deposit_callback X e a amt msg pu delta s')" if "pu_key pu = key"
    for X :: crates and e a amt pf rf pu pacts msg delta
    using that verified_not_again by blast+
  have complete: "complete_failed_deposit_mint X e d tx vout pf s' \<noteq> Inr (key, s2)" for X :: crates and e d tx vout pf s2
    by (auto simp: complete_failed_deposit_mint_def dao_call_def access_control_any_def assert_one_yocto_def res_Inr Let_def f(8))
  show ?thesis
    by (rule exI[of _ d], rule exI[of _ t], rule exI[of _ p], rule exI[of _ q], rule exI[of _ script], rule exI[of _ a],
        intro conjI allI impI 1(1) time' nv a(1,2) f(1-4,6) q(2) rej mint complete) (use amount a(3) q f in simp_all)
qed

text \<open>A refund of 50000 satoshi requested long ago for an address the depositor had not named.\<close>

definition old_request :: refund_request where
  "old_request = \<lparr>deposit_msg_json = ''alice.near'', rr_utxo_storage_key = ''ab@0'', rr_tx_bytes = [], rr_vout = 0,
     rr_amount = 50000, rr_refund_address = sample_address (CHR ''r''), rr_gas_fee = 500, created_at_sec = 1000, executed = False\<rparr>"

definition refund_state :: contract where
  "refund_state = sample_contract\<lparr>refund_requests := [''ab@0'' \<mapsto> VRefund_Current old_request]\<rparr>"

definition refund_ctx :: ctx where
  "refund_ctx = sample_ctx\<lparr>attached_deposit := 10 ^ 24\<rparr>"

lemma sample_refund_ok: "is_ok (execute_refund sample_x refund_ctx ''ab@0'' refund_state)"
proof -
  let ?d = "\<lparr>dm_recipient_id = ''alice.near'', dm_post_actions = None, dm_extra_msg = None,
        dm_safe_deposit = None, dm_refund_address = None\<rparr>"
  have x: "deposit_msg_of_json sample_x ''alice.near'' = Some ?d" "parse_txid sample_x str = Some str"
    "extract_tx sample_x q = Some (unsigned_tx q)" "compute_txid sample_x u = ''cd''"
    "psbt_from_unsigned_tx sample_x u = (if unsigned u then Some \<lparr>unsigned_tx = u,
      psbt_inputs = replicate (length (tx_input u)) empty_psbt_input\<rparr> else None)" for str q u
    by (simp_all add: sample_x_def) (simp_all add: sample_ext_def addr_crates.defs crates.defs)
  have v: "cfg refund_state = sample_config" "refund_requests refund_state ''ab@0'' = Some (VRefund_Current old_request)"
    "accounts refund_state = Map.empty" "verified_deposit_utxo refund_state = {}" "paused refund_state = {}"
    "btc_pending_infos refund_state = Map.empty" "pending_tx_limits refund_state = Map.empty" "role_members refund_state = {}"
    by (simp_all add: refund_state_def sample_contract_def)
  have c: "predecessor refund_ctx = ''alice.near''" "attached_deposit refund_ctx = 10 ^ 24"
    "nano_to_sec (block_timestamp refund_ctx) = Inr 1700000000"
    by (simp_all add: refund_ctx_def sample_ctx_def nano_to_sec_def U32_MAX_def try_into_def)
  have o: "deposit_msg_json old_request = ''alice.near''" "rr_tx_bytes old_request = []" "rr_amount old_request = 50000"
    "rr_gas_fee old_request = 500" "rr_vout old_request = 0" "created_at_sec old_request = 1000" "\<not> executed old_request"
    "rr_refund_address old_request = sample_address (CHR ''r'')"
    by (simp_all add: old_request_def)
  have u: "unsafe_refund_timelock_sec sample_config = DEFAULT_UNSAFE_REFUND_TIMELOCK_SEC" "min_change_amount sample_config = 0"
    "chain_cfg sample_config = BitcoinMainnet"
    by (simp_all add: sample_config_def)
  have "is_ok (path_script sample_x e refund_state path msg)" for e path msg
    unfolding sample_x_def by (rule sample_path_script[of _ "[2]"]) (simp_all add: v sample_config_values)
  then obtain sc where sc: "path_script sample_x refund_ctx refund_state (get_deposit_path sample_x ?d) ''Invalid deposit address'' = Inr sc"
    by blast
  have pa: "parse_address sample_x (sample_address (CHR ''r'')) BitcoinMainnet = Inr (P2pkh (replicate 20 (word_of_nat (of_char (CHR ''r'')))) BitcoinMainnet)"
    "script_pubkey sample_x (P2pkh h n) = Inr ([0x76, 0xA9, 0x14] @ h @ [0x88, 0xAC])" for h n
    unfolding sample_x_def by (rule sample_parse_address sample_script_pubkey)+
  have lock: "resolve_execute_refund_timelock sample_x refund_ctx refund_state ''ab@0'' = Inr DEFAULT_UNSAFE_REFUND_TIMELOCK_SEC"
    by (simp add: resolve_execute_refund_timelock_def c required_balance_for_execute_refund_def v of_vrefund_def
        rr_deposit_msg_def o x u Let_def)
  have load: "load_refund_request_for_execute refund_ctx refund_state ''ab@0'' DEFAULT_UNSAFE_REFUND_TIMELOCK_SEC = Inr old_request"
    by (simp add: load_refund_request_for_execute_def v of_vrefund_def c o chk_add_def Let_def
        DEFAULT_UNSAFE_REFUND_TIMELOCK_SEC_def U64_MAX_def)
  obtain outp depo where inp: "refund_execution_inputs sample_x refund_ctx refund_state old_request = Inr (outp, depo, 49500)"
    by (simp add: refund_execution_inputs_def o x rr_deposit_msg_def sc try_into_def U64_MAX_def U32_MAX_def u v Let_def)
  obtain out where out: "build_refund_output sample_x refund_state (sample_address (CHR ''r'')) 49500 = Inr out"
    by (simp add: build_refund_output_def v u pa try_into_def U64_MAX_def)
  obtain q0 where q0: "psbt_new sample_x [outp] [out] = Inr q0" "psbt_inputs q0 = [empty_psbt_input]"
    by (simp add: psbt_new_def x unsigned_def default_tx_in_def)
  obtain q where q: "set_input_utxo q0 [depo] = Inr q" by (simp add: set_input_utxo_def q0 index_at_def)
  have "is_ok (finalize_refund_with_psbt sample_x refund_ctx ''alice.near'' old_request q 49500 ''ab@0'' refund_state)"
    by (simp add: finalize_refund_with_psbt_def rr_deposit_msg_def o x try_into_def U64_MAX_def get_pending_id_def Let_def
        create_account_if_missing_def check_account_exists_def v internal_set_account_def require_pending_sign_capacity_def
        get_account_def of_vaccount_def account_new_def pending_sign_count_def get_max_pending_sign_txs_def c
        insert_new_pending_def write_pending_def add_pending_sign_id_def internal_unwrap_mut_account_def)
  then show ?thesis
    by (simp add: execute_refund_def unless_paused_def pa_is_paused_def v lock internal_execute_refund_def load inp o out
        q0(1) q c)
qed

theorem refund_waits_and_pays_witness:
  "\<exists>s' t p. execute_refund sample_x refund_ctx ''ab@0'' refund_state = Inr s' \<and> record_of s' t = Some p \<and>
    actual_received_amount p = 49500 \<and> ''ab@0'' \<in> verified_deposit_utxo s' \<and> (\<forall>e. \<not> is_ok (reject_refund e ''ab@0'' s'))"
proof -
  obtain s' where run: "execute_refund sample_x refund_ctx ''ab@0'' refund_state = Inr s'" using sample_refund_ok by blast
  have r: "refund_requests refund_state ''ab@0'' = Some (VRefund_Current old_request)"
    "old_request = of_vrefund (VRefund_Current old_request)" "rr_gas_fee old_request = 500" "rr_amount old_request = 50000"
    by (simp_all add: refund_state_def of_vrefund_def old_request_def)
  from refund_waits_and_pays[OF sample_x_ok run r(1,2)] obtain t p where
    "record_of s' t = Some p" "actual_received_amount p + rr_gas_fee old_request = rr_amount old_request"
    "''ab@0'' \<in> verified_deposit_utxo s'" "\<forall>e. \<not> is_ok (reject_refund e ''ab@0'' s')"
    by (elim exE conjE) (rule that)
  with run r(3,4) show ?thesis by (intro exI[of _ s'] exI[of _ t] exI[of _ p]) simp
qed

end
