(* ===== verification/Token_Flow.thy ===== *)
theory Token_Flow
  imports Nbtc_System Deposit_Flow Tx_Flow
begin

text \<open>
  The bridge and the token together: the calls the bridge schedules, executed by the token contract,
  and the callbacks that see the result.  What a deposit mints is what arrived on chain, a safe deposit
  nobody can receive is undone on both sides, and a withdrawn amount is burned and shared out to the
  last unit.  Between the steps both contracts may be in any state.
\<close>

section \<open>What the token operations do to the ledger\<close>

lemma mint_inner_supply:
  "ft_crate_ok F \<Longrightarrow> mint_inner F a n s = Inr s' \<Longrightarrow>
   ft_total_supply F s' = ft_total_supply F s + n \<and> bridge_id s' = bridge_id s"
  using mint_inner_exact by blast

lemma nbtc_mint_supply:
  assumes F: "ft_crate_ok F" and r: "nbtc_mint F e a n pf r rf pas s = Inr s'"
  shows "ft_total_supply F s' = ft_total_supply F s + n + pf + rf"
proof -
  obtain s1 s2 s3 where 1: "mint_inner F a n s = Inr s1"
    "(if pf > 0 then mint_inner F (bridge_id s1) pf s1 else Inr s1) = Inr s2"
    "(if rf > 0 then mint_inner F r rf s2 else Inr s2) = Inr s3"
    "s' = (case pas of Some as \<Rightarrow> nbtc_emit (CallHandlePostActions a as) s3 | None \<Rightarrow> s3)"
    using assms(2) by (auto simp: nbtc_mint_def assert_bridge_def res_Inr)
  have "ft_total_supply F s1 = ft_total_supply F s + n" using mint_inner_supply[OF F 1(1)] by simp
  moreover have "ft_total_supply F s2 = ft_total_supply F s1 + pf"
    using 1(2) mint_inner_supply[OF F] by (auto split: if_splits)
  moreover have "ft_total_supply F s3 = ft_total_supply F s2 + rf"
    using 1(3) mint_inner_supply[OF F] by (auto split: if_splits)
  ultimately show ?thesis by (simp add: 1(4) ft_total_supply_def nbtc_emit_def split: option.split)
qed

text \<open>A burn takes the amount from the bridge and passes the relayer's fee on.\<close>

lemma nbtc_burn_ledger:
  assumes F: "ft_crate_ok F" and r: "nbtc_burn F e a n r rf s = Inr s'"
  shows "ft_total_supply F s = ft_total_supply F s' + n"
    "ft_balance_of F s (bridge_id s) = ft_balance_of F s' (bridge_id s) + n + rf"
    "rf > 0 \<Longrightarrow> r \<noteq> bridge_id s \<and> ft_balance_of F s' r = ft_balance_of F s r + rf"
    "rf = 0 \<Longrightarrow> \<exists>x. ft_accounts F (token s) (bridge_id s) = Some x \<and> n \<le> x \<and>
       ft_accounts F (token s') = (ft_accounts F (token s))(bridge_id s \<mapsto> x - n)"
proof -
  obtain s1 s2 where 0: "with_token (internal_withdraw F (bridge_id s) n) s = Inr s1"
    "(if rf > 0 then with_token (\<lambda>t. bindR (register_if_missing F r t) (internal_transfer F (bridge_id s1) r rf None)) s1
      else Inr s1) = Inr s2" "s' = nbtc_emit (FtBurnEvent a n) s2"
    using r unfolding nbtc_burn_def assert_bridge_def require_Inr bindR_Inr by auto
  obtain t1 where t1: "internal_withdraw F (bridge_id s) n (token s) = Inr t1" "s1 = s\<lparr>token := t1\<rparr>"
    using 0(1) by (auto simp: with_token_Inr)
  obtain x where x: "ft_accounts F (token s) (bridge_id s) = Some x" "n \<le> x"
    "ft_accounts F t1 = (ft_accounts F (token s))(bridge_id s \<mapsto> x - n)" "n \<le> ft_supply F (token s)"
    "ft_supply F t1 = ft_supply F (token s) - n"
    using ft_crate_okD(3)[OF F t1(1)] by (auto simp: withdraw_spec_def)
  have A: "ft_supply F (token s') = ft_supply F t1 \<and>
      ft_balance_of F s' (bridge_id s) + rf = x - n \<and>
      (rf > 0 \<longrightarrow> r \<noteq> bridge_id s \<and> ft_balance_of F s' r = ft_balance_of F s r + rf) \<and>
      (rf = 0 \<longrightarrow> token s' = t1)"
  proof (cases "rf > 0")
    case True
    then obtain t t2 where t: "register_if_missing F r t1 = Inr t" "internal_transfer F (bridge_id s) r rf None t = Inr t2"
      "token s' = t2"
      using 0(2,3) t1(2) by (auto simp: with_token_Inr bindR_Inr nbtc_emit_def)
    have tr: "transfer_spec F (bridge_id s) r rf t t2" by (rule ft_crate_okD(4)[OF F t(2)])
    have reg: "ft_accounts F t = (if ft_accounts F t1 r = None then (ft_accounts F t1)(r \<mapsto> 0) else ft_accounts F t1)"
      "ft_supply F t = ft_supply F t1"
      using t(1) ft_crate_okD(1)[OF F, of r t1 t] by (auto simp: register_if_missing_def register_spec_def split: if_splits)
    have ne: "r \<noteq> bridge_id s" using tr by (auto simp: transfer_spec_def transfer_ok_def)
    have b: "ft_accounts F t (bridge_id s) = Some (x - n)" using reg(1) x(3) ne by auto
    have rfx: "rf \<le> x - n" using tr b by (auto simp: transfer_spec_def transfer_ok_def)
    have rb: "\<exists>v. ft_accounts F t r = Some v \<and> v = ft_balance_of F s r"
      using reg(1) x(3) ne by (auto simp: ft_balance_of_def split: option.splits)
    have "ft_accounts F t2 = moved (ft_accounts F t) (bridge_id s) r rf" "ft_supply F t2 = ft_supply F t"
      using tr by (simp_all add: transfer_spec_def)
    then show ?thesis using True t(3) reg(2) b ne rfx rb by (auto simp: ft_balance_of_def moved_def)
  next
    case False
    then have "token s' = t1" using 0(2,3) t1(2) by (auto simp: nbtc_emit_def)
    with False x show ?thesis by (simp add: ft_balance_of_def)
  qed
  show "ft_total_supply F s = ft_total_supply F s' + n" using A x(4,5) by (simp add: ft_total_supply_def)
  show "ft_balance_of F s (bridge_id s) = ft_balance_of F s' (bridge_id s) + n + rf"
  proof -
    have "ft_balance_of F s' (bridge_id s) + rf = x - n" using A by blast
    moreover have "ft_balance_of F s (bridge_id s) = x" using x(1) by (simp add: ft_balance_of_def)
    ultimately show ?thesis using x(2) by linarith
  qed
  show "rf > 0 \<Longrightarrow> r \<noteq> bridge_id s \<and> ft_balance_of F s' r = ft_balance_of F s r + rf" using A by blast
  show "rf = 0 \<Longrightarrow> \<exists>x. ft_accounts F (token s) (bridge_id s) = Some x \<and> n \<le> x \<and>
       ft_accounts F (token s') = (ft_accounts F (token s))(bridge_id s \<mapsto> x - n)"
    using A x(1-3) by auto
qed

section \<open>A deposit\<close>

lemma entry_callbacks:
  assumes "verify_deposit_v2 X e d tx vout proof (emptied s) = Inr s1" "dm_safe_deposit d = None"
    and "cb \<in> set (callbacks_of (effects s1))"
  shows "\<exists>summary pu amt pf rf pacts delta. internal_resolve_deposit_tx X s tx = Inr summary \<and>
    vout < length (ts_outputs summary) \<and> pu_key pu = generate_utxo_storage_key (ts_tx_id summary) vout \<and>
    utxo_balance (pu_utxo pu) = txo_value (ts_outputs summary ! vout) \<and>
    amt + pf + rf = utxo_balance (pu_utxo pu) \<and> cb = CbVerifyDeposit (dm_recipient_id d) amt pf rf pu pacts delta"
proof -
  obtain summary where sm: "internal_resolve_deposit_tx X (emptied s) tx = Inr summary"
    and en: "internal_verify_deposit_entry X e d summary vout (tip_block_hash proof) (tip_tx_index proof)
       (tip_merkle_proof proof) (tip_coinbase_tx_id proof, tip_coinbase_proof proof) (emptied s) = Inr s1"
    using assms(1,2) by (auto simp: verify_deposit_v2_def trusted_relayer_def unless_paused_def res_Inr is_safe_deposit_def
        assert_post_actions_supported_def Let_def)
  obtain pu where pu: "internal_build_deposit_utxo_info X e (emptied s) (get_deposit_path X d) summary vout = Inr pu"
    and iv: "internal_verify_deposit X e (utxo_balance (pu_utxo pu)) (tip_block_hash proof) (tip_tx_index proof)
       (tip_merkle_proof proof) (tip_coinbase_tx_id proof, tip_coinbase_proof proof) pu d (emptied s) = Inr s1"
    using en by (auto simp: internal_verify_deposit_entry_def res_Inr)
  obtain c fee pf rf pacts s2 delta where 1: "fee \<le> utxo_balance (pu_utxo pu)"
    "get_protocol_and_relayer_fee (deposit_bridge_fee (cfg s)) fee = Inr (pf, rf)"
    "check_deposit_msg X e d (utxo_balance (pu_utxo pu) - fee) (emptied s) = Inr (pacts, s2)"
    "s1 = schedule (btc_light_client_account_id (cfg s2)) c (Some (CbVerifyDeposit (dm_recipient_id d)
        (utxo_balance (pu_utxo pu) - fee) pf rf pu pacts delta)) s2"
    using iv unfolding internal_verify_deposit_def Let_def by (auto simp: res_Inr emptied_def)
  have "callbacks_of (effects s2) = []"
    using check_deposit_msg_effect[OF 1(3)] by (auto simp: emptied_def emit_def)
  then have cb: "cb = CbVerifyDeposit (dm_recipient_id d) (utxo_balance (pu_utxo pu) - fee) pf rf pu pacts delta"
    using assms(3) 1(4) by (simp add: schedule_def)
  have p: "vout < length (ts_outputs summary)" "pu_key pu = generate_utxo_storage_key (ts_tx_id summary) vout"
    "utxo_balance (pu_utxo pu) = txo_value (ts_outputs summary ! vout)"
    using pu by (auto simp: internal_build_deposit_utxo_info_def Let_def res_Inr)
  have "pf + rf = fee" using fee_split_sum 1(2) by blast
  moreover have "internal_resolve_deposit_tx X s tx = Inr summary"
    using sm by (simp add: internal_resolve_deposit_tx_def emptied_def split: deposit_tx_proof.splits)
  ultimately show ?thesis using cb p 1(1)
    by (intro exI[of _ summary] exI[of _ pu] exI[of _ "utxo_balance (pu_utxo pu) - fee"] exI[of _ pf] exI[of _ rf]
        exI[of _ pacts] exI[of _ delta]) simp
qed

lemma inclusion_effects:
  assumes "verify_deposit_callback X e a amt pf rf pu pacts delta (emptied s) = Inr s'"
  shows "\<exists>h. pu_key pu \<notin> verified_deposit_utxo s \<and> effects s' =
    [Scheduled (nbtc_account_id (cfg s')) (NbtcMint a amt pf (signer e) rf pacts) (Some (CbMint a amt pf rf pu (Some h)))]"
proof -
  obtain h s1 s2 where 1: "process_inclusion_and_check X e pu delta (emptied s) = Inr (h, s1)"
    "mark_verified pu s1 = Inr s2" "s' = internal_mint_promise e a amt pf rf pu pacts (Some h) s2"
    using assms by (auto simp: verify_deposit_callback_def private_call_def res_Inr)
  have "effects s1 = [] \<and> verified_deposit_utxo s1 = verified_deposit_utxo s"
    using 1(1) by (auto simp: process_inclusion_and_check_def bump_and_check_confirmations_def res_Inr emptied_def Let_def
        split: prod.splits option.splits)
  then show ?thesis using 1(2,3)
    by (auto simp: mark_verified_def internal_mint_promise_def schedule_def internal_set_utxo_in_progress_def res_Inr)
qed

lemma mint_accepted:
  assumes "mint_callback e a amt pf rf pu h s = Inr (v, s')" "is_promise_success e"
  shows "utxos s' = (utxos s)(pu_key pu \<mapsto> VUTXO_Current (pu_utxo pu)) \<and>
    acc_collected_protocol_fee s' = acc_collected_protocol_fee s + pf \<and> utxos_in_progress s' (pu_key pu) = None"
  using assms
  by (auto simp: mint_callback_def private_call_def res_Inr Let_def fee_collect_def accept_utxo_def internal_set_utxo_def
      emit_def create_account_if_missing_def check_account_exists_def internal_set_account_def
      internal_remove_utxo_in_progress_def split: if_splits)

text \<open>C4: what a deposit mints is what arrived on chain.  Take a standard deposit from the relayer's call
  to the end: the inclusion callback that the call scheduled, the mint that this callback asked the
  token contract for, and the mint callback with a success; anything else may happen in between.  Then
  the supply has grown by exactly the value of the named output, that output is a UTXO of the bridge
  with that value and had not been verified before, and the collected protocol fees have grown by
  exactly the share that was minted to the bridge.\<close>

theorem deposit_backs_mint:
  assumes F: "ft_crate_ok F"
    and entry: "verify_deposit_v2 X e d tx vout proof (emptied s) = Inr s1" "dm_safe_deposit d = None"
    and incl: "cb \<in> set (callbacks_of (effects s1))" "run_callback X e1 cb (emptied s2) = Inr s3"
    and mint: "Scheduled acc (NbtcMint a n pf r rf pas) (Some cb') \<in> set (effects s3)"
      "nbtc_mint F te a n pf r rf pas t = Inr t'"
    and fin: "run_callback X e2 cb' (emptied s4) = Inr s5" "is_promise_success e2"
  shows "\<exists>summary key u. internal_resolve_deposit_tx X s tx = Inr summary \<and> vout < length (ts_outputs summary) \<and>
    key = generate_utxo_storage_key (ts_tx_id summary) vout \<and> key \<notin> verified_deposit_utxo s2 \<and>
    ft_total_supply F t' = ft_total_supply F t + txo_value (ts_outputs summary ! vout) \<and>
    utxos s5 = (utxos s4)(key \<mapsto> VUTXO_Current u) \<and> utxo_balance u = txo_value (ts_outputs summary ! vout) \<and>
    acc_collected_protocol_fee s5 = acc_collected_protocol_fee s4 + pf"
proof -
  obtain summary pu amt pf0 rf0 pacts delta where c: "internal_resolve_deposit_tx X s tx = Inr summary"
    "vout < length (ts_outputs summary)" "pu_key pu = generate_utxo_storage_key (ts_tx_id summary) vout"
    "utxo_balance (pu_utxo pu) = txo_value (ts_outputs summary ! vout)" "amt + pf0 + rf0 = utxo_balance (pu_utxo pu)"
    "cb = CbVerifyDeposit (dm_recipient_id d) amt pf0 rf0 pu pacts delta"
    using entry_callbacks[OF entry incl(1)] by blast
  have "verify_deposit_callback X e1 (dm_recipient_id d) amt pf0 rf0 pu pacts delta (emptied s2) = Inr s3"
    using incl(2) c(6) by simp
  then obtain h where h: "pu_key pu \<notin> verified_deposit_utxo s2" "effects s3 = [Scheduled (nbtc_account_id (cfg s3))
      (NbtcMint (dm_recipient_id d) amt pf0 (signer e1) rf0 pacts) (Some (CbMint (dm_recipient_id d) amt pf0 rf0 pu (Some h)))]"
    using inclusion_effects by blast
  have n: "n = amt" "pf = pf0" "rf = rf0" "cb' = CbMint (dm_recipient_id d) amt pf0 rf0 pu (Some h)"
    using mint(1) h(2) by simp_all
  obtain v where "mint_callback e2 (dm_recipient_id d) amt pf0 rf0 pu (Some h) (emptied s4) = Inr (v, s5)"
    using fin(1) n(4) by (auto simp: drop_result_def res_Inr)
  from mint_accepted[OF this fin(2)] have "utxos s5 = (utxos s4)(pu_key pu \<mapsto> VUTXO_Current (pu_utxo pu))"
    "acc_collected_protocol_fee s5 = acc_collected_protocol_fee s4 + pf0" by (simp_all add: emptied_def)
  then show ?thesis using c(1-5) h(1) n nbtc_mint_supply[OF F mint(2)]
    by (intro exI[of _ summary] exI[of _ "pu_key pu"] exI[of _ "pu_utxo pu"]) simp
qed

section \<open>A safe deposit that nobody receives\<close>

lemma safe_inclusion_effects:
  assumes "verify_safe_deposit_callback X e a amt msg pu delta (emptied s) = Inr s'"
  shows "\<exists>h m. pu_key pu \<notin> verified_deposit_utxo s \<and> effects s' =
    [Scheduled (nbtc_account_id (cfg s')) (NbtcSafeMint a amt m) (Some (CbSafeMint a amt pu (Some h)))]"
proof -
  obtain h s1 s2 m where 1: "process_inclusion_and_check X e pu delta (emptied s) = Inr (h, s1)"
    "mark_verified pu s1 = Inr s2"
    "s' = schedule (nbtc_account_id (cfg s2)) (NbtcSafeMint a amt m) (Some (CbSafeMint a amt pu (Some h))) s2"
    using assms by (auto simp: verify_safe_deposit_callback_def private_call_def res_Inr Let_def)
  have "effects s1 = [] \<and> verified_deposit_utxo s1 = verified_deposit_utxo s"
    using 1(1) by (auto simp: process_inclusion_and_check_def bump_and_check_confirmations_def res_Inr emptied_def Let_def
        split: prod.splits option.splits)
  then show ?thesis using 1(2,3)
    by (auto simp: mark_verified_def schedule_def internal_set_utxo_in_progress_def res_Inr)
qed

lemma refused_safe_mint:
  assumes "safe_mint_callback X e a amt pu h s = Inr (v, s')" "is_refund_required X e"
  shows "\<exists>pre. effects s' = pre \<and> pu_key pu \<notin> verified_deposit_utxo s' \<and> utxos_in_progress s' (pu_key pu) = None \<and>
    utxos s' = utxos s \<and>
    (\<forall>acc c cb. Scheduled acc c cb \<in> set (effects s') \<longrightarrow> Scheduled acc c cb \<in> set (effects s) \<or>
       c = NbtcBurn (current_account e) amt (signer e) 0 \<or> (\<exists>m. c = NearTransfer m))"
  using assms
  by (auto simp: safe_mint_callback_def private_call_def res_Inr Let_def unverify_def unbump_block_amount_def schedule_def emit_def
      internal_remove_utxo_in_progress_def split: option.splits if_splits)

lemma safe_mint_parts:
  assumes "safe_mint F te a n m t = Inr (Some v, t1)"
  obtains t0 where "a \<noteq> bridge_id t" "internal_deposit F (bridge_id t) n (token t) = Inr t0" "predecessor te = bridge_id t"
    "(if ft_accounts F t0 a = None then Inr (Some 0, t\<lparr>token := t0\<rparr>) else
       (case m of Some m \<Rightarrow> bindR (nbtc_ft_transfer_call F te a n None m (t\<lparr>token := t0\<rparr>)) (\<lambda>s. Inr (None, s))
        | None \<Rightarrow> bindR (nbtc_ft_transfer F te a n None (t\<lparr>token := t0\<rparr>)) (\<lambda>s. Inr (Some n, s)))) = Inr (Some v, t1)"
proof -
  obtain s1 where 1: "a \<noteq> bridge_id t" "with_token (internal_deposit F (bridge_id t) n) t = Inr s1"
    "predecessor te = bridge_id t"
    "(if ft_accounts F (token s1) a = None then Inr (Some 0, s1)
      else (case m of Some m \<Rightarrow> bindR (nbtc_ft_transfer_call F te a n None m s1) (\<lambda>s. Inr (None, s))
        | None \<Rightarrow> bindR (nbtc_ft_transfer F te a n None s1) (\<lambda>s. Inr (Some n, s)))) = Inr (Some v, t1)"
    using assms unfolding safe_mint_def assert_bridge_def require_Inr bindR_Inr
    by (elim conjE exE) (rule that, assumption, assumption, erule sym, assumption)
  obtain t0 where t0: "internal_deposit F (bridge_id t) n (token t) = Inr t0" "s1 = t\<lparr>token := t0\<rparr>"
    using 1(2) by (auto simp: with_token_Inr)
  show ?thesis by (rule that[OF 1(1) t0(1) 1(3)]) (use 1(4)[unfolded t0(2)] in simp)
qed

text \<open>C13: a safe deposit whose recipient cannot receive nBTC leaves nothing on either side.  When the
  recipient has no account at the token contract, the mint that the inclusion callback asked for
  returns zero; the callback that sees this zero takes the verification back and asks for a burn; and
  once the token contract has executed that burn, every balance and the supply are what they were
  before the mint.\<close>

theorem refused_safe_mint_undone:
  assumes F: "ft_crate_ok F"
    and incl: "verify_safe_deposit_callback X e rcp amt msg pu delta (emptied s) = Inr s1"
    and mint: "Scheduled acc (NbtcSafeMint a n m) (Some cb) \<in> set (effects s1)"
      "safe_mint F te a n m t = Inr (Some v, t1)" "ft_accounts F (token t) a = None"
    and answer: "promise_result e1 = Some bs" "length bs \<le> MAX_FT_TRANSFER_CALL_RESULT" "json_u128 X bs = Some v"
    and cbk: "run_callback X e1 cb (emptied s2) = Inr s3"
    and burn: "Scheduled acc' (NbtcBurn b n' r rf) cb' \<in> set (effects s3)" "nbtc_burn F te' b n' r rf t1 = Inr t2"
  shows "v = 0 \<and> ft_accounts F (token t2) = ft_accounts F (token t) \<and> ft_total_supply F t2 = ft_total_supply F t \<and>
    pu_key pu \<notin> verified_deposit_utxo s3 \<and> utxos_in_progress s3 (pu_key pu) = None \<and> utxos s3 = utxos s2"
proof -
  obtain h m0 where h: "effects s1 = [Scheduled (nbtc_account_id (cfg s1)) (NbtcSafeMint rcp amt m0) (Some (CbSafeMint rcp amt pu (Some h)))]"
    using safe_inclusion_effects[OF incl] by blast
  have n: "a = rcp" "n = amt" "cb = CbSafeMint rcp amt pu (Some h)" using mint(1) h by simp_all
  obtain t0 where t0: "a \<noteq> bridge_id t" "internal_deposit F (bridge_id t) n (token t) = Inr t0" "predecessor te = bridge_id t"
    "(if ft_accounts F t0 a = None then Inr (Some 0, t\<lparr>token := t0\<rparr>) else
       (case m of Some m \<Rightarrow> bindR (nbtc_ft_transfer_call F te a n None m (t\<lparr>token := t0\<rparr>)) (\<lambda>s. Inr (None, s))
        | None \<Rightarrow> bindR (nbtc_ft_transfer F te a n None (t\<lparr>token := t0\<rparr>)) (\<lambda>s. Inr (Some n, s)))) = Inr (Some v, t1)"
    using mint(2) by (rule safe_mint_parts)
  obtain x where x: "ft_accounts F (token t) (bridge_id t) = Some x"
    "ft_accounts F t0 = (ft_accounts F (token t))(bridge_id t \<mapsto> x + n)" "ft_supply F t0 = ft_supply F (token t) + n"
    using ft_crate_okD(2)[OF F t0(2)] by (auto simp: deposit_spec_def)
  have v: "v = 0" "t1 = t\<lparr>token := t0\<rparr>" using t0(1,4) x(2) mint(3) by simp_all
  have rr: "is_refund_required X e1"
    using answer v(1) by (simp add: is_refund_required_def promise_result_checked_def)
  obtain w where "safe_mint_callback X e1 rcp amt pu (Some h) (emptied s2) = Inr (w, s3)"
    using cbk n(3) by (auto simp: drop_result_def res_Inr)
  from refused_safe_mint[OF this rr] have c: "pu_key pu \<notin> verified_deposit_utxo s3" "utxos_in_progress s3 (pu_key pu) = None"
    "utxos s3 = utxos s2" "n' = amt" "rf = 0" using burn(1) by (auto simp: emptied_def)
  obtain y where y: "ft_accounts F t0 (bridge_id t) = Some y"
    "ft_accounts F (token t2) = (ft_accounts F t0)(bridge_id t \<mapsto> y - n)"
    using nbtc_burn_ledger(4)[OF F burn(2) c(5)] c(4) n(2) v(2) by auto
  have "ft_accounts F (token t2) = ft_accounts F (token t)" using y x(1,2) by (simp add: fun_upd_idem)
  moreover have "ft_total_supply F t2 = ft_total_supply F t"
    using nbtc_burn_ledger(1)[OF F burn(2)] c(4) n(2) v(2) x(3) by (simp add: ft_total_supply_def)
  ultimately show ?thesis using v(1) c(1-3) by simp
qed

section \<open>A confirmed withdrawal\<close>

lemma register_change_frame:
  "register_change e i c outs n (ks, bs, s) = Inr (ks', bs', s') \<Longrightarrow> \<exists>m. s' = s\<lparr>utxos := m\<rparr>"
proof (induction outs arbitrary: n ks bs s)
  case Nil
  then show ?case by (auto intro: exI[of _ "utxos s"])
next
  case (Cons out outs)
  show ?case
  proof (cases "c = txo_script out")
    case True
    with Cons.prems obtain k b m where "register_change e i c outs (Suc n) (k, b, s\<lparr>utxos := m\<rparr>) = Inr (ks', bs', s')"
      by (auto simp: try_into_def internal_set_utxo_def Let_def split: if_splits)
    from Cons.IH[OF this] show ?thesis by auto
  next
    case False
    with Cons.prems Cons.IH show ?thesis by simp
  qed
qed

definition quiet :: "contract \<Rightarrow> contract \<Rightarrow> bool" where
  "quiet s s' \<longleftrightarrow> effects s' = effects s \<and> cfg s' = cfg s \<and>
     acc_collected_protocol_fee s' = acc_collected_protocol_fee s"

lemma quiet_remove_verify: "remove_pending_verify a i s = Inr s' \<Longrightarrow> quiet s s'"
  by (auto simp: remove_pending_verify_def internal_unwrap_mut_account_def quiet_def internal_set_account_def res_Inr
      split: option.splits)

lemma quiet_settle: "fee_settle r u s = Inr s' \<Longrightarrow> quiet s s'"
  by (auto simp: fee_settle_def quiet_def res_Inr)

lemma settle_withdraw_quiet:
  assumes "settle_withdraw p i s = Inr s'"
  shows "quiet s s'"
proof (cases "get_original_tx_id p")
  case None
  then obtain t r where "remove_pending_verify (pi_account_id p) i s = Inr t"
    "(case r of Some r \<Rightarrow> if r > 0 then fee_settle r 0 (t\<lparr>rbf_txs := (rbf_txs t)(i := None)\<rparr>)
        else Inr (t\<lparr>rbf_txs := (rbf_txs t)(i := None)\<rparr>)
      | None \<Rightarrow> Inr (t\<lparr>rbf_txs := (rbf_txs t)(i := None)\<rparr>)) = Inr s'"
    using assms by (auto simp: settle_withdraw_def bindR_Inr Let_def)
  then show ?thesis
    by (auto dest!: quiet_remove_verify quiet_settle simp: quiet_def split: option.splits if_splits)
next
  case (Some j)
  then obtain t v r where 1: "remove_pending_verify (pi_account_id p) j (s\<lparr>rbf_txs := (rbf_txs s)(j := None)\<rparr>) = Inr t"
    "btc_pending_infos t j = Some v" "get_cancel_rbf_reserved (of_vpending v) = Inr r"
    "(case r of
        Some r \<Rightarrow> if r > 0 then
            if is_cancel_withdraw_rbf p then chk_sub (transfer_amount p) (withdraw_fee p) (\<lambda>balance.
              fee_settle r (burn_amount p - balance) (t\<lparr>btc_pending_infos := (btc_pending_infos t)(j := None)\<rparr>))
            else fee_settle r 0 (t\<lparr>btc_pending_infos := (btc_pending_infos t)(j := None)\<rparr>)
          else Inr (t\<lparr>btc_pending_infos := (btc_pending_infos t)(j := None)\<rparr>)
      | None \<Rightarrow> Inr (t\<lparr>btc_pending_infos := (btc_pending_infos t)(j := None)\<rparr>)) = Inr s'"
    using assms by (auto simp: settle_withdraw_def internal_remove_btc_pending_info_def expect_Inr bindR_Inr Let_def)
  have "quiet (t\<lparr>btc_pending_infos := (btc_pending_infos t)(j := None)\<rparr>) s'"
    using 1(4) by (auto simp: res_Inr dest!: quiet_settle split: option.splits if_splits) (simp_all add: quiet_def)
  with quiet_remove_verify[OF 1(1)] show ?thesis by (simp add: quiet_def)
qed

lemma burn_promise:
  assumes "internal_verify_withdraw_callback X e i (emptied s) = Inr s'"
  shows "\<exists>p q pf rf. record_of s i = Some p \<and> record_of s' i = Some q \<and> pf + rf = withdraw_fee p \<and>
    effects s' = [Scheduled (nbtc_account_id (cfg s')) (NbtcBurn (pi_account_id p) (burn_amount p) (signer e) rf)
      (Some (CbVerifyWithdrawBurn i pf rf))] \<and> to_pending_burn_stage p = Inr q"
proof -
  obtain v q where 1: "btc_pending_infos s i = Some v" "to_pending_burn_stage (of_vpending v) = Inr q"
    "verify_withdraw_burn_promise e i (write_pending i q (emptied s)) = Inr s'"
    using assms by (auto simp: internal_verify_withdraw_callback_def private_call_def require_included_def res_Inr
        internal_unwrap_btc_pending_info_def emptied_def)
  have q: "withdraw_fee q = withdraw_fee (of_vpending v)" "burn_amount q = burn_amount (of_vpending v)"
    "pi_account_id q = pi_account_id (of_vpending v)"
    using 1(2) by (auto simp: to_pending_burn_stage_def split: pending_state.splits)
  show ?thesis using 1 q
    by (auto simp: verify_withdraw_burn_promise_def internal_unwrap_btc_pending_info_def write_pending_def res_Inr record_of_def
        schedule_def emptied_def dest: fee_split_sum)
qed

lemma burn_confirmed:
  assumes "verify_withdraw_burn_callback X e i pf rf (emptied s) = Inr (v, s')" "is_promise_success e" "record_of s i = Some p"
  shows "\<exists>refund. cancel_refund p = Inr refund \<and> record_of s' i = None \<and>
    acc_collected_protocol_fee s' = acc_collected_protocol_fee s + pf \<and>
    (\<forall>acc c cb. Scheduled acc c cb \<in> set (effects s') \<longleftrightarrow>
       refund > 0 \<and> acc = nbtc_account_id (cfg s) \<and> c = FtTransfer (pi_account_id p) refund \<and>
       cb = Some (CbTransferNbtc (pi_account_id p) refund))"
proof -
  obtain v0 where v0: "btc_pending_infos s i = Some v0" "p = of_vpending v0"
    using assms(3) by (auto simp: record_of_def)
  obtain refund outs change ks bs s1 s2 s3 where 1: "cancel_refund p = Inr refund"
    "register_change e i change outs 0 ([], [], emptied s) = Inr (ks, bs, s1)" "settle_withdraw p i s1 = Inr s2"
    "(if pf > 0 then fee_collect pf s2 else Inr s2) = Inr s3"
    "s' = emit (EvVerifyWithdrawDetails (pi_account_id p) (burn_amount p) pf (signer e) rf refund True)
       (emit (EvUtxoAdded ks (Some bs))
         ((if refund > 0 then internal_transfer_nbtc (pi_account_id p) refund s3 else s3)\<lparr>btc_pending_infos :=
            (btc_pending_infos (if refund > 0 then internal_transfer_nbtc (pi_account_id p) refund s3 else s3))(i := None)\<rparr>))"
    using assms(1,2) v0
    by (auto simp: verify_withdraw_burn_callback_def private_call_def internal_unwrap_btc_pending_info_def
        internal_remove_btc_pending_info_def expect_Inr bindR_Inr require_Inr Let_def)
  obtain m where m: "s1 = (emptied s)\<lparr>utxos := m\<rparr>" using register_change_frame[OF 1(2)] by blast
  have q: "effects s2 = [] \<and> cfg s2 = cfg s \<and> acc_collected_protocol_fee s2 = acc_collected_protocol_fee s"
    using settle_withdraw_quiet[OF 1(3)] m by (simp add: quiet_def emptied_def)
  have s3: "effects s3 = [] \<and> cfg s3 = cfg s \<and> acc_collected_protocol_fee s3 = acc_collected_protocol_fee s + pf"
    using 1(4) q by (auto simp: fee_collect_def res_Inr split: if_splits)
  show ?thesis using 1(1) s3 unfolding 1(5)
    by (auto simp: record_of_def emit_def internal_transfer_nbtc_def schedule_def)
qed

text \<open>C5: a withdrawn amount is accounted for to the last unit.  Take a confirmed withdrawal (or the
  replacement or cancellation that was mined) from the inclusion callback to the end: the burn that the
  callback asked for, executed by the token contract, and the burn callback with a success.  The bridge
  account gives up the burned amount, which leaves the supply, and the relayer's share, which the
  relayer receives if there is one; the relayer's and the protocol's share are the withdrawal fee; the
  protocol's share is added to the collected fees; the record is gone; and the only call that follows
  returns to the user what a cancellation left of the amount.\<close>

theorem withdrawn_amount_accounted:
  assumes F: "ft_crate_ok F"
    and incl: "internal_verify_withdraw_callback X e1 i (emptied s) = Inr s1" "record_of s i = Some p"
    and burn: "Scheduled acc (NbtcBurn a n r rf) (Some cb) \<in> set (effects s1)" "nbtc_burn F te a n r rf t = Inr t'"
    and fin: "run_callback X e2 cb (emptied s2) = Inr s3" "is_promise_success e2" "record_of s2 i = record_of s1 i"
  shows "\<exists>pf refund. a = pi_account_id p \<and> n = burn_amount p \<and> pf + rf = withdraw_fee p \<and> cancel_refund p = Inr refund \<and>
    ft_total_supply F t = ft_total_supply F t' + n \<and>
    ft_balance_of F t (bridge_id t) = ft_balance_of F t' (bridge_id t) + n + rf \<and>
    (rf > 0 \<longrightarrow> ft_balance_of F t' r = ft_balance_of F t r + rf) \<and>
    acc_collected_protocol_fee s3 = acc_collected_protocol_fee s2 + pf \<and> record_of s3 i = None \<and>
    (\<forall>acc c cb. Scheduled acc c cb \<in> set (effects s3) \<longleftrightarrow>
       refund > 0 \<and> acc = nbtc_account_id (cfg s2) \<and> c = FtTransfer a refund \<and> cb = Some (CbTransferNbtc a refund))"
proof -
  obtain q pf rf' where 1: "record_of s1 i = Some q" "pf + rf' = withdraw_fee p" "to_pending_burn_stage p = Inr q"
    "effects s1 = [Scheduled (nbtc_account_id (cfg s1)) (NbtcBurn (pi_account_id p) (burn_amount p) (signer e1) rf')
      (Some (CbVerifyWithdrawBurn i pf rf'))]"
    using burn_promise[OF incl(1)] incl(2) by auto
  have b: "a = pi_account_id p" "n = burn_amount p" "rf = rf'" "cb = CbVerifyWithdrawBurn i pf rf'"
    using burn(1) 1(4) by simp_all
  have q: "pi_account_id q = pi_account_id p" "cancel_refund q = cancel_refund p"
    using 1(3) by (auto simp: to_pending_burn_stage_def cancel_refund_def is_cancel_withdraw_rbf_def split: pending_state.splits)
  obtain v where "verify_withdraw_burn_callback X e2 i pf rf' (emptied s2) = Inr (v, s3)"
    using fin(1) b(4) by (auto simp: drop_result_def res_Inr)
  from burn_confirmed[OF this fin(2)] fin(3) 1(1) obtain refund where "cancel_refund p = Inr refund" "record_of s3 i = None"
    "acc_collected_protocol_fee s3 = acc_collected_protocol_fee s2 + pf"
    "\<forall>acc c cb. Scheduled acc c cb \<in> set (effects s3) \<longleftrightarrow> refund > 0 \<and> acc = nbtc_account_id (cfg s2) \<and>
      c = FtTransfer (pi_account_id p) refund \<and> cb = Some (CbTransferNbtc (pi_account_id p) refund)"
    unfolding q[symmetric] by (metis q)
  moreover note nbtc_burn_ledger(1,2,3)[OF F burn(2)]
  ultimately show ?thesis using 1(2) b by (intro exI[of _ pf] exI[of _ refund]) auto
qed

section \<open>On concrete data\<close>

text \<open>The sample deposit from the relayer's call to the mint callback.\<close>

definition plain_pu :: pending_utxo_info where
  "plain_pu = \<lparr>pu_tx_id = ''cd'', pu_key = generate_utxo_storage_key ''cd'' 0,
     pu_utxo = \<lparr>utxo_path = ''alice.near'', utxo_tx_bytes = [], utxo_vout = 0, utxo_balance = 50000\<rparr>\<rparr>"

lemma plain_entry_effects:
  assumes "verify_deposit_v2 (hex_ext plain_psbt) relayer_ctx plain_deposit (Full []) 0 plain_proof sample_contract = Inr s1"
  shows "CbVerifyDeposit ''alice.near'' 49000 900 100 plain_pu None 3 \<in> set (callbacks_of (effects s1))"
proof -
  have c: "chain_signatures_root_public_key (cfg sample_contract) = Some [2]"
    "chain_cfg (cfg sample_contract) = BitcoinMainnet" "min_deposit_amount (cfg sample_contract) = 20000"
    "deposit_bridge_fee (cfg sample_contract) = \<lparr>fee_min = 1000, fee_rate = 0, protocol_fee_rate = 9000\<rparr>"
    "effects sample_contract = []" "relayer_white_list sample_contract = {}" "confirmations_delta (cfg sample_contract) = 3"
    by (simp_all add: sample_contract_def sample_config_def)
  have r: "predecessor relayer_ctx = ''relayer.near''" "is_trusted_relayer relayer_ctx ''relayer.near''"
    "\<not> pa_is_paused sample_contract f" for f
    by (simp_all add: relayer_ctx_def sample_ctx_def pa_is_paused_def sample_contract_def)
  have h: "h256_from_str (hex_ext p) str = Some (replicate 32 1)" for p str
    by (simp add: h256_from_str_def hex_ext_simps)
  have tx: "tx_decode (hex_ext p) bs ch = Some (unsigned_tx p)" for p bs ch
    by (simp add: tx_decode_def hex_ext_simps)
  show ?thesis using assms
    by (simp add: verify_deposit_v2_def trusted_relayer_def unless_paused_def r assert_post_actions_supported_def
        internal_resolve_deposit_tx_def tx is_safe_deposit_def plain_deposit_def internal_verify_deposit_entry_def
        plain_proof_def internal_build_deposit_utxo_info_def hex_ext_simps plain_psbt_def sample_psbt_def sample_tx_def
        get_deposit_path_def Let_def hex_path_script[OF c(1,2)] try_into_def U32_MAX_def internal_verify_deposit_def c
        verify_transaction_inclusion_with_heights_call_def tx_inclusion_proof_new_def h parse_hashes_def
        get_fee_def chk_mul_def MAX_RATIO_def U128_MAX_def chk_sub_def get_protocol_and_relayer_fee_def
        check_deposit_msg_def relayer_delta_def schedule_def plain_pu_def) auto
qed

lemma emptied_sample: "emptied sample_contract = sample_contract"
  by (simp add: emptied_def sample_contract_def)

lemma plain_inclusion:
  "\<exists>s1. process_inclusion_and_check (hex_ext p) callback_ctx plain_pu 3 sample_contract = Inr (100, s1) \<and>
     verified_deposit_utxo s1 = {}"
proof -
  have x: "json_inclusion_info (hex_ext p) bs = Some (Some \<lparr>tx_block_height = 100, mainchain_tip_height = 200\<rparr>)" for bs
    by (simp add: hex_ext_def) (simp add: sample_ext_def addr_crates.defs crates.defs)
  have "is_ok (bump_and_check_confirmations 100 200 50000 3 sample_contract)"
    using bump_check_iff[OF sample_ring sample_required, of 3 200]
    by (simp add: U64_MAX_def block_depth_def sat_add_def)
  then obtain s1 where b: "bump_and_check_confirmations 100 200 50000 3 sample_contract = Inr s1" ..
  have v: "verified_deposit_utxo s1 = {}"
    using b by (auto simp: bump_and_check_confirmations_def res_Inr Let_def sample_contract_def)
  then show ?thesis
    by (simp add: callback_ctx_def sample_ctx_def b
        process_inclusion_and_check_def promise_result_checked_def MAX_INCLUSION_INFO_RESULT_def x plain_pu_def)
qed

lemma plain_incl_ok:
  "is_ok (run_callback (hex_ext p) callback_ctx (CbVerifyDeposit ''alice.near'' 49000 900 100 plain_pu None 3) (emptied sample_contract))"
proof -
  obtain s1 where s1: "process_inclusion_and_check (hex_ext p) callback_ctx plain_pu 3 sample_contract = Inr (100, s1)"
    "verified_deposit_utxo s1 = {}" using plain_inclusion by blast
  have "predecessor callback_ctx = current_account callback_ctx" by (simp add: callback_ctx_def sample_ctx_def)
  with s1 show ?thesis by (simp add: emptied_sample verify_deposit_callback_def private_call_def mark_verified_def)
qed

lemma plain_mint_ok:
  "is_ok (nbtc_mint (std_ft json) bridge_call ''alice.near'' 49000 900 ''relayer.near'' 100 None new_nbtc)"
  by (simp add: nbtc_mint_def assert_bridge_def bridge_call_def nbtc_ctx.defs ctx.defs new_nbtc_def mint_inner_def with_token_def
      register_if_missing_def std_ft_def std_register_def std_deposit_def chk_add_def U128_MAX_def nbtc_emit_def)

lemma plain_callback_ok:
  "is_ok (run_callback (hex_ext p) callback_ctx (CbMint ''alice.near'' 49000 900 100 plain_pu (Some h)) (emptied sample_contract))"
  unfolding emptied_sample
  by (simp add: mint_callback_def private_call_def callback_ctx_def sample_ctx_def is_promise_success_def
      Let_def drop_result_def fee_collect_def accept_utxo_def internal_set_utxo_def emit_def chk_add_def U128_MAX_def
      create_account_if_missing_def check_account_exists_def internal_set_account_def internal_remove_utxo_in_progress_def sample_contract_def)

theorem deposit_backs_mint_witness:
  "\<exists>t' (s5 :: contract) u. nbtc_mint (std_ft (\<lambda>_. None)) bridge_call ''alice.near'' 49000 900 ''relayer.near'' 100 None new_nbtc = Inr t' \<and>
    ft_total_supply (std_ft (\<lambda>_. None)) t' = 50000 \<and> utxos s5 (generate_utxo_storage_key ''cd'' 0) = Some (VUTXO_Current u) \<and>
    utxo_balance u = 50000 \<and> acc_collected_protocol_fee s5 = 900"
proof -
  obtain s1 where s1: "verify_deposit_v2 (hex_ext plain_psbt) relayer_ctx plain_deposit (Full []) 0 plain_proof (emptied sample_contract) = Inr s1"
    using plain_entry_ok by (auto simp: emptied_sample)
  note cb = plain_entry_effects[OF s1[unfolded emptied_sample]]
  obtain s3 where s3: "run_callback (hex_ext plain_psbt) callback_ctx (CbVerifyDeposit ''alice.near'' 49000 900 100 plain_pu None 3)
      (emptied sample_contract) = Inr s3" using plain_incl_ok by blast
  obtain h where h: "effects s3 = [Scheduled (nbtc_account_id (cfg s3)) (NbtcMint ''alice.near'' 49000 900 (signer callback_ctx) 100 None)
      (Some (CbMint ''alice.near'' 49000 900 100 plain_pu (Some h)))]"
    using inclusion_effects[OF s3[unfolded run_callback.simps]] by blast
  have sg: "signer callback_ctx = ''relayer.near''" "is_promise_success callback_ctx"
    by (simp_all add: callback_ctx_def sample_ctx_def is_promise_success_def)
  obtain t' where t': "nbtc_mint (std_ft (\<lambda>_. None)) bridge_call ''alice.near'' 49000 900 ''relayer.near'' 100 None new_nbtc = Inr t'"
    using plain_mint_ok by blast
  obtain s5 where s5: "run_callback (hex_ext plain_psbt) callback_ctx (CbMint ''alice.near'' 49000 900 100 plain_pu (Some h))
      (emptied sample_contract) = Inr s5" using plain_callback_ok by blast
  have d: "dm_safe_deposit plain_deposit = None" by (simp add: plain_deposit_def)
  have m: "Scheduled (nbtc_account_id (cfg s3)) (NbtcMint ''alice.near'' 49000 900 ''relayer.near'' 100 None)
      (Some (CbMint ''alice.near'' 49000 900 100 plain_pu (Some h))) \<in> set (effects s3)" using h sg(1) by simp
  have v: "ts_tx_id summary = ''cd'' \<and> txo_value (ts_outputs summary ! 0) = 50000"
    if "internal_resolve_deposit_tx (hex_ext plain_psbt) sample_contract (Full []) = Inr summary" for summary
    using that by (auto simp: internal_resolve_deposit_tx_def tx_decode_def hex_ext_simps plain_psbt_def sample_psbt_def
        sample_tx_def)
  have z: "ft_total_supply (std_ft (\<lambda>_. None)) new_nbtc = 0" "acc_collected_protocol_fee sample_contract = 0"
    by (simp_all add: ft_total_supply_def std_ft_def new_nbtc_def sample_contract_def)
  from deposit_backs_mint[OF std_ft_ok s1 d cb s3 m t' s5 sg(2)] obtain summary u where
    w: "internal_resolve_deposit_tx (hex_ext plain_psbt) sample_contract (Full []) = Inr summary"
    "ft_total_supply (std_ft (\<lambda>_. None)) t' = 0 + txo_value (ts_outputs summary ! 0)"
    "utxos s5 (generate_utxo_storage_key (ts_tx_id summary) 0) = Some (VUTXO_Current u)"
    "utxo_balance u = txo_value (ts_outputs summary ! 0)" "acc_collected_protocol_fee s5 = 0 + 900"
    unfolding z by auto
  from v[OF w(1)] w t' show ?thesis
    by (intro exI[of _ t'] exI[of _ s5] exI[of _ u]) simp
qed

text \<open>A safe deposit for bob, who has no account at the token contract.\<close>

definition zero_ctx :: ctx where
  "zero_ctx = callback_ctx\<lparr>promise_result := Some ''0''\<rparr>"

lemma safe_incl_ok:
  "is_ok (verify_safe_deposit_callback (hex_ext p) callback_ctx ''bob.near'' 50000 [] plain_pu 3 (emptied sample_contract))"
proof -
  obtain s1 where s1: "process_inclusion_and_check (hex_ext p) callback_ctx plain_pu 3 sample_contract = Inr (100, s1)"
    "verified_deposit_utxo s1 = {}" using plain_inclusion by blast
  have "predecessor callback_ctx = current_account callback_ctx" by (simp add: callback_ctx_def sample_ctx_def)
  with s1 show ?thesis by (simp add: emptied_sample verify_safe_deposit_callback_def private_call_def mark_verified_def Let_def)
qed

lemma safe_mint_refused:
  "safe_mint (std_ft json) bridge_call ''bob.near'' 50000 m new_nbtc =
     Inr (Some 0, new_nbtc\<lparr>token := ([''bridge.near'' \<mapsto> 50000], 50000)\<rparr>)"
  by (simp add: safe_mint_def assert_bridge_def bridge_call_def nbtc_ctx.defs ctx.defs new_nbtc_def with_token_def
      std_ft_def std_deposit_def chk_add_def U128_MAX_def)

lemma refund_burn_ok:
  "is_ok (nbtc_burn (std_ft json) bridge_call a 50000 r 0 (new_nbtc\<lparr>token := ([''bridge.near'' \<mapsto> 50000], 50000)\<rparr>))"
  by (simp add: nbtc_burn_def assert_bridge_def bridge_call_def nbtc_ctx.defs ctx.defs new_nbtc_def with_token_def
      std_ft_def std_withdraw_def chk_sub_def nbtc_emit_def)

lemma zero_answer: "json_u128 (hex_ext p) ''0'' = Some 0"
proof -
  have "parse_u128 ''0'' = Some 0" by (simp add: parse_u128_def digit_of_def U128_MAX_def)
  then show ?thesis by (simp add: hex_ext_def) (simp add: sample_ext_def addr_crates.defs crates.defs)
qed

lemma refused_callback:
  "\<exists>s3 b r. run_callback (hex_ext p) zero_ctx (CbSafeMint ''bob.near'' 50000 plain_pu (Some h)) (emptied sample_contract) = Inr s3 \<and>
     Scheduled (nbtc_account_id sample_config) (NbtcBurn b 50000 r 0) None \<in> set (effects s3)"
proof -
  have ring: "\<exists>r2. ring_unbump (block_bridge_amounts sample_contract) h 50000 = Inr r2"
    using ring.unbump_total[OF sample_ring] by blast
  then obtain r2 where r2: "ring_unbump (block_bridge_amounts sample_contract) h 50000 = Inr r2" ..
  have c: "predecessor zero_ctx = current_account zero_ctx" "is_refund_required (hex_ext p) zero_ctx"
    by (simp_all add: zero_ctx_def callback_ctx_def sample_ctx_def is_refund_required_def promise_result_checked_def
        MAX_FT_TRANSFER_CALL_RESULT_def zero_answer)
  have b: "utxo_balance (pu_utxo plain_pu) = 50000" "cfg sample_contract = sample_config"
    by (simp_all add: plain_pu_def sample_contract_def)
  show ?thesis unfolding emptied_sample
    by (simp add: safe_mint_callback_def private_call_def c Let_def unverify_def unbump_block_amount_def r2 b
        internal_remove_utxo_in_progress_def drop_result_def schedule_def emit_def) blast
qed

theorem refused_safe_mint_undone_witness:
  "\<exists>t1 t2 b r. safe_mint (std_ft (\<lambda>_. None)) bridge_call ''bob.near'' 50000 None new_nbtc = Inr (Some 0, t1) \<and>
    nbtc_burn (std_ft (\<lambda>_. None)) bridge_call b 50000 r 0 t1 = Inr t2 \<and>
    ft_total_supply (std_ft (\<lambda>_. None)) t1 = 50000 \<and> ft_total_supply (std_ft (\<lambda>_. None)) t2 = 0"
proof -
  let ?F = "std_ft (\<lambda>_. None)" and ?X = "hex_ext plain_psbt"
  define t1 where "t1 = new_nbtc\<lparr>token := ([''bridge.near'' \<mapsto> 50000], 50000 :: u128)\<rparr>"
  obtain s1 where s1: "verify_safe_deposit_callback ?X callback_ctx ''bob.near'' 50000 [] plain_pu 3 (emptied sample_contract) = Inr s1"
    using safe_incl_ok by blast
  obtain h m where h: "effects s1 = [Scheduled (nbtc_account_id (cfg s1)) (NbtcSafeMint ''bob.near'' 50000 m)
      (Some (CbSafeMint ''bob.near'' 50000 plain_pu (Some h)))]"
    using safe_inclusion_effects[OF s1] by blast
  have mint: "Scheduled (nbtc_account_id (cfg s1)) (NbtcSafeMint ''bob.near'' 50000 m)
      (Some (CbSafeMint ''bob.near'' 50000 plain_pu (Some h))) \<in> set (effects s1)" using h by simp
  have run: "safe_mint ?F bridge_call ''bob.near'' 50000 k new_nbtc = Inr (Some 0, t1)" for k
    by (simp add: safe_mint_refused t1_def)
  have bob: "ft_accounts ?F (token new_nbtc) ''bob.near'' = None" by (simp add: std_ft_def new_nbtc_def)
  have answer: "promise_result zero_ctx = Some ''0''" "length ''0'' \<le> MAX_FT_TRANSFER_CALL_RESULT"
    "json_u128 ?X ''0'' = Some 0"
    by (simp_all add: zero_ctx_def MAX_FT_TRANSFER_CALL_RESULT_def zero_answer)
  obtain s3 b r where s3: "run_callback ?X zero_ctx (CbSafeMint ''bob.near'' 50000 plain_pu (Some h)) (emptied sample_contract) = Inr s3"
    "Scheduled (nbtc_account_id sample_config) (NbtcBurn b 50000 r 0) None \<in> set (effects s3)"
    using refused_callback by blast
  obtain t2 where t2: "nbtc_burn ?F bridge_call b 50000 r 0 t1 = Inr t2" using refund_burn_ok unfolding t1_def by blast
  have z: "ft_total_supply ?F new_nbtc = 0" "ft_total_supply ?F t1 = 50000"
    by (simp_all add: ft_total_supply_def std_ft_def new_nbtc_def t1_def)
  from refused_safe_mint_undone[OF std_ft_ok s1 mint run bob answer s3(1,2) t2] z run[of None] t2
  show ?thesis by (intro exI[of _ t1] exI[of _ t2] exI[of _ b] exI[of _ r]) simp
qed

text \<open>The signed withdrawal of \<open>Tx_Flow\<close>, confirmed; the bridge holds the nBTC.\<close>

definition confirmed_state :: contract where
  "confirmed_state = signed_state\<lparr>accounts := [''alice.near'' \<mapsto> VAccount_Current (account_new ''alice.near'')]\<rparr>"

definition held_nbtc :: "std_token nbtc" where
  "held_nbtc = new_nbtc\<lparr>token := ([''bridge.near'' \<mapsto> 90000, ''relayer.near'' \<mapsto> 10], 90010)\<rparr>"

lemma confirmed_incl_ok: "is_ok (internal_verify_withdraw_callback sample_x callback_ctx ''t'' (emptied confirmed_state))"
proof -
  have x: "json_bool sample_x ''true'' = Some True" by (simp add: sample_x_def sample_ext_def addr_crates.defs crates.defs)
  have c: "predecessor callback_ctx = current_account callback_ctx" "promise_result_checked callback_ctx MAX_BOOL_RESULT = Some ''true''"
    by (simp_all add: callback_ctx_def sample_ctx_def promise_result_checked_def MAX_BOOL_RESULT_def)
  show ?thesis
    by (simp add: internal_verify_withdraw_callback_def private_call_def require_included_def x c emptied_def confirmed_state_def
        internal_unwrap_btc_pending_info_def signed_values of_vpending_def assert_pending_verify_def os_assert_pending_verify_def
        to_pending_burn_stage_def verify_withdraw_burn_promise_def write_pending_def get_protocol_and_relayer_fee_def
        sample_config_def chk_mul_def chk_sub_def U128_MAX_def MAX_RATIO_def Let_def)
qed

lemma held_burn_ok: "rf \<le> 2000 \<Longrightarrow> is_ok (nbtc_burn (std_ft json) bridge_call a 48000 ''relayer.near'' rf held_nbtc)"
  by (simp add: nbtc_burn_def assert_bridge_def bridge_call_def nbtc_ctx.defs ctx.defs held_nbtc_def new_nbtc_def with_token_def
      std_ft_def std_withdraw_def std_transfer_def std_deposit_def register_if_missing_def chk_sub_def chk_add_def U128_MAX_def nbtc_emit_def)

definition burning_record :: pending_info where
  "burning_record = signed_record\<lparr>pi_state := WithdrawOriginal \<lparr>os_stage = PendingBurn, max_gas_fee = 500,
     last_rbf_time_sec = None, cancel_rbf_reserved = None\<rparr>\<rparr>"

definition burning_state :: contract where
  "burning_state = confirmed_state\<lparr>btc_pending_infos := [''t'' \<mapsto> VPending_Current burning_record]\<rparr>"

lemma burning_stage: "to_pending_burn_stage signed_record = Inr burning_record"
  by (simp add: to_pending_burn_stage_def burning_record_def signed_values)

lemma confirmed_burn_ok:
  assumes "pf \<le> 2000"
  shows "is_ok (run_callback sample_x callback_ctx (CbVerifyWithdrawBurn ''t'' pf rf) (emptied burning_state))"
proof -
  have x: "tx_decode sample_x bs c = Some (unsigned_tx sample_withdraw_psbt)" for bs c
    by (simp add: tx_decode_def sample_x_def)
  have change: "get_change_script_pubkey sample_x sample_config = Inr (p2pkh_script 0x63)"
    using sample_change_script[of "\<lambda>_. ''cd''" sample_withdraw_psbt] by (simp add: sample_x_def)
  have c: "predecessor callback_ctx = current_account callback_ctx" "is_promise_success callback_ctx"
    by (simp_all add: callback_ctx_def sample_ctx_def is_promise_success_def)
  have b: "tx_bytes_with_sign burning_record = Some []" "pi_account_id burning_record = ''alice.near''"
    "get_original_tx_id burning_record = None" "cancel_refund burning_record = Inr 0" "get_cancel_rbf_reserved burning_record = Inr None"
    by (simp_all add: burning_record_def signed_values get_original_tx_id_def cancel_refund_def is_cancel_withdraw_rbf_def
        get_cancel_rbf_reserved_def)
  have v: "cfg burning_state = sample_config" "btc_pending_infos burning_state = [''t'' \<mapsto> VPending_Current burning_record]"
    "accounts burning_state = [''alice.near'' \<mapsto> VAccount_Current (account_new ''alice.near'')]"
    "acc_collected_protocol_fee burning_state = 0" "cur_available_protocol_fee burning_state = 0"
    by (simp_all add: burning_state_def confirmed_state_def signed_state_def sample_contract_def)
  have "is_ok (register_change callback_ctx ''t'' (p2pkh_script 0x63) (tx_output (unsigned_tx sample_withdraw_psbt)) 0
      ([], [], emptied burning_state))"
    by (simp add: sample_withdraw_psbt_def sample_psbt_def sample_tx_def try_into_def U32_MAX_def Let_def)
  then obtain ks bs s1 where s1: "register_change callback_ctx ''t'' (p2pkh_script 0x63)
      (tx_output (unsigned_tx sample_withdraw_psbt)) 0 ([], [], emptied burning_state) = Inr (ks, bs, s1)" by auto
  from register_change_frame[OF s1] obtain m where m: "s1 = (emptied burning_state)\<lparr>utxos := m\<rparr>" ..
  note r = s1[unfolded m]
  obtain A R where settle: "settle_withdraw burning_record ''t'' ((emptied burning_state)\<lparr>utxos := m\<rparr>) =
      Inr ((emptied burning_state)\<lparr>utxos := m, accounts := A, rbf_txs := R\<rparr>)"
    by (simp add: settle_withdraw_def b remove_pending_verify_def internal_unwrap_mut_account_def internal_set_account_def
        v of_vaccount_def emptied_def Let_def)
  show ?thesis using assms
    by (simp add: verify_withdraw_burn_callback_def private_call_def c internal_unwrap_btc_pending_info_def emptied_def v of_vpending_def
       b confirmed_outputs_def x change r[unfolded emptied_def] settle[unfolded emptied_def] fee_collect_def chk_add_def U128_MAX_def
       internal_remove_btc_pending_info_def drop_result_def)
qed

theorem withdrawn_amount_accounted_witness:
  "\<exists>rf t' pf (s3 :: contract). rf \<le> 2000 \<and> nbtc_burn (std_ft (\<lambda>_. None)) bridge_call ''alice.near'' 48000 ''relayer.near'' rf held_nbtc = Inr t' \<and>
    ft_total_supply (std_ft (\<lambda>_. None)) t' = 42010 \<and> ft_balance_of (std_ft (\<lambda>_. None)) t' ''bridge.near'' = 42000 - rf \<and>
    pf + rf = 2000 \<and> acc_collected_protocol_fee s3 = pf"
proof -
  let ?F = "std_ft (\<lambda>_. None)"
  obtain s1 where s1: "internal_verify_withdraw_callback sample_x callback_ctx ''t'' (emptied confirmed_state) = Inr s1"
    using confirmed_incl_ok by blast
  have p: "record_of confirmed_state ''t'' = Some signed_record"
    using signed_record_of by (simp add: record_of_def confirmed_state_def)
  obtain q pf rf where b: "record_of s1 ''t'' = Some q" "pf + rf = withdraw_fee signed_record" "effects s1 = [Scheduled (nbtc_account_id (cfg s1))
      (NbtcBurn (pi_account_id signed_record) (burn_amount signed_record) (signer callback_ctx) rf) (Some (CbVerifyWithdrawBurn ''t'' pf rf))]"
    "to_pending_burn_stage signed_record = Inr q"
    using burn_promise[OF s1] p by auto
  have n: "pi_account_id signed_record = ''alice.near''" "burn_amount signed_record = 48000" "withdraw_fee signed_record = 2000"
    "signer callback_ctx = ''relayer.near''" "is_promise_success callback_ctx"
    by (simp_all add: signed_values callback_ctx_def sample_ctx_def is_promise_success_def) (simp add: signed_record_def unsigned_record_def)
  have le: "pf \<le> 2000" "rf \<le> 2000" using b(2) n(3) by simp_all
  have e: "Scheduled (nbtc_account_id (cfg s1)) (NbtcBurn ''alice.near'' 48000 ''relayer.near'' rf) (Some (CbVerifyWithdrawBurn ''t'' pf rf)) \<in> set (effects s1)"
    using b(3) n by simp
  obtain t' where t': "nbtc_burn ?F bridge_call ''alice.near'' 48000 ''relayer.near'' rf held_nbtc = Inr t'" using held_burn_ok[OF le(2)] by blast
  obtain s3 where s3: "run_callback sample_x callback_ctx (CbVerifyWithdrawBurn ''t'' pf rf) (emptied burning_state) = Inr s3"
    using confirmed_burn_ok[OF le(1)] by blast
  have same: "record_of burning_state ''t'' = record_of s1 ''t''"
    using b(1,4) burning_stage unfolding b(1) by (simp add: record_of_def burning_state_def of_vpending_def)
  have z: "ft_total_supply ?F held_nbtc = 90010" "bridge_id held_nbtc = ''bridge.near''" "ft_balance_of ?F held_nbtc ''bridge.near'' = 90000"
    "acc_collected_protocol_fee burning_state = 0"
    by (simp_all add: ft_total_supply_def ft_balance_of_def std_ft_def held_nbtc_def new_nbtc_def burning_state_def confirmed_state_def
        signed_state_def sample_contract_def)
  from withdrawn_amount_accounted[OF std_ft_ok s1 p e t' s3 n(5) same] obtain pf' where w: "pf' + rf = withdraw_fee signed_record"
    "ft_total_supply ?F held_nbtc = ft_total_supply ?F t' + 48000"
    "ft_balance_of ?F held_nbtc (bridge_id held_nbtc) = ft_balance_of ?F t' (bridge_id held_nbtc) + 48000 + rf"
    "acc_collected_protocol_fee s3 = acc_collected_protocol_fee burning_state + pf'"
    by (elim exE conjE) (rule that; assumption)
  show ?thesis using w[unfolded z n(3)] le(2) t'
    by (intro exI[of _ rf] exI[of _ t'] exI[of _ pf'] exI[of _ s3]) simp
qed
end
