(* ===== verification/Legacy.thy ===== *)
theory Legacy
  imports Bridge_System
begin

text \<open>
  \<open>legacy.rs\<close> and \<open>upgrade.rs\<close>: the configurations and contract states of the earlier versions
  and their conversion to the current state, for the Bitcoin build.  A field \<open>f\<close> of version \<open>n\<close> is
  \<open>c<n>_f\<close> in a configuration and \<open>d<n>_f\<close> in a contract state; the \<open>LazyOption\<close> around a
  configuration is an option.  A new collection is empty.  The roles and pauses of the plugins live
  under their own storage keys, which a migration does not touch: they are those of the state \<open>s\<close>
  that the conversions write into.
\<close>

section \<open>Configurations\<close>

definition legacy_chain :: "ctx \<Rightarrow> chain" where
  \<comment> \<open>\<open>env::current_account_id().as_str().ends_with(".testnet")\<close>\<close>
  "legacy_chain e = (let a = current_account e; suffix = ''.testnet'' in
     if length suffix \<le> length a \<and> drop (length a - length suffix) a = suffix then BitcoinTestnet else BitcoinMainnet)"

record config_v0 =
  c0_btc_light_client_account_id :: account_id
  c0_nbtc_account_id :: account_id
  c0_chain_signatures_account_id :: account_id
  c0_chain_signatures_root_public_key :: "bytes option"
  c0_change_address :: "string option"
  c0_confirmations_strategy :: "(string \<times> u8) list"
  c0_confirmations_delta :: u8
  c0_deposit_bridge_fee :: bridge_fee
  c0_withdraw_bridge_fee :: bridge_fee
  c0_min_deposit_amount :: u128
  c0_min_withdraw_amount :: u128
  c0_min_change_amount :: u128
  c0_max_change_amount :: u128
  c0_min_btc_gas_fee :: u128
  c0_max_btc_gas_fee :: u128
  c0_max_withdrawal_input_number :: u8
  c0_max_change_number :: u8
  c0_max_active_utxo_management_input_number :: u8
  c0_max_active_utxo_management_output_number :: u8
  c0_active_management_lower_limit :: u32
  c0_active_management_upper_limit :: u32
  c0_passive_management_lower_limit :: u32
  c0_passive_management_upper_limit :: u32
  c0_rbf_num_limit :: u8
  c0_max_btc_tx_pending_sec :: u32

definition config_from_v0 :: "ctx \<Rightarrow> config_v0 \<Rightarrow> config" where
  "config_from_v0 e c = \<lparr>
     chain_cfg = legacy_chain e, btc_light_client_account_id = c0_btc_light_client_account_id c,
     nbtc_account_id = c0_nbtc_account_id c,
     chain_signatures_account_id = c0_chain_signatures_account_id c,
     chain_signatures_root_public_key = c0_chain_signatures_root_public_key c,
     change_address = c0_change_address c, confirmations_strategy = c0_confirmations_strategy c,
     confirmations_delta = c0_confirmations_delta c, extra_msg_confirmations_delta = 1,
     deposit_bridge_fee = c0_deposit_bridge_fee c, withdraw_bridge_fee = c0_withdraw_bridge_fee c,
     min_deposit_amount = c0_min_deposit_amount c, min_withdraw_amount = c0_min_withdraw_amount c,
     min_change_amount = c0_min_change_amount c, max_change_amount = c0_max_change_amount c,
     min_btc_gas_fee = c0_min_btc_gas_fee c, max_btc_gas_fee = c0_max_btc_gas_fee c,
     max_withdrawal_input_number = c0_max_withdrawal_input_number c,
     max_change_number = c0_max_change_number c,
     max_active_utxo_management_input_number = c0_max_active_utxo_management_input_number c,
     max_active_utxo_management_output_number = c0_max_active_utxo_management_output_number c,
     active_management_lower_limit = c0_active_management_lower_limit c,
     active_management_upper_limit = c0_active_management_upper_limit c,
     passive_management_lower_limit = c0_passive_management_lower_limit c,
     passive_management_upper_limit = c0_passive_management_upper_limit c,
     rbf_num_limit = c0_rbf_num_limit c, max_btc_tx_pending_sec = c0_max_btc_tx_pending_sec c,
     unhealthy_utxo_amount = 1000, refund_timelock_sec = DEFAULT_REFUND_TIMELOCK_SEC,
     unsafe_refund_timelock_sec = DEFAULT_UNSAFE_REFUND_TIMELOCK_SEC\<rparr>"

record config_v1 =
  c1_btc_light_client_account_id :: account_id
  c1_nbtc_account_id :: account_id
  c1_chain_signatures_account_id :: account_id
  c1_chain_signatures_root_public_key :: "bytes option"
  c1_change_address :: "string option"
  c1_confirmations_strategy :: "(string \<times> u8) list"
  c1_confirmations_delta :: u8
  c1_extra_msg_confirmations_delta :: u8
  c1_deposit_bridge_fee :: bridge_fee
  c1_withdraw_bridge_fee :: bridge_fee
  c1_min_deposit_amount :: u128
  c1_min_withdraw_amount :: u128
  c1_min_change_amount :: u128
  c1_max_change_amount :: u128
  c1_min_btc_gas_fee :: u128
  c1_max_btc_gas_fee :: u128
  c1_max_withdrawal_input_number :: u8
  c1_max_change_number :: u8
  c1_max_active_utxo_management_input_number :: u8
  c1_max_active_utxo_management_output_number :: u8
  c1_active_management_lower_limit :: u32
  c1_active_management_upper_limit :: u32
  c1_passive_management_lower_limit :: u32
  c1_passive_management_upper_limit :: u32
  c1_rbf_num_limit :: u8
  c1_max_btc_tx_pending_sec :: u32
  c1_unhealthy_utxo_amount :: u64

definition config_from_v1 :: "ctx \<Rightarrow> config_v1 \<Rightarrow> config" where
  "config_from_v1 e c = \<lparr>
     chain_cfg = legacy_chain e, btc_light_client_account_id = c1_btc_light_client_account_id c,
     nbtc_account_id = c1_nbtc_account_id c,
     chain_signatures_account_id = c1_chain_signatures_account_id c,
     chain_signatures_root_public_key = c1_chain_signatures_root_public_key c,
     change_address = c1_change_address c, confirmations_strategy = c1_confirmations_strategy c,
     confirmations_delta = c1_confirmations_delta c,
     extra_msg_confirmations_delta = c1_extra_msg_confirmations_delta c,
     deposit_bridge_fee = c1_deposit_bridge_fee c, withdraw_bridge_fee = c1_withdraw_bridge_fee c,
     min_deposit_amount = c1_min_deposit_amount c, min_withdraw_amount = c1_min_withdraw_amount c,
     min_change_amount = c1_min_change_amount c, max_change_amount = c1_max_change_amount c,
     min_btc_gas_fee = c1_min_btc_gas_fee c, max_btc_gas_fee = c1_max_btc_gas_fee c,
     max_withdrawal_input_number = c1_max_withdrawal_input_number c,
     max_change_number = c1_max_change_number c,
     max_active_utxo_management_input_number = c1_max_active_utxo_management_input_number c,
     max_active_utxo_management_output_number = c1_max_active_utxo_management_output_number c,
     active_management_lower_limit = c1_active_management_lower_limit c,
     active_management_upper_limit = c1_active_management_upper_limit c,
     passive_management_lower_limit = c1_passive_management_lower_limit c,
     passive_management_upper_limit = c1_passive_management_upper_limit c,
     rbf_num_limit = c1_rbf_num_limit c, max_btc_tx_pending_sec = c1_max_btc_tx_pending_sec c,
     unhealthy_utxo_amount = c1_unhealthy_utxo_amount c,
     refund_timelock_sec = DEFAULT_REFUND_TIMELOCK_SEC,
     unsafe_refund_timelock_sec = DEFAULT_UNSAFE_REFUND_TIMELOCK_SEC\<rparr>"

record config_v2 =
  c2_chain_cfg :: chain
  c2_btc_light_client_account_id :: account_id
  c2_nbtc_account_id :: account_id
  c2_chain_signatures_account_id :: account_id
  c2_chain_signatures_root_public_key :: "bytes option"
  c2_change_address :: "string option"
  c2_confirmations_strategy :: "(string \<times> u8) list"
  c2_confirmations_delta :: u8
  c2_extra_msg_confirmations_delta :: u8
  c2_deposit_bridge_fee :: bridge_fee
  c2_withdraw_bridge_fee :: bridge_fee
  c2_min_deposit_amount :: u128
  c2_min_withdraw_amount :: u128
  c2_min_change_amount :: u128
  c2_max_change_amount :: u128
  c2_min_btc_gas_fee :: u128
  c2_max_btc_gas_fee :: u128
  c2_max_withdrawal_input_number :: u8
  c2_max_change_number :: u8
  c2_max_active_utxo_management_input_number :: u8
  c2_max_active_utxo_management_output_number :: u8
  c2_active_management_lower_limit :: u32
  c2_active_management_upper_limit :: u32
  c2_passive_management_lower_limit :: u32
  c2_passive_management_upper_limit :: u32
  c2_rbf_num_limit :: u8
  c2_max_btc_tx_pending_sec :: u32
  c2_unhealthy_utxo_amount :: u64

definition config_from_v2 :: "config_v2 \<Rightarrow> config" where
  "config_from_v2 c = \<lparr>
     chain_cfg = c2_chain_cfg c, btc_light_client_account_id = c2_btc_light_client_account_id c,
     nbtc_account_id = c2_nbtc_account_id c,
     chain_signatures_account_id = c2_chain_signatures_account_id c,
     chain_signatures_root_public_key = c2_chain_signatures_root_public_key c,
     change_address = c2_change_address c, confirmations_strategy = c2_confirmations_strategy c,
     confirmations_delta = c2_confirmations_delta c,
     extra_msg_confirmations_delta = c2_extra_msg_confirmations_delta c,
     deposit_bridge_fee = c2_deposit_bridge_fee c, withdraw_bridge_fee = c2_withdraw_bridge_fee c,
     min_deposit_amount = c2_min_deposit_amount c, min_withdraw_amount = c2_min_withdraw_amount c,
     min_change_amount = c2_min_change_amount c, max_change_amount = c2_max_change_amount c,
     min_btc_gas_fee = c2_min_btc_gas_fee c, max_btc_gas_fee = c2_max_btc_gas_fee c,
     max_withdrawal_input_number = c2_max_withdrawal_input_number c,
     max_change_number = c2_max_change_number c,
     max_active_utxo_management_input_number = c2_max_active_utxo_management_input_number c,
     max_active_utxo_management_output_number = c2_max_active_utxo_management_output_number c,
     active_management_lower_limit = c2_active_management_lower_limit c,
     active_management_upper_limit = c2_active_management_upper_limit c,
     passive_management_lower_limit = c2_passive_management_lower_limit c,
     passive_management_upper_limit = c2_passive_management_upper_limit c,
     rbf_num_limit = c2_rbf_num_limit c, max_btc_tx_pending_sec = c2_max_btc_tx_pending_sec c,
     unhealthy_utxo_amount = c2_unhealthy_utxo_amount c,
     refund_timelock_sec = DEFAULT_REFUND_TIMELOCK_SEC,
     unsafe_refund_timelock_sec = DEFAULT_UNSAFE_REFUND_TIMELOCK_SEC\<rparr>"

record config_v3 =
  c3_chain_cfg :: chain
  c3_btc_light_client_account_id :: account_id
  c3_nbtc_account_id :: account_id
  c3_chain_signatures_account_id :: account_id
  c3_chain_signatures_root_public_key :: "bytes option"
  c3_change_address :: "string option"
  c3_confirmations_strategy :: "(string \<times> u8) list"
  c3_confirmations_delta :: u8
  c3_extra_msg_confirmations_delta :: u8
  c3_deposit_bridge_fee :: bridge_fee
  c3_withdraw_bridge_fee :: bridge_fee
  c3_min_deposit_amount :: u128
  c3_min_withdraw_amount :: u128
  c3_min_change_amount :: u128
  c3_max_change_amount :: u128
  c3_min_btc_gas_fee :: u128
  c3_max_btc_gas_fee :: u128
  c3_max_withdrawal_input_number :: u8
  c3_max_change_number :: u8
  c3_max_active_utxo_management_input_number :: u8
  c3_max_active_utxo_management_output_number :: u8
  c3_active_management_lower_limit :: u32
  c3_active_management_upper_limit :: u32
  c3_passive_management_lower_limit :: u32
  c3_passive_management_upper_limit :: u32
  c3_rbf_num_limit :: u8
  c3_max_btc_tx_pending_sec :: u32
  c3_unhealthy_utxo_amount :: u64
  c3_refund_timelock_sec :: u64

definition config_from_v3 :: "config_v3 \<Rightarrow> config" where
  "config_from_v3 c = \<lparr>
     chain_cfg = c3_chain_cfg c, btc_light_client_account_id = c3_btc_light_client_account_id c,
     nbtc_account_id = c3_nbtc_account_id c,
     chain_signatures_account_id = c3_chain_signatures_account_id c,
     chain_signatures_root_public_key = c3_chain_signatures_root_public_key c,
     change_address = c3_change_address c, confirmations_strategy = c3_confirmations_strategy c,
     confirmations_delta = c3_confirmations_delta c,
     extra_msg_confirmations_delta = c3_extra_msg_confirmations_delta c,
     deposit_bridge_fee = c3_deposit_bridge_fee c, withdraw_bridge_fee = c3_withdraw_bridge_fee c,
     min_deposit_amount = c3_min_deposit_amount c, min_withdraw_amount = c3_min_withdraw_amount c,
     min_change_amount = c3_min_change_amount c, max_change_amount = c3_max_change_amount c,
     min_btc_gas_fee = c3_min_btc_gas_fee c, max_btc_gas_fee = c3_max_btc_gas_fee c,
     max_withdrawal_input_number = c3_max_withdrawal_input_number c,
     max_change_number = c3_max_change_number c,
     max_active_utxo_management_input_number = c3_max_active_utxo_management_input_number c,
     max_active_utxo_management_output_number = c3_max_active_utxo_management_output_number c,
     active_management_lower_limit = c3_active_management_lower_limit c,
     active_management_upper_limit = c3_active_management_upper_limit c,
     passive_management_lower_limit = c3_passive_management_lower_limit c,
     passive_management_upper_limit = c3_passive_management_upper_limit c,
     rbf_num_limit = c3_rbf_num_limit c, max_btc_tx_pending_sec = c3_max_btc_tx_pending_sec c,
     unhealthy_utxo_amount = c3_unhealthy_utxo_amount c,
     refund_timelock_sec = c3_refund_timelock_sec c,
     unsafe_refund_timelock_sec = DEFAULT_UNSAFE_REFUND_TIMELOCK_SEC\<rparr>"

section \<open>Contract states\<close>

record data_v0 =
  d0_config :: "config option"
  d0_accounts :: "account_id \<rightharpoonup> vaccount"
  d0_utxos :: "string \<rightharpoonup> vutxo"
  d0_unavailable_utxos :: "string \<rightharpoonup> vutxo"
  d0_verified_deposit_utxo :: "string set"
  d0_btc_pending_infos :: "string \<rightharpoonup> vpending_info"
  d0_rbf_txs :: "string \<rightharpoonup> string set"
  d0_relayer_white_list :: "account_id set"
  d0_post_action_receiver_id_white_list :: "account_id set"
  d0_lost_found :: "account_id \<rightharpoonup> u128"
  d0_acc_collected_protocol_fee :: u128
  d0_cur_available_protocol_fee :: u128
  d0_acc_claimed_protocol_fee :: u128
  d0_cur_reserved_protocol_fee :: u128
  d0_acc_protocol_fee_for_gas :: u128

definition data_from_v0 :: "ctx \<Rightarrow> data_v0 \<Rightarrow> contract \<Rightarrow> contract res" where
  "data_from_v0 e c s =
     expect (d0_config c) ''ContractDataV0: config missing'' (\<lambda>config.
     let new_config = config in
     bindR (ring_new (capacity_for new_config)) (\<lambda>ring.
     Inr (s\<lparr>
       cfg := new_config, accounts := d0_accounts c, utxos := d0_utxos c,
       utxos_in_progress := Map.empty, unavailable_utxos := d0_unavailable_utxos c,
       verified_deposit_utxo := d0_verified_deposit_utxo c,
       btc_pending_infos := d0_btc_pending_infos c, rbf_txs := d0_rbf_txs c,
       relayer_white_list := d0_relayer_white_list c, extra_msg_relayer_white_list := {},
       post_action_receiver_id_white_list := d0_post_action_receiver_id_white_list c,
       post_action_msg_templates := Map.empty, pending_tx_limits := Map.empty,
       lost_found := d0_lost_found c, acc_collected_protocol_fee := d0_acc_collected_protocol_fee c,
       cur_available_protocol_fee := d0_cur_available_protocol_fee c,
       acc_claimed_protocol_fee := d0_acc_claimed_protocol_fee c,
       cur_reserved_protocol_fee := d0_cur_reserved_protocol_fee c,
       acc_protocol_fee_for_gas := d0_acc_protocol_fee_for_gas c, refund_requests := Map.empty,
       block_bridge_amounts := ring\<rparr>)))"

record data_v1 =
  d1_config :: "config_v0 option"
  d1_accounts :: "account_id \<rightharpoonup> vaccount"
  d1_utxos :: "string \<rightharpoonup> vutxo"
  d1_unavailable_utxos :: "string \<rightharpoonup> vutxo"
  d1_verified_deposit_utxo :: "string set"
  d1_btc_pending_infos :: "string \<rightharpoonup> vpending_info"
  d1_rbf_txs :: "string \<rightharpoonup> string set"
  d1_relayer_white_list :: "account_id set"
  d1_post_action_receiver_id_white_list :: "account_id set"
  d1_post_action_msg_templates :: "account_id \<rightharpoonup> string set"
  d1_lost_found :: "account_id \<rightharpoonup> u128"
  d1_acc_collected_protocol_fee :: u128
  d1_cur_available_protocol_fee :: u128
  d1_acc_claimed_protocol_fee :: u128
  d1_cur_reserved_protocol_fee :: u128
  d1_acc_protocol_fee_for_gas :: u128

definition data_from_v1 :: "ctx \<Rightarrow> data_v1 \<Rightarrow> contract \<Rightarrow> contract res" where
  "data_from_v1 e c s =
     expect (d1_config c) ''unwrap'' (\<lambda>config.
     let new_config = config_from_v0 e config in
     bindR (ring_new (capacity_for new_config)) (\<lambda>ring.
     Inr (s\<lparr>
       cfg := new_config, accounts := d1_accounts c, utxos := d1_utxos c,
       utxos_in_progress := Map.empty, unavailable_utxos := d1_unavailable_utxos c,
       verified_deposit_utxo := d1_verified_deposit_utxo c,
       btc_pending_infos := d1_btc_pending_infos c, rbf_txs := d1_rbf_txs c,
       relayer_white_list := d1_relayer_white_list c, extra_msg_relayer_white_list := {},
       post_action_receiver_id_white_list := d1_post_action_receiver_id_white_list c,
       post_action_msg_templates := d1_post_action_msg_templates c, pending_tx_limits := Map.empty,
       lost_found := d1_lost_found c, acc_collected_protocol_fee := d1_acc_collected_protocol_fee c,
       cur_available_protocol_fee := d1_cur_available_protocol_fee c,
       acc_claimed_protocol_fee := d1_acc_claimed_protocol_fee c,
       cur_reserved_protocol_fee := d1_cur_reserved_protocol_fee c,
       acc_protocol_fee_for_gas := d1_acc_protocol_fee_for_gas c, refund_requests := Map.empty,
       block_bridge_amounts := ring\<rparr>)))"

record data_v2 =
  d2_config :: "config_v1 option"
  d2_accounts :: "account_id \<rightharpoonup> vaccount"
  d2_utxos :: "string \<rightharpoonup> vutxo"
  d2_unavailable_utxos :: "string \<rightharpoonup> vutxo"
  d2_verified_deposit_utxo :: "string set"
  d2_btc_pending_infos :: "string \<rightharpoonup> vpending_info"
  d2_rbf_txs :: "string \<rightharpoonup> string set"
  d2_relayer_white_list :: "account_id set"
  d2_extra_msg_relayer_white_list :: "account_id set"
  d2_post_action_receiver_id_white_list :: "account_id set"
  d2_post_action_msg_templates :: "account_id \<rightharpoonup> string set"
  d2_lost_found :: "account_id \<rightharpoonup> u128"
  d2_acc_collected_protocol_fee :: u128
  d2_cur_available_protocol_fee :: u128
  d2_acc_claimed_protocol_fee :: u128
  d2_cur_reserved_protocol_fee :: u128
  d2_acc_protocol_fee_for_gas :: u128

definition data_from_v2 :: "ctx \<Rightarrow> data_v2 \<Rightarrow> contract \<Rightarrow> contract res" where
  "data_from_v2 e c s =
     expect (d2_config c) ''unwrap'' (\<lambda>config.
     let new_config = config_from_v1 e config in
     bindR (ring_new (capacity_for new_config)) (\<lambda>ring.
     Inr (s\<lparr>
       cfg := new_config, accounts := d2_accounts c, utxos := d2_utxos c,
       utxos_in_progress := Map.empty, unavailable_utxos := d2_unavailable_utxos c,
       verified_deposit_utxo := d2_verified_deposit_utxo c,
       btc_pending_infos := d2_btc_pending_infos c, rbf_txs := d2_rbf_txs c,
       relayer_white_list := d2_relayer_white_list c,
       extra_msg_relayer_white_list := d2_extra_msg_relayer_white_list c,
       post_action_receiver_id_white_list := d2_post_action_receiver_id_white_list c,
       post_action_msg_templates := d2_post_action_msg_templates c, pending_tx_limits := Map.empty,
       lost_found := d2_lost_found c, acc_collected_protocol_fee := d2_acc_collected_protocol_fee c,
       cur_available_protocol_fee := d2_cur_available_protocol_fee c,
       acc_claimed_protocol_fee := d2_acc_claimed_protocol_fee c,
       cur_reserved_protocol_fee := d2_cur_reserved_protocol_fee c,
       acc_protocol_fee_for_gas := d2_acc_protocol_fee_for_gas c, refund_requests := Map.empty,
       block_bridge_amounts := ring\<rparr>)))"

record data_v3 =
  d3_config :: "config_v2 option"
  d3_accounts :: "account_id \<rightharpoonup> vaccount"
  d3_utxos :: "string \<rightharpoonup> vutxo"
  d3_unavailable_utxos :: "string \<rightharpoonup> vutxo"
  d3_verified_deposit_utxo :: "string set"
  d3_btc_pending_infos :: "string \<rightharpoonup> vpending_info"
  d3_rbf_txs :: "string \<rightharpoonup> string set"
  d3_relayer_white_list :: "account_id set"
  d3_extra_msg_relayer_white_list :: "account_id set"
  d3_post_action_receiver_id_white_list :: "account_id set"
  d3_post_action_msg_templates :: "account_id \<rightharpoonup> string set"
  d3_lost_found :: "account_id \<rightharpoonup> u128"
  d3_acc_collected_protocol_fee :: u128
  d3_cur_available_protocol_fee :: u128
  d3_acc_claimed_protocol_fee :: u128
  d3_cur_reserved_protocol_fee :: u128
  d3_acc_protocol_fee_for_gas :: u128

definition data_from_v3 :: "ctx \<Rightarrow> data_v3 \<Rightarrow> contract \<Rightarrow> contract res" where
  "data_from_v3 e c s =
     expect (d3_config c) ''unwrap'' (\<lambda>config.
     let new_config = config_from_v2 config in
     bindR (ring_new (capacity_for new_config)) (\<lambda>ring.
     Inr (s\<lparr>
       cfg := new_config, accounts := d3_accounts c, utxos := d3_utxos c,
       utxos_in_progress := Map.empty, unavailable_utxos := d3_unavailable_utxos c,
       verified_deposit_utxo := d3_verified_deposit_utxo c,
       btc_pending_infos := d3_btc_pending_infos c, rbf_txs := d3_rbf_txs c,
       relayer_white_list := d3_relayer_white_list c,
       extra_msg_relayer_white_list := d3_extra_msg_relayer_white_list c,
       post_action_receiver_id_white_list := d3_post_action_receiver_id_white_list c,
       post_action_msg_templates := d3_post_action_msg_templates c, pending_tx_limits := Map.empty,
       lost_found := d3_lost_found c, acc_collected_protocol_fee := d3_acc_collected_protocol_fee c,
       cur_available_protocol_fee := d3_cur_available_protocol_fee c,
       acc_claimed_protocol_fee := d3_acc_claimed_protocol_fee c,
       cur_reserved_protocol_fee := d3_cur_reserved_protocol_fee c,
       acc_protocol_fee_for_gas := d3_acc_protocol_fee_for_gas c, refund_requests := Map.empty,
       block_bridge_amounts := ring\<rparr>)))"

record data_v4 =
  d4_config :: "config_v3 option"
  d4_accounts :: "account_id \<rightharpoonup> vaccount"
  d4_utxos :: "string \<rightharpoonup> vutxo"
  d4_unavailable_utxos :: "string \<rightharpoonup> vutxo"
  d4_verified_deposit_utxo :: "string set"
  d4_btc_pending_infos :: "string \<rightharpoonup> vpending_info"
  d4_rbf_txs :: "string \<rightharpoonup> string set"
  d4_relayer_white_list :: "account_id set"
  d4_extra_msg_relayer_white_list :: "account_id set"
  d4_post_action_receiver_id_white_list :: "account_id set"
  d4_post_action_msg_templates :: "account_id \<rightharpoonup> string set"
  d4_pending_tx_limits :: "account_id \<rightharpoonup> u32"
  d4_lost_found :: "account_id \<rightharpoonup> u128"
  d4_acc_collected_protocol_fee :: u128
  d4_cur_available_protocol_fee :: u128
  d4_acc_claimed_protocol_fee :: u128
  d4_cur_reserved_protocol_fee :: u128
  d4_acc_protocol_fee_for_gas :: u128
  d4_refund_requests :: "string \<rightharpoonup> vrefund_request"

definition data_from_v4 :: "ctx \<Rightarrow> data_v4 \<Rightarrow> contract \<Rightarrow> contract res" where
  "data_from_v4 e c s =
     expect (d4_config c) ''unwrap'' (\<lambda>config.
     let new_config = config_from_v3 config in
     bindR (ring_new (capacity_for new_config)) (\<lambda>ring.
     Inr (s\<lparr>
       cfg := new_config, accounts := d4_accounts c, utxos := d4_utxos c,
       utxos_in_progress := Map.empty, unavailable_utxos := d4_unavailable_utxos c,
       verified_deposit_utxo := d4_verified_deposit_utxo c,
       btc_pending_infos := d4_btc_pending_infos c, rbf_txs := d4_rbf_txs c,
       relayer_white_list := d4_relayer_white_list c,
       extra_msg_relayer_white_list := d4_extra_msg_relayer_white_list c,
       post_action_receiver_id_white_list := d4_post_action_receiver_id_white_list c,
       post_action_msg_templates := d4_post_action_msg_templates c,
       pending_tx_limits := d4_pending_tx_limits c, lost_found := d4_lost_found c,
       acc_collected_protocol_fee := d4_acc_collected_protocol_fee c,
       cur_available_protocol_fee := d4_cur_available_protocol_fee c,
       acc_claimed_protocol_fee := d4_acc_claimed_protocol_fee c,
       cur_reserved_protocol_fee := d4_cur_reserved_protocol_fee c,
       acc_protocol_fee_for_gas := d4_acc_protocol_fee_for_gas c,
       refund_requests := d4_refund_requests c, block_bridge_amounts := ring\<rparr>)))"

record data_v5 =
  d5_config :: "config option"
  d5_accounts :: "account_id \<rightharpoonup> vaccount"
  d5_utxos :: "string \<rightharpoonup> vutxo"
  d5_unavailable_utxos :: "string \<rightharpoonup> vutxo"
  d5_verified_deposit_utxo :: "string set"
  d5_btc_pending_infos :: "string \<rightharpoonup> vpending_info"
  d5_rbf_txs :: "string \<rightharpoonup> string set"
  d5_relayer_white_list :: "account_id set"
  d5_extra_msg_relayer_white_list :: "account_id set"
  d5_post_action_receiver_id_white_list :: "account_id set"
  d5_post_action_msg_templates :: "account_id \<rightharpoonup> string set"
  d5_pending_tx_limits :: "account_id \<rightharpoonup> u32"
  d5_lost_found :: "account_id \<rightharpoonup> u128"
  d5_acc_collected_protocol_fee :: u128
  d5_cur_available_protocol_fee :: u128
  d5_acc_claimed_protocol_fee :: u128
  d5_cur_reserved_protocol_fee :: u128
  d5_acc_protocol_fee_for_gas :: u128
  d5_refund_requests :: "string \<rightharpoonup> vrefund_request"

definition data_from_v5 :: "ctx \<Rightarrow> data_v5 \<Rightarrow> contract \<Rightarrow> contract res" where
  "data_from_v5 e c s =
     expect (d5_config c) ''ContractDataV5: config missing'' (\<lambda>config.
     let new_config = config in
     bindR (ring_new (capacity_for new_config)) (\<lambda>ring.
     Inr (s\<lparr>
       cfg := new_config, accounts := d5_accounts c, utxos := d5_utxos c,
       utxos_in_progress := Map.empty, unavailable_utxos := d5_unavailable_utxos c,
       verified_deposit_utxo := d5_verified_deposit_utxo c,
       btc_pending_infos := d5_btc_pending_infos c, rbf_txs := d5_rbf_txs c,
       relayer_white_list := d5_relayer_white_list c,
       extra_msg_relayer_white_list := d5_extra_msg_relayer_white_list c,
       post_action_receiver_id_white_list := d5_post_action_receiver_id_white_list c,
       post_action_msg_templates := d5_post_action_msg_templates c,
       pending_tx_limits := d5_pending_tx_limits c, lost_found := d5_lost_found c,
       acc_collected_protocol_fee := d5_acc_collected_protocol_fee c,
       cur_available_protocol_fee := d5_cur_available_protocol_fee c,
       acc_claimed_protocol_fee := d5_acc_claimed_protocol_fee c,
       cur_reserved_protocol_fee := d5_cur_reserved_protocol_fee c,
       acc_protocol_fee_for_gas := d5_acc_protocol_fee_for_gas c,
       refund_requests := d5_refund_requests c, block_bridge_amounts := ring\<rparr>)))"

record data_v6 =
  d6_config :: "config option"
  d6_accounts :: "account_id \<rightharpoonup> vaccount"
  d6_utxos :: "string \<rightharpoonup> vutxo"
  d6_unavailable_utxos :: "string \<rightharpoonup> vutxo"
  d6_verified_deposit_utxo :: "string set"
  d6_btc_pending_infos :: "string \<rightharpoonup> vpending_info"
  d6_rbf_txs :: "string \<rightharpoonup> string set"
  d6_relayer_white_list :: "account_id set"
  d6_extra_msg_relayer_white_list :: "account_id set"
  d6_post_action_receiver_id_white_list :: "account_id set"
  d6_post_action_msg_templates :: "account_id \<rightharpoonup> string set"
  d6_pending_tx_limits :: "account_id \<rightharpoonup> u32"
  d6_lost_found :: "account_id \<rightharpoonup> u128"
  d6_acc_collected_protocol_fee :: u128
  d6_cur_available_protocol_fee :: u128
  d6_acc_claimed_protocol_fee :: u128
  d6_cur_reserved_protocol_fee :: u128
  d6_acc_protocol_fee_for_gas :: u128
  d6_refund_requests :: "string \<rightharpoonup> vrefund_request"

definition data_from_v6 :: "ctx \<Rightarrow> data_v6 \<Rightarrow> contract \<Rightarrow> contract res" where
  "data_from_v6 e c s =
     expect (d6_config c) ''ContractDataV6: config missing'' (\<lambda>config.
     let new_config = config in
     bindR (ring_new (capacity_for new_config)) (\<lambda>ring.
     Inr (s\<lparr>
       cfg := new_config, accounts := d6_accounts c, utxos := d6_utxos c,
       utxos_in_progress := Map.empty, unavailable_utxos := d6_unavailable_utxos c,
       verified_deposit_utxo := d6_verified_deposit_utxo c,
       btc_pending_infos := d6_btc_pending_infos c, rbf_txs := d6_rbf_txs c,
       relayer_white_list := d6_relayer_white_list c,
       extra_msg_relayer_white_list := d6_extra_msg_relayer_white_list c,
       post_action_receiver_id_white_list := d6_post_action_receiver_id_white_list c,
       post_action_msg_templates := d6_post_action_msg_templates c,
       pending_tx_limits := d6_pending_tx_limits c, lost_found := d6_lost_found c,
       acc_collected_protocol_fee := d6_acc_collected_protocol_fee c,
       cur_available_protocol_fee := d6_cur_available_protocol_fee c,
       acc_claimed_protocol_fee := d6_acc_claimed_protocol_fee c,
       cur_reserved_protocol_fee := d6_cur_reserved_protocol_fee c,
       acc_protocol_fee_for_gas := d6_acc_protocol_fee_for_gas c,
       refund_requests := d6_refund_requests c, block_bridge_amounts := ring\<rparr>)))"

record data_v7 =
  d7_config :: "config option"
  d7_accounts :: "account_id \<rightharpoonup> vaccount"
  d7_utxos :: "string \<rightharpoonup> vutxo"
  d7_utxos_in_progress :: "string \<rightharpoonup> utxo_status"
  d7_unavailable_utxos :: "string \<rightharpoonup> vutxo"
  d7_verified_deposit_utxo :: "string set"
  d7_btc_pending_infos :: "string \<rightharpoonup> vpending_info"
  d7_rbf_txs :: "string \<rightharpoonup> string set"
  d7_relayer_white_list :: "account_id set"
  d7_extra_msg_relayer_white_list :: "account_id set"
  d7_post_action_receiver_id_white_list :: "account_id set"
  d7_post_action_msg_templates :: "account_id \<rightharpoonup> string set"
  d7_pending_tx_limits :: "account_id \<rightharpoonup> u32"
  d7_lost_found :: "account_id \<rightharpoonup> u128"
  d7_acc_collected_protocol_fee :: u128
  d7_cur_available_protocol_fee :: u128
  d7_acc_claimed_protocol_fee :: u128
  d7_cur_reserved_protocol_fee :: u128
  d7_acc_protocol_fee_for_gas :: u128
  d7_refund_requests :: "string \<rightharpoonup> vrefund_request"

definition data_from_v7 :: "ctx \<Rightarrow> data_v7 \<Rightarrow> contract \<Rightarrow> contract res" where
  "data_from_v7 e c s =
     expect (d7_config c) ''ContractDataV7: config missing'' (\<lambda>config.
     let new_config = config in
     bindR (ring_new (capacity_for new_config)) (\<lambda>ring.
     Inr (s\<lparr>
       cfg := new_config, accounts := d7_accounts c, utxos := d7_utxos c,
       utxos_in_progress := d7_utxos_in_progress c, unavailable_utxos := d7_unavailable_utxos c,
       verified_deposit_utxo := d7_verified_deposit_utxo c,
       btc_pending_infos := d7_btc_pending_infos c, rbf_txs := d7_rbf_txs c,
       relayer_white_list := d7_relayer_white_list c,
       extra_msg_relayer_white_list := d7_extra_msg_relayer_white_list c,
       post_action_receiver_id_white_list := d7_post_action_receiver_id_white_list c,
       post_action_msg_templates := d7_post_action_msg_templates c,
       pending_tx_limits := d7_pending_tx_limits c, lost_found := d7_lost_found c,
       acc_collected_protocol_fee := d7_acc_collected_protocol_fee c,
       cur_available_protocol_fee := d7_cur_available_protocol_fee c,
       acc_claimed_protocol_fee := d7_acc_claimed_protocol_fee c,
       cur_reserved_protocol_fee := d7_cur_reserved_protocol_fee c,
       acc_protocol_fee_for_gas := d7_acc_protocol_fee_for_gas c,
       refund_requests := d7_refund_requests c, block_bridge_amounts := ring\<rparr>)))"

section \<open>The migration\<close>

datatype versioned_data =
    VD_V0 data_v0
  | VD_V1 data_v1
  | VD_V2 data_v2
  | VD_V3 data_v3
  | VD_V4 data_v4
  | VD_V5 data_v5
  | VD_V6 data_v6
  | VD_V7 data_v7
  | VD_Current contract

definition migrate_state :: "ctx \<Rightarrow> versioned_data option \<Rightarrow> contract \<Rightarrow> contract res" where
  "migrate_state e stored s =
     private_call e (
     expect stored ''NOT INIT'' (\<lambda>data.
     case data of
       VD_V0 c \<Rightarrow> data_from_v0 e c s
     | VD_V1 c \<Rightarrow> data_from_v1 e c s
     | VD_V2 c \<Rightarrow> data_from_v2 e c s
     | VD_V3 c \<Rightarrow> data_from_v3 e c s
     | VD_V4 c \<Rightarrow> data_from_v4 e c s
     | VD_V5 c \<Rightarrow> data_from_v5 e c s
     | VD_V6 c \<Rightarrow> data_from_v6 e c s
     | VD_V7 c \<Rightarrow> data_from_v7 e c s
     | VD_Current c \<Rightarrow> Inr c))"

section \<open>What a migration keeps\<close>

text \<open>The part of the state that every version has: the accounts, UTXOs and pending transactions, the
  white lists, the lost and found and the five fee counters.\<close>

record core_data =
  k_accounts :: "account_id \<rightharpoonup> vaccount"
  k_utxos :: "string \<rightharpoonup> vutxo"
  k_unavailable_utxos :: "string \<rightharpoonup> vutxo"
  k_verified_deposit_utxo :: "string set"
  k_btc_pending_infos :: "string \<rightharpoonup> vpending_info"
  k_rbf_txs :: "string \<rightharpoonup> string set"
  k_relayer_white_list :: "account_id set"
  k_post_action_receiver_id_white_list :: "account_id set"
  k_lost_found :: "account_id \<rightharpoonup> u128"
  k_acc_collected_protocol_fee :: u128
  k_cur_available_protocol_fee :: u128
  k_acc_claimed_protocol_fee :: u128
  k_cur_reserved_protocol_fee :: u128
  k_acc_protocol_fee_for_gas :: u128

definition core_data_of :: "contract \<Rightarrow> core_data" where
  "core_data_of s = \<lparr>
     k_accounts = accounts s, k_utxos = utxos s, k_unavailable_utxos = unavailable_utxos s,
     k_verified_deposit_utxo = verified_deposit_utxo s, k_btc_pending_infos = btc_pending_infos s,
     k_rbf_txs = rbf_txs s, k_relayer_white_list = relayer_white_list s,
     k_post_action_receiver_id_white_list = post_action_receiver_id_white_list s,
     k_lost_found = lost_found s, k_acc_collected_protocol_fee = acc_collected_protocol_fee s,
     k_cur_available_protocol_fee = cur_available_protocol_fee s,
     k_acc_claimed_protocol_fee = acc_claimed_protocol_fee s,
     k_cur_reserved_protocol_fee = cur_reserved_protocol_fee s,
     k_acc_protocol_fee_for_gas = acc_protocol_fee_for_gas s\<rparr>"

fun stored_core :: "versioned_data \<Rightarrow> core_data" where
  "stored_core (VD_V0 c) = \<lparr>
     k_accounts = d0_accounts c, k_utxos = d0_utxos c, k_unavailable_utxos = d0_unavailable_utxos c,
     k_verified_deposit_utxo = d0_verified_deposit_utxo c,
     k_btc_pending_infos = d0_btc_pending_infos c, k_rbf_txs = d0_rbf_txs c,
     k_relayer_white_list = d0_relayer_white_list c,
     k_post_action_receiver_id_white_list = d0_post_action_receiver_id_white_list c,
     k_lost_found = d0_lost_found c, k_acc_collected_protocol_fee = d0_acc_collected_protocol_fee c,
     k_cur_available_protocol_fee = d0_cur_available_protocol_fee c,
     k_acc_claimed_protocol_fee = d0_acc_claimed_protocol_fee c,
     k_cur_reserved_protocol_fee = d0_cur_reserved_protocol_fee c,
     k_acc_protocol_fee_for_gas = d0_acc_protocol_fee_for_gas c\<rparr>"
| "stored_core (VD_V1 c) = \<lparr>
     k_accounts = d1_accounts c, k_utxos = d1_utxos c, k_unavailable_utxos = d1_unavailable_utxos c,
     k_verified_deposit_utxo = d1_verified_deposit_utxo c,
     k_btc_pending_infos = d1_btc_pending_infos c, k_rbf_txs = d1_rbf_txs c,
     k_relayer_white_list = d1_relayer_white_list c,
     k_post_action_receiver_id_white_list = d1_post_action_receiver_id_white_list c,
     k_lost_found = d1_lost_found c, k_acc_collected_protocol_fee = d1_acc_collected_protocol_fee c,
     k_cur_available_protocol_fee = d1_cur_available_protocol_fee c,
     k_acc_claimed_protocol_fee = d1_acc_claimed_protocol_fee c,
     k_cur_reserved_protocol_fee = d1_cur_reserved_protocol_fee c,
     k_acc_protocol_fee_for_gas = d1_acc_protocol_fee_for_gas c\<rparr>"
| "stored_core (VD_V2 c) = \<lparr>
     k_accounts = d2_accounts c, k_utxos = d2_utxos c, k_unavailable_utxos = d2_unavailable_utxos c,
     k_verified_deposit_utxo = d2_verified_deposit_utxo c,
     k_btc_pending_infos = d2_btc_pending_infos c, k_rbf_txs = d2_rbf_txs c,
     k_relayer_white_list = d2_relayer_white_list c,
     k_post_action_receiver_id_white_list = d2_post_action_receiver_id_white_list c,
     k_lost_found = d2_lost_found c, k_acc_collected_protocol_fee = d2_acc_collected_protocol_fee c,
     k_cur_available_protocol_fee = d2_cur_available_protocol_fee c,
     k_acc_claimed_protocol_fee = d2_acc_claimed_protocol_fee c,
     k_cur_reserved_protocol_fee = d2_cur_reserved_protocol_fee c,
     k_acc_protocol_fee_for_gas = d2_acc_protocol_fee_for_gas c\<rparr>"
| "stored_core (VD_V3 c) = \<lparr>
     k_accounts = d3_accounts c, k_utxos = d3_utxos c, k_unavailable_utxos = d3_unavailable_utxos c,
     k_verified_deposit_utxo = d3_verified_deposit_utxo c,
     k_btc_pending_infos = d3_btc_pending_infos c, k_rbf_txs = d3_rbf_txs c,
     k_relayer_white_list = d3_relayer_white_list c,
     k_post_action_receiver_id_white_list = d3_post_action_receiver_id_white_list c,
     k_lost_found = d3_lost_found c, k_acc_collected_protocol_fee = d3_acc_collected_protocol_fee c,
     k_cur_available_protocol_fee = d3_cur_available_protocol_fee c,
     k_acc_claimed_protocol_fee = d3_acc_claimed_protocol_fee c,
     k_cur_reserved_protocol_fee = d3_cur_reserved_protocol_fee c,
     k_acc_protocol_fee_for_gas = d3_acc_protocol_fee_for_gas c\<rparr>"
| "stored_core (VD_V4 c) = \<lparr>
     k_accounts = d4_accounts c, k_utxos = d4_utxos c, k_unavailable_utxos = d4_unavailable_utxos c,
     k_verified_deposit_utxo = d4_verified_deposit_utxo c,
     k_btc_pending_infos = d4_btc_pending_infos c, k_rbf_txs = d4_rbf_txs c,
     k_relayer_white_list = d4_relayer_white_list c,
     k_post_action_receiver_id_white_list = d4_post_action_receiver_id_white_list c,
     k_lost_found = d4_lost_found c, k_acc_collected_protocol_fee = d4_acc_collected_protocol_fee c,
     k_cur_available_protocol_fee = d4_cur_available_protocol_fee c,
     k_acc_claimed_protocol_fee = d4_acc_claimed_protocol_fee c,
     k_cur_reserved_protocol_fee = d4_cur_reserved_protocol_fee c,
     k_acc_protocol_fee_for_gas = d4_acc_protocol_fee_for_gas c\<rparr>"
| "stored_core (VD_V5 c) = \<lparr>
     k_accounts = d5_accounts c, k_utxos = d5_utxos c, k_unavailable_utxos = d5_unavailable_utxos c,
     k_verified_deposit_utxo = d5_verified_deposit_utxo c,
     k_btc_pending_infos = d5_btc_pending_infos c, k_rbf_txs = d5_rbf_txs c,
     k_relayer_white_list = d5_relayer_white_list c,
     k_post_action_receiver_id_white_list = d5_post_action_receiver_id_white_list c,
     k_lost_found = d5_lost_found c, k_acc_collected_protocol_fee = d5_acc_collected_protocol_fee c,
     k_cur_available_protocol_fee = d5_cur_available_protocol_fee c,
     k_acc_claimed_protocol_fee = d5_acc_claimed_protocol_fee c,
     k_cur_reserved_protocol_fee = d5_cur_reserved_protocol_fee c,
     k_acc_protocol_fee_for_gas = d5_acc_protocol_fee_for_gas c\<rparr>"
| "stored_core (VD_V6 c) = \<lparr>
     k_accounts = d6_accounts c, k_utxos = d6_utxos c, k_unavailable_utxos = d6_unavailable_utxos c,
     k_verified_deposit_utxo = d6_verified_deposit_utxo c,
     k_btc_pending_infos = d6_btc_pending_infos c, k_rbf_txs = d6_rbf_txs c,
     k_relayer_white_list = d6_relayer_white_list c,
     k_post_action_receiver_id_white_list = d6_post_action_receiver_id_white_list c,
     k_lost_found = d6_lost_found c, k_acc_collected_protocol_fee = d6_acc_collected_protocol_fee c,
     k_cur_available_protocol_fee = d6_cur_available_protocol_fee c,
     k_acc_claimed_protocol_fee = d6_acc_claimed_protocol_fee c,
     k_cur_reserved_protocol_fee = d6_cur_reserved_protocol_fee c,
     k_acc_protocol_fee_for_gas = d6_acc_protocol_fee_for_gas c\<rparr>"
| "stored_core (VD_V7 c) = \<lparr>
     k_accounts = d7_accounts c, k_utxos = d7_utxos c, k_unavailable_utxos = d7_unavailable_utxos c,
     k_verified_deposit_utxo = d7_verified_deposit_utxo c,
     k_btc_pending_infos = d7_btc_pending_infos c, k_rbf_txs = d7_rbf_txs c,
     k_relayer_white_list = d7_relayer_white_list c,
     k_post_action_receiver_id_white_list = d7_post_action_receiver_id_white_list c,
     k_lost_found = d7_lost_found c, k_acc_collected_protocol_fee = d7_acc_collected_protocol_fee c,
     k_cur_available_protocol_fee = d7_cur_available_protocol_fee c,
     k_acc_claimed_protocol_fee = d7_acc_claimed_protocol_fee c,
     k_cur_reserved_protocol_fee = d7_cur_reserved_protocol_fee c,
     k_acc_protocol_fee_for_gas = d7_acc_protocol_fee_for_gas c\<rparr>"
| "stored_core (VD_Current c) = core_data_of c"

text \<open>The configuration a stored state continues with.\<close>

fun stored_config :: "ctx \<Rightarrow> versioned_data \<Rightarrow> config option" where
  "stored_config e (VD_V0 c) = d0_config c"
| "stored_config e (VD_V1 c) = map_option (config_from_v0 e) (d1_config c)"
| "stored_config e (VD_V2 c) = map_option (config_from_v1 e) (d2_config c)"
| "stored_config e (VD_V3 c) = map_option (config_from_v2) (d3_config c)"
| "stored_config e (VD_V4 c) = map_option (config_from_v3) (d4_config c)"
| "stored_config e (VD_V5 c) = d5_config c"
| "stored_config e (VD_V6 c) = d6_config c"
| "stored_config e (VD_V7 c) = d7_config c"
| "stored_config e (VD_Current c) = Some (cfg c)"

fun stored_refunds :: "versioned_data \<Rightarrow> string \<rightharpoonup> vrefund_request" where
  "stored_refunds (VD_V0 c) = Map.empty"
| "stored_refunds (VD_V1 c) = Map.empty"
| "stored_refunds (VD_V2 c) = Map.empty"
| "stored_refunds (VD_V3 c) = Map.empty"
| "stored_refunds (VD_V4 c) = d4_refund_requests c"
| "stored_refunds (VD_V5 c) = d5_refund_requests c"
| "stored_refunds (VD_V6 c) = d6_refund_requests c"
| "stored_refunds (VD_V7 c) = d7_refund_requests c"
| "stored_refunds (VD_Current c) = refund_requests c"

fun stored_in_progress :: "versioned_data \<Rightarrow> string \<rightharpoonup> utxo_status" where
  "stored_in_progress (VD_V7 c) = d7_utxos_in_progress c"
| "stored_in_progress (VD_Current c) = utxos_in_progress c"
| "stored_in_progress _ = Map.empty"

fun stored_extra_relayers :: "versioned_data \<Rightarrow> account_id set" where
  "stored_extra_relayers (VD_V0 c) = {}"
| "stored_extra_relayers (VD_V1 c) = {}"
| "stored_extra_relayers (VD_V2 c) = d2_extra_msg_relayer_white_list c"
| "stored_extra_relayers (VD_V3 c) = d3_extra_msg_relayer_white_list c"
| "stored_extra_relayers (VD_V4 c) = d4_extra_msg_relayer_white_list c"
| "stored_extra_relayers (VD_V5 c) = d5_extra_msg_relayer_white_list c"
| "stored_extra_relayers (VD_V6 c) = d6_extra_msg_relayer_white_list c"
| "stored_extra_relayers (VD_V7 c) = d7_extra_msg_relayer_white_list c"
| "stored_extra_relayers (VD_Current c) = extra_msg_relayer_white_list c"

fun stored_templates :: "versioned_data \<Rightarrow> account_id \<rightharpoonup> string set" where
  "stored_templates (VD_V0 c) = Map.empty"
| "stored_templates (VD_V1 c) = d1_post_action_msg_templates c"
| "stored_templates (VD_V2 c) = d2_post_action_msg_templates c"
| "stored_templates (VD_V3 c) = d3_post_action_msg_templates c"
| "stored_templates (VD_V4 c) = d4_post_action_msg_templates c"
| "stored_templates (VD_V5 c) = d5_post_action_msg_templates c"
| "stored_templates (VD_V6 c) = d6_post_action_msg_templates c"
| "stored_templates (VD_V7 c) = d7_post_action_msg_templates c"
| "stored_templates (VD_Current c) = post_action_msg_templates c"

fun stored_limits :: "versioned_data \<Rightarrow> account_id \<rightharpoonup> u32" where
  "stored_limits (VD_V4 c) = d4_pending_tx_limits c"
| "stored_limits (VD_V5 c) = d5_pending_tx_limits c"
| "stored_limits (VD_V6 c) = d6_pending_tx_limits c"
| "stored_limits (VD_V7 c) = d7_pending_tx_limits c"
| "stored_limits (VD_Current c) = pending_tx_limits c"
| "stored_limits _ = Map.empty"

text \<open>Everything but the configuration, the ring of block amounts and the roles.\<close>

definition keeps_stored :: "versioned_data \<Rightarrow> contract \<Rightarrow> bool" where
  "keeps_stored d s' \<longleftrightarrow> core_data_of s' = stored_core d \<and>
     refund_requests s' = stored_refunds d \<and> utxos_in_progress s' = stored_in_progress d \<and>
     extra_msg_relayer_white_list s' = stored_extra_relayers d \<and>
     post_action_msg_templates s' = stored_templates d \<and> pending_tx_limits s' = stored_limits d"

lemmas from_defs = data_from_v0_def data_from_v1_def data_from_v2_def data_from_v3_def data_from_v4_def
  data_from_v5_def data_from_v6_def data_from_v7_def

lemma capacity_ring: "\<exists>r. ring_new (capacity_for c) = Inr r \<and> ring_ok r \<and> ring_capacity r = capacity_for c \<and> amounts r = Map.empty"
  by (rule ring_new_ok) (simp add: capacity_for_def BLOCK_AMOUNT_RING_CAPACITY_SLACK_def)

lemma migrate_spec:
  assumes "predecessor e = current_account e" "stored_config e d = Some c" "\<forall>x. d \<noteq> VD_Current x"
  shows "\<exists>s'. migrate_state e (Some d) s = Inr s' \<and> keeps_stored d s' \<and> cfg s' = c \<and>
    ring_ok (block_bridge_amounts s') \<and> ring_capacity (block_bridge_amounts s') = capacity_for c \<and>
    amounts (block_bridge_amounts s') = Map.empty \<and>
    role_members s' = role_members s \<and> paused s' = paused s \<and> super_admins s' = super_admins s \<and> effects s' = effects s"
proof -
  obtain r where r: "ring_new (capacity_for c) = Inr r" "ring_ok r" "ring_capacity r = capacity_for c" "amounts r = Map.empty"
    using capacity_ring by blast
  show ?thesis
    using assms r by (cases d; auto simp: migrate_state_def private_call_def from_defs Let_def core_data_of_def keeps_stored_def)
qed

lemma migrate_without_config:
  assumes "predecessor e = current_account e" "stored_config e d = None"
  shows "\<exists>m. migrate_state e (Some d) s = Inl (Panic m)"
  using assms by (cases d) (auto simp: migrate_state_def private_call_def from_defs expect_def)

text \<open>C30: what an upgrade keeps, whatever version is stored.  If a stored configuration can be read,
  the migration succeeds; the accounts, UTXOs, pending transactions, white lists, message templates,
  limits, lost and found and fee counters are those that were stored, and so are the refund requests
  and the outputs in progress of the versions that had them; the bridge continues with the stored
  configuration in its current form.  From an older version the roles and pauses of the running
  contract are untouched and the ring of block amounts is new: well-formed, empty and as long as the
  configuration requires.  A state of the current version is kept whole, its ring included.  If no
  stored configuration can be read, and if nothing is stored, the migration panics and changes nothing.\<close>

theorem migration_keeps_everything:
  assumes "predecessor e = current_account e"
  shows "(case d of None \<Rightarrow> \<exists>m. migrate_state e d s = Inl (Panic m)
    | Some (VD_Current x) \<Rightarrow> migrate_state e d s = Inr x
    | Some v \<Rightarrow> (case stored_config e v of None \<Rightarrow> \<exists>m. migrate_state e d s = Inl (Panic m)
        | Some c \<Rightarrow> \<exists>s'. migrate_state e d s = Inr s' \<and> keeps_stored v s' \<and> cfg s' = c \<and>
            ring_ok (block_bridge_amounts s') \<and> ring_capacity (block_bridge_amounts s') = capacity_for c \<and>
            amounts (block_bridge_amounts s') = Map.empty \<and>
            role_members s' = role_members s \<and> paused s' = paused s \<and> super_admins s' = super_admins s))"
proof (cases d)
  case None
  then show ?thesis using assms by (simp add: migrate_state_def private_call_def)
next
  case (Some v)
  show ?thesis
  proof (cases "\<exists>x. v = VD_Current x")
    case True
    then show ?thesis using Some assms by (auto simp: migrate_state_def private_call_def)
  next
    case False
    then have old: "\<forall>x. v \<noteq> VD_Current x" by blast
    show ?thesis
    proof (cases "stored_config e v")
      case None
      from migrate_without_config[OF assms None, of s] show ?thesis
        using Some old None by (auto split: versioned_data.splits)
    next
      case (Some c)
      from migrate_spec[OF assms Some old, of s] show ?thesis
        using \<open>d = Some v\<close> old Some by (auto split: versioned_data.splits)
    qed
  qed
qed

text \<open>A state of the first version with one user and one UTXO.\<close>

definition first_version :: data_v1 where
  "first_version = \<lparr>d1_config = Some \<lparr>
     c0_btc_light_client_account_id = ''lc.near'', c0_nbtc_account_id = ''nbtc.near'',
     c0_chain_signatures_account_id = ''mpc.near'', c0_chain_signatures_root_public_key = Some [2],
     c0_change_address = None, c0_confirmations_strategy = [(''100000000'', 2)], c0_confirmations_delta = 3,
     c0_deposit_bridge_fee = \<lparr>fee_min = 1000, fee_rate = 0, protocol_fee_rate = 9000\<rparr>,
     c0_withdraw_bridge_fee = \<lparr>fee_min = 2000, fee_rate = 10, protocol_fee_rate = 9000\<rparr>,
     c0_min_deposit_amount = 20000, c0_min_withdraw_amount = 20000, c0_min_change_amount = 0,
     c0_max_change_amount = 100000000, c0_min_btc_gas_fee = 100, c0_max_btc_gas_fee = 80000,
     c0_max_withdrawal_input_number = 10, c0_max_change_number = 10,
     c0_max_active_utxo_management_input_number = 10, c0_max_active_utxo_management_output_number = 10,
     c0_active_management_lower_limit = 0, c0_active_management_upper_limit = 1000,
     c0_passive_management_lower_limit = 0, c0_passive_management_upper_limit = 600,
     c0_rbf_num_limit = 99, c0_max_btc_tx_pending_sec = 86400\<rparr>,
     d1_accounts = [''alice.near'' \<mapsto> VAccount_Current (account_new ''alice.near'')],
     d1_utxos = [''ab@0'' \<mapsto> VUTXO_Current \<lparr>utxo_path = [], utxo_tx_bytes = [], utxo_vout = 0, utxo_balance = 50000\<rparr>],
     d1_unavailable_utxos = Map.empty, d1_verified_deposit_utxo = {''ab@0''}, d1_btc_pending_infos = Map.empty,
     d1_rbf_txs = Map.empty, d1_relayer_white_list = {}, d1_post_action_receiver_id_white_list = {},
     d1_post_action_msg_templates = Map.empty, d1_lost_found = Map.empty, d1_acc_collected_protocol_fee = 900,
     d1_cur_available_protocol_fee = 900, d1_acc_claimed_protocol_fee = 0, d1_cur_reserved_protocol_fee = 0,
     d1_acc_protocol_fee_for_gas = 0\<rparr>"

definition upgrade_ctx :: ctx where
  "upgrade_ctx = sample_ctx\<lparr>predecessor := ''bridge.near''\<rparr>"

lemma upgrade_private: "predecessor upgrade_ctx = current_account upgrade_ctx"
  by (simp add: upgrade_ctx_def sample_ctx_def)

lemma first_version_config: "\<exists>c. stored_config upgrade_ctx (VD_V1 first_version) = Some c"
  by (simp add: first_version_def)

theorem migration_keeps_everything_witness:
  "\<exists>s'. migrate_state upgrade_ctx (Some (VD_V1 first_version)) sample_contract = Inr s' \<and>
    utxos s' = d1_utxos first_version \<and> acc_collected_protocol_fee s' = 900 \<and> ring_ok (block_bridge_amounts s')"
proof -
  obtain c where c: "stored_config upgrade_ctx (VD_V1 first_version) = Some c" using first_version_config by blast
  obtain s' where s': "migrate_state upgrade_ctx (Some (VD_V1 first_version)) sample_contract = Inr s'"
    "keeps_stored (VD_V1 first_version) s'" "ring_ok (block_bridge_amounts s')"
    using migration_keeps_everything[OF upgrade_private, of "Some (VD_V1 first_version)" sample_contract] c by auto
  have k: "core_data_of s' = stored_core (VD_V1 first_version)" using s'(2) by (simp add: keeps_stored_def)
  have "k_utxos (core_data_of s') = d1_utxos first_version" "k_acc_collected_protocol_fee (core_data_of s') = 900"
    unfolding k by (simp_all add: first_version_def)
  with s' show ?thesis by (simp add: core_data_of_def)
qed

end
