(* ===== verification/Views.thy ===== *)
theory Views
  imports Management
begin

text \<open>
  \<open>api/view.rs\<close>: the read-only methods that list the maps of the contract.  An \<open>IterableMap\<close> is
  a partial map together with the order in which it is iterated, a list of its keys; the order is an
  argument of the paged views, since the contract state keeps the map alone.  The views that the
  protocol itself relies on are modelled with their components.
\<close>

section \<open>Listings\<close>

definition utxo_of :: "vutxo \<Rightarrow> utxo" where
  "utxo_of v = (case v of VUTXO_Current c \<Rightarrow> c)"

definition iterates :: "'k list \<Rightarrow> ('k \<rightharpoonup> 'v) \<Rightarrow> bool" where
  "iterates ord m \<longleftrightarrow> distinct ord \<and> set ord = dom m"

definition entries :: "'k list \<Rightarrow> ('k \<rightharpoonup> 'v) \<Rightarrow> ('k \<times> 'v) list" where
  "entries ord m = map (\<lambda>k. (k, the (m k))) ord"

definition paged :: "'k list \<Rightarrow> ('k \<rightharpoonup> 'v) \<Rightarrow> ('v \<Rightarrow> 'w) \<Rightarrow> usize option \<Rightarrow> usize option \<Rightarrow> ('k \<times> 'w) list res" where
  \<comment> \<open>the body every paged view shares; \<open>limit.unwrap_or(len - skip_n)\<close> computes its default first\<close>
  "paged ord m f from_index limit =
     (let len = length ord; skip_n = (case from_index of Some i \<Rightarrow> i | None \<Rightarrow> 0) in
      chk_sub len skip_n (\<lambda>rest.
      let take_n = (case limit of Some n \<Rightarrow> n | None \<Rightarrow> rest) in
      Inr (map (\<lambda>(k, v). (k, f v)) (take take_n (drop skip_n (entries ord m))))))"

definition listed :: "'k list \<Rightarrow> ('k \<rightharpoonup> 'v) \<Rightarrow> ('v \<Rightarrow> 'w) \<Rightarrow> ('k \<times> 'w option) list" where
  "listed ks m f = map (\<lambda>k. (k, map_option f (m k))) ks"

definition list_accounts :: "contract \<Rightarrow> account_id list \<Rightarrow> (account_id \<times> account option) list" where
  "list_accounts s ids = map (\<lambda>k. (k, get_account s k)) ids"

definition get_accounts_paged ::
    "account_id list \<Rightarrow> contract \<Rightarrow> usize option \<Rightarrow> usize option \<Rightarrow> (account_id \<times> account) list res" where
  "get_accounts_paged ord s = paged ord (accounts s) of_vaccount"

definition get_lost_found_paged ::
    "account_id list \<Rightarrow> contract \<Rightarrow> usize option \<Rightarrow> usize option \<Rightarrow> (account_id \<times> u128) list res" where
  "get_lost_found_paged ord s = paged ord (lost_found s) (\<lambda>v. v)"

definition list_lost_found :: "contract \<Rightarrow> account_id list \<Rightarrow> (account_id \<times> u128 option) list" where
  "list_lost_found s ids = listed ids (lost_found s) (\<lambda>v. v)"

definition get_utxos_paged ::
    "string list \<Rightarrow> contract \<Rightarrow> usize option \<Rightarrow> usize option \<Rightarrow> (string \<times> utxo) list res" where
  "get_utxos_paged ord s = paged ord (utxos s) utxo_of"

definition list_utxos :: "contract \<Rightarrow> string list \<Rightarrow> (string \<times> utxo option) list" where
  "list_utxos s ks = listed ks (utxos s) utxo_of"

definition get_utxos_in_progress_paged ::
    "string list \<Rightarrow> contract \<Rightarrow> usize option \<Rightarrow> usize option \<Rightarrow> (string \<times> utxo_status) list res" where
  "get_utxos_in_progress_paged ord s = paged ord (utxos_in_progress s) (\<lambda>v. v)"

definition get_unavailable_utxos_paged ::
    "string list \<Rightarrow> contract \<Rightarrow> usize option \<Rightarrow> usize option \<Rightarrow> (string \<times> utxo) list res" where
  "get_unavailable_utxos_paged ord s = paged ord (unavailable_utxos s) utxo_of"

definition list_unavailable_utxos :: "contract \<Rightarrow> string list \<Rightarrow> (string \<times> utxo option) list" where
  "list_unavailable_utxos s ks = listed ks (unavailable_utxos s) utxo_of"

definition get_btc_pending_infos_paged ::
    "string list \<Rightarrow> contract \<Rightarrow> usize option \<Rightarrow> usize option \<Rightarrow> (string \<times> pending_info) list res" where
  "get_btc_pending_infos_paged ord s = paged ord (btc_pending_infos s) of_vpending"

definition internal_view_btc_pending_info :: "contract \<Rightarrow> string \<Rightarrow> pending_info option" where
  "internal_view_btc_pending_info s i = map_option of_vpending (btc_pending_infos s i)"

definition list_btc_pending_infos :: "contract \<Rightarrow> string list \<Rightarrow> (string \<times> pending_info option) list" where
  "list_btc_pending_infos s is = map (\<lambda>i. (i, internal_view_btc_pending_info s i)) is"

definition list_tx_rbf_ids :: "contract \<Rightarrow> string list \<Rightarrow> (string \<times> string set option) list" where
  "list_tx_rbf_ids s is = listed is (rbf_txs s) (\<lambda>v. v)"

definition get_rbf_txs_paged ::
    "string list \<Rightarrow> contract \<Rightarrow> usize option \<Rightarrow> usize option \<Rightarrow> (string \<times> string set) list res" where
  "get_rbf_txs_paged ord s = paged ord (rbf_txs s) (\<lambda>v. v)"

definition list_post_action_msg_templates ::
    "contract \<Rightarrow> account_id list \<Rightarrow> (account_id \<times> string set option) list" where
  "list_post_action_msg_templates s ids = listed ids (post_action_msg_templates s) (\<lambda>v. v)"

definition get_post_action_msg_templates_paged ::
    "account_id list \<Rightarrow> contract \<Rightarrow> usize option \<Rightarrow> usize option \<Rightarrow> (account_id \<times> string set) list res" where
  "get_post_action_msg_templates_paged ord s = paged ord (post_action_msg_templates s) (\<lambda>v. v)"

definition required_balance_for_safe_deposit :: u128 where
  "required_balance_for_safe_deposit = REQUIRED_BALANCE_FOR_DEPOSIT"

definition get_refund_requests_paged ::
    "string list \<Rightarrow> contract \<Rightarrow> usize option \<Rightarrow> usize option \<Rightarrow> (string \<times> refund_request) list res" where
  "get_refund_requests_paged ord s = paged ord (refund_requests s) of_vrefund"

section \<open>Metadata\<close>

text \<open>The access-control plugin lists at most \<open>u32::MAX\<close> grantees of a role, more than there can be;
  lists of accounts whose order has no meaning are sets.\<close>

record metadata =
  md_super_admins :: "account_id set"
  md_daos :: "account_id set"
  md_operators :: "account_id set"
  md_pause_managers :: "account_id set"
  md_unpause_managers :: "account_id set"
  md_pa_all_paused :: "string set option"
  md_relayer_white_list :: "account_id set"
  md_extra_msg_relayer_white_list :: "account_id set"
  md_post_action_receiver_id_white_list :: "account_id set"
  md_pending_tx_limits :: "account_id \<rightharpoonup> u32"
  md_acc_collected_protocol_fee :: u128
  md_cur_available_protocol_fee :: u128
  md_acc_claimed_protocol_fee :: u128
  md_cur_reserved_protocol_fee :: u128
  md_acc_protocol_fee_for_gas :: u128
  md_current_accounts_num :: u32
  md_current_utxos_num :: u32
  md_version :: string

definition acl_get_grantees :: "contract \<Rightarrow> role \<Rightarrow> account_id set" where
  "acl_get_grantees s r = {a. (r, a) \<in> role_members s}"

definition get_metadata :: "string \<Rightarrow> contract \<Rightarrow> metadata" where
  "get_metadata pkg_version s = \<lparr>
     md_super_admins = super_admins s, md_daos = acl_get_grantees s DAO,
     md_operators = acl_get_grantees s Operator, md_pause_managers = acl_get_grantees s PauseManager,
     md_unpause_managers = acl_get_grantees s UnpauseManager,
     md_pa_all_paused = (if paused s = {} then None else Some (paused s)),
     md_relayer_white_list = relayer_white_list s,
     md_extra_msg_relayer_white_list = extra_msg_relayer_white_list s,
     md_post_action_receiver_id_white_list = post_action_receiver_id_white_list s,
     md_pending_tx_limits = pending_tx_limits s,
     md_acc_collected_protocol_fee = acc_collected_protocol_fee s,
     md_cur_available_protocol_fee = cur_available_protocol_fee s,
     md_acc_claimed_protocol_fee = acc_claimed_protocol_fee s,
     md_cur_reserved_protocol_fee = cur_reserved_protocol_fee s,
     md_acc_protocol_fee_for_gas = acc_protocol_fee_for_gas s,
     md_current_accounts_num = card (dom (accounts s)), md_current_utxos_num = card (dom (utxos s)),
     md_version = pkg_version\<rparr>"

definition get_config :: "contract \<Rightarrow> config" where
  "get_config s = cfg s"

section \<open>Paging\<close>

lemma take_windows: "concat (map (\<lambda>i. take n (drop (i * n) xs)) [0..<k]) = take (k * n) xs"
proof (induction k)
  case (Suc k)
  have "concat (map (\<lambda>i. take n (drop (i * n) xs)) [0..<Suc k]) = take (k * n) xs @ take n (drop (k * n) xs)"
    using Suc by simp
  also have "\<dots> = take (k * n + n) xs" by (simp add: take_add)
  finally show ?case by (simp add: add.commute)
qed simp

lemma paged_Inr:
  "paged ord m f (Some i) (Some n) = Inr p \<longleftrightarrow>
     i \<le> length ord \<and> p = take n (drop i (map (\<lambda>k. (k, f (the (m k)))) ord))"
  by (auto simp: paged_def chk_sub_def entries_def take_map drop_map Let_def)

text \<open>C37: reading a map page by page sees all of it.  Pages of any positive size, from the first to the
  last index, all succeed and together list every UTXO of the bridge exactly once, in iteration order;
  a page that starts past the end panics whatever its size.\<close>

theorem paging_covers:
  assumes "iterates ord (utxos s)" "0 < n"
  shows "\<exists>pages. map_res (\<lambda>i. get_utxos_paged ord s (Some (i * n)) (Some n)) [0..<Suc (length ord div n)] = Inr pages \<and>
    map_of (concat pages) = map_option utxo_of \<circ> utxos s \<and> map fst (concat pages) = ord \<and> distinct (map fst (concat pages)) \<and>
    (\<forall>i l. length ord < i \<longrightarrow> get_utxos_paged ord s (Some i) l = Inl Overflow)"
proof -
  define xs where "xs = map (\<lambda>k. (k, utxo_of (the (utxos s k)))) ord"
  define page where "page i = take n (drop (i * n) xs)" for i
  have ok: "get_utxos_paged ord s (Some (i * n)) (Some n) = Inr (page i)" if "i \<le> length ord div n" for i
  proof -
    have "i * n \<le> length ord" using that assms(2) by (metis div_times_less_eq_dividend le_trans mult_le_mono1)
    then show ?thesis by (simp add: get_utxos_paged_def paged_Inr page_def xs_def)
  qed
  have "map_res f is = Inr (map page is)" if "\<And>i. i \<in> set is \<Longrightarrow> f i = Inr (page i)" for f :: "nat \<Rightarrow> (string \<times> utxo) list res" and "is"
    using that by (induction "is") auto
  from this[of "[0..<Suc (length ord div n)]" "\<lambda>i. get_utxos_paged ord s (Some (i * n)) (Some n)"]
  have run: "map_res (\<lambda>i. get_utxos_paged ord s (Some (i * n)) (Some n)) [0..<Suc (length ord div n)] =
      Inr (map page [0..<Suc (length ord div n)])"
    using ok by force
  have len: "length xs \<le> Suc (length ord div n) * n"
    using dividend_less_div_times[OF assms(2), of "length ord"] by (simp add: xs_def)
  have all: "concat (map page [0..<Suc (length ord div n)]) = xs"
    unfolding page_def[abs_def] take_windows using len by simp
  have dom: "distinct ord" "set ord = dom (utxos s)" using assms(1) by (auto simp: iterates_def)
  have m: "map_of xs k = (map_option utxo_of \<circ> utxos s) k" for k
    using dom(2) by (cases "k \<in> dom (utxos s)") (auto simp: xs_def map_of_map_restrict restrict_map_def domIff)
  show ?thesis
    by (rule exI[of _ "map page [0..<Suc (length ord div n)]"], intro conjI run)
      (unfold all, use m dom(1) in \<open>auto simp: xs_def o_def get_utxos_paged_def paged_def chk_sub_def Let_def\<close>)
qed

definition three_utxos :: contract where
  "three_utxos = sample_contract\<lparr>utxos := [''a@0'' \<mapsto> sample_vutxo, ''b@0'' \<mapsto> sample_vutxo, ''c@0'' \<mapsto> sample_vutxo]\<rparr>"

theorem paging_covers_witness:
  "\<exists>pages. map_res (\<lambda>i. get_utxos_paged [''b@0'', ''a@0'', ''c@0''] three_utxos (Some (i * 2)) (Some 2)) [0..<2] = Inr pages \<and>
    map fst (concat pages) = [''b@0'', ''a@0'', ''c@0''] \<and>
    get_utxos_paged [''b@0'', ''a@0'', ''c@0''] three_utxos (Some 4) (Some 2) = Inl Overflow"
proof -
  have it: "iterates [''b@0'', ''a@0'', ''c@0''] (utxos three_utxos)"
    by (auto simp: iterates_def three_utxos_def)
  have n: "[0..<Suc (length [''b@0'', ''a@0'', ''c@0''] div 2)] = [0..<2]" by (simp add: upt_rec)
  show ?thesis using paging_covers[OF it, of 2, unfolded n] by auto
qed

end
