(* ===== verification/Zcash_Psbt.thy ===== *)
theory Zcash_Psbt
  imports Bridge_State
begin

text \<open>
  The Zcash build: \<open>zcash_utils/psbt_wrapper.rs\<close>, \<open>transaction.rs\<close>, \<open>orchard_policy.rs\<close> and
  \<open>types.rs\<close>.  A withdrawal is a transparent transaction with an optional shielded bundle, kept in the
  bridge's own byte format until it is signed.  The encodings, digests and fee rule of the Zcash crates
  are the parameters \<open>zcash_crates\<close>; \<open>zcash_codec_ok\<close> and \<open>zcash_digest_ok\<close> state what is documented
  of them and used here.
\<close>

section \<open>Parameters\<close>

record ztx_in =
  zin_prevout_hash :: bytes
  zin_prevout_n :: u32
  zin_script_sig :: bytes
  zin_sequence :: u32

record ztx_out =
  zo_value :: u64
  zo_script :: bytes

text \<open>An authorized Orchard bundle, by what the bridge reads of it.\<close>

record orchard_bundle =
  ob_actions :: usize
  ob_value_balance :: int
  ob_data :: bytes

type_synonym 'a reader = "bytes \<Rightarrow> ('a \<times> bytes) option"

datatype tx_version = TxV5 | TxV6

text \<open>\<open>TransactionData\<close>, authorized and frozen, and before it is authorized: then its inputs have no
  script and the bundle carries the coins they spend (\<open>TransparentEffects\<close>).\<close>

record ztx_data =
  td_version :: tx_version
  td_branch_id :: branch_id
  td_lock_time :: u32
  td_expiry_height :: u32
  td_transparent :: "(ztx_in list \<times> ztx_out list) option"
  td_sapling :: "bytes option"
  td_orchard :: "orchard_bundle option"
  td_ironwood :: "orchard_bundle option"

record transparent_effects =
  te_vin :: "(bytes \<times> u32 \<times> u32) list"     \<comment> \<open>prevout and sequence\<close>
  te_vout :: "ztx_out list"
  te_coins :: "ztx_out list"

record unauthorized_tx =
  un_version :: tx_version
  un_branch_id :: branch_id
  un_lock_time :: u32
  un_expiry_height :: u32
  un_transparent :: transparent_effects

record zcash_crates = crates +
  hex_encode :: "bytes \<Rightarrow> string"
  txid_from_display :: "string \<Rightarrow> bytes"
  txid_to_display :: "bytes \<Rightarrow> string"
  zatoshis_ok :: "u64 \<Rightarrow> bool"
  ztx_in_write :: "ztx_in \<Rightarrow> bytes"
  ztx_in_read :: "ztx_in reader"
  ztx_out_write :: "ztx_out \<Rightarrow> bytes"
  ztx_out_read :: "ztx_out reader"
  write_v5_bundle :: "orchard_bundle \<Rightarrow> bytes"
  write_v6_bundle :: "orchard_bundle \<Rightarrow> bytes"
  read_v5_bundle :: "branch_id \<Rightarrow> orchard_bundle option reader"
  read_v6_bundle :: "branch_id \<Rightarrow> orchard_bundle option reader"
  recover_output_with_ovk :: "orchard_bundle \<Rightarrow> bytes \<Rightarrow> (u64 \<times> bytes) option"
  ztx_freeze_ok :: "ztx_data \<Rightarrow> bool"
  ztx_write :: "ztx_data \<Rightarrow> bytes option"
  ztx_read :: "bytes \<Rightarrow> ztx_data option"
  ztx_txid :: "ztx_data \<Rightarrow> bytes"
  digest_header :: "tx_version \<Rightarrow> branch_id \<Rightarrow> u32 \<Rightarrow> u32 \<Rightarrow> bytes"
  digest_transparent :: "((bytes \<times> u32 \<times> u32) list \<times> ztx_out list) option \<Rightarrow> bytes"
  digest_sapling :: "tx_version \<Rightarrow> bytes option \<Rightarrow> bytes"
  digest_orchard :: "tx_version \<Rightarrow> orchard_bundle option \<Rightarrow> bytes"
  digest_ironwood :: "orchard_bundle option \<Rightarrow> bytes"
  digest_combine :: "bytes \<Rightarrow> bytes \<Rightarrow> bytes \<Rightarrow> bytes \<Rightarrow> bytes \<Rightarrow> bytes"
  to_txid :: "tx_version \<Rightarrow> branch_id \<Rightarrow> bytes \<Rightarrow> bytes"
  signable_input_ok :: "transparent_effects \<Rightarrow> usize \<Rightarrow> bool"
  signature_hash :: "unauthorized_tx \<Rightarrow> usize \<Rightarrow> bytes \<Rightarrow> u64 \<Rightarrow> bytes \<Rightarrow> bytes"
    \<comment> \<open>the input with its script and value, and the digests of the transaction\<close>
  script_sig_of :: "bytes \<Rightarrow> bytes \<Rightarrow> bytes"   \<comment> \<open>\<open>push_slice(signature) push_key(key)\<close>\<close>
  ztx_out_size :: "ztx_out \<Rightarrow> usize"
  zip317_fee_required :: "usize \<Rightarrow> usize list \<Rightarrow> usize \<Rightarrow> usize \<Rightarrow> u64 option"
  p2pkh_standard_output_size :: usize

section \<open>The wrapper\<close>

definition ORCHARD_RAW_ADDRESS_SIZE :: usize where "ORCHARD_RAW_ADDRESS_SIZE = 43"

definition EXPECTED_ACTIONS_NUMBER :: usize where "EXPECTED_ACTIONS_NUMBER = 1"

definition BRIDGE_OVK :: bytes where "BRIDGE_OVK = replicate 32 0"

record orchard_output =
  oo_amount :: u64
  oo_recipient_addr :: bytes

record parsed_bundle =
  pb_bundle :: orchard_bundle
  pb_output :: orchard_output

record zpsbt =
  zp_branch_id :: branch_id
  zp_expiry_height :: u32
  zp_vin :: "ztx_in list"
  zp_vout :: "ztx_out list"
  zp_inputs_utxo :: "ztx_out list"
  zp_orchard :: "parsed_bundle option"
  zp_recipient_address :: "string option"

record chain_specific_data =
  orchard_bundle_bytes :: bytes
  csd_expiry_height :: u32

definition pb_amount :: "parsed_bundle \<Rightarrow> u128" where
  "pb_amount b = oo_amount (pb_output b)"

definition is_ironwood :: "branch_id \<Rightarrow> bool" where
  "is_ironwood b \<longleftrightarrow> b = Nu6_3 \<or> b = Nu7"

definition read_bundle :: "zcash_crates \<Rightarrow> branch_id \<Rightarrow> orchard_bundle option reader" where
  "read_bundle Z b = (if is_ironwood b then read_v6_bundle Z b else read_v5_bundle Z b)"

definition write_bundle :: "zcash_crates \<Rightarrow> branch_id \<Rightarrow> orchard_bundle \<Rightarrow> bytes" where
  "write_bundle Z b = (if is_ironwood b then write_v6_bundle Z else write_v5_bundle Z)"

section \<open>The policy for shielded bundles\<close>

definition extract_orchard_bundle ::
    "zcash_crates \<Rightarrow> bytes option \<Rightarrow> branch_id \<Rightarrow> string + parsed_bundle option" where
  "extract_orchard_bundle Z raw b =
     (case raw of
        None \<Rightarrow> Inr None
      | Some bs \<Rightarrow>
          (case read_bundle Z b bs of
             None \<Rightarrow> Inl ''Failed to read orchard bundle''
           | Some (None, _) \<Rightarrow> Inl ''Orchard bundle is empty''
           | Some (Some bundle, _) \<Rightarrow>
               if ob_actions bundle \<noteq> EXPECTED_ACTIONS_NUMBER then Inl ''Orchard bundle must have 1 actions''
               else (case recover_output_with_ovk Z bundle BRIDGE_OVK of
                 None \<Rightarrow> Inl ''Failed to recover Orchard output with bridge OVK''
               | Some (value, addr) \<Rightarrow>
                   if value = 0 then Inl ''Orchard output value must be non-zero''
                   else Inr (Some \<lparr>pb_bundle = bundle,
                     pb_output = \<lparr>oo_amount = value, oo_recipient_addr = addr\<rparr>\<rparr>))))"

definition validate_orchard_bundle :: "zcash_crates \<Rightarrow> parsed_bundle \<Rightarrow> string \<Rightarrow> chain \<Rightarrow> string + unit" where
  "validate_orchard_bundle Z o1 expected_recipient c =
     bindS (parse_address Z expected_recipient c) (\<lambda>a.
     bindS (extract_orchard_receiver Z a) (\<lambda>expected.
     if oo_recipient_addr (pb_output o1) \<noteq> expected then Inl ''Orchard recipient mismatch''
     else if pb_amount o1 > 2 ^ 63 - 1 then Inl ''Orchard amount too large for i64''
     else if ob_value_balance (pb_bundle o1) \<noteq> - int (pb_amount o1) then Inl ''Orchard value balance mismatch''
     else Inr ()))"

section \<open>Building\<close>

definition zout_of :: "zcash_crates \<Rightarrow> tx_out \<Rightarrow> ztx_out res" where
  \<comment> \<open>\<open>ZcashTxOut::new(Zatoshis::from_u64(value).unwrap(), script)\<close>\<close>
  "zout_of Z out = (if zatoshis_ok Z (txo_value out)
     then Inr \<lparr>zo_value = txo_value out, zo_script = txo_script out\<rparr> else Inl (Panic ''unwrap''))"

definition panic_on :: "string \<Rightarrow> string + 'a \<Rightarrow> ('a \<Rightarrow> 'b res) \<Rightarrow> 'b res" where
  "panic_on msg r k = (case r of Inl _ \<Rightarrow> Inl (Panic msg) | Inr v \<Rightarrow> k v)"

definition zpsbt_new ::
    "zcash_crates \<Rightarrow> config \<Rightarrow> out_point list \<Rightarrow> tx_out list \<Rightarrow> bytes option \<Rightarrow> u32 \<Rightarrow> u32 \<Rightarrow> string option \<Rightarrow> zpsbt res" where
  "zpsbt_new Z c input output raw_bundle expiry_height current_height recipient =
     require (input \<noteq> []) ''empty input'' (
     require (output \<noteq> [] \<or> raw_bundle \<noteq> None) ''empty output'' (
     bindR (map_res (zout_of Z) output) (\<lambda>vout.
     let vin = map (\<lambda>i. \<lparr>zin_prevout_hash = txid_from_display Z (op_txid i), zin_prevout_n = op_vout i,
           zin_script_sig = [], zin_sequence = U32_MAX\<rparr>) input;
         inputs = replicate (length vin) \<lparr>zo_value = 0, zo_script = []\<rparr> in
     bindR (get_branch_id (chain_cfg c) current_height) (\<lambda>branch_id.
     panic_on ''ERR_INVALID_ORCHARD_BUNDLE: failed to extract Orchard bundle''
       (extract_orchard_bundle Z raw_bundle branch_id) (\<lambda>orchard.
     Inr \<lparr>zp_branch_id = branch_id, zp_expiry_height = expiry_height, zp_vin = vin, zp_vout = vout,
       zp_inputs_utxo = inputs, zp_orchard = orchard, zp_recipient_address = recipient\<rparr>)))))"

definition zpsbt_from_original ::
    "zcash_crates \<Rightarrow> config \<Rightarrow> zpsbt \<Rightarrow> tx_out list \<Rightarrow> bytes option \<Rightarrow> u32 \<Rightarrow> u32 \<Rightarrow> zpsbt res" where
  "zpsbt_from_original Z c original output raw_bundle expiry_height current_height =
     bindR (if output = [] then Inr (zp_vout original) else map_res (zout_of Z) output) (\<lambda>vout.
     bindR (get_branch_id (chain_cfg c) current_height) (\<lambda>branch_id.
     panic_on ''ERR_INVALID_ORCHARD_BUNDLE: failed to extract Orchard bundle''
       (extract_orchard_bundle Z raw_bundle branch_id) (\<lambda>orchard.
     Inr \<lparr>zp_branch_id = branch_id, zp_expiry_height = expiry_height, zp_vin = zp_vin original, zp_vout = vout,
       zp_inputs_utxo = zp_inputs_utxo original, zp_orchard = orchard,
       zp_recipient_address = zp_recipient_address original\<rparr>)))"

fun zset_input_utxo_from :: "zcash_crates \<Rightarrow> tx_out list \<Rightarrow> usize \<Rightarrow> zpsbt \<Rightarrow> zpsbt res" where
  "zset_input_utxo_from Z [] i p = Inr p"
| "zset_input_utxo_from Z (v # vs) i p =
     bindR (zout_of Z v) (\<lambda>out.
     index_at (zp_inputs_utxo p) i (\<lambda>_.
       zset_input_utxo_from Z vs (Suc i) (p\<lparr>zp_inputs_utxo := (zp_inputs_utxo p)[i := out]\<rparr>)))"

definition zset_input_utxo :: "zcash_crates \<Rightarrow> zpsbt \<Rightarrow> tx_out list \<Rightarrow> zpsbt res" where
  "zset_input_utxo Z p input_utxo = zset_input_utxo_from Z input_utxo 0 p"

definition zget_input_num :: "zpsbt \<Rightarrow> usize" where
  "zget_input_num p = length (zp_vin p)"

definition zget_output_num :: "zpsbt \<Rightarrow> usize" where
  "zget_output_num p = length (zp_vout p)"

definition zget_expiry_height :: "zpsbt \<Rightarrow> u32 option" where
  "zget_expiry_height p = Some (zp_expiry_height p)"

definition has_orchard_bundle :: "zpsbt \<Rightarrow> bool" where
  "has_orchard_bundle p \<longleftrightarrow> zp_orchard p \<noteq> None"

definition get_orchard_output_amount :: "zpsbt \<Rightarrow> u128 res" where
  "get_orchard_output_amount p = expect (zp_orchard p) ''No Orchard bundle present'' (\<lambda>b. Inr (pb_amount b))"

definition zget_utxo_storage_keys :: "zcash_crates \<Rightarrow> zpsbt \<Rightarrow> string list" where
  "zget_utxo_storage_keys Z p =
     map (\<lambda>i. generate_utxo_storage_key (txid_to_display Z (zin_prevout_hash i)) (zin_prevout_n i)) (zp_vin p)"

definition zadd_extra_outputs :: "zpsbt \<Rightarrow> u128 list \<Rightarrow> u128 list \<times> u128" where
  "zadd_extra_outputs p received =
     (case zp_orchard p of Some b \<Rightarrow> (received @ [pb_amount b], pb_amount b) | None \<Rightarrow> (received, 0))"

definition zget_output :: "zpsbt \<Rightarrow> tx_out list" where
  "zget_output p = map (\<lambda>i. \<lparr>txo_value = zo_value i, txo_script = zo_script i\<rparr>) (zp_vout p)"

definition zget_recipient_address :: "zpsbt \<Rightarrow> string option" where
  "zget_recipient_address p = zp_recipient_address p"

definition zvalidate_orchard_bundle :: "zcash_crates \<Rightarrow> zpsbt \<Rightarrow> string \<Rightarrow> chain \<Rightarrow> 'a res \<Rightarrow> 'a res" where
  "zvalidate_orchard_bundle Z p expected_addr c k =
     expect (zp_orchard p) ''ERR_NO_ORCHARD_BUNDLE: Orchard bundle is required for validation'' (\<lambda>b.
     panic_on ''ERR_ORCHARD_VALIDATION: Orchard bundle validation failed''
       (validate_orchard_bundle Z b expected_addr c) (\<lambda>_. k))"

section \<open>The stored form\<close>

fun to_le :: "nat \<Rightarrow> nat \<Rightarrow> bytes" where
  "to_le 0 x = []"
| "to_le (Suc n) x = word_of_nat x # to_le n (x div 256)"

fun from_le :: "bytes \<Rightarrow> nat" where
  "from_le [] = 0"
| "from_le (b # bs) = unat b + 256 * from_le bs"

definition branch_byte :: "branch_id \<Rightarrow> 8 word" where
  "branch_byte b = (case b of Nu6 \<Rightarrow> 7 | Nu6_1 \<Rightarrow> 8 | Nu6_2 \<Rightarrow> 9 | Nu6_3 \<Rightarrow> 10 | Nu7 \<Rightarrow> 11)"

definition branch_of_byte :: "8 word \<Rightarrow> branch_id option" where
  "branch_of_byte b =
     (if b = 7 then Some Nu6 else if b = 8 then Some Nu6_1 else if b = 9 then Some Nu6_2
      else if b = 10 then Some Nu6_3 else if b = 11 then Some Nu7 else None)"

definition as_bytes :: "string \<Rightarrow> bytes" where
  "as_bytes s = map (\<lambda>c. word_of_nat (of_char c)) s"

definition write_vec :: "('a \<Rightarrow> bytes) \<Rightarrow> 'a list \<Rightarrow> bytes" where
  "write_vec w xs = to_le 8 (length xs) @ concat (map w xs)"

definition to_bytes :: "zcash_crates \<Rightarrow> zpsbt \<Rightarrow> bytes" where
  "to_bytes Z p =
     [4, branch_byte (zp_branch_id p)] @ to_le 4 (zp_expiry_height p) @
     write_vec (ztx_in_write Z) (zp_vin p) @ write_vec (ztx_out_write Z) (zp_vout p) @
     write_vec (ztx_out_write Z) (zp_inputs_utxo p) @
     (case zp_orchard p of
        Some b \<Rightarrow> write_bundle Z (zp_branch_id p) (pb_bundle b) @ [1] @
          to_le 8 (oo_amount (pb_output b)) @ oo_recipient_addr (pb_output b)
      | None \<Rightarrow> [0]) @
     (case zp_recipient_address p of Some r \<Rightarrow> [1] @ write_vec (\<lambda>b. [b]) (as_bytes r) | None \<Rightarrow> [0])"

definition zserialize :: "zcash_crates \<Rightarrow> zpsbt \<Rightarrow> string" where
  "zserialize Z p = hex_encode Z (to_bytes Z p)"

definition read_exact :: "nat \<Rightarrow> bytes reader" where
  "read_exact n bs = (if length bs < n then None else Some (take n bs, drop n bs))"

definition read_u8 :: "8 word reader" where
  "read_u8 bs = (case read_exact 1 bs of None \<Rightarrow> None | Some (b, rest) \<Rightarrow> Some (b ! 0, rest))"

definition read_u32_le :: "u32 reader" where
  "read_u32_le bs = (case read_exact 4 bs of None \<Rightarrow> None | Some (b, rest) \<Rightarrow> Some (from_le b, rest))"

definition read_u64_le :: "u64 reader" where
  "read_u64_le bs = (case read_exact 8 bs of None \<Rightarrow> None | Some (b, rest) \<Rightarrow> Some (from_le b, rest))"

fun read_many :: "'a reader \<Rightarrow> nat \<Rightarrow> 'a list reader" where
  "read_many rd 0 bs = Some ([], bs)"
| "read_many rd (Suc n) bs = (case rd bs of None \<Rightarrow> None | Some (x, bs) \<Rightarrow>
     (case read_many rd n bs of None \<Rightarrow> None | Some (xs, bs) \<Rightarrow> Some (x # xs, bs)))"

text \<open>\<open>as usize\<close> on the 32-bit contract target.\<close>

definition as_usize :: "u64 \<Rightarrow> usize" where
  "as_usize n = n mod 2 ^ 32"

text \<open>\<open>String::from_utf8\<close>.\<close>

definition utf8_cont :: "8 word \<Rightarrow> bool" where
  "utf8_cont b \<longleftrightarrow> 0x80 \<le> b \<and> b \<le> 0xBF"

fun utf8_valid :: "bytes \<Rightarrow> bool" where
  "utf8_valid [] = True"
| "utf8_valid (a # bs) =
     (if a \<le> 0x7F then utf8_valid bs
      else if 0xC2 \<le> a \<and> a \<le> 0xDF then (case bs of b # r \<Rightarrow> utf8_cont b \<and> utf8_valid r | _ \<Rightarrow> False)
      else if 0xE0 \<le> a \<and> a \<le> 0xEF then (case bs of b # c # r \<Rightarrow>
          utf8_cont b \<and> (a = 0xE0 \<longrightarrow> 0xA0 \<le> b) \<and> (a = 0xED \<longrightarrow> b \<le> 0x9F) \<and> utf8_cont c \<and> utf8_valid r
        | _ \<Rightarrow> False)
      else if 0xF0 \<le> a \<and> a \<le> 0xF4 then (case bs of b # c # d # r \<Rightarrow>
          utf8_cont b \<and> (a = 0xF0 \<longrightarrow> 0x90 \<le> b) \<and> (a = 0xF4 \<longrightarrow> b \<le> 0x8F) \<and>
          utf8_cont c \<and> utf8_cont d \<and> utf8_valid r
        | _ \<Rightarrow> False)
      else False)"

definition read_string :: "string reader" where
  "read_string bs = (case read_u64_le bs of None \<Rightarrow> None | Some (n, bs) \<Rightarrow>
     (case read_many read_u8 (as_usize n) bs of None \<Rightarrow> None | Some (xs, bs) \<Rightarrow>
        if utf8_valid xs then Some (map (\<lambda>b. char_of (unat b)) xs, bs) else None))"

definition read_or :: "'a reader \<Rightarrow> string \<Rightarrow> bytes \<Rightarrow> ('a \<Rightarrow> bytes \<Rightarrow> 'b res) \<Rightarrow> 'b res" where
  "read_or rd msg bs k = expect (rd bs) msg (\<lambda>(x, rest). k x rest)"

definition read_vec_or :: "'a reader \<Rightarrow> string \<Rightarrow> string \<Rightarrow> bytes \<Rightarrow> ('a list \<Rightarrow> bytes \<Rightarrow> 'b res) \<Rightarrow> 'b res" where
  "read_vec_or rd len_msg msg bs k =
     read_or read_u64_le len_msg bs (\<lambda>n bs. read_or (read_many rd (as_usize n)) msg bs k)"

definition read_branch :: "8 word \<Rightarrow> bytes \<Rightarrow> (branch_id \<Rightarrow> bytes \<Rightarrow> 'b res) \<Rightarrow> 'b res" where
  "read_branch version bs k =
     (if version \<ge> 2 then
        read_or read_u8 ''ERR_INVALID_PSBT: failed to read branch_id'' bs (\<lambda>b bs.
        expect (branch_of_byte b) ''ERR_INVALID_PSBT: unsupported branch_id'' (\<lambda>branch. k branch bs))
      else k Nu6_1 bs)"

definition read_orchard_output :: "orchard_bundle option \<Rightarrow> bytes \<Rightarrow> (parsed_bundle option \<Rightarrow> bytes \<Rightarrow> 'b res) \<Rightarrow> 'b res" where
  "read_orchard_output bundle bs k = (case bundle of
      None \<Rightarrow> k None bs
    | Some b \<Rightarrow>
        read_or read_u8 ''ERR_INVALID_PSBT: failed to read orchard_output flag'' bs (\<lambda>flag bs.
        if flag = 1 then
          read_or read_u64_le ''ERR_INVALID_PSBT: failed to read orchard amount'' bs (\<lambda>amount bs.
          read_or (read_many read_u8 ORCHARD_RAW_ADDRESS_SIZE)
            ''ERR_INVALID_PSBT: failed to read orchard address'' bs (\<lambda>addr bs.
          k (Some \<lparr>pb_bundle = b, pb_output = \<lparr>oo_amount = amount, oo_recipient_addr = addr\<rparr>\<rparr>) bs))
        else k None bs))"

definition read_recipient :: "bytes \<Rightarrow> (string option \<Rightarrow> bytes \<Rightarrow> 'b res) \<Rightarrow> 'b res" where
  "read_recipient bs k =
     read_or read_u8 ''ERR_INVALID_PSBT: failed to read recipient_address flag'' bs (\<lambda>flag bs.
     if flag = 1 then
       read_or read_string ''ERR_INVALID_PSBT: failed to read recipient_address'' bs (\<lambda>r. k (Some r))
     else k None bs)"

definition of_bytes :: "zcash_crates \<Rightarrow> bytes \<Rightarrow> zpsbt res" where
  "of_bytes Z bs =
     read_or read_u8 ''ERR_INVALID_PSBT: failed to read version'' bs (\<lambda>version bs.
     read_branch version bs (\<lambda>branch_id bs.
     read_or read_u32_le ''ERR_INVALID_PSBT: failed to read expiry_height'' bs (\<lambda>expiry_height bs.
     read_vec_or (ztx_in_read Z) ''ERR_INVALID_PSBT: failed to read vin length''
       ''ERR_INVALID_PSBT: failed to read vin'' bs (\<lambda>vin bs.
     read_vec_or (ztx_out_read Z) ''ERR_INVALID_PSBT: failed to read vout length''
       ''ERR_INVALID_PSBT: failed to read vout'' bs (\<lambda>vout bs.
     read_vec_or (ztx_out_read Z) ''ERR_INVALID_PSBT: failed to read inputs length''
       ''ERR_INVALID_PSBT: failed to read input utxo'' bs (\<lambda>inputs bs.
     (if version \<ge> 3 then read_or (read_bundle Z branch_id) ''ERR_INVALID_PSBT: failed to read Orchard bundle'' bs
      else (\<lambda>k. k None bs)) (\<lambda>bundle bs.
     read_orchard_output bundle bs (\<lambda>orchard bs.
     (if version \<ge> 3 then read_recipient bs else (\<lambda>k. k None bs)) (\<lambda>recipient bs.
     Inr \<lparr>zp_branch_id = branch_id, zp_expiry_height = expiry_height, zp_vin = vin, zp_vout = vout,
       zp_inputs_utxo = inputs, zp_orchard = orchard, zp_recipient_address = recipient\<rparr>)))))))))"

definition zdeserialize :: "zcash_crates \<Rightarrow> string \<Rightarrow> zpsbt res" where
  "zdeserialize Z h =
     expect (hex_decode Z h) ''ERR_INVALID_PSBT_HEX: failed to decode hex'' (of_bytes Z)"

section \<open>Transactions\<close>

definition build_transparent_bundle ::
    "zcash_crates \<Rightarrow> ztx_in list \<Rightarrow> ztx_out list \<Rightarrow> ztx_out list \<Rightarrow> transparent_effects res" where
  "build_transparent_bundle Z vin vout coins =
     require (length vin = length coins) ''ERR_INPUT_COIN_MISMATCH: every input needs the coin it spends'' (
     require (vin \<noteq> [] \<or> vout \<noteq> []) ''ERR_EMPTY_TRANSPARENT_BUNDLE: no inputs and no outputs'' (
     bindR (map_res (\<lambda>out. require (is_p2pkh Z (zo_script out) \<or> is_p2sh Z (zo_script out))
       ''ERR_UNSUPPORTED_OUTPUT_SCRIPT: only P2PKH and P2SH transparent outputs are supported'' (Inr ())) vout) (\<lambda>_.
     Inr \<lparr>te_vin = map (\<lambda>i. (zin_prevout_hash i, zin_prevout_n i, zin_sequence i)) vin,
       te_vout = vout, te_coins = coins\<rparr>)))"

definition to_zcash_tx ::
    "zcash_crates \<Rightarrow> ztx_in list \<Rightarrow> ztx_out list \<Rightarrow> ztx_out list \<Rightarrow> u32 \<Rightarrow> branch_id \<Rightarrow> unauthorized_tx res" where
  "to_zcash_tx Z vin vout coins expiry_height branch_id =
     bindR (build_transparent_bundle Z vin vout coins) (\<lambda>bundle.
     Inr \<lparr>un_version = (if is_ironwood branch_id then TxV6 else TxV5), un_branch_id = branch_id,
       un_lock_time = 0, un_expiry_height = expiry_height, un_transparent = bundle\<rparr>)"

definition zcompute_txid :: "zcash_crates \<Rightarrow> ztx_data \<Rightarrow> string" where
  "zcompute_txid Z t = txid_to_display Z (ztx_txid Z t)"

definition ztx_output :: "ztx_data \<Rightarrow> tx_out list res" where
  "ztx_output t = expect (td_transparent t) ''unwrap'' (\<lambda>(vin, vout).
     Inr (map (\<lambda>out. \<lparr>txo_value = zo_value out, txo_script = zo_script out\<rparr>) vout))"

definition ztx_lock_time :: "ztx_data \<Rightarrow> u32" where
  "ztx_lock_time t = td_lock_time t"

definition ztx_encode :: "zcash_crates \<Rightarrow> ztx_data \<Rightarrow> bytes option" where
  "ztx_encode Z t = ztx_write Z t"

definition ztx_decode :: "zcash_crates \<Rightarrow> bytes \<Rightarrow> chain \<Rightarrow> ztx_data option" where
  "ztx_decode Z data c = ztx_read Z data"

definition get_zcash_tx :: "zcash_crates \<Rightarrow> zpsbt \<Rightarrow> ztx_data res" where
  "get_zcash_tx Z p =
     (let shielded = map_option pb_bundle (zp_orchard p);
          v6 = is_ironwood (zp_branch_id p);
          t = \<lparr>td_version = (if v6 then TxV6 else TxV5), td_branch_id = zp_branch_id p, td_lock_time = 0,
               td_expiry_height = zp_expiry_height p, td_transparent = Some (zp_vin p, zp_vout p),
               td_sapling = None, td_orchard = (if v6 then None else shielded),
               td_ironwood = (if v6 then shielded else None)\<rparr> in
      require (ztx_freeze_ok Z t) ''ERR_TX_FREEZE: failed to freeze Zcash transaction data'' (Inr t))"

definition zextract_tx_bytes_with_sign :: "zcash_crates \<Rightarrow> zpsbt \<Rightarrow> bytes res" where
  "zextract_tx_bytes_with_sign Z p =
     bindR (get_zcash_tx Z p) (\<lambda>t.
     expect (ztx_encode Z t) ''ERR_TX_ENCODE: failed to encode Zcash transaction'' Inr)"

definition zget_pending_id :: "zcash_crates \<Rightarrow> zpsbt \<Rightarrow> string res" where
  "zget_pending_id Z p = bindR (get_zcash_tx Z p) (\<lambda>t. Inr (zcompute_txid Z t))"

section \<open>Signing\<close>

definition tx_digest :: "zcash_crates \<Rightarrow> zpsbt \<Rightarrow> unauthorized_tx \<Rightarrow> bytes" where
  "tx_digest Z p u =
     (let version = un_version u; shielded = map_option pb_bundle (zp_orchard p);
          (orchard_bundle, ironwood_bundle) =
            (if is_ironwood (zp_branch_id p) then (None, shielded) else (shielded, None)) in
      digest_combine Z
        (digest_header Z version (un_branch_id u) (un_lock_time u) (un_expiry_height u))
        (digest_transparent Z (Some (te_vin (un_transparent u), te_vout (un_transparent u))))
        (digest_sapling Z version None)
        (digest_orchard Z version orchard_bundle)
        (digest_ironwood Z ironwood_bundle))"

definition zget_hash_to_sign :: "zcash_crates \<Rightarrow> zpsbt \<Rightarrow> usize \<Rightarrow> bytes res" where
  "zget_hash_to_sign Z p vin =
     bindR (to_zcash_tx Z (zp_vin p) (zp_vout p) (zp_inputs_utxo p) (zp_expiry_height p) (zp_branch_id p)) (\<lambda>u.
     let parts = tx_digest Z p u in
     index_at (zp_inputs_utxo p) vin (\<lambda>coin.
     require (signable_input_ok Z (un_transparent u) vin) ''ERR_SIGNABLE_INPUT: invalid input index'' (
     Inr (signature_hash Z u vin (zo_script coin) (zo_value coin) parts))))"

definition zsave_signature :: "zcash_crates \<Rightarrow> zpsbt \<Rightarrow> usize \<Rightarrow> signature_response \<Rightarrow> bytes \<Rightarrow> zpsbt res" where
  "zsave_signature Z p sign_index sg public_key =
     bindR (to_btc_signature (crates.truncate Z) sg) (\<lambda>btc_sig.
     index_at (zp_vin p) sign_index (\<lambda>i.
     Inr (p\<lparr>zp_vin := (zp_vin p)[sign_index := i\<lparr>zin_script_sig := script_sig_of Z btc_sig public_key\<rparr>]\<rparr>)))"

section \<open>Fees\<close>

definition zip317_min_fee :: "zcash_crates \<Rightarrow> usize \<Rightarrow> usize list \<Rightarrow> usize \<Rightarrow> usize \<Rightarrow> u64 res" where
  "zip317_min_fee Z input_count output_sizes orchard_actions ironwood_actions =
     expect (zip317_fee_required Z input_count output_sizes orchard_actions ironwood_actions) ''unwrap'' Inr"

definition zget_min_fee :: "zcash_crates \<Rightarrow> zpsbt \<Rightarrow> u64 res" where
  "zget_min_fee Z p =
     (let action_count = (case zp_orchard p of Some b \<Rightarrow> ob_actions (pb_bundle b) | None \<Rightarrow> 0);
          (o_count, i_count) = (if is_ironwood (zp_branch_id p) then (0, action_count) else (action_count, 0)) in
      zip317_min_fee Z (length (zp_vin p)) (map (ztx_out_size Z) (zp_vout p)) o_count i_count)"

end
