(* ===== verification/Zcash_Codec.thy ===== *)
theory Zcash_Codec
  imports Zcash_Psbt
begin

text \<open>
  What holds of the Zcash wrapper: the contract of writers and readers as a locale, the stored form
  of every PSBT that the operations build reads back, and the digest that is signed is the one the
  broadcast transaction's id commits to.  A concrete instance of the parameters, with a simple
  encoding, closes the theory.
\<close>

section \<open>Prefix codes\<close>

text \<open>
  The contract between a writer and a remaining-returning reader: what was written is read back and
  the rest of the input is left.  It is the interface of every field of the stored form; the derived
  laws for repeated fields are proved once.
\<close>

locale prefix_code =
  fixes wr :: "'a \<Rightarrow> bytes" and rd :: "'a reader" and ok :: "'a \<Rightarrow> bool"
  assumes read_written: "ok x \<Longrightarrow> rd (wr x @ rest) = Some (x, rest)"
begin

lemma read_all: "\<forall>x\<in>set xs. ok x \<Longrightarrow> read_many rd (length xs) (concat (map wr xs) @ rest) = Some (xs, rest)"
  by (induction xs) (simp_all add: read_written)

lemma writings_inj:
  assumes "\<And>x. ok x \<Longrightarrow> wr x \<noteq> []"
  shows "\<forall>x\<in>set xs. ok x \<Longrightarrow> \<forall>y\<in>set ys. ok y \<Longrightarrow> concat (map wr xs) = concat (map wr ys) \<Longrightarrow> xs = ys"
proof (induction xs arbitrary: ys)
  case Nil
  show ?case
  proof (cases ys)
    case (Cons y ys')
    with Nil.prems have "wr y = []" "ok y" by simp_all
    with assms[of y] show ?thesis by simp
  qed simp
next
  case (Cons x xs)
  have "wr x \<noteq> []" by (rule assms) (use Cons.prems(1) in simp)
  with Cons.prems(3) obtain y ys' where ys: "ys = y # ys'" by (cases ys) simp_all
  have "rd (wr x @ concat (map wr xs)) = rd (wr y @ concat (map wr ys'))"
    using Cons.prems(3) by (simp add: ys)
  then have eq: "x = y" "concat (map wr xs) = concat (map wr ys')"
    using Cons.prems(1,2) by (simp_all add: ys read_written)
  have "xs = ys'" by (rule Cons.IH) (use Cons.prems(1,2) ys eq in simp_all)
  with eq ys show ?case by simp
qed

lemma or_written: "ok x \<Longrightarrow> read_or rd msg (wr x @ rest) k = k x rest"
  by (simp add: read_or_def read_written)

end

lemma length_to_le [simp]: "length (to_le n x) = n"
  by (induction n arbitrary: x) simp_all

lemma from_to_le: "from_le (to_le n x) = x mod 256 ^ n"
proof (induction n arbitrary: x)
  case 0
  then show ?case by simp
next
  case (Suc n)
  have "x mod 256 ^ Suc n = x mod 256 + 256 * (x div 256 mod 256 ^ n)"
    by (simp add: mod_mult2_eq)
  then show ?case by (simp add: Suc unat_of_nat)
qed

lemma read_exact_append: "length xs = n \<Longrightarrow> read_exact n (xs @ rest) = Some (xs, rest)"
  by (simp add: read_exact_def)

interpretation u8_code: prefix_code "\<lambda>b. [b]" read_u8 "\<lambda>_. True"
  by unfold_locales (simp add: read_u8_def read_exact_def)

interpretation u32_code: prefix_code "to_le 4" read_u32_le "\<lambda>n. n \<le> U32_MAX"
  by unfold_locales (simp add: read_u32_le_def read_exact_append from_to_le U32_MAX_def)

interpretation u64_code: prefix_code "to_le 8" read_u64_le "\<lambda>n. n \<le> U64_MAX"
  by unfold_locales (simp add: read_u64_le_def read_exact_append from_to_le U64_MAX_def)

section \<open>Well-formed values and the documented behaviour of the codecs\<close>

definition MAX_COMPACT_SIZE :: nat where "MAX_COMPACT_SIZE = 0x02000000"

definition zin_ok :: "ztx_in \<Rightarrow> bool" where
  "zin_ok i \<longleftrightarrow> length (zin_prevout_hash i) = 32 \<and> zin_prevout_n i \<le> U32_MAX \<and>
     length (zin_script_sig i) \<le> MAX_COMPACT_SIZE \<and> zin_sequence i \<le> U32_MAX"

definition zout_ok :: "zcash_crates \<Rightarrow> ztx_out \<Rightarrow> bool" where
  "zout_ok Z out \<longleftrightarrow> zatoshis_ok Z (zo_value out) \<and> length (zo_script out) \<le> MAX_COMPACT_SIZE"

definition parsed_ok :: "zcash_crates \<Rightarrow> branch_id \<Rightarrow> parsed_bundle \<Rightarrow> bool" where
  "parsed_ok Z br b \<longleftrightarrow> (\<exists>bs rest. read_bundle Z br bs = Some (Some (pb_bundle b), rest)) \<and>
     oo_amount (pb_output b) \<le> U64_MAX \<and> length (oo_recipient_addr (pb_output b)) = ORCHARD_RAW_ADDRESS_SIZE"

definition str_ok :: "string \<Rightarrow> bool" where
  "str_ok r \<longleftrightarrow> utf8_valid (as_bytes r) \<and> length r < 2 ^ 32"

definition zpsbt_ok :: "zcash_crates \<Rightarrow> zpsbt \<Rightarrow> bool" where
  "zpsbt_ok Z p \<longleftrightarrow> zp_expiry_height p \<le> U32_MAX \<and>
     length (zp_vin p) < 2 ^ 32 \<and> length (zp_vout p) < 2 ^ 32 \<and> length (zp_inputs_utxo p) < 2 ^ 32 \<and>
     (\<forall>i\<in>set (zp_vin p). zin_ok i) \<and> (\<forall>out\<in>set (zp_vout p). zout_ok Z out) \<and>
     (\<forall>out\<in>set (zp_inputs_utxo p). zout_ok Z out) \<and>
     (\<forall>b. zp_orchard p = Some b \<longrightarrow> parsed_ok Z (zp_branch_id p) b) \<and>
     (\<forall>r. zp_recipient_address p = Some r \<longrightarrow> str_ok r)"

text \<open>
  What the encodings are documented to do: hex decodes what it encoded; inputs and outputs read back, and no output is
  written as nothing;
  a bundle that was read writes back to bytes that read as it; the byte zero is an absent bundle; a
  transaction id has 32 bytes, an Orchard address 43, and zero is an amount.
\<close>

definition zcash_codec_ok :: "zcash_crates \<Rightarrow> bool" where
  "zcash_codec_ok Z \<longleftrightarrow>
     (\<forall>bs. hex_decode Z (hex_encode Z bs) = Some bs) \<and>
     prefix_code (ztx_in_write Z) (ztx_in_read Z) zin_ok \<and>
     prefix_code (ztx_out_write Z) (ztx_out_read Z) (zout_ok Z) \<and>
     (\<forall>out. ztx_out_write Z out \<noteq> []) \<and>
     (\<forall>br bs b r rest. read_bundle Z br bs = Some (Some b, r) \<longrightarrow>
        read_bundle Z br (write_bundle Z br b @ rest) = Some (Some b, rest)) \<and>
     (\<forall>br rest. read_bundle Z br (0 # rest) = Some (None, rest)) \<and>
     (\<forall>b k v a. recover_output_with_ovk Z b k = Some (v, a) \<longrightarrow>
        v \<le> U64_MAX \<and> length a = ORCHARD_RAW_ADDRESS_SIZE) \<and>
     (\<forall>t. length (txid_from_display Z t) = 32) \<and> zatoshis_ok Z 0 \<and>
     (\<forall>sg pk. length (script_sig_of Z sg pk) \<le> MAX_COMPACT_SIZE)"

section \<open>The stored form reads back\<close>

lemma read_vec_written:
  assumes "prefix_code wr rd ok" "\<forall>x\<in>set xs. ok x" "length xs < 2 ^ 32"
  shows "read_vec_or rd m1 m2 (write_vec wr xs @ rest) k = k xs rest"
proof -
  have n: "length xs \<le> U64_MAX" "as_usize (length xs) = length xs"
    using assms(3) by (simp_all add: U64_MAX_def as_usize_def)
  show ?thesis
    using prefix_code.read_all[OF assms(1,2)] n(2)
    by (simp add: read_vec_or_def write_vec_def u64_code.or_written[OF n(1)]) (simp add: read_or_def)
qed

lemma branch_byte_code [simp]: "branch_of_byte (branch_byte b) = Some b"
  by (cases b) (simp_all add: branch_byte_def branch_of_byte_def)

lemma of_as_bytes: "map (\<lambda>b. char_of (unat b)) (as_bytes r) = r"
  by (induction r) (simp_all add: as_bytes_def unat_of_nat )

lemma read_bytes: "length xs = n \<Longrightarrow> read_many read_u8 n (xs @ rest) = Some (xs, rest)"
  using u8_code.read_all[of xs rest] by (simp add: concat_map_singleton)

interpretation string_code: prefix_code "\<lambda>r. write_vec (\<lambda>b. [b]) (as_bytes r)" read_string str_ok
proof
  fix r rest
  assume ok: "str_ok r"
  then have n: "length (as_bytes r) \<le> U64_MAX" "as_usize (length (as_bytes r)) = length (as_bytes r)"
    by (simp_all add: str_ok_def as_bytes_def U64_MAX_def as_usize_def)
  show "read_string (write_vec (\<lambda>b. [b]) (as_bytes r) @ rest) = Some (r, rest)"
    using ok n(2)
    by (simp add: read_string_def write_vec_def u64_code.read_written[OF n(1)] concat_map_singleton
        read_bytes of_as_bytes str_ok_def)
qed

lemma read_u8_or [simp]: "read_or read_u8 m (b # bs) k = k b bs"
  using u8_code.or_written[of m b bs k] by simp

lemma read_recipient_written:
  assumes "\<forall>r. rcp = Some r \<longrightarrow> str_ok r"
  shows "read_recipient ((case rcp of Some r \<Rightarrow> [1] @ write_vec (\<lambda>b. [b]) (as_bytes r) | None \<Rightarrow> [0]) @ rest) k
    = k rcp rest"
proof -
  show ?thesis
    using assms by (cases rcp) (simp_all add: read_recipient_def string_code.or_written)
qed

lemma read_orchard_written:
  assumes Z: "zcash_codec_ok Z" and ok: "\<forall>b. orch = Some b \<longrightarrow> parsed_ok Z br b"
  shows "read_or (read_bundle Z br) m
      ((case orch of Some b \<Rightarrow> write_bundle Z br (pb_bundle b) @ [1] @
          to_le 8 (oo_amount (pb_output b)) @ oo_recipient_addr (pb_output b) | None \<Rightarrow> [0]) @ rest)
      (\<lambda>bundle bs. read_orchard_output bundle bs k) = k orch rest"
proof (cases orch)
  case None
  then show ?thesis using Z by (simp add: zcash_codec_ok_def read_or_def read_orchard_output_def)
next
  case (Some b)
  with ok have p: "parsed_ok Z br b" by simp
  have r: "read_bundle Z br (write_bundle Z br (pb_bundle b) @ bs) = Some (Some (pb_bundle b), bs)" for bs
    using Z p unfolding zcash_codec_ok_def parsed_ok_def by blast
  have a: "oo_amount (pb_output b) \<le> U64_MAX" "length (oo_recipient_addr (pb_output b)) = ORCHARD_RAW_ADDRESS_SIZE"
    using p by (simp_all add: parsed_ok_def)
  have ad: "read_or (read_many read_u8 ORCHARD_RAW_ADDRESS_SIZE) m (oo_recipient_addr (pb_output b) @ rest) f =
      f (oo_recipient_addr (pb_output b)) rest" for m and f :: "bytes \<Rightarrow> bytes \<Rightarrow> 'a res"
    by (simp add: read_or_def read_bytes a(2))
  have rb: "read_or (read_bundle Z br) m (write_bundle Z br (pb_bundle b) @ bs) f = f (Some (pb_bundle b)) bs"
    for m bs and f :: "orchard_bundle option \<Rightarrow> bytes \<Rightarrow> 'a res"
    by (simp add: read_or_def r)
  obtain bd am ar where b: "b = \<lparr>pb_bundle = bd, pb_output = \<lparr>oo_amount = am, oo_recipient_addr = ar\<rparr>\<rparr>"
    by (cases b, cases "pb_output b") auto
  show ?thesis
    using Some rb ad a(1) unfolding b by (simp add: read_orchard_output_def u64_code.or_written)
qed

lemma stored_reads_back:
  assumes Z: "zcash_codec_ok Z" and p: "zpsbt_ok Z p"
  shows "zdeserialize Z (zserialize Z p) = Inr p"
proof -
  have vin: "read_vec_or (ztx_in_read Z) m1 m2 (write_vec (ztx_in_write Z) (zp_vin p) @ rest) k = k (zp_vin p) rest"
    for m1 m2 rest and k :: "ztx_in list \<Rightarrow> bytes \<Rightarrow> zpsbt res"
    using Z p by (intro read_vec_written[where ok = zin_ok]) (simp_all add: zcash_codec_ok_def zpsbt_ok_def)
  have outs: "read_vec_or (ztx_out_read Z) m1 m2 (write_vec (ztx_out_write Z) os @ rest) k = k os rest"
    if "os = zp_vout p \<or> os = zp_inputs_utxo p"
    for os m1 m2 rest and k :: "ztx_out list \<Rightarrow> bytes \<Rightarrow> zpsbt res"
    using Z p that by (intro read_vec_written[where ok = "zout_ok Z"]) (auto simp: zcash_codec_ok_def zpsbt_ok_def)
  have e: "zp_expiry_height p \<le> U32_MAX" and rc: "\<forall>r. zp_recipient_address p = Some r \<longrightarrow> str_ok r"
    and o1: "\<forall>b. zp_orchard p = Some b \<longrightarrow> parsed_ok Z (zp_branch_id p) b"
    using p by (simp_all add: zpsbt_ok_def)
  note rec = read_recipient_written[OF rc, where rest = "[]", simplified]
  have "of_bytes Z (to_bytes Z p) = Inr p"
    by (simp add: of_bytes_def to_bytes_def read_branch_def u32_code.or_written[OF e] vin outs
        read_orchard_written[OF Z o1, simplified] rec)
  then show ?thesis using Z by (simp add: zdeserialize_def zserialize_def zcash_codec_ok_def)
qed

section \<open>Every PSBT the wrapper builds\<close>

text \<open>What the operations make of arguments of the types of the source: counts and heights fit
  their widths, scripts and strings are no longer than a transaction can carry.\<close>

definition outs_ok :: "tx_out list \<Rightarrow> bool" where
  "outs_ok os \<longleftrightarrow> length os < 2 ^ 32 \<and> (\<forall>out\<in>set os. length (txo_script out) \<le> MAX_COMPACT_SIZE)"

definition ins_ok :: "out_point list \<Rightarrow> bool" where
  "ins_ok ps \<longleftrightarrow> length ps < 2 ^ 32 \<and> (\<forall>i\<in>set ps. op_vout i \<le> U32_MAX)"

inductive zbuilt :: "zcash_crates \<Rightarrow> config \<Rightarrow> zpsbt \<Rightarrow> bool" for Z c where
  built_new: "zpsbt_new Z c input output raw eh h rcp = Inr p \<Longrightarrow> ins_ok input \<Longrightarrow> outs_ok output \<Longrightarrow>
    eh \<le> U32_MAX \<Longrightarrow> (case rcp of Some r \<Rightarrow> str_ok r | None \<Rightarrow> True) \<Longrightarrow> zbuilt Z c p"
| built_replaced: "zbuilt Z c p \<Longrightarrow> zpsbt_from_original Z c p output raw eh h = Inr q \<Longrightarrow> outs_ok output \<Longrightarrow>
    eh \<le> U32_MAX \<Longrightarrow> zbuilt Z c q"
| built_filled: "zbuilt Z c p \<Longrightarrow> zset_input_utxo Z p coins = Inr q \<Longrightarrow> outs_ok coins \<Longrightarrow> zbuilt Z c q"
| built_signed: "zbuilt Z c p \<Longrightarrow> zsave_signature Z p i sg pk = Inr q \<Longrightarrow> zbuilt Z c q"

lemma panic_on_Inr [res_Inr]: "panic_on m r k = Inr x \<longleftrightarrow> (\<exists>v. r = Inr v \<and> k v = Inr x)"
  by (simp add: panic_on_def split: sum.split)

lemma zout_of_Inr:
  "zout_of Z out = Inr v \<Longrightarrow> length (txo_script out) \<le> MAX_COMPACT_SIZE \<Longrightarrow> zout_ok Z v"
  by (auto simp: zout_of_def zout_ok_def split: if_splits)

lemma zouts_ok:
  "map_res (zout_of Z) os = Inr vs \<Longrightarrow> outs_ok os \<Longrightarrow> (\<forall>v\<in>set vs. zout_ok Z v) \<and> length vs < 2 ^ 32"
proof (induction os arbitrary: vs)
  case Nil
  then show ?case by simp
next
  case (Cons x os)
  then obtain y ys where y: "zout_of Z x = Inr y" "map_res (zout_of Z) os = Inr ys" "vs = y # ys"
    by (auto simp: res_Inr)
  from Cons.prems(2) have "outs_ok os" "length (txo_script x) \<le> MAX_COMPACT_SIZE" "length os < 2 ^ 32 - 1"
    by (simp_all add: outs_ok_def)
  with Cons.IH[OF y(2)] y map_res_Inr_length[OF y(2)] show ?case by (auto intro: zout_of_Inr)
qed

lemma extracted_ok:
  assumes "zcash_codec_ok Z" "extract_orchard_bundle Z raw br = Inr (Some b)"
  shows "parsed_ok Z br b"
proof -
  from assms(2) obtain bs ob r v a where b: "read_bundle Z br bs = Some (Some ob, r)"
    "recover_output_with_ovk Z ob BRIDGE_OVK = Some (v, a)"
    "b = \<lparr>pb_bundle = ob, pb_output = \<lparr>oo_amount = v, oo_recipient_addr = a\<rparr>\<rparr>"
    by (auto simp: extract_orchard_bundle_def split: option.splits if_splits)
  with assms(1) show ?thesis unfolding zcash_codec_ok_def parsed_ok_def by auto
qed

lemma set_input_ok:
  "zset_input_utxo_from Z vs i p = Inr q \<Longrightarrow> outs_ok vs \<Longrightarrow> zpsbt_ok Z p \<Longrightarrow> zpsbt_ok Z q"
proof (induction Z vs i p rule: zset_input_utxo_from.induct)
  case (1 Z i p)
  then show ?case by simp
next
  case (2 Z v vs i p)
  from "2.prems" obtain y where y: "zout_of Z v = Inr y" "i < length (zp_inputs_utxo p)"
    "zset_input_utxo_from Z vs (Suc i) (p\<lparr>zp_inputs_utxo := (zp_inputs_utxo p)[i := y]\<rparr>) = Inr q"
    by (auto simp: res_Inr)
  have "zpsbt_ok Z (p\<lparr>zp_inputs_utxo := (zp_inputs_utxo p)[i := y]\<rparr>)"
    using "2.prems"(2,3) zout_of_Inr[OF y(1)]
    by (auto simp: zpsbt_ok_def outs_ok_def dest: set_update_subset_insert[THEN subsetD])
  moreover have "outs_ok vs" using "2.prems"(2) by (simp add: outs_ok_def)
  ultimately show ?case using "2.IH" y by blast
qed

lemma zbuilt_ok:
  assumes Z: "zcash_codec_ok Z" and "zbuilt Z c p"
  shows "zpsbt_ok Z p"
  using assms(2)
proof (induction rule: zbuilt.induct)
  case (built_new input os raw eh h rcp p)
  then obtain vout br orch where
    v:"map_res (zout_of Z) os = Inr vout" "extract_orchard_bundle Z raw br = Inr orch"
      "p = \<lparr>zp_branch_id = br, zp_expiry_height = eh,
        zp_vin = map (\<lambda>i. \<lparr>zin_prevout_hash = txid_from_display Z (op_txid i), zin_prevout_n = op_vout i,
           zin_script_sig = [], zin_sequence = U32_MAX\<rparr>) input, zp_vout = vout,
        zp_inputs_utxo = replicate (length input) \<lparr>zo_value = 0, zo_script = []\<rparr>, zp_orchard = orch,
        zp_recipient_address = rcp\<rparr>"
    by (auto simp: zpsbt_new_def res_Inr)
  then show ?case
    using zouts_ok[OF v(1) built_new(3)] built_new(2,4,5) Z extracted_ok[OF Z]
    by (auto simp: zpsbt_ok_def ins_ok_def zin_ok_def zout_ok_def zcash_codec_ok_def)
next
  case (built_replaced p os raw eh h q)
  then obtain vout br orch where
    v: "(if os = [] then Inr (zp_vout p) else map_res (zout_of Z) os) = Inr vout"
      "extract_orchard_bundle Z raw br = Inr orch"
      "q = \<lparr>zp_branch_id = br, zp_expiry_height = eh, zp_vin = zp_vin p, zp_vout = vout,
        zp_inputs_utxo = zp_inputs_utxo p, zp_orchard = orch,
        zp_recipient_address = zp_recipient_address p\<rparr>"
    by (auto simp: zpsbt_from_original_def res_Inr)
  have "(\<forall>v\<in>set vout. zout_ok Z v) \<and> length vout < 2 ^ 32"
    using v(1) zouts_ok[of Z os vout] built_replaced by (auto simp: zpsbt_ok_def split: if_splits)
  then show ?case using v(2,3) built_replaced extracted_ok[OF Z] by (auto simp: zpsbt_ok_def)
next
  case (built_filled p coins q)
  then show ?case by (auto simp: zset_input_utxo_def intro: set_input_ok)
next
  case (built_signed p i sg pk q)
  then obtain bs where i: "i < length (zp_vin p)"
    "q = p\<lparr>zp_vin := (zp_vin p)[i := (zp_vin p ! i)\<lparr>zin_script_sig := script_sig_of Z bs pk\<rparr>]\<rparr>"
    by (auto simp: zsave_signature_def res_Inr)
  have "zin_ok (zp_vin p ! i)" using built_signed i by (simp add: zpsbt_ok_def)
  then have "zin_ok ((zp_vin p ! i)\<lparr>zin_script_sig := script_sig_of Z bs pk\<rparr>)"
    using Z by (simp add: zin_ok_def zcash_codec_ok_def)
  then show ?case using built_signed i
    by (auto simp: zpsbt_ok_def dest: set_update_subset_insert[THEN subsetD])
qed

text \<open>C25: what the contract stores of a Zcash transaction is the transaction: every PSBT that the
  operations of the wrapper build, in any order and number (new, replaced, filled with the spent
  outputs, signed), is read back from its stored hexadecimal form unchanged, shielded bundle and
  recipient included.\<close>

theorem zpsbt_reads_back:
  assumes "zcash_codec_ok Z" "zbuilt Z c p"
  shows "zdeserialize Z (zserialize Z p) = Inr p"
  using stored_reads_back[OF assms(1) zbuilt_ok[OF assms]] .

section \<open>The digest that is signed\<close>

text \<open>The documented digest of a transaction, a tree over its parts without the input scripts, and
  the transaction id as a function of it (ZIP 244).\<close>

definition prevout_seq :: "ztx_in \<Rightarrow> bytes \<times> u32 \<times> u32" where
  "prevout_seq i = (zin_prevout_hash i, zin_prevout_n i, zin_sequence i)"

definition full_digest :: "zcash_crates \<Rightarrow> ztx_data \<Rightarrow> bytes" where
  "full_digest Z t = digest_combine Z
     (digest_header Z (td_version t) (td_branch_id t) (td_lock_time t) (td_expiry_height t))
     (digest_transparent Z (map_option (\<lambda>(vin, vout). (map prevout_seq vin, vout)) (td_transparent t)))
     (digest_sapling Z (td_version t) (td_sapling t))
     (digest_orchard Z (td_version t) (td_orchard t))
     (digest_ironwood Z (td_ironwood t))"

definition zcash_digest_ok :: "zcash_crates \<Rightarrow> bool" where
  "zcash_digest_ok Z \<longleftrightarrow> (\<forall>t. ztx_txid Z t = to_txid Z (td_version t) (td_branch_id t) (full_digest Z t))"

definition save_all :: "zcash_crates \<Rightarrow> (usize \<times> signature_response \<times> bytes) list \<Rightarrow> zpsbt \<Rightarrow> zpsbt res" where
  "save_all Z = fold_res (\<lambda>(i, sg, pk) p. zsave_signature Z p i sg pk)"

definition same_unsigned :: "zpsbt \<Rightarrow> zpsbt \<Rightarrow> bool" where
  "same_unsigned p q \<longleftrightarrow> q = p\<lparr>zp_vin := zp_vin q\<rparr> \<and> map prevout_seq (zp_vin q) = map prevout_seq (zp_vin p)"

lemma same_unsigned_fields:
  assumes "same_unsigned p q"
  shows "zp_branch_id q = zp_branch_id p" "zp_expiry_height q = zp_expiry_height p" "zp_vout q = zp_vout p"
    "zp_inputs_utxo q = zp_inputs_utxo p" "zp_orchard q = zp_orchard p" "length (zp_vin q) = length (zp_vin p)"
    "map prevout_seq (zp_vin q) = map prevout_seq (zp_vin p)"
proof -
  from assms have q: "q = p\<lparr>zp_vin := zp_vin q\<rparr>" and m: "map prevout_seq (zp_vin q) = map prevout_seq (zp_vin p)"
    by (auto simp: same_unsigned_def)
  show "zp_branch_id q = zp_branch_id p" "zp_expiry_height q = zp_expiry_height p" "zp_vout q = zp_vout p"
    "zp_inputs_utxo q = zp_inputs_utxo p" "zp_orchard q = zp_orchard p" by (subst q, simp)+
  show "length (zp_vin q) = length (zp_vin p)" using m by (metis length_map)
  show "map prevout_seq (zp_vin q) = map prevout_seq (zp_vin p)" by (rule m)
qed

lemma save_all_same:
  assumes "save_all Z sigs p = Inr q"
  shows "same_unsigned p q"
proof (rule fold_res_inv[where P = "same_unsigned p"])
  show "fold_res (\<lambda>(i, sg, pk) p. zsave_signature Z p i sg pk) sigs p = Inr q"
    using assms by (simp add: save_all_def)
  show "same_unsigned p p" by (simp add: same_unsigned_def)
next
  fix x a b
  assume step: "(case x of (i, sg, pk) \<Rightarrow> \<lambda>p. zsave_signature Z p i sg pk) a = Inr b" and a: "same_unsigned p a"
  obtain i sg pk where x: "x = (i, sg, pk)" by (cases x)
  from step x obtain bs where i: "i < length (zp_vin a)"
    "b = a\<lparr>zp_vin := (zp_vin a)[i := (zp_vin a ! i)\<lparr>zin_script_sig := script_sig_of Z bs pk\<rparr>]\<rparr>"
    by (auto simp: zsave_signature_def res_Inr)
  have ps: "prevout_seq ((zp_vin a ! i)\<lparr>zin_script_sig := script_sig_of Z bs pk\<rparr>) = map prevout_seq (zp_vin a) ! i"
    using i(1) by (simp add: prevout_seq_def)
  have "map prevout_seq (zp_vin b) = map prevout_seq (zp_vin a)"
    unfolding i(2) by (simp add: map_update ps)
  moreover have "b = p\<lparr>zp_vin := zp_vin b\<rparr>"
  proof -
    obtain vin where "a = p\<lparr>zp_vin := vin\<rparr>" using a by (auto simp: same_unsigned_def)
    with i(2) show ?thesis by simp
  qed
  ultimately show "same_unsigned p b" using a by (simp add: same_unsigned_def)
qed

lemma unauthorized_fields:
  assumes "to_zcash_tx Z vin vout coins eh br = Inr u"
  shows "un_version u = (if is_ironwood br then TxV6 else TxV5)" "un_branch_id u = br" "un_lock_time u = 0"
    "un_expiry_height u = eh" "te_vin (un_transparent u) = map prevout_seq vin"
    "te_vout (un_transparent u) = vout" "te_coins (un_transparent u) = coins"
  using assms by (auto simp: to_zcash_tx_def build_transparent_bundle_def res_Inr prevout_seq_def)

lemma to_zcash_tx_cong:
  assumes "map prevout_seq vin = map prevout_seq vin'"
  shows "to_zcash_tx Z vin vout coins eh br = to_zcash_tx Z vin' vout coins eh br"
proof -
  have "length vin = length vin'" "vin = [] \<longleftrightarrow> vin' = []"
    using assms by (metis length_map, metis map_is_Nil_conv)
  moreover have "map (\<lambda>i. (zin_prevout_hash i, zin_prevout_n i, zin_sequence i)) vin =
      map (\<lambda>i. (zin_prevout_hash i, zin_prevout_n i, zin_sequence i)) vin'"
    using assms by (simp add: prevout_seq_def[abs_def])
  ultimately show ?thesis by (simp add: to_zcash_tx_def build_transparent_bundle_def)
qed

lemma get_zcash_tx_fields:
  assumes "get_zcash_tx Z p = Inr t"
  shows "td_version t = (if is_ironwood (zp_branch_id p) then TxV6 else TxV5)"
    "td_branch_id t = zp_branch_id p" "td_lock_time t = 0" "td_expiry_height t = zp_expiry_height p"
    "td_transparent t = Some (zp_vin p, zp_vout p)" "td_sapling t = None"
    "td_orchard t = (if is_ironwood (zp_branch_id p) then None else map_option pb_bundle (zp_orchard p))"
    "td_ironwood t = (if is_ironwood (zp_branch_id p) then map_option pb_bundle (zp_orchard p) else None)"
  using assms by (auto simp: get_zcash_tx_def Let_def res_Inr)

lemma tx_digest_full:
  assumes "to_zcash_tx Z (zp_vin p) (zp_vout p) coins (zp_expiry_height p) (zp_branch_id p) = Inr u"
    and "get_zcash_tx Z q = Inr t" and s: "same_unsigned p q"
  shows "tx_digest Z p u = full_digest Z t"
  using unauthorized_fields[OF assms(1)] get_zcash_tx_fields[OF assms(2)] same_unsigned_fields[OF s]
  by (simp add: tx_digest_def full_digest_def Let_def)

lemma hash_to_sign_cong:
  assumes s: "same_unsigned p q"
  shows "zget_hash_to_sign Z q i = zget_hash_to_sign Z p i"
proof -
  have d: "tx_digest Z q u = tx_digest Z p u" for u
    using same_unsigned_fields[OF s] by (simp add: tx_digest_def)
  show ?thesis
    using to_zcash_tx_cong[OF same_unsigned_fields(7)[OF s], of Z] same_unsigned_fields(1-6)[OF s]
    by (simp add: zget_hash_to_sign_def d)
qed

lemma txid_same_unsigned:
  assumes "zcash_digest_ok Z" "get_zcash_tx Z p = Inr t" "get_zcash_tx Z q = Inr t'" and s: "same_unsigned p q"
  shows "ztx_txid Z t' = ztx_txid Z t"
  using assms(1) get_zcash_tx_fields[OF assms(2)] get_zcash_tx_fields[OF assms(3)] same_unsigned_fields[OF s]
  by (simp add: zcash_digest_ok_def full_digest_def)

text \<open>C23: what is signed is what is broadcast.  When the bytes to broadcast are extracted from a PSBT with
  any number of signatures saved, they are the encoding of one transaction.  Its outputs, its expiry
  height, the spent outpoints with their sequence numbers and the shielded bundle are those of the PSBT
  before signing; its id is the pending id the PSBT was registered under; every hash that was or will
  be signed is over the digest that id commits to, with the script and the value of the spent output at
  that input; saving signatures changes no hash; and the shielded bundle travels in the Ironwood slot of
  a version 6 transaction exactly from NU6.3 on.\<close>

theorem signed_is_broadcast:
  assumes "zcash_digest_ok Z" "zget_pending_id Z p = Inr i" "save_all Z sigs p = Inr q"
    and "zextract_tx_bytes_with_sign Z q = Inr bs" "zget_hash_to_sign Z q k = Inr h"
  shows "\<exists>t vin. ztx_encode Z t = Some bs \<and>
    td_transparent t = Some (vin, zp_vout p) \<and> map prevout_seq vin = map prevout_seq (zp_vin p) \<and>
    td_expiry_height t = zp_expiry_height p \<and> td_branch_id t = zp_branch_id p \<and>
    td_lock_time t = 0 \<and> td_sapling t = None \<and>
    zcompute_txid Z t = i \<and> ztx_txid Z t = to_txid Z (td_version t) (td_branch_id t) (full_digest Z t) \<and>
    zget_hash_to_sign Z p k = Inr h \<and>
    (\<exists>u coin. h = signature_hash Z u k (zo_script coin) (zo_value coin) (full_digest Z t) \<and>
       k < length (zp_inputs_utxo p) \<and> coin = zp_inputs_utxo p ! k \<and>
       un_version u = td_version t \<and> un_branch_id u = td_branch_id t \<and> un_expiry_height u = td_expiry_height t \<and>
       te_vout (un_transparent u) = zp_vout p \<and> te_vin (un_transparent u) = map prevout_seq (zp_vin p)) \<and>
    (if is_ironwood (zp_branch_id p)
     then td_version t = TxV6 \<and> td_orchard t = None \<and> td_ironwood t = map_option pb_bundle (zp_orchard p)
     else td_version t = TxV5 \<and> td_ironwood t = None \<and> td_orchard t = map_option pb_bundle (zp_orchard p))"
proof -
  obtain t where t: "get_zcash_tx Z q = Inr t" "ztx_encode Z t = Some bs"
    using assms(4) by (auto simp: zextract_tx_bytes_with_sign_def res_Inr)
  note s = save_all_same[OF assms(3)]
  note f = same_unsigned_fields[OF s] and g = get_zcash_tx_fields[OF t(1)]
  obtain t0 where t0: "get_zcash_tx Z p = Inr t0" "i = zcompute_txid Z t0"
    using assms(2) by (auto simp: zget_pending_id_def res_Inr)
  have id: "zcompute_txid Z t = i"
    using txid_same_unsigned[OF assms(1) t0(1) t(1) s] t0(2) by (simp add: zcompute_txid_def)
  have hp: "zget_hash_to_sign Z p k = Inr h" using assms(5) hash_to_sign_cong[OF s] by simp
  then obtain u where u: "to_zcash_tx Z (zp_vin p) (zp_vout p) (zp_inputs_utxo p) (zp_expiry_height p) (zp_branch_id p) = Inr u"
    "k < length (zp_inputs_utxo p)"
    "h = signature_hash Z u k (zo_script (zp_inputs_utxo p ! k)) (zo_value (zp_inputs_utxo p ! k)) (tx_digest Z p u)"
    by (auto simp: zget_hash_to_sign_def res_Inr Let_def)
  note v = unauthorized_fields[OF u(1)]
  have "\<exists>u coin. h = signature_hash Z u k (zo_script coin) (zo_value coin) (full_digest Z t) \<and>
       k < length (zp_inputs_utxo p) \<and> coin = zp_inputs_utxo p ! k \<and>
       un_version u = td_version t \<and> un_branch_id u = td_branch_id t \<and> un_expiry_height u = td_expiry_height t \<and>
       te_vout (un_transparent u) = zp_vout p \<and> te_vin (un_transparent u) = map prevout_seq (zp_vin p)"
    by (rule exI[of _ u], rule exI[of _ "zp_inputs_utxo p ! k"])
      (use u v f g tx_digest_full[OF u(1) t(1) s] in simp)
  with id hp g f t(2) assms(1) show ?thesis
    by (intro exI[of _ t] exI[of _ "zp_vin q"]) (simp add: zcash_digest_ok_def)
qed

section \<open>A concrete instance of the parameters\<close>

text \<open>An encoding with fixed-width fields and length prefixes, and digests that keep everything.\<close>

definition sample_in_write :: "ztx_in \<Rightarrow> bytes" where
  "sample_in_write i = zin_prevout_hash i @ to_le 4 (zin_prevout_n i) @ to_le 4 (length (zin_script_sig i)) @
     zin_script_sig i @ to_le 4 (zin_sequence i)"

definition sample_in_read :: "ztx_in reader" where
  "sample_in_read bs =
     Option.bind (read_exact 32 bs) (\<lambda>(h, bs). Option.bind (read_u32_le bs) (\<lambda>(n, bs).
     Option.bind (read_u32_le bs) (\<lambda>(l, bs). Option.bind (read_exact l bs) (\<lambda>(sc, bs).
     Option.bind (read_u32_le bs) (\<lambda>(sq, bs).
     Some (\<lparr>zin_prevout_hash = h, zin_prevout_n = n, zin_script_sig = sc, zin_sequence = sq\<rparr>, bs))))))"

definition sample_out_write :: "ztx_out \<Rightarrow> bytes" where
  "sample_out_write out = to_le 8 (zo_value out) @ to_le 4 (length (zo_script out)) @ zo_script out"

definition sample_out_read :: "ztx_out reader" where
  "sample_out_read bs =
     Option.bind (read_u64_le bs) (\<lambda>(v, bs). Option.bind (read_u32_le bs) (\<lambda>(l, bs).
     Option.bind (read_exact l bs) (\<lambda>(sc, bs). Some (\<lparr>zo_value = v, zo_script = sc\<rparr>, bs))))"

definition sample_bundle_write :: "orchard_bundle \<Rightarrow> bytes" where
  "sample_bundle_write b = 1 # to_le 8 (ob_actions b) @ to_le 8 (nat (- ob_value_balance b)) @
     to_le 4 (length (ob_data b)) @ ob_data b"

definition sample_bundle_read :: "orchard_bundle option reader" where
  "sample_bundle_read bs =
     Option.bind (read_u8 bs) (\<lambda>(b, bs). if b = 0 then Some (None, bs) else
     Option.bind (read_u64_le bs) (\<lambda>(n, bs). Option.bind (read_u64_le bs) (\<lambda>(v, bs).
     Option.bind (read_u32_le bs) (\<lambda>(l, bs). Option.bind (read_exact l bs) (\<lambda>(d, bs).
     Some (Some \<lparr>ob_actions = n, ob_value_balance = - int v, ob_data = d\<rparr>, bs))))))"

definition sample_zcash :: zcash_crates where
  "sample_zcash = crates.extend
     ((sample_ext (\<lambda>_. ''cd'') (sample_psbt [] []))\<lparr>hex_decode := \<lambda>s. Some (as_bytes s)\<rparr>)
     (zcash_crates.fields
       (map (\<lambda>b. char_of (unat b)))
       (\<lambda>s. take 32 (as_bytes s @ replicate 32 0))
       (map (\<lambda>b. char_of (unat b)))
       (\<lambda>v. v \<le> 2100000000000000)
       sample_in_write sample_in_read sample_out_write sample_out_read
       sample_bundle_write sample_bundle_write (\<lambda>_. sample_bundle_read) (\<lambda>_. sample_bundle_read)
       (\<lambda>b k. if ob_value_balance b \<in> {- (2 ^ 63) .. 0}
          then Some (nat (- ob_value_balance b), replicate 43 7) else None)
       (\<lambda>t. True)
       (\<lambda>t. Some [])
       (\<lambda>bs. None)
       (\<lambda>t. case td_transparent t of None \<Rightarrow> []
          | Some (vin, _) \<Rightarrow> concat (map (\<lambda>i. zin_prevout_hash i @ to_le 4 (zin_prevout_n i)) vin))
       (\<lambda>v b l e. [])
       (\<lambda>t. case t of None \<Rightarrow> [] | Some (ins, _) \<Rightarrow> concat (map (\<lambda>(h, n, sq). h @ to_le 4 n) ins))
       (\<lambda>v s. [])
       (\<lambda>v b. [])
       (\<lambda>b. [])
       (\<lambda>h t s o1 i. t)
       (\<lambda>v b d. d)
       (\<lambda>te i. i < length (te_vin te))
       (\<lambda>u i sc v d. to_le 4 i @ d)
       (\<lambda>sg pk. [])
       (\<lambda>out. 34)
       (\<lambda>ins outs o1 i1. Some 10000)
       34)"

lemma from_le_less: "from_le bs < 256 ^ length bs"
proof (induction bs)
  case Nil
  then show ?case by simp
next
  case (Cons b bs)
  have "unat b < 256" using unsigned_less[of b] by simp
  with Cons have "unat b + 256 * from_le bs < 256 + 256 * (256 ^ length bs - 1)" by simp
  also have "\<dots> = 256 ^ length (b # bs)" by (simp add: diff_mult_distrib2)
  finally show ?case by simp
qed

lemma read_u32_le_bound: "read_u32_le bs = Some (n, r) \<Longrightarrow> n \<le> U32_MAX"
  using from_le_less[of "take 4 bs"]
  by (auto simp: read_u32_le_def read_exact_def U32_MAX_def split: if_splits)

lemma read_u64_le_bound: "read_u64_le bs = Some (n, r) \<Longrightarrow> n \<le> U64_MAX"
  using from_le_less[of "take 8 bs"]
  by (auto simp: read_u64_le_def read_exact_def U64_MAX_def split: if_splits)

lemma read_exact_length: "read_exact l bs = Some (d, r) \<Longrightarrow> length d = l"
  by (auto simp: read_exact_def split: if_splits)

interpretation sample_in: prefix_code sample_in_write sample_in_read zin_ok
proof
  fix x rest
  assume "zin_ok x"
  then show "sample_in_read (sample_in_write x @ rest) = Some (x, rest)"
    by (simp add: sample_in_read_def sample_in_write_def zin_ok_def read_exact_append u32_code.read_written
        U32_MAX_def MAX_COMPACT_SIZE_def)
qed

interpretation sample_out: prefix_code sample_out_write sample_out_read "zout_ok sample_zcash"
proof
  fix x rest
  assume "zout_ok sample_zcash x"
  then show "sample_out_read (sample_out_write x @ rest) = Some (x, rest)"
    by (simp add: sample_out_read_def sample_out_write_def zout_ok_def read_exact_append u32_code.read_written
        u64_code.read_written U32_MAX_def U64_MAX_def MAX_COMPACT_SIZE_def sample_zcash_def crates.defs zcash_crates.defs)
qed

lemma sample_zcash_simps:
  "hex_encode sample_zcash = map (\<lambda>b. char_of (unat b))" "hex_decode sample_zcash h = Some (as_bytes h)"
  "ztx_in_write sample_zcash = sample_in_write" "ztx_in_read sample_zcash = sample_in_read"
  "ztx_out_write sample_zcash = sample_out_write" "ztx_out_read sample_zcash = sample_out_read"
  "write_bundle sample_zcash br = sample_bundle_write" "read_bundle sample_zcash br = sample_bundle_read"
  "recover_output_with_ovk sample_zcash b k = (if ob_value_balance b \<in> {- (2 ^ 63) .. 0}
     then Some (nat (- ob_value_balance b), replicate 43 7) else None)"
  "txid_from_display sample_zcash t = take 32 (as_bytes t @ replicate 32 0)"
  "zatoshis_ok sample_zcash v \<longleftrightarrow> v \<le> 2100000000000000" "script_sig_of sample_zcash sg pk = []"
  "ztx_freeze_ok sample_zcash tx"
  "to_btc_signature (crates.truncate sample_zcash) \<lparr>big_r = ''02aa'', sig_s = ''bb'', recovery_id = 0\<rparr> = Inr [97, 97, 98, 98]"
  "signable_input_ok sample_zcash te j \<longleftrightarrow> j < length (te_vin te)"
  by (simp_all add: sample_zcash_def crates.defs addr_crates.defs zcash_crates.defs write_bundle_def read_bundle_def fun_eq_iff
      to_btc_signature_def sample_ext_def as_bytes_def)

lemma sample_bundle_code:
  assumes "sample_bundle_read bs = Some (Some b, r)"
  shows "sample_bundle_read (sample_bundle_write b @ rest) = Some (Some b, rest)"
proof -
  from assms obtain n v l d r1 r2 r3 r4 r5 where
    "read_u64_le r1 = Some (n, r2)" "read_u64_le r2 = Some (v, r3)" "read_u32_le r3 = Some (l, r4)"
    "read_exact l r4 = Some (d, r5)" and b: "b = \<lparr>ob_actions = n, ob_value_balance = - int v, ob_data = d\<rparr>"
    by (auto simp: sample_bundle_read_def bind_eq_Some_conv split: if_splits)
  then have "n \<le> U64_MAX" "v \<le> U64_MAX" "length d \<le> U32_MAX"
    by (auto dest: read_u64_le_bound read_u32_le_bound read_exact_length)
  then show ?thesis
    by (simp add: b sample_bundle_read_def sample_bundle_write_def u8_code.read_written[of 1, simplified]
        u64_code.read_written u32_code.read_written read_exact_append)
qed

lemma as_bytes_chars: "as_bytes (map (\<lambda>b. char_of (unat b)) bs) = bs"
proof (induction bs)
  case Nil
  then show ?case by (simp add: as_bytes_def)
next
  case (Cons b bs)
  have "unat b < 256" using unsigned_less[of b] by simp
  then have "word_of_nat (of_char (char_of (unat b))) = b" by (simp add: of_char_of)
  with Cons show ?case by (simp add: as_bytes_def)
qed

lemma sample_out_write_ne: "sample_out_write out \<noteq> []"
  by (simp add: sample_out_write_def flip: length_greater_0_conv)

lemma sample_zcash_codec: "zcash_codec_ok sample_zcash"
  unfolding zcash_codec_ok_def sample_zcash_simps
  using sample_in.prefix_code_axioms sample_out.prefix_code_axioms sample_bundle_code sample_out_write_ne
  by (auto simp: sample_bundle_read_def u8_code.read_written[of 0, simplified] U64_MAX_def ORCHARD_RAW_ADDRESS_SIZE_def
      MAX_COMPACT_SIZE_def as_bytes_chars nat_le_iff simp flip: as_bytes_def)

lemma sample_zcash_digest: "zcash_digest_ok sample_zcash"
  unfolding zcash_digest_ok_def full_digest_def
  by (auto simp: sample_zcash_def crates.defs addr_crates.defs zcash_crates.defs sample_ext_def prevout_seq_def o_def split: option.splits)

definition zcash_config :: config where
  "zcash_config = sample_config\<lparr>chain_cfg := ZcashMainnet\<rparr>"

definition sample_zbundle :: orchard_bundle where
  "sample_zbundle = \<lparr>ob_actions = 1, ob_value_balance = -100, ob_data = [9]\<rparr>"

definition sample_zpsbt :: zpsbt where
  "sample_zpsbt = \<lparr>zp_branch_id = Nu6_3, zp_expiry_height = 3428200,
     zp_vin = [\<lparr>zin_prevout_hash = [97, 98] @ replicate 30 0, zin_prevout_n = 0, zin_script_sig = [], zin_sequence = U32_MAX\<rparr>],
     zp_vout = [], zp_inputs_utxo = [\<lparr>zo_value = 0, zo_script = []\<rparr>],
     zp_orchard = Some \<lparr>pb_bundle = sample_zbundle,
       pb_output = \<lparr>oo_amount = 100, oo_recipient_addr = replicate 43 7\<rparr>\<rparr>,
     zp_recipient_address = Some ''u1''\<rparr>"

lemma sample_bundle_reads: "sample_bundle_read (sample_bundle_write sample_zbundle @ rest) = Some (Some sample_zbundle, rest)"
  by (simp add: sample_zbundle_def sample_bundle_read_def sample_bundle_write_def u8_code.read_written[of 1, simplified]
      u64_code.read_written u32_code.read_written read_exact_def U64_MAX_def U32_MAX_def)

lemma sample_zpsbt_new:
  "zpsbt_new sample_zcash zcash_config [\<lparr>op_txid = ''ab'', op_vout = 0\<rparr>] []
     (Some (sample_bundle_write sample_zbundle)) 3428200 3428143 (Some ''u1'') = Inr sample_zpsbt"
proof -
  have b: "get_branch_id ZcashMainnet 3428143 = Inr Nu6_3"
    by (simp add: get_branch_id_def branch_heights_new_def)
  have e: "extract_orchard_bundle sample_zcash (Some (sample_bundle_write sample_zbundle)) Nu6_3 =
      Inr (Some \<lparr>pb_bundle = sample_zbundle, pb_output = \<lparr>oo_amount = 100, oo_recipient_addr = replicate 43 7\<rparr>\<rparr>)"
    using sample_bundle_reads[of "[]"]
    by (simp add: extract_orchard_bundle_def sample_zcash_simps EXPECTED_ACTIONS_NUMBER_def sample_zbundle_def)
  show ?thesis
    by (simp add: zpsbt_new_def b e panic_on_def zcash_config_def sample_zpsbt_def sample_zcash_simps as_bytes_def)
qed

lemma sample_zbuilt: "zbuilt sample_zcash zcash_config sample_zpsbt"
  by (rule built_new[OF sample_zpsbt_new])
    (simp_all add: ins_ok_def outs_ok_def U32_MAX_def str_ok_def as_bytes_def)

lemma zpsbt_reads_back_witness:
  "zdeserialize sample_zcash (zserialize sample_zcash sample_zpsbt) = Inr sample_zpsbt \<and> has_orchard_bundle sample_zpsbt"
  using zpsbt_reads_back[OF sample_zcash_codec sample_zbuilt]
  by (simp add: has_orchard_bundle_def sample_zpsbt_def)

definition sample_zsigs :: "(usize \<times> signature_response \<times> bytes) list" where
  "sample_zsigs = [(0, \<lparr>big_r = ''02aa'', sig_s = ''bb'', recovery_id = 0\<rparr>, [2])]"

lemma signed_is_broadcast_witness:
  "\<exists>i q bs t h. zget_pending_id sample_zcash sample_zpsbt = Inr i \<and>
     save_all sample_zcash sample_zsigs sample_zpsbt = Inr q \<and> zextract_tx_bytes_with_sign sample_zcash q = Inr bs \<and>
     zget_hash_to_sign sample_zcash q 0 = Inr h \<and> zcompute_txid sample_zcash t = i \<and>
     td_version t = TxV6 \<and> td_expiry_height t = 3428200 \<and> td_ironwood t = Some sample_zbundle"
proof -
  let ?Z = sample_zcash
  have "is_ok (zget_pending_id ?Z sample_zpsbt)"
    by (simp add: zget_pending_id_def get_zcash_tx_def Let_def sample_zcash_simps)
  then obtain i where i: "zget_pending_id ?Z sample_zpsbt = Inr i" by blast
  have "is_ok (save_all ?Z sample_zsigs sample_zpsbt)"
    by (simp add: save_all_def sample_zsigs_def zsave_signature_def sample_zcash_simps index_at_def sample_zpsbt_def)
  then obtain q where q: "save_all ?Z sample_zsigs sample_zpsbt = Inr q" by blast
  have "is_ok (zextract_tx_bytes_with_sign ?Z q)"
    by (simp add: zextract_tx_bytes_with_sign_def get_zcash_tx_def Let_def ztx_encode_def sample_zcash_def crates.defs
        zcash_crates.defs)
  then obtain bs where bs: "zextract_tx_bytes_with_sign ?Z q = Inr bs" by blast
  have "is_ok (zget_hash_to_sign ?Z sample_zpsbt 0)"
    by (simp add: zget_hash_to_sign_def to_zcash_tx_def build_transparent_bundle_def sample_zpsbt_def index_at_def
        sample_zcash_simps Let_def)
  then obtain h where h: "zget_hash_to_sign ?Z q 0 = Inr h"
    using hash_to_sign_cong[OF save_all_same[OF q]] by auto
  have z: "is_ironwood (zp_branch_id sample_zpsbt)" "zp_expiry_height sample_zpsbt = 3428200"
    "map_option pb_bundle (zp_orchard sample_zpsbt) = Some sample_zbundle"
    by (simp_all add: sample_zpsbt_def is_ironwood_def)
  from signed_is_broadcast[OF sample_zcash_digest i q bs h] z obtain t where
    "zcompute_txid ?Z t = i" "td_version t = TxV6" "td_expiry_height t = 3428200" "td_ironwood t = Some sample_zbundle"
    by auto
  with i q bs h show ?thesis by blast
qed

end
