(* ===== verification/Zcash_Contract.thy ===== *)
theory Zcash_Contract
  imports Zcash_Codec Refund
begin

text \<open>
  The Zcash build of the contract: \<open>zcash_utils/contract_methods.rs\<close>, \<open>refund.rs\<close> and
  \<open>deposit_msg.rs\<close>, with the functions of \<open>psbt.rs\<close>, \<open>token_receiver.rs\<close>, \<open>rbf/\<close> and
  \<open>refund.rs\<close> as they run on the Zcash wrapper.  Building a transaction needs the height of the last
  block, so every operation has two halves: the entry asks the light client, the callback modelled
  here gets \<open>last_block_height\<close> as its argument.  \<open>gap\<close> is the configured \<open>expiry_height_gap\<close>, a field
  only this build has.
\<close>

abbreviation base :: "zcash_crates \<Rightarrow> crates" where
  "base Z \<equiv> crates.truncate Z"

section \<open>Deposit messages\<close>

definition zassert_post_actions_supported :: "deposit_msg \<Rightarrow> 'a res \<Rightarrow> 'a res" where
  "zassert_post_actions_supported d k = require (dm_post_actions d = None) ''post_actions are not supported'' k"

definition zis_safe_deposit :: "deposit_msg \<Rightarrow> bool" where
  "zis_safe_deposit d \<longleftrightarrow> True"

section \<open>Heights and fees\<close>

definition zresolve_expiry_height :: "u32 \<Rightarrow> chain_specific_data option \<Rightarrow> u32 \<Rightarrow> u32 res" where
  "zresolve_expiry_height gap csd last_block_height =
     bindR (case csd of Some d \<Rightarrow> Inr (csd_expiry_height d)
            | None \<Rightarrow> chk_add U32_MAX last_block_height gap Inr) (\<lambda>expiry_height.
     chk_add U32_MAX last_block_height gap (\<lambda>lower.
     chk_mul U32_MAX 2 gap (\<lambda>gap2.
     chk_add U32_MAX last_block_height gap2 (\<lambda>upper.
     require (expiry_height \<ge> lower \<and> expiry_height \<le> upper) ''Invalid expiry height'' (
     Inr expiry_height)))))"

definition zcheck_min_fee_chain_specific :: "zcash_crates \<Rightarrow> zpsbt \<Rightarrow> u128 \<Rightarrow> 'a res \<Rightarrow> 'a res" where
  "zcheck_min_fee_chain_specific Z p fee k =
     bindR (zget_min_fee Z p) (\<lambda>min_fee. require (fee \<ge> min_fee) ''Invalid gas fee'' k)"

definition zcheck_psbt_chain_specific ::
    "zcash_crates \<Rightarrow> contract \<Rightarrow> zpsbt \<Rightarrow> u128 \<Rightarrow> string \<Rightarrow> 'a res \<Rightarrow> 'a res" where
  "zcheck_psbt_chain_specific Z s p fee target k =
     zcheck_min_fee_chain_specific Z p fee (
     if has_orchard_bundle p then zvalidate_orchard_bundle Z p target (chain_cfg (cfg s)) k else k)"

definition zcheck_withdraw_chain_specific :: "pending_info \<Rightarrow> u128 \<Rightarrow> 'a res \<Rightarrow> 'a res" where
  "zcheck_withdraw_chain_specific original fee k = k"

section \<open>Checks on transactions\<close>

definition zcheck_withdraw_psbt ::
    "zcash_crates \<Rightarrow> ctx \<Rightarrow> contract \<Rightarrow> zpsbt \<Rightarrow> string \<Rightarrow> bytes \<Rightarrow> vutxo list \<Rightarrow> u128 \<Rightarrow> u128
     \<Rightarrow> (usize \<times> usize \<times> u128 \<times> u128) res" where
  "zcheck_withdraw_psbt Z e s p target change vs amount fee =
     (let c = cfg s; unrestricted = acl_has_role s UnrestrictedRelayer (signer e) in
      bindR (min_and_sum vs (U128_MAX, 0)) (\<lambda>(min_input, total_input).
      bindR (if zget_output p \<noteq> []
             then bindR (target_script_pubkey (base Z) c target) (\<lambda>target_script.
               withdraw_outputs (base Z) c change unrestricted min_input target_script (zget_output p) (0, [], []))
             else Inr (0, [], [])) (\<lambda>(tot, received, changes).
      let (received, extra) = zadd_extra_outputs p received in
      chk_add U128_MAX tot extra (\<lambda>total_output.
      require (length received = 1) ''only one user output is allowed.'' (
      let actual = received ! 0; input_num = zget_input_num p; change_num = length changes in
      require (input_num > change_num \<longrightarrow> (\<forall>v\<in>set changes. v < max_change_amount c))
        ''Any change amount should be less than the maximum when input_num > change_num'' (
      chk_sub total_input total_output (\<lambda>gas.
      chk_sub amount fee (\<lambda>rest.
      chk_sub rest gas (\<lambda>expected.
      require (actual = expected) ''The output amount of the user must be equal to the expected amount'' (
      require (gas \<ge> min_btc_gas_fee c \<and> gas \<le> max_btc_gas_fee c) ''Invalid gas fee'' (
      zcheck_psbt_chain_specific Z s p gas target (
      Inr (input_num, change_num, actual, gas)))))))))))))"

definition zcheck_withdraw_psbt_valid ::
    "zcash_crates \<Rightarrow> ctx \<Rightarrow> contract \<Rightarrow> string \<Rightarrow> bytes \<Rightarrow> zpsbt \<Rightarrow> vutxo list \<Rightarrow> u128 \<Rightarrow> u128 \<Rightarrow> u128 option
     \<Rightarrow> (u128 \<times> u128 \<times> contract) res" where
  "zcheck_withdraw_psbt_valid Z e s target change p vs amount fee max_fee =
     (let c = cfg s in
      try_into U32_MAX (length vs) ''vutxos len overflow'' (\<lambda>vlen.
      chk_add U32_MAX (card (dom (utxos s))) vlen (\<lambda>utxo_num.
      bindR (zcheck_withdraw_psbt Z e s p target change vs amount fee) (\<lambda>(input_num, change_num, actual, gas).
      require (case max_fee of Some m \<Rightarrow> gas \<le> m | None \<Rightarrow> True)
        ''Gas fee does not match the provided max fee'' (
      require (change_num \<le> max_change_number c) ''change_num must not exceed'' (
      require (input_num \<le> max_withdrawal_input_number c) ''input must not exceed'' (
      require (if utxo_num < passive_management_lower_limit c then input_num < change_num
               else if utxo_num > passive_management_upper_limit c then input_num > change_num else True)
        ''passive management'' (
      Inr (actual, gas, emit (EvWithdrawBtcDetail amount fee gas actual) s)))))))))"

definition zcheck_psbt_output_all_change_address ::
    "zcash_crates \<Rightarrow> contract \<Rightarrow> zpsbt \<Rightarrow> vutxo list \<Rightarrow> bool \<Rightarrow> bool \<Rightarrow> (u128 \<times> u128) res" where
  "zcheck_psbt_output_all_change_address Z s p vs force_healthy_output is_cancel =
     (let c = cfg s in
      bindR (get_change_script_pubkey (base Z) c) (\<lambda>change.
      bindR (sum_res U128_MAX (map get_amount vs) 0) (\<lambda>input_amount.
      bindR (change_outputs c force_healthy_output change (zget_output p) 0) (\<lambda>output_amount.
      chk_sub input_amount output_amount (\<lambda>gas.
      zcheck_min_fee_chain_specific Z p gas (
      require (is_cancel \<or> (gas \<ge> min_btc_gas_fee c \<and> gas \<le> max_btc_gas_fee c)) ''Invalid gas fee'' (
      Inr (output_amount, gas))))))))"

definition zcheck_active_management_psbt_valid ::
    "zcash_crates \<Rightarrow> contract \<Rightarrow> zpsbt \<Rightarrow> vutxo list \<Rightarrow> (u128 \<times> u128) res" where
  "zcheck_active_management_psbt_valid Z s p vs =
     (let c = cfg s; input_num = zget_input_num p; output_num = zget_output_num p in
      if is_merge_unhealthy_utxos output_num vs (unhealthy_utxo_amount c)
      then zcheck_psbt_output_all_change_address Z s p vs True False
      else
        require (input_num \<le> max_active_utxo_management_input_number c) ''require input_num'' (
        require (output_num \<le> max_active_utxo_management_output_number c) ''require output_num'' (
        zcheck_psbt_output_all_change_address Z s p vs True False)))"

definition zgenerate_vutxos ::
    "zcash_crates \<Rightarrow> ctx \<Rightarrow> zpsbt \<Rightarrow> contract \<Rightarrow> (string list \<times> vutxo list \<times> zpsbt \<times> contract) res" where
  "zgenerate_vutxos Z e p s =
     (let keys = zget_utxo_storage_keys Z p in
      bindR (remove_vutxos keys s) (\<lambda>(vs, s).
      bindR (map_res (\<lambda>v. bindR (path_script (base Z) e s (get_path v) ''Invalid address'')
                (\<lambda>sc. Inr \<lparr>txo_value = get_amount v, txo_script = sc\<rparr>)) vs) (\<lambda>input_utxo.
      bindR (zset_input_utxo Z p input_utxo) (\<lambda>p.
      Inr (keys, vs, p, s)))))"

section \<open>Withdrawals\<close>

definition zcreate_btc_pending_info ::
    "zcash_crates \<Rightarrow> ctx \<Rightarrow> account_id \<Rightarrow> u128 \<Rightarrow> string \<Rightarrow> zpsbt \<Rightarrow> u128 option \<Rightarrow> contract \<Rightarrow> contract res" where
  "zcreate_btc_pending_info Z e sender_id amount target p max_fee s =
     bindR (zgenerate_vutxos Z e p s) (\<lambda>(keys, vs, p, s).
     let max_pending = get_max_pending_sign_txs s sender_id in
     internal_unwrap_or_create_mut_account s sender_id (\<lambda>acc s.
     require (pending_sign_count acc < max_pending) ''Too many pending sign transactions'' (
     bindR (get_change_script_pubkey (base Z) (cfg s)) (\<lambda>change.
     bindR (get_fee (withdraw_bridge_fee (cfg s)) amount) (\<lambda>fee.
     bindR (zcheck_withdraw_psbt_valid Z e s target change p vs amount fee max_fee) (\<lambda>(actual, gas, s).
     let need_signature_num = zget_input_num p; hex = zserialize Z p;
         expiry = zget_expiry_height p in
     bindR (zget_pending_id Z p) (\<lambda>tx_id.
     chk_add U128_MAX actual gas (\<lambda>burn.
     bindR (nano_to_sec (block_timestamp e)) (\<lambda>now.
     bindR (insert_new_pending tx_id
       \<lparr>pi_account_id = sender_id, pi_btc_pending_id = tx_id, transfer_amount = amount,
        actual_received_amount = actual, withdraw_fee = fee, gas_fee = gas, burn_amount = burn,
        psbt_hex = hex, vutxos = vs, signatures = replicate need_signature_num None,
        tx_bytes_with_sign = None, create_time_sec = now, last_sign_time_sec = 0,
        pi_state = WithdrawOriginal \<lparr>os_stage = PendingSign, max_gas_fee = gas,
          last_rbf_time_sec = None, cancel_rbf_reserved = None\<rparr>\<rparr> s) (\<lambda>s.
     bindR (add_pending_sign_id sender_id tx_id s) (\<lambda>s.
     Inr (emit (EvGenerateBtcPendingInfo sender_id tx_id expiry) (emit (EvUtxoRemoved keys) s)))))))))))))"

definition ft_on_transfer_callback ::
    "zcash_crates \<Rightarrow> u32 \<Rightarrow> ctx \<Rightarrow> account_id \<Rightarrow> u128 \<Rightarrow> string \<Rightarrow> out_point list \<Rightarrow> tx_out list \<Rightarrow> u128 option
     \<Rightarrow> chain_specific_data option \<Rightarrow> u32 \<Rightarrow> contract \<Rightarrow> (u128 \<times> contract) res" where
  "ft_on_transfer_callback Z gap e sender_id amount target input output max_fee csd last_block_height s =
     private_call e (
     bindR (zresolve_expiry_height gap csd last_block_height) (\<lambda>expiry_height.
     bindR (zpsbt_new Z (cfg s) input output (map_option orchard_bundle_bytes csd) expiry_height
       last_block_height (Some target)) (\<lambda>p.
     bindR (zcreate_btc_pending_info Z e sender_id amount target p max_fee s) (\<lambda>s. Inr (0, s)))))"

section \<open>Active management\<close>

definition zcreate_active_utxo_management_pending_info ::
    "zcash_crates \<Rightarrow> ctx \<Rightarrow> account_id \<Rightarrow> zpsbt \<Rightarrow> contract \<Rightarrow> contract res" where
  "zcreate_active_utxo_management_pending_info Z e a p s =
     require_pending_sign_capacity s a (
     bindR (zgenerate_vutxos Z e p s) (\<lambda>(keys, vs, p, s).
     bindR (zcheck_active_management_psbt_valid Z s p vs) (\<lambda>(actual, gas).
     require (gas \<le> cur_available_protocol_fee s) ''Insufficient protocol_fee'' (
     bindR (fee_reserve gas s) (\<lambda>s.
     let need_signature_num = zget_input_num p; hex = zserialize Z p;
         expiry = zget_expiry_height p in
     bindR (zget_pending_id Z p) (\<lambda>tx_id.
     bindR (nano_to_sec (block_timestamp e)) (\<lambda>now.
     bindR (insert_new_pending tx_id
       \<lparr>pi_account_id = a, pi_btc_pending_id = tx_id, transfer_amount = 0,
        actual_received_amount = actual, withdraw_fee = 0, gas_fee = gas, burn_amount = gas,
        psbt_hex = hex, vutxos = vs, signatures = replicate need_signature_num None,
        tx_bytes_with_sign = None, create_time_sec = now, last_sign_time_sec = 0,
        pi_state = ActiveUtxoManagementOriginal \<lparr>os_stage = PendingSign, max_gas_fee = gas,
          last_rbf_time_sec = None, cancel_rbf_reserved = None\<rparr>\<rparr> s) (\<lambda>s.
     bindR (add_pending_sign_id a tx_id s) (\<lambda>s.
     Inr (emit (EvGenerateBtcPendingInfo a tx_id expiry) (emit (EvUtxoRemoved keys) s)))))))))))"

definition active_utxo_management_callback ::
    "zcash_crates \<Rightarrow> u32 \<Rightarrow> ctx \<Rightarrow> account_id \<Rightarrow> out_point list \<Rightarrow> tx_out list \<Rightarrow> u32 \<Rightarrow> contract \<Rightarrow> contract res" where
  "active_utxo_management_callback Z gap e a input output last_block_height s =
     private_call e (
     chk_add U32_MAX last_block_height gap (\<lambda>expiry_height.
     bindR (zpsbt_new Z (cfg s) input output None expiry_height last_block_height None) (\<lambda>p.
     zcreate_active_utxo_management_pending_info Z e a p s)))"

section \<open>Replacements\<close>

definition zget_psbt :: "zcash_crates \<Rightarrow> pending_info \<Rightarrow> zpsbt res" where
  "zget_psbt Z p = zdeserialize Z (psbt_hex p)"

definition zget_transaction :: "zcash_crates \<Rightarrow> chain \<Rightarrow> pending_info \<Rightarrow> ztx_data res" where
  "zget_transaction Z c p =
     expect (tx_bytes_with_sign p) ''Missing tx_bytes_with_sign'' (\<lambda>bs.
     expect (ztx_decode Z bs c) ''Deserialization tx_bytes failed'' Inr)"

definition zgenerate_psbt_from_original_psbt_and_new_output ::
    "zcash_crates \<Rightarrow> contract \<Rightarrow> pending_info \<Rightarrow> tx_out list \<Rightarrow> bytes option \<Rightarrow> u32 \<Rightarrow> u32 \<Rightarrow> zpsbt res" where
  "zgenerate_psbt_from_original_psbt_and_new_output Z s original output raw expiry_height current_height =
     bindR (zget_psbt Z original) (\<lambda>p.
     zpsbt_from_original Z (cfg s) p output raw expiry_height current_height)"

definition zset_rbf_pending_info ::
    "zcash_crates \<Rightarrow> string \<Rightarrow> pending_info \<Rightarrow> zpsbt \<Rightarrow> bool \<Rightarrow> contract \<Rightarrow> (string \<times> contract) res" where
  "zset_rbf_pending_info Z original_id info p is_cancel s =
     (let hex = zserialize Z p in
      bindR (zget_pending_id Z p) (\<lambda>tx_id.
      bindR (insert_new_pending tx_id (info\<lparr>pi_btc_pending_id := tx_id, psbt_hex := hex\<rparr>) s) (\<lambda>s.
      let txs = (case rbf_txs s original_id of Some t \<Rightarrow> t | None \<Rightarrow> {}) in
      require (tx_id \<notin> txs) ''Rbf already exist'' (
      let txs' = insert tx_id txs; s = s\<lparr>rbf_txs := (rbf_txs s)(original_id \<mapsto> txs')\<rparr> in
      require (is_cancel \<or> card txs' \<le> rbf_num_limit (cfg s)) ''Exceed rbf_num_limit'' (
      Inr (tx_id, s))))))"

definition zextract_recipient_address :: "zcash_crates \<Rightarrow> contract \<Rightarrow> pending_info \<Rightarrow> string res" where
  "zextract_recipient_address Z s original =
     bindR (zget_psbt Z original) (\<lambda>p.
     case zget_recipient_address p of
       Some r \<Rightarrow> Inr r
     | None \<Rightarrow>
         bindR (get_change_script_pubkey (base Z) (cfg s)) (\<lambda>change.
         bindR (zget_transaction Z (chain_cfg (cfg s)) original) (\<lambda>tx.
         bindR (ztx_output tx) (\<lambda>outs.
         expect (find (\<lambda>out. txo_script out \<noteq> change) outs)
           ''The original tx is not a user withdraw tx.'' (\<lambda>out.
         expect (from_script (base Z) (txo_script out) (chain_cfg (cfg s)))
           ''Error on extract recipient address from script pubkey'' (\<lambda>a.
         expect (display_address (base Z) a) ''a Display implementation returned an error unexpectedly'' Inr))))))"

definition zcheck_withdraw_rbf_psbt_valid ::
    "zcash_crates \<Rightarrow> ctx \<Rightarrow> contract \<Rightarrow> pending_info \<Rightarrow> zpsbt \<Rightarrow> (u128 \<times> u128) res" where
  "zcheck_withdraw_rbf_psbt_valid Z e s original p =
     bindR (get_change_script_pubkey (base Z) (cfg s)) (\<lambda>change.
     bindR (zget_transaction Z (chain_cfg (cfg s)) original) (\<lambda>tx.
     bindR (ztx_output tx) (\<lambda>outs.
     require (length outs = zget_output_num p) ''Invalid output num'' (
     bindR (zextract_recipient_address Z s original) (\<lambda>target.
     bindR (zcheck_withdraw_psbt Z e s p target change (vutxos original) (transfer_amount original)
       (withdraw_fee original)) (\<lambda>(_, _, actual, gas). Inr (actual, gas)))))))"

definition zinternal_withdraw_rbf ::
    "zcash_crates \<Rightarrow> ctx \<Rightarrow> account_id \<Rightarrow> string \<Rightarrow> zpsbt \<Rightarrow> account_id \<Rightarrow> contract \<Rightarrow> (string \<times> contract) res" where
  "zinternal_withdraw_rbf Z e a original_id p pred s =
     internal_unwrap_btc_pending_info s original_id (\<lambda>original.
     require (pi_account_id original = a) ''Not allow'' (
     assert_not_canceled original (
     assert_withdraw_original_pending_verify_tx original (
     bindR (init_rbf_btc_pending_info e original
       (WithdrawUserRbf \<lparr>rs_stage = PendingSign, original_tx_id = original_id\<rparr>)) (\<lambda>info.
     bindR (zcheck_withdraw_rbf_psbt_valid Z e s original p) (\<lambda>(actual, gas).
     chk_add U128_MAX actual gas (\<lambda>burn.
     zcheck_withdraw_chain_specific original gas (
     bindR (update_max_gas_fee e original gas) (\<lambda>original'.
     zset_rbf_pending_info Z original_id
       (info\<lparr>gas_fee := gas, actual_received_amount := actual, burn_amount := burn\<rparr>) p False
       (write_pending original_id original' s))))))))))"

definition zinternal_cancel_withdraw ::
    "zcash_crates \<Rightarrow> ctx \<Rightarrow> account_id \<Rightarrow> string \<Rightarrow> zpsbt \<Rightarrow> account_id \<Rightarrow> contract \<Rightarrow> (string \<times> contract) res" where
  "zinternal_cancel_withdraw Z e a original_id p pred s =
     internal_unwrap_btc_pending_info s original_id (\<lambda>original.
     assert_cancel_allowed e s original (
     assert_withdraw_original_pending_verify_tx original (
     bindR (get_cancel_rbf_reserved original) (\<lambda>prev_opt.
     let prev = (case prev_opt of Some r \<Rightarrow> r | None \<Rightarrow> 0) in
     bindR (init_rbf_btc_pending_info e original
       (WithdrawCancelRbf \<lparr>rs_stage = PendingSign, original_tx_id = original_id\<rparr>)) (\<lambda>info.
     bindR (zcheck_psbt_output_all_change_address Z s p (vutxos original) False True) (\<lambda>(actual, gas).
     zcheck_withdraw_chain_specific original gas (
     chk_sub (transfer_amount info) (withdraw_fee info) (\<lambda>balance.
     let excess = gas - balance in
     require (excess > 0 \<longrightarrow> acl_has_role s DAO pred)
       ''gas fee exceeds the user's balance, only the owner is allowed to cancel'' (
     let additional = excess - prev in
     bindR (if additional > 0
            then require (cur_available_protocol_fee s \<ge> additional) ''Insufficient protocol fee''
                   (fee_reserve additional s)
            else Inr s) (\<lambda>s.
     bindR (do_cancel e original gas (max prev excess)) (\<lambda>original'.
     zset_rbf_pending_info Z original_id
       (info\<lparr>gas_fee := gas, burn_amount := gas, actual_received_amount := actual\<rparr>) p True
       (write_pending original_id original' s))))))))))))"

definition zinternal_active_utxo_management_rbf ::
    "zcash_crates \<Rightarrow> ctx \<Rightarrow> account_id \<Rightarrow> string \<Rightarrow> zpsbt \<Rightarrow> account_id \<Rightarrow> contract \<Rightarrow> (string \<times> contract) res" where
  "zinternal_active_utxo_management_rbf Z e a original_id p pred s =
     internal_unwrap_btc_pending_info s original_id (\<lambda>original.
     require (pi_account_id original = a) ''Not allow'' (
     assert_not_canceled original (
     assert_active_utxo_management_original_pending_verify_tx original (
     bindR (init_rbf_btc_pending_info e original
       (ActiveUtxoManagementRbf \<lparr>rs_stage = PendingSign, original_tx_id = original_id\<rparr>)) (\<lambda>info.
     bindR (zget_transaction Z (chain_cfg (cfg s)) original) (\<lambda>tx.
     bindR (ztx_output tx) (\<lambda>outs.
     require (length outs = zget_output_num p) ''Invalid output num'' (
     bindR (zcheck_psbt_output_all_change_address Z s p (vutxos original) True False) (\<lambda>(actual, gas).
     bindR (reserve_gas_increase original gas s) (\<lambda>s.
     bindR (update_max_gas_fee e original gas) (\<lambda>original'.
     zset_rbf_pending_info Z original_id
       (info\<lparr>gas_fee := gas, burn_amount := gas, actual_received_amount := actual\<rparr>) p False
       (write_pending original_id original' s))))))))))))"

definition zinternal_cancel_active_utxo_management ::
    "zcash_crates \<Rightarrow> ctx \<Rightarrow> account_id \<Rightarrow> string \<Rightarrow> zpsbt \<Rightarrow> account_id \<Rightarrow> contract \<Rightarrow> (string \<times> contract) res" where
  "zinternal_cancel_active_utxo_management Z e a original_id p pred s =
     internal_unwrap_btc_pending_info s original_id (\<lambda>original.
     assert_cancel_allowed e s original (
     assert_active_utxo_management_original_pending_verify_tx original (
     bindR (init_rbf_btc_pending_info e original
       (ActiveUtxoManagementCancelRbf \<lparr>rs_stage = PendingSign, original_tx_id = original_id\<rparr>)) (\<lambda>info.
     bindR (zcheck_psbt_output_all_change_address Z s p (vutxos original) True True) (\<lambda>(actual, gas).
     bindR (reserve_gas_increase original gas s) (\<lambda>s.
     bindR (do_cancel e original gas 0) (\<lambda>original'.
     zset_rbf_pending_info Z original_id
       (info\<lparr>gas_fee := gas, burn_amount := gas, actual_received_amount := actual\<rparr>) p True
       (write_pending original_id original' s))))))))"

text \<open>The macro \<open>define_rbf_callback!\<close> and its four uses.\<close>

type_synonym zrbf_internal =
  "zcash_crates \<Rightarrow> ctx \<Rightarrow> account_id \<Rightarrow> string \<Rightarrow> zpsbt \<Rightarrow> account_id \<Rightarrow> contract \<Rightarrow> (string \<times> contract) res"

definition rbf_callback ::
    "zrbf_internal \<Rightarrow> zcash_crates \<Rightarrow> u32 \<Rightarrow> ctx \<Rightarrow> account_id \<Rightarrow> string \<Rightarrow> tx_out list
     \<Rightarrow> chain_specific_data option \<Rightarrow> account_id \<Rightarrow> u32 \<Rightarrow> contract \<Rightarrow> contract res" where
  "rbf_callback internal_fn Z gap e a original_id output csd pred last_block_height s =
     private_call e (
     require_pending_sign_capacity s a (
     bindR (zresolve_expiry_height gap csd last_block_height) (\<lambda>expiry_height.
     internal_unwrap_btc_pending_info s original_id (\<lambda>original.
     bindR (zgenerate_psbt_from_original_psbt_and_new_output Z s original output
       (map_option orchard_bundle_bytes csd) expiry_height last_block_height) (\<lambda>p.
     bindR (internal_fn Z e a original_id p pred s) (\<lambda>(tx_id, s).
     bindR (add_pending_sign_id a tx_id s) (\<lambda>s.
     Inr (emit (EvGenerateBtcPendingInfo a tx_id (Some expiry_height)) s))))))))"

definition withdraw_rbf_callback where
  "withdraw_rbf_callback = rbf_callback zinternal_withdraw_rbf"

definition cancel_withdraw_callback where
  "cancel_withdraw_callback = rbf_callback zinternal_cancel_withdraw"

definition active_utxo_management_rbf_callback where
  "active_utxo_management_rbf_callback = rbf_callback zinternal_active_utxo_management_rbf"

definition cancel_active_utxo_management_callback where
  "cancel_active_utxo_management_callback = rbf_callback zinternal_cancel_active_utxo_management"

section \<open>Refunds\<close>

definition REFUND_EXPIRY_HEIGHT :: u32 where "REFUND_EXPIRY_HEIGHT = 0"

definition transparent_refund_min_fee :: "zcash_crates \<Rightarrow> u128 res" where
  "transparent_refund_min_fee Z = zip317_min_fee Z 1 [p2pkh_standard_output_size Z] 0 0"

definition shielded_refund_min_fee :: "zcash_crates \<Rightarrow> u128 res" where
  "shielded_refund_min_fee Z =
     bindR (zip317_min_fee Z 1 [] 0 EXPECTED_ACTIONS_NUMBER) (\<lambda>a.
     bindR (zip317_min_fee Z 1 [] EXPECTED_ACTIONS_NUMBER 0) (\<lambda>b. Inr (max a b)))"

definition zget_refund_gas_fee :: "zcash_crates \<Rightarrow> u128 res" where
  "zget_refund_gas_fee Z =
     bindR (transparent_refund_min_fee Z) (\<lambda>t. bindR (shielded_refund_min_fee Z) (\<lambda>s. Inr (max t s)))"

definition zrefund_execution_inputs ::
    "zcash_crates \<Rightarrow> ctx \<Rightarrow> contract \<Rightarrow> refund_request \<Rightarrow> (out_point \<times> tx_out \<times> u128) res" where
  "zrefund_execution_inputs Z e s r =
     bindR (if rr_tx_bytes r = [] then
          expect (parse_txid Z (key_txid (rr_utxo_storage_key r))) ''Invalid utxo_storage_key'' (\<lambda>txid.
          bindR (rr_deposit_msg (base Z) r) (\<lambda>d.
          bindR (path_script (base Z) e s (get_deposit_path (base Z) d) ''Invalid deposit address'') (\<lambda>script.
          try_into U64_MAX (rr_amount r) ''Amount overflow'' (\<lambda>v.
          Inr (txid, \<lparr>txo_value = v, txo_script = script\<rparr>)))))
        else
          expect (ztx_decode Z (rr_tx_bytes r) (chain_cfg (cfg s))) ''Deserialization tx_bytes failed'' (\<lambda>tx.
          bindR (ztx_output tx) (\<lambda>outs.
          require (rr_vout r < length outs) ''vout is out of range'' (
          Inr (zcompute_txid Z tx, outs ! rr_vout r))))) (\<lambda>(txid, deposit_output).
     try_into U32_MAX (rr_vout r) ''vout overflow'' (\<lambda>vout.
     require (rr_gas_fee r \<le> rr_amount r) ''Deposit amount too small to cover gas fee'' (
     let refund_amount = rr_amount r - rr_gas_fee r in
     require (refund_amount \<ge> min_change_amount (cfg s)) ''Refund amount after gas fee is dust'' (
     Inr (\<lparr>op_txid = txid, op_vout = vout\<rparr>, deposit_output, refund_amount)))))"

definition zfinalize_refund_with_psbt ::
    "zcash_crates \<Rightarrow> ctx \<Rightarrow> account_id \<Rightarrow> refund_request \<Rightarrow> zpsbt \<Rightarrow> u128 \<Rightarrow> string \<Rightarrow> contract \<Rightarrow> contract res" where
  "zfinalize_refund_with_psbt Z e caller r p refund_amount key s =
     bindR (rr_deposit_msg (base Z) r) (\<lambda>d.
     try_into U64_MAX (rr_amount r) ''Amount overflow'' (\<lambda>balance.
     let v = VUTXO_Current \<lparr>utxo_path = get_deposit_path (base Z) d, utxo_tx_bytes = rr_tx_bytes r,
               utxo_vout = rr_vout r, utxo_balance = balance\<rparr>;
         hex = zserialize Z p; expiry = zget_expiry_height p in
     bindR (zget_pending_id Z p) (\<lambda>tx_id.
     let s = create_account_if_missing caller s in
     require_pending_sign_capacity s caller (
     bindR (nano_to_sec (block_timestamp e)) (\<lambda>now.
     bindR (insert_new_pending tx_id
       \<lparr>pi_account_id = caller, pi_btc_pending_id = tx_id, transfer_amount = 0,
        actual_received_amount = refund_amount, withdraw_fee = 0, gas_fee = rr_gas_fee r, burn_amount = 0,
        psbt_hex = hex, vutxos = [v], signatures = [None], tx_bytes_with_sign = None,
        create_time_sec = now, last_sign_time_sec = 0,
        pi_state = Refund \<lparr>os_stage = PendingSign, max_gas_fee = rr_gas_fee r,
          last_rbf_time_sec = None, cancel_rbf_reserved = None\<rparr>\<rparr> s) (\<lambda>s.
     bindR (add_pending_sign_id caller tx_id s) (\<lambda>s.
     let s = s\<lparr>verified_deposit_utxo := insert key (verified_deposit_utxo s)\<rparr>;
         s = emit (EvGenerateBtcPendingInfo caller tx_id expiry)
               (emit (EvRefundExecuted key (rr_amount r) (rr_refund_address r)) s) in
     Inr (s\<lparr>refund_requests := (refund_requests s)(key \<mapsto> VRefund_Current (r\<lparr>executed := True\<rparr>))\<rparr>))))))))"

definition execute_refund_callback ::
    "zcash_crates \<Rightarrow> ctx \<Rightarrow> string \<Rightarrow> account_id \<Rightarrow> u64 \<Rightarrow> chain_specific_data option \<Rightarrow> u32 \<Rightarrow> contract \<Rightarrow> contract res" where
  "execute_refund_callback Z e key caller timelock_sec csd last_block_height s =
     private_call e (
     bindR (load_refund_request_for_execute e s key timelock_sec) (\<lambda>r.
     bindR (zrefund_execution_inputs Z e s r) (\<lambda>(outpoint, deposit_output, refund_amount).
     let orchard_bundle = map_option orchard_bundle_bytes csd in
     bindR (if orchard_bundle \<noteq> None then Inr []
            else bindR (build_refund_output (base Z) s (rr_refund_address r) refund_amount) (\<lambda>out. Inr [out])) (\<lambda>output.
     bindR (zpsbt_new Z (cfg s) [outpoint] output orchard_bundle REFUND_EXPIRY_HEIGHT last_block_height
       (Some (rr_refund_address r))) (\<lambda>p.
     bindR (zset_input_utxo Z p [deposit_output]) (\<lambda>p.
     zcheck_psbt_chain_specific Z s p (rr_gas_fee r) (rr_refund_address r) (
     bindR (if has_orchard_bundle p then bindR (get_orchard_output_amount p) (\<lambda>a.
              require (a = refund_amount) ''Orchard output amount does not match refund amount'' (Inr ()))
            else Inr ()) (\<lambda>_.
     zfinalize_refund_with_psbt Z e caller r p refund_amount key s))))))))"

end
