(* ===== verification/Zcash_Flow.thy ===== *)
theory Zcash_Flow
  imports Zcash_Contract
begin

text \<open>
  What the Zcash build promises of its transactions: an accepted withdrawal conserves value whether
  it pays a transparent or a shielded receiver, and an executed refund waits, pays exactly and never
  expires.
\<close>

section \<open>Shielded and transparent payments\<close>

definition pays_shielded :: "zcash_crates \<Rightarrow> chain \<Rightarrow> string \<Rightarrow> u128 \<Rightarrow> parsed_bundle \<Rightarrow> bool" where
  "pays_shielded Z c target amount b \<longleftrightarrow>
     oo_amount (pb_output b) = amount \<and> ob_value_balance (pb_bundle b) = - int amount \<and>
     (\<exists>a. parse_address Z target c = Inr a \<and> extract_orchard_receiver Z a = Inr (oo_recipient_addr (pb_output b)))"

lemma min_fee_Inr:
  "zcheck_min_fee_chain_specific Z p fee k = Inr x \<longleftrightarrow> (\<exists>m. zget_min_fee Z p = Inr m \<and> m \<le> fee \<and> k = Inr x)"
  by (auto simp: zcheck_min_fee_chain_specific_def res_Inr)

lemma validate_Inr:
  "zvalidate_orchard_bundle Z p target c k = Inr x \<longleftrightarrow>
   k = Inr x \<and> (\<exists>b. zp_orchard p = Some b \<and> pays_shielded Z c target (oo_amount (pb_output b)) b \<and>
     oo_amount (pb_output b) \<le> 2 ^ 63 - 1)"
  by (auto simp: zvalidate_orchard_bundle_def res_Inr validate_orchard_bundle_def pays_shielded_def pb_amount_def
      bindS_Inr split: if_splits)

lemma chain_specific_Inr:
  "zcheck_psbt_chain_specific Z s p fee target k = Inr x \<longleftrightarrow>
   k = Inr x \<and> (\<exists>m. zget_min_fee Z p = Inr m \<and> m \<le> fee) \<and>
   (\<forall>b. zp_orchard p = Some b \<longrightarrow> pays_shielded Z (chain_cfg (cfg s)) target (oo_amount (pb_output b)) b \<and>
      oo_amount (pb_output b) \<le> 2 ^ 63 - 1)"
  by (auto simp: zcheck_psbt_chain_specific_def min_fee_Inr has_orchard_bundle_def validate_Inr)

lemma paid_to_none: "paid_to sc os = [] \<longleftrightarrow> (\<forall>out\<in>set os. txo_script out \<noteq> sc)"
  by (induction os) auto

text \<open>C20: an accepted Zcash withdrawal conserves value.  The user's amount is what the user receives,
  the gas fee and the bridge's fee; the user is paid once, either by the one transparent output to
  the target or by the one action of a bundle whose recovered recipient is the target's Orchard
  receiver and whose value balance is minus that amount, never by both; every other output pays the
  change address; and the gas fee is at least the ZIP-317 minimum and within the configured range.\<close>

theorem zcash_withdraw_conserves:
  assumes "zcheck_withdraw_psbt Z e s p target change vs amount fee = Inr (n, m, actual, gas)"
  shows "actual + gas + fee = amount \<and>
    (\<exists>least. zget_min_fee Z p = Inr least \<and> least \<le> gas) \<and>
    min_btc_gas_fee (cfg s) \<le> gas \<and> gas \<le> max_btc_gas_fee (cfg s) \<and>
    (case zp_orchard p of
       Some b \<Rightarrow> pays_shielded Z (chain_cfg (cfg s)) target actual b \<and>
         (\<forall>out\<in>set (zget_output p). txo_script out = change) \<and>
         vutxo_sum vs = (amount - fee) + out_sum (zget_output p)
     | None \<Rightarrow> \<exists>sc. target_script_pubkey (base Z) (cfg s) target = Inr (Some sc) \<and>
         paid_to sc (zget_output p) = [actual] \<and>
         (\<forall>out\<in>set (zget_output p). txo_script out = sc \<or> txo_script out = change) \<and>
         vutxo_sum vs = (amount - fee) + out_sum (filter (\<lambda>out. txo_script out \<noteq> sc) (zget_output p)))"
proof -
  obtain mn ti tot r0 ch where o: "min_and_sum vs (U128_MAX, 0) = Inr (mn, ti)" and
    outs: "(if zget_output p \<noteq> []
             then bindR (target_script_pubkey (base Z) (cfg s) target) (\<lambda>target_script.
               withdraw_outputs (base Z) (cfg s) change (acl_has_role s UnrestrictedRelayer (signer e)) mn
                 target_script (zget_output p) (0, [], []))
             else Inr (0, [], [])) = Inr (tot, r0, ch)" and
    rest: "length (fst (zadd_extra_outputs p r0)) = 1" "tot + snd (zadd_extra_outputs p r0) \<le> ti" "fee \<le> amount"
      "ti - (tot + snd (zadd_extra_outputs p r0)) \<le> amount - fee"
      "fst (zadd_extra_outputs p r0) ! 0 = amount - fee - (ti - (tot + snd (zadd_extra_outputs p r0)))"
      "min_btc_gas_fee (cfg s) \<le> ti - (tot + snd (zadd_extra_outputs p r0))"
      "ti - (tot + snd (zadd_extra_outputs p r0)) \<le> max_btc_gas_fee (cfg s)"
      "zcheck_psbt_chain_specific Z s p (ti - (tot + snd (zadd_extra_outputs p r0))) target
         (Inr (zget_input_num p, length ch, fst (zadd_extra_outputs p r0) ! 0,
           ti - (tot + snd (zadd_extra_outputs p r0)))) = Inr (n, m, actual, gas)"
    using assms
    by (simp only: zcheck_withdraw_psbt_def Let_def require_Inr bindR_Inr chk_add_Inr chk_sub_Inr split_paired_Ex
        prod.case case_prod_beta fst_conv snd_conv) (elim exE conjE, rule that; assumption)
  have e: "gas = ti - (tot + snd (zadd_extra_outputs p r0))" "actual = fst (zadd_extra_outputs p r0) ! 0"
    "n = zget_input_num p" "m = length ch"
    using rest(8) unfolding chain_specific_Inr by simp_all
  define r where "r = fst (zadd_extra_outputs p r0)"
  define extra where "extra = snd (zadd_extra_outputs p r0)"
  have x: "r = fst (zadd_extra_outputs p r0)" "extra = snd (zadd_extra_outputs p r0)" "length r = 1" "actual = r ! 0"
      "tot + extra \<le> ti" "gas = ti - (tot + extra)" "fee \<le> amount" "gas \<le> amount - fee" "actual = amount - fee - gas" and
    g: "min_btc_gas_fee (cfg s) \<le> gas" "gas \<le> max_btc_gas_fee (cfg s)" and
    cs: "zcheck_psbt_chain_specific Z s p gas target (Inr (n, m, actual, gas)) = Inr (n, m, actual, gas)"
    using rest(1-7) rest(8)[folded e] e unfolding r_def extra_def by simp_all
  have ti: "ti = vutxo_sum vs" using min_and_sum_Inr[OF o] by simp
  have amt: "actual + gas + fee = amount" using x by simp
  have common: "\<exists>least. zget_min_fee Z p = Inr least \<and> least \<le> gas" using cs by (simp add: chain_specific_Inr)
  have none: "r0 = [] \<and> tot = 0" if "zget_output p = []" using outs that by simp
  have some: "\<exists>ts. target_script_pubkey (base Z) (cfg s) target = Inr ts \<and> tot = out_sum (zget_output p) \<and>
      r0 = (case ts of None \<Rightarrow> [] | Some sc \<Rightarrow> paid_to sc (zget_output p)) \<and>
      (\<forall>out\<in>set (zget_output p). Some (txo_script out) = ts \<or> txo_script out = change)"
    if ne: "zget_output p \<noteq> []"
  proof -
    from outs ne obtain ts where "target_script_pubkey (base Z) (cfg s) target = Inr ts" and
      w: "withdraw_outputs (base Z) (cfg s) change (acl_has_role s UnrestrictedRelayer (signer e)) mn ts
        (zget_output p) (0, [], []) = Inr (tot, r0, ch)" by (auto simp: bindR_Inr)
    with withdraw_outputs_Inr[OF w] show ?thesis by auto
  qed
  show ?thesis
  proof (cases "zp_orchard p")
    case None
    then have r: "r = r0" "extra = 0" using x(1,2) by (auto simp: zadd_extra_outputs_def)
    then have ne: "zget_output p \<noteq> []" using none x(3) by auto
    from some[OF ne] obtain sc where sc: "target_script_pubkey (base Z) (cfg s) target = Inr (Some sc)"
      "tot = out_sum (zget_output p)" "r0 = paid_to sc (zget_output p)"
      "\<forall>out\<in>set (zget_output p). txo_script out = sc \<or> txo_script out = change"
      using r x(3) by (auto split: option.splits)
    then have paid: "paid_to sc (zget_output p) = [actual]"
      using r x(3,4) by (cases "paid_to sc (zget_output p)") auto
    have "vutxo_sum vs = (amount - fee) + out_sum (filter (\<lambda>out. txo_script out \<noteq> sc) (zget_output p))"
      using out_sum_split[of "zget_output p" sc] paid x sc(2) r(2) ti by simp
    with None sc paid amt common g show ?thesis by auto
  next
    case (Some b)
    then have r: "r = r0 @ [oo_amount (pb_output b)]" "extra = oo_amount (pb_output b)"
      using x(1,2) by (auto simp: zadd_extra_outputs_def pb_amount_def)
    then have r0: "r0 = []" "actual = oo_amount (pb_output b)" using x(3,4) by auto
    have "tot = out_sum (zget_output p) \<and> (\<forall>out\<in>set (zget_output p). txo_script out = change)"
    proof (cases "zget_output p = []")
      case True
      with none show ?thesis by simp
    next
      case False
      from some[OF this] obtain ts where t: "tot = out_sum (zget_output p)"
        "r0 = (case ts of None \<Rightarrow> [] | Some sc \<Rightarrow> paid_to sc (zget_output p))"
        "\<forall>out\<in>set (zget_output p). Some (txo_script out) = ts \<or> txo_script out = change"
        by blast
      with r0(1) paid_to_none show ?thesis by (cases ts) auto
    qed
    moreover have "pays_shielded Z (chain_cfg (cfg s)) target actual b"
      using cs Some r0(2) by (simp add: chain_specific_Inr)
    ultimately show ?thesis using Some amt common g x r(2) r0(2) ti by simp
  qed
qed

section \<open>Refunds\<close>

lemma zpsbt_new_fields:
  assumes "zpsbt_new Z c input output raw eh h rcp = Inr p"
  shows "length (zp_vin p) = length input \<and> zp_expiry_height p = eh \<and> zp_recipient_address p = rcp \<and>
    zget_output p = output \<and> (zp_orchard p = None \<longleftrightarrow> raw = None)"
proof -
  have bk: "map_res (zout_of Z) outs = Inr vs \<Longrightarrow>
      map (\<lambda>i. \<lparr>txo_value = zo_value i, txo_script = zo_script i\<rparr>) vs = outs" for outs vs
    by (induction outs arbitrary: vs) (auto simp: res_Inr zout_of_def split: if_splits)
  have ex: "extract_orchard_bundle Z None br = Inr ob \<Longrightarrow> ob = None"
    "extract_orchard_bundle Z (Some bs) br = Inr ob \<Longrightarrow> ob \<noteq> None" for br ob bs
    by (auto simp: extract_orchard_bundle_def split: option.splits if_splits)
  show ?thesis
    using assms by (cases raw) (auto simp: zpsbt_new_def res_Inr zget_output_def dest: bk ex)
qed

lemma zset_input_from_fields:
  "zset_input_utxo_from Z vs i p = Inr q \<Longrightarrow>
   zp_vin q = zp_vin p \<and> zp_vout q = zp_vout p \<and> zp_expiry_height q = zp_expiry_height p \<and> zp_orchard q = zp_orchard p \<and>
   zp_recipient_address q = zp_recipient_address p"
  by (induction Z vs i p rule: zset_input_utxo_from.induct) (auto simp: res_Inr)

lemma zset_input_fields:
  "zset_input_utxo Z p vs = Inr q \<Longrightarrow>
   zp_vin q = zp_vin p \<and> zget_output q = zget_output p \<and> zp_expiry_height q = zp_expiry_height p \<and>
   zp_orchard q = zp_orchard p \<and> zp_recipient_address q = zp_recipient_address p"
  using zset_input_from_fields[of Z vs 0 p q] by (simp add: zset_input_utxo_def zget_output_def)

lemma zfinalize_effect:
  assumes "zfinalize_refund_with_psbt Z e a r q amount key s = Inr s'"
  shows "\<exists>t pi. zget_pending_id Z q = Inr t \<and> btc_pending_infos s t = None \<and>
    btc_pending_infos s' = (btc_pending_infos s)(t \<mapsto> VPending_Current pi) \<and>
    info_kind pi = KRefund \<and> info_stage pi = PendingSign \<and> pi_account_id pi = a \<and>
    actual_received_amount pi = amount \<and> gas_fee pi = rr_gas_fee r \<and> burn_amount pi = 0 \<and>
    psbt_hex pi = zserialize Z q \<and>
    verified_deposit_utxo s' = insert key (verified_deposit_utxo s) \<and>
    refund_requests s' = (refund_requests s)(key \<mapsto> VRefund_Current (r\<lparr>executed := True\<rparr>))"
proof -
  have c: "btc_pending_infos (create_account_if_missing a s) = btc_pending_infos s"
    "refund_requests (create_account_if_missing a s) = refund_requests s"
    "verified_deposit_utxo (create_account_if_missing a s) = verified_deposit_utxo s"
    by (simp_all add: create_account_if_missing_def internal_set_account_def)
  obtain t now d balance v s1 s2 where 1: "zget_pending_id Z q = Inr t"
    "insert_new_pending t
       \<lparr>pi_account_id = a, pi_btc_pending_id = t, transfer_amount = 0,
        actual_received_amount = amount, withdraw_fee = 0, gas_fee = rr_gas_fee r, burn_amount = 0,
        psbt_hex = zserialize Z q, vutxos = [v], signatures = [None], tx_bytes_with_sign = None,
        create_time_sec = now, last_sign_time_sec = 0,
        pi_state = Refund \<lparr>os_stage = PendingSign, max_gas_fee = rr_gas_fee r,
          last_rbf_time_sec = None, cancel_rbf_reserved = None\<rparr>\<rparr> (create_account_if_missing a s) = Inr s1"
    "add_pending_sign_id a t s1 = Inr s2"
    "s' = (emit (EvGenerateBtcPendingInfo a t (zget_expiry_height q))
       (emit (EvRefundExecuted key (rr_amount r) (rr_refund_address r))
        (s2\<lparr>verified_deposit_utxo := insert key (verified_deposit_utxo s2)\<rparr>)))
       \<lparr>refund_requests := (refund_requests s2)(key \<mapsto> VRefund_Current (r\<lparr>executed := True\<rparr>))\<rparr>"
    using assms by (auto simp: zfinalize_refund_with_psbt_def Let_def res_Inr require_pending_sign_capacity_def emit_def)
  from 1(3) obtain acc where s2: "s2 = s1\<lparr>accounts := acc\<rparr>"
    by (auto simp: add_pending_sign_id_def internal_unwrap_mut_account_def internal_set_account_def res_Inr)
  show ?thesis
    by (rule exI[of _ t], rule exI)
      (use 1(1,2,4) c s2 in \<open>auto simp: insert_new_pending_def write_pending_def res_Inr emit_def
        info_kind_def info_stage_def\<close>)
qed

text \<open>C21: an executed Zcash refund waited its timelock and concerns an output that was not minted.
  Its transaction has one input and never expires; it pays the requested address exactly the
  deposit less the requested gas fee, which covers the ZIP-317 minimum, either by its single
  transparent output or, when the caller supplied a bundle, by that bundle alone; and afterwards the
  request counts as executed and the output as verified.\<close>

theorem zcash_refund_pays:
  assumes "execute_refund_callback Z e key caller lock csd h s = Inr s'" "refund_requests s key = Some v" "r = of_vrefund v"
  shows "\<exists>t pi q. created_at_sec r + lock \<le> block_timestamp e div 10 ^ 9 \<and>
    (key \<notin> verified_deposit_utxo s \<or> executed r) \<and>
    btc_pending_infos s t = None \<and> btc_pending_infos s' = (btc_pending_infos s)(t \<mapsto> VPending_Current pi) \<and>
    info_kind pi = KRefund \<and> info_stage pi = PendingSign \<and> psbt_hex pi = zserialize Z q \<and>
    zget_input_num q = 1 \<and> zget_expiry_height q = Some 0 \<and>
    actual_received_amount pi + rr_gas_fee r = rr_amount r \<and>
    (\<exists>least. zget_min_fee Z q = Inr least \<and> least \<le> rr_gas_fee r) \<and>
    (case csd of
       Some _ \<Rightarrow> zget_output q = [] \<and>
         (\<exists>b. zp_orchard q = Some b \<and>
            pays_shielded Z (chain_cfg (cfg s)) (rr_refund_address r) (actual_received_amount pi) b)
     | None \<Rightarrow> zp_orchard q = None \<and>
         (\<exists>a script. parse_address (base Z) (rr_refund_address r) (chain_cfg (cfg s)) = Inr a \<and>
            script_pubkey (base Z) a = Inr script \<and>
            zget_output q = [\<lparr>txo_value = actual_received_amount pi, txo_script = script\<rparr>])) \<and>
    key \<in> verified_deposit_utxo s' \<and>
    refund_requests s' key = Some (VRefund_Current (r\<lparr>executed := True\<rparr>))"
proof -
  let ?raw = "map_option orchard_bundle_bytes csd"
  obtain r' outp depo amount os q0 q where l: "load_refund_request_for_execute e s key lock = Inr r'" and
    2: "zrefund_execution_inputs Z e s r' = Inr (outp, depo, amount)"
      "(if ?raw \<noteq> None then Inr []
        else bindR (build_refund_output (base Z) s (rr_refund_address r') amount) (\<lambda>out. Inr [out])) = Inr os"
      "zpsbt_new Z (cfg s) [outp] os ?raw REFUND_EXPIRY_HEIGHT h (Some (rr_refund_address r')) = Inr q0"
      "zset_input_utxo Z q0 [depo] = Inr q" and
    3: "zcheck_psbt_chain_specific Z s q (rr_gas_fee r') (rr_refund_address r')
        (bindR (if has_orchard_bundle q then bindR (get_orchard_output_amount q) (\<lambda>a.
              require (a = amount) ''Orchard output amount does not match refund amount'' (Inr ()))
            else Inr ()) (\<lambda>_. zfinalize_refund_with_psbt Z e caller r' q amount key s)) = Inr s'"
    using assms(1) 
    by (simp only: execute_refund_callback_def private_call_def Let_def require_Inr bindR_Inr split_paired_Ex prod.case)
      (elim exE conjE, rule that; assumption)
  have r': "r' = r" using l assms(2,3) by (auto simp: load_refund_request_for_execute_def res_Inr Let_def)
  have 1: "load_refund_request_for_execute e s key lock = Inr r"
    "zrefund_execution_inputs Z e s r = Inr (outp, depo, amount)"
    "(if ?raw \<noteq> None then Inr []
      else bindR (build_refund_output (base Z) s (rr_refund_address r) amount) (\<lambda>out. Inr [out])) = Inr os"
    "zpsbt_new Z (cfg s) [outp] os ?raw REFUND_EXPIRY_HEIGHT h (Some (rr_refund_address r)) = Inr q0"
    "zset_input_utxo Z q0 [depo] = Inr q"
    "\<exists>least. zget_min_fee Z q = Inr least \<and> least \<le> rr_gas_fee r"
    "\<forall>b. zp_orchard q = Some b \<longrightarrow>
       pays_shielded Z (chain_cfg (cfg s)) (rr_refund_address r) (oo_amount (pb_output b)) b"
    "has_orchard_bundle q \<longrightarrow> get_orchard_output_amount q = Inr amount"
    "zfinalize_refund_with_psbt Z e caller r q amount key s = Inr s'"
    using l 2 3 unfolding r' by (simp_all add: chain_specific_Inr bindR_Inr require_Inr split: if_splits)
  have time: "created_at_sec r + lock \<le> block_timestamp e div 10 ^ 9" and nv: "key \<notin> verified_deposit_utxo s \<or> executed r"
    using 1(1) by (auto simp: load_refund_request_for_execute_def res_Inr Let_def nano_to_sec_def)
  have amount: "amount + rr_gas_fee r = rr_amount r"
    using 1(2) by (auto simp: zrefund_execution_inputs_def res_Inr Let_def)
  note n = zpsbt_new_fields[OF 1(4)] and f = zset_input_fields[OF 1(5)]
  have q: "zget_input_num q = 1" "zget_expiry_height q = Some 0" "zget_output q = os"
    "zp_orchard q = None \<longleftrightarrow> csd = None"
    using n f by (auto simp: zget_input_num_def zget_expiry_height_def REFUND_EXPIRY_HEIGHT_def)
  from zfinalize_effect[OF 1(9)] obtain t pi where p: "btc_pending_infos s t = None"
    "btc_pending_infos s' = (btc_pending_infos s)(t \<mapsto> VPending_Current pi)"
    "info_kind pi = KRefund" "info_stage pi = PendingSign" "actual_received_amount pi = amount"
    "psbt_hex pi = zserialize Z q" "verified_deposit_utxo s' = insert key (verified_deposit_utxo s)"
    "refund_requests s' = (refund_requests s)(key \<mapsto> VRefund_Current (r\<lparr>executed := True\<rparr>))"
    by blast
  have pay: "case csd of
       Some _ \<Rightarrow> zget_output q = [] \<and>
         (\<exists>b. zp_orchard q = Some b \<and> pays_shielded Z (chain_cfg (cfg s)) (rr_refund_address r) amount b)
     | None \<Rightarrow> zp_orchard q = None \<and>
         (\<exists>a script. parse_address (base Z) (rr_refund_address r) (chain_cfg (cfg s)) = Inr a \<and>
            script_pubkey (base Z) a = Inr script \<and> zget_output q = [\<lparr>txo_value = amount, txo_script = script\<rparr>])"
  proof (cases csd)
    case None
    with 1(3) q show ?thesis by (auto simp: res_Inr build_refund_output_def split: sum.splits)
  next
    case (Some d)
    then obtain b where b: "zp_orchard q = Some b" using q(4) by (cases "zp_orchard q") auto
    with 1(8) have "oo_amount (pb_output b) = amount"
      by (auto simp: has_orchard_bundle_def get_orchard_output_amount_def pb_amount_def)
    with 1(3,7) q b Some show ?thesis by auto
  qed
  show ?thesis
    by (rule exI[of _ t], rule exI[of _ pi], rule exI[of _ q])
      (use time nv p(1-4,6-8) q(1,2) amount[folded p(5)] 1(6) pay[folded p(5)] in \<open>simp split del: option.split\<close>)
qed

section \<open>Concrete data\<close>

definition shielded_zcash :: zcash_crates where
  "shielded_zcash = sample_zcash\<lparr>zcash_convert := \<lambda>a n. Inr (CbUnified n a), ua_items := \<lambda>_. [ROrchard (replicate 43 7)]\<rparr>"

definition paying_bundle :: orchard_bundle where
  "paying_bundle = \<lparr>ob_actions = 1, ob_value_balance = -38000, ob_data = [9]\<rparr>"

definition shielded_psbt :: zpsbt where
  "shielded_psbt = sample_zpsbt\<lparr>zp_vout := [\<lparr>zo_value = 30000, zo_script = p2pkh_script 0x63\<rparr>],
     zp_orchard := Some \<lparr>pb_bundle = paying_bundle, pb_output = \<lparr>oo_amount = 38000, oo_recipient_addr = replicate 43 7\<rparr>\<rparr>\<rparr>"

definition zcash_state :: contract where
  "zcash_state = sample_contract\<lparr>cfg := zcash_config\<rparr>"

lemma shielded_address:
  "parse_address shielded_zcash a ZcashMainnet = Inr (Unified a ZcashMainnet)"
  "parse_address (base shielded_zcash) a ZcashMainnet = Inr (Unified a ZcashMainnet)"
  "extract_orchard_receiver shielded_zcash (Unified a c) = Inr (replicate 43 7)"
  "script_pubkey (base shielded_zcash) (Unified a c) = Inl ''No receiver found in address''"
  by (simp_all add: parse_address_def is_zcash_def zcash_dispatch_def try_from_unified_def zcash_chain_from_network_def
      extract_orchard_receiver_def script_pubkey_def shielded_zcash_def crates.defs)

lemma shielded_min_fee: "zget_min_fee shielded_zcash p = Inr 10000"
  by (simp add: zget_min_fee_def zip317_min_fee_def shielded_zcash_def sample_zcash_def crates.defs zcash_crates.defs Let_def
      split: prod.split)

lemma zcash_config_values:
  "chain_cfg zcash_config = ZcashMainnet" "min_change_amount zcash_config = 0" "max_change_amount zcash_config = 100000000"
  "min_btc_gas_fee zcash_config = 100" "max_btc_gas_fee zcash_config = 80000"
  "chain_signatures_root_public_key zcash_config = Some [2]"
  by (simp_all add: zcash_config_def sample_config_def)

lemma shielded_withdraw_check:
  "zcheck_withdraw_psbt shielded_zcash sample_ctx zcash_state shielded_psbt ''u1'' (p2pkh_script 0x63) [sample_vutxo] 50000 2000
     = Inr (1, 1, 38000, 10000)"
proof -
  have c: "cfg zcash_state = zcash_config" by (simp add: zcash_state_def)
  have p: "zget_output shielded_psbt = [\<lparr>txo_value = 30000, txo_script = p2pkh_script 0x63\<rparr>]"
    "zget_input_num shielded_psbt = 1"
    "zp_orchard shielded_psbt = Some \<lparr>pb_bundle = paying_bundle, pb_output = \<lparr>oo_amount = 38000, oo_recipient_addr = replicate 43 7\<rparr>\<rparr>"
    by (simp_all add: zget_output_def zget_input_num_def shielded_psbt_def sample_zpsbt_def)
  have t: "target_script_pubkey (base shielded_zcash) zcash_config ''u1'' = Inr None"
    by (simp add: target_script_pubkey_def zcash_config_values shielded_address)
  have vb: "get_amount sample_vutxo = 78000" by (simp add: sample_vutxo_def get_amount_def)
  have v: "min_and_sum [sample_vutxo] (U128_MAX, 0) = Inr (78000, 78000)"
    by (simp add: chk_add_def vb U128_MAX_def)
  have k: "zcheck_psbt_chain_specific shielded_zcash zcash_state shielded_psbt 10000 ''u1'' k = k"
    for k :: "(usize \<times> usize \<times> u128 \<times> u128) res"
    by (simp add: zcheck_psbt_chain_specific_def zcheck_min_fee_chain_specific_def shielded_min_fee has_orchard_bundle_def p
        zvalidate_orchard_bundle_def validate_orchard_bundle_def c zcash_config_values shielded_address paying_bundle_def
        pb_amount_def panic_on_def)
  show ?thesis
    by (simp add: zcheck_withdraw_psbt_def c v vb p t zcash_config_values zadd_extra_outputs_def pb_amount_def chk_add_def
        chk_sub_def U128_MAX_def k)
qed

lemma zcash_withdraw_conserves_witness:
  "(38000 :: nat) + 10000 + 2000 = 50000 \<and>
   pays_shielded shielded_zcash ZcashMainnet ''u1'' 38000 (the (zp_orchard shielded_psbt)) \<and>
   vutxo_sum [sample_vutxo] = (50000 - 2000) + out_sum (zget_output shielded_psbt)"
proof -
  have "zp_orchard shielded_psbt = Some (the (zp_orchard shielded_psbt))" by (simp add: shielded_psbt_def)
  moreover have "chain_cfg (cfg zcash_state) = ZcashMainnet" by (simp add: zcash_state_def zcash_config_values)
  ultimately show ?thesis
    using zcash_withdraw_conserves[OF shielded_withdraw_check] by (auto split: option.splits)
qed

definition zcash_request :: refund_request where
  "zcash_request = \<lparr>deposit_msg_json = ''alice.near'', rr_utxo_storage_key = ''ab@0'', rr_tx_bytes = [], rr_vout = 0,
     rr_amount = 50000, rr_refund_address = ''u1'', rr_gas_fee = 12000, created_at_sec = 1000, executed = False\<rparr>"

definition zcash_refund_state :: contract where
  "zcash_refund_state = zcash_state\<lparr>refund_requests := [''ab@0'' \<mapsto> VRefund_Current zcash_request]\<rparr>"

definition callback_ctx :: ctx where
  "callback_ctx = sample_ctx\<lparr>predecessor := ''bridge.near''\<rparr>"

definition paying_data :: chain_specific_data where
  "paying_data = \<lparr>orchard_bundle_bytes = sample_bundle_write paying_bundle, csd_expiry_height = 0\<rparr>"

lemma paying_bundle_reads: "sample_bundle_read (sample_bundle_write paying_bundle) = Some (Some paying_bundle, [])"
  using u8_code.read_written[of 1, simplified]
  by (simp add: paying_bundle_def sample_bundle_read_def sample_bundle_write_def
      u64_code.read_written u32_code.read_written read_exact_def U64_MAX_def U32_MAX_def)

lemma shielded_simps:
  "read_bundle shielded_zcash br = sample_bundle_read" "zatoshis_ok shielded_zcash v \<longleftrightarrow> v \<le> 2100000000000000"
  "recover_output_with_ovk shielded_zcash b k = (if ob_value_balance b \<in> {- (2 ^ 63) .. 0}
     then Some (nat (- ob_value_balance b), replicate 43 7) else None)" "ztx_freeze_ok shielded_zcash t"
  "parse_txid shielded_zcash str = Some str"
  "deposit_msg_of_json (base shielded_zcash) str = Some \<lparr>dm_recipient_id = str, dm_post_actions = None, dm_extra_msg = None,
        dm_safe_deposit = None, dm_refund_address = None\<rparr>"
  by (simp_all add: shielded_zcash_def read_bundle_def sample_zcash_def crates.defs addr_crates.defs zcash_crates.defs sample_ext_def)

lemma shielded_path_script:
  assumes "cfg s = zcash_config"
  shows "is_ok (path_script (base shielded_zcash) e s path msg)"
proof -
  have "scalar_from_repr (base shielded_zcash) bs = Some bs" "derive_key (base shielded_zcash) r ep = r @ ep"
    "compress_public_key (base shielded_zcash) bs = Some bs" for bs r ep
    by (simp_all add: shielded_zcash_def sample_zcash_def crates.defs addr_crates.defs zcash_crates.defs sample_ext_def)
  then show ?thesis
    by (simp add: path_script_def generate_utxo_chain_address_def generate_btc_public_key_def generate_public_key_def
        derive_epsilon_def assms zcash_config_values from_pubkey_def get_segwit_hrp_def script_pubkey_def)
qed

lemma shielded_refund_ok:
  "is_ok (execute_refund_callback shielded_zcash callback_ctx ''ab@0'' ''alice.near'' 100 (Some paying_data) 3428143 zcash_refund_state)"
proof -
  let ?Z = shielded_zcash and ?s = zcash_refund_state
  have v: "cfg ?s = zcash_config" "refund_requests ?s ''ab@0'' = Some (VRefund_Current zcash_request)"
    "accounts ?s = Map.empty" "verified_deposit_utxo ?s = {}" "btc_pending_infos ?s = Map.empty" "pending_tx_limits ?s = Map.empty"
    by (simp_all add: zcash_refund_state_def zcash_state_def sample_contract_def)
  have c: "predecessor callback_ctx = current_account callback_ctx" "nano_to_sec (block_timestamp callback_ctx) = Inr 1700000000"
    by (simp_all add: callback_ctx_def sample_ctx_def nano_to_sec_def U32_MAX_def try_into_def)
  have o: "deposit_msg_json zcash_request = ''alice.near''" "rr_tx_bytes zcash_request = []" "rr_amount zcash_request = 50000"
    "rr_gas_fee zcash_request = 12000" "rr_vout zcash_request = 0" "created_at_sec zcash_request = 1000"
    "\<not> executed zcash_request" "rr_refund_address zcash_request = ''u1''"
    by (simp_all add: zcash_request_def)
  have load: "load_refund_request_for_execute callback_ctx ?s ''ab@0'' 100 = Inr zcash_request"
    by (simp add: load_refund_request_for_execute_def v of_vrefund_def c o chk_add_def Let_def U64_MAX_def)
  have "is_ok (path_script (base ?Z) e ?s path msg)" for e path msg
    by (rule shielded_path_script) (simp add: v)
  then obtain sc where sc: "path_script (base ?Z) callback_ctx ?s (get_deposit_path (base ?Z)
      \<lparr>dm_recipient_id = ''alice.near'', dm_post_actions = None, dm_extra_msg = None,
        dm_safe_deposit = None, dm_refund_address = None\<rparr>) ''Invalid deposit address'' = Inr sc"
    by blast
  obtain outp where inp: "zrefund_execution_inputs ?Z callback_ctx ?s zcash_request =
      Inr (outp, \<lparr>txo_value = 50000, txo_script = sc\<rparr>, 38000)"
    by (simp add: zrefund_execution_inputs_def o shielded_simps rr_deposit_msg_def sc try_into_def U64_MAX_def U32_MAX_def v
        zcash_config_values Let_def)
  have br: "get_branch_id ZcashMainnet 3428143 = Inr Nu6_3" by (simp add: get_branch_id_def branch_heights_new_def)
  have ex: "extract_orchard_bundle ?Z (Some (sample_bundle_write paying_bundle)) b =
      Inr (Some \<lparr>pb_bundle = paying_bundle, pb_output = \<lparr>oo_amount = 38000, oo_recipient_addr = replicate 43 7\<rparr>\<rparr>)" for b
    by (simp add: extract_orchard_bundle_def shielded_simps paying_bundle_reads EXPECTED_ACTIONS_NUMBER_def)
      (simp add: paying_bundle_def)
  obtain q0 where q0: "zpsbt_new ?Z zcash_config [outp] [] (Some (sample_bundle_write paying_bundle)) REFUND_EXPIRY_HEIGHT
      3428143 (Some ''u1'') = Inr q0" "length (zp_inputs_utxo q0) = 1"
    "zp_orchard q0 = Some \<lparr>pb_bundle = paying_bundle, pb_output = \<lparr>oo_amount = 38000, oo_recipient_addr = replicate 43 7\<rparr>\<rparr>"
    by (simp add: zpsbt_new_def br ex panic_on_def zcash_config_values)
  obtain q where q: "zset_input_utxo ?Z q0 [\<lparr>txo_value = 50000, txo_script = sc\<rparr>] = Inr q"
    by (simp add: zset_input_utxo_def zout_of_def shielded_simps index_at_def q0)
  have qo: "zp_orchard q = zp_orchard q0" using zset_input_fields[OF q] by simp
  have ck: "zcheck_psbt_chain_specific ?Z ?s q 12000 ''u1'' k = k" for k :: "contract res"
    by (simp add: zcheck_psbt_chain_specific_def zcheck_min_fee_chain_specific_def shielded_min_fee has_orchard_bundle_def qo q0
        zvalidate_orchard_bundle_def validate_orchard_bundle_def v zcash_config_values shielded_address paying_bundle_def
        pb_amount_def panic_on_def)
  have am: "get_orchard_output_amount q = Inr 38000" "has_orchard_bundle q"
    by (simp_all add: get_orchard_output_amount_def has_orchard_bundle_def qo q0 pb_amount_def)
  have "is_ok (zfinalize_refund_with_psbt ?Z callback_ctx ''alice.near'' zcash_request q 38000 ''ab@0'' ?s)"
    by (simp add: zfinalize_refund_with_psbt_def rr_deposit_msg_def o shielded_simps try_into_def U64_MAX_def Let_def
        zget_pending_id_def get_zcash_tx_def
        create_account_if_missing_def check_account_exists_def v internal_set_account_def require_pending_sign_capacity_def
        get_account_def of_vaccount_def account_new_def pending_sign_count_def get_max_pending_sign_txs_def c
        insert_new_pending_def write_pending_def add_pending_sign_id_def internal_unwrap_mut_account_def)
  then show ?thesis
    by (simp add: execute_refund_callback_def private_call_def c load inp paying_data_def v o q0(1) q ck am Let_def)
qed

lemma zcash_refund_pays_witness:
  "\<exists>s' t pi q. execute_refund_callback shielded_zcash callback_ctx ''ab@0'' ''alice.near'' 100 (Some paying_data) 3428143
      zcash_refund_state = Inr s' \<and> btc_pending_infos s' t = Some (VPending_Current pi) \<and> zget_output q = [] \<and>
    psbt_hex pi = zserialize shielded_zcash q \<and> actual_received_amount pi = 38000 \<and> ''ab@0'' \<in> verified_deposit_utxo s'"
proof -
  obtain s' where s': "execute_refund_callback shielded_zcash callback_ctx ''ab@0'' ''alice.near'' 100 (Some paying_data) 3428143
      zcash_refund_state = Inr s'" using shielded_refund_ok by blast
  have r: "refund_requests zcash_refund_state ''ab@0'' = Some (VRefund_Current zcash_request)"
    by (simp add: zcash_refund_state_def)
  have z: "rr_gas_fee (of_vrefund (VRefund_Current zcash_request)) = 12000"
    "rr_amount (of_vrefund (VRefund_Current zcash_request)) = 50000"
    by (simp_all add: of_vrefund_def zcash_request_def)
  obtain t pi q where "btc_pending_infos s' = (btc_pending_infos zcash_refund_state)(t \<mapsto> VPending_Current pi)"
    "zget_output q = []" "psbt_hex pi = zserialize shielded_zcash q" "actual_received_amount pi = 38000" "''ab@0'' \<in> verified_deposit_utxo s'"
    using zcash_refund_pays[OF s' r refl, unfolded z] by (auto split: option.splits)
  then show ?thesis using s' by (intro exI[of _ s'] exI[of _ t] exI[of _ pi] exI[of _ q]) simp
qed

end
