(* ===== verification/Zcash_Txid.thy ===== *)
theory Zcash_Txid
  imports Zcash_Codec
begin

text \<open>
  \<open>zcash_utils/compact_txid.rs\<close>: the id of a Zcash transaction recomputed from its transparent
  outputs and the digests of everything else.  BLAKE2b and the digests of the parts the bridge does
  not look at are parameters; \<open>zip244_ok\<close> states the digest tree of ZIP 244.
\<close>

section \<open>Parameters\<close>

datatype value_pool = PoolOrchard | PoolIronwood

record digest_crates =
  blake2b_256 :: "bytes \<Rightarrow> bytes \<Rightarrow> bytes"      \<comment> \<open>personalization and input\<close>
  hash_bundle_txid_empty :: "value_pool \<Rightarrow> tx_version \<Rightarrow> bytes option"
  prevouts_digest_of :: "(bytes \<times> u32 \<times> u32) list \<Rightarrow> bytes"
  sequence_digest_of :: "(bytes \<times> u32 \<times> u32) list \<Rightarrow> bytes"
  branch_number :: "branch_id \<Rightarrow> u32"

section \<open>The recomputed id\<close>

definition ZCASH_TX_PERSONALIZATION_PREFIX :: bytes where
  "ZCASH_TX_PERSONALIZATION_PREFIX = as_bytes ''ZcashTxHash_''"

definition ZCASH_TRANSPARENT_HASH_PERSONALIZATION :: bytes where
  "ZCASH_TRANSPARENT_HASH_PERSONALIZATION = as_bytes ''ZTxIdTranspaHash''"

definition ZCASH_OUTPUTS_HASH_PERSONALIZATION :: bytes where
  "ZCASH_OUTPUTS_HASH_PERSONALIZATION = as_bytes ''ZTxIdOutputsHash''"

definition ZCASH_SAPLING_HASH_PERSONALIZATION :: bytes where
  "ZCASH_SAPLING_HASH_PERSONALIZATION = as_bytes ''ZTxIdSaplingHash''"

definition V5_TX_VERSION_HEADER :: u32 where "V5_TX_VERSION_HEADER = 0x80000005"

definition V6_TX_VERSION_HEADER :: u32 where "V6_TX_VERSION_HEADER = 0x80000006"

definition hash32 :: "digest_crates \<Rightarrow> bytes \<Rightarrow> bytes list \<Rightarrow> bytes" where
  "hash32 H personal parts = blake2b_256 H personal (concat parts)"

record compact_txid_parts =
  cp_version_header :: u32
  cp_consensus_branch_id :: u32
  cp_header_digest :: bytes
  cp_prevouts_digest :: bytes
  cp_sequence_digest :: bytes
  cp_sapling_digest :: bytes
  cp_orchard_digest :: bytes
  cp_ironwood_digest :: "bytes option"
  cp_vout :: "tx_out list"

definition out_bytes :: "zcash_crates \<Rightarrow> tx_out \<Rightarrow> bytes res" where
  "out_bytes Z out = require (zatoshis_ok Z (txo_value out)) ''Output value out of range''
     (Inr (ztx_out_write Z \<lparr>zo_value = txo_value out, zo_script = txo_script out\<rparr>))"

definition outputs_digest :: "zcash_crates \<Rightarrow> digest_crates \<Rightarrow> tx_out list \<Rightarrow> bytes res" where
  "outputs_digest Z H vout = bindR (map_res (out_bytes Z) vout) (\<lambda>ws.
     Inr (hash32 H ZCASH_OUTPUTS_HASH_PERSONALIZATION [concat ws]))"

definition empty_sapling_digest :: "digest_crates \<Rightarrow> bytes" where
  "empty_sapling_digest H = hash32 H ZCASH_SAPLING_HASH_PERSONALIZATION []"

definition empty_bundle_digest :: "digest_crates \<Rightarrow> value_pool \<Rightarrow> tx_version \<Rightarrow> bytes res" where
  "empty_bundle_digest H pool v =
     expect (hash_bundle_txid_empty H pool v) ''Invalid empty bundle commitment domain'' Inr"

definition orchard_tx_version :: "u32 \<Rightarrow> tx_version res" where
  "orchard_tx_version header =
     (if header = V5_TX_VERSION_HEADER then Inr TxV5 else if header = V6_TX_VERSION_HEADER then Inr TxV6
      else Inl (Panic ''Unsupported transaction version''))"

definition empty_orchard_digest :: "digest_crates \<Rightarrow> u32 \<Rightarrow> bytes res" where
  "empty_orchard_digest H header = bindR (orchard_tx_version header) (empty_bundle_digest H PoolOrchard)"

definition empty_ironwood_digest :: "digest_crates \<Rightarrow> bytes res" where
  "empty_ironwood_digest H = empty_bundle_digest H PoolIronwood TxV6"

definition compact_txid :: "zcash_crates \<Rightarrow> digest_crates \<Rightarrow> compact_txid_parts \<Rightarrow> bytes res" where
  "compact_txid Z H parts =
     require (cp_vout parts \<noteq> []) ''Compact txid requires a transparent output'' (
     bindR (outputs_digest Z H (cp_vout parts)) (\<lambda>outs.
     let transparent_digest = hash32 H ZCASH_TRANSPARENT_HASH_PERSONALIZATION
           [cp_prevouts_digest parts, cp_sequence_digest parts, outs];
         personal = ZCASH_TX_PERSONALIZATION_PREFIX @ to_le 4 (cp_consensus_branch_id parts);
         nodes = [cp_header_digest parts, transparent_digest, cp_sapling_digest parts, cp_orchard_digest parts] in
     bindR (if cp_version_header parts = V5_TX_VERSION_HEADER then
              require (cp_ironwood_digest parts = None) ''v5 transactions have no Ironwood bundle'' (Inr None)
            else if cp_version_header parts = V6_TX_VERSION_HEADER then
              expect (cp_ironwood_digest parts) ''v6 transactions require an Ironwood digest'' (\<lambda>d. Inr (Some d))
            else Inl (Panic ''Unsupported transaction version'')) (\<lambda>ironwood_digest.
     Inr (hash32 H personal (nodes @ (case ironwood_digest of Some d \<Rightarrow> [d] | None \<Rightarrow> []))))))"

section \<open>The relayer's proof\<close>

text \<open>The JSON object has the fields of \<open>compact_txid_parts\<close>, with digests of any length.\<close>

definition digest32 :: "bytes \<Rightarrow> string \<Rightarrow> bytes res" where
  "digest32 bs field = (if length bs = 32 then Inr bs else Inl (Panic (field @ '' must be exactly 32 bytes'')))"

definition compact_resolve :: "zcash_crates \<Rightarrow> digest_crates \<Rightarrow> compact_txid_parts \<Rightarrow> deposit_tx_summary res" where
  "compact_resolve Z H proof0 =
     bindR (digest32 (cp_header_digest proof0) ''header_digest'') (\<lambda>header.
     bindR (digest32 (cp_prevouts_digest proof0) ''prevouts_digest'') (\<lambda>prevouts.
     bindR (digest32 (cp_sequence_digest proof0) ''sequence_digest'') (\<lambda>sequence.
     bindR (digest32 (cp_sapling_digest proof0) ''sapling_digest'') (\<lambda>sapling.
     bindR (digest32 (cp_orchard_digest proof0) ''orchard_digest'') (\<lambda>orchard.
     bindR (case cp_ironwood_digest proof0 of None \<Rightarrow> Inr None
            | Some d \<Rightarrow> bindR (digest32 d ''ironwood_digest'') (\<lambda>d. Inr (Some d))) (\<lambda>ironwood.
     bindR (compact_txid Z H \<lparr>cp_version_header = cp_version_header proof0,
         cp_consensus_branch_id = cp_consensus_branch_id proof0, cp_header_digest = header,
         cp_prevouts_digest = prevouts, cp_sequence_digest = sequence, cp_sapling_digest = sapling,
         cp_orchard_digest = orchard, cp_ironwood_digest = ironwood, cp_vout = cp_vout proof0\<rparr>) (\<lambda>tx_id.
     Inr \<lparr>ts_tx_id = txid_to_display Z tx_id, ts_outputs = cp_vout proof0\<rparr>)))))))"

section \<open>The digest tree of ZIP 244\<close>

text \<open>A preimage is a personalization with an input.\<close>

type_synonym preimage = "bytes \<times> bytes"

definition hash_of :: "digest_crates \<Rightarrow> preimage \<Rightarrow> bytes" where
  "hash_of H x = blake2b_256 H (fst x) (snd x)"

definition collide :: "digest_crates \<Rightarrow> preimage \<Rightarrow> preimage \<Rightarrow> bool" where
  "collide H x y \<longleftrightarrow> x \<noteq> y \<and> hash_of H x = hash_of H y"

definition outputs_preimage :: "zcash_crates \<Rightarrow> ztx_out list \<Rightarrow> preimage" where
  "outputs_preimage Z vout = (ZCASH_OUTPUTS_HASH_PERSONALIZATION, concat (map (ztx_out_write Z) vout))"

definition transparent_preimage :: "zcash_crates \<Rightarrow> digest_crates \<Rightarrow> ztx_data \<Rightarrow> preimage" where
  "transparent_preimage Z H t = (ZCASH_TRANSPARENT_HASH_PERSONALIZATION,
     case td_transparent t of None \<Rightarrow> []
     | Some (vin, vout) \<Rightarrow> prevouts_digest_of H (map prevout_seq vin) @ sequence_digest_of H (map prevout_seq vin) @
         hash_of H (outputs_preimage Z vout))"

definition root_preimage :: "zcash_crates \<Rightarrow> digest_crates \<Rightarrow> ztx_data \<Rightarrow> preimage" where
  "root_preimage Z H t =
     (ZCASH_TX_PERSONALIZATION_PREFIX @ to_le 4 (branch_number H (td_branch_id t)),
      digest_header Z (td_version t) (td_branch_id t) (td_lock_time t) (td_expiry_height t) @
      hash_of H (transparent_preimage Z H t) @ digest_sapling Z (td_version t) (td_sapling t) @
      digest_orchard Z (td_version t) (td_orchard t) @
      (if td_version t = TxV6 then digest_ironwood Z (td_ironwood t) else []))"

definition zip244_ok :: "zcash_crates \<Rightarrow> digest_crates \<Rightarrow> bool" where
  "zip244_ok Z H \<longleftrightarrow>
     (\<forall>t. ztx_txid Z t = hash_of H (root_preimage Z H t)) \<and>
     (\<forall>x. length (hash_of H x) = 32) \<and>
     (\<forall>v b l e. length (digest_header Z v b l e) = 32) \<and> (\<forall>v x. length (digest_sapling Z v x) = 32) \<and>
     (\<forall>v x. length (digest_orchard Z v x) = 32) \<and> (\<forall>x. length (digest_ironwood Z x) = 32) \<and>
     (\<forall>x. length (prevouts_digest_of H x) = 32) \<and> (\<forall>x. length (sequence_digest_of H x) = 32) \<and>
     (\<forall>b. branch_number H b \<le> U32_MAX) \<and> inj_on (txid_to_display Z) {bs. length bs = 32}"

text \<open>What an honest relayer sends for a transaction.\<close>

definition honest_proof :: "zcash_crates \<Rightarrow> digest_crates \<Rightarrow> ztx_data \<Rightarrow> ztx_in list \<Rightarrow> tx_out list \<Rightarrow> compact_txid_parts" where
  "honest_proof Z H t vin outs =
     \<lparr>cp_version_header = (case td_version t of TxV5 \<Rightarrow> V5_TX_VERSION_HEADER | TxV6 \<Rightarrow> V6_TX_VERSION_HEADER),
      cp_consensus_branch_id = branch_number H (td_branch_id t),
      cp_header_digest = digest_header Z (td_version t) (td_branch_id t) (td_lock_time t) (td_expiry_height t),
      cp_prevouts_digest = prevouts_digest_of H (map prevout_seq vin),
      cp_sequence_digest = sequence_digest_of H (map prevout_seq vin),
      cp_sapling_digest = digest_sapling Z (td_version t) (td_sapling t),
      cp_orchard_digest = digest_orchard Z (td_version t) (td_orchard t),
      cp_ironwood_digest = (case td_version t of TxV5 \<Rightarrow> None | TxV6 \<Rightarrow> Some (digest_ironwood Z (td_ironwood t))),
      cp_vout = outs\<rparr>"

section \<open>The proof binds the outputs\<close>

definition zouts :: "tx_out list \<Rightarrow> ztx_out list" where
  "zouts outs = map (\<lambda>out. \<lparr>zo_value = txo_value out, zo_script = txo_script out\<rparr>) outs"

lemma zouts_back: "zouts (map (\<lambda>out. \<lparr>txo_value = zo_value out, txo_script = zo_script out\<rparr>) vs) = vs"
  by (induction vs) (auto simp: zouts_def)

lemma outs_back: "map (\<lambda>out. \<lparr>txo_value = zo_value out, txo_script = zo_script out\<rparr>) (zouts xs) = xs"
  by (induction xs) (auto simp: zouts_def)

lemma outputs_digest_Inr:
  "outputs_digest Z H outs = Inr d \<longleftrightarrow>
   (\<forall>out\<in>set outs. zatoshis_ok Z (txo_value out)) \<and> d = hash_of H (outputs_preimage Z (zouts outs))"
proof -
  have "map_res (out_bytes Z) outs = Inr ws \<longleftrightarrow>
      (\<forall>out\<in>set outs. zatoshis_ok Z (txo_value out)) \<and> ws = map (ztx_out_write Z) (zouts outs)" for ws
    by (induction outs arbitrary: ws) (auto simp: out_bytes_def res_Inr zouts_def)
  then show ?thesis
    by (auto simp: outputs_digest_def res_Inr hash32_def hash_of_def outputs_preimage_def)
qed

text \<open>The preimages an accepted proof stands for.\<close>

definition proof_transparent :: "zcash_crates \<Rightarrow> digest_crates \<Rightarrow> compact_txid_parts \<Rightarrow> preimage" where
  "proof_transparent Z H c = (ZCASH_TRANSPARENT_HASH_PERSONALIZATION,
     cp_prevouts_digest c @ cp_sequence_digest c @ hash_of H (outputs_preimage Z (zouts (cp_vout c))))"

definition proof_root :: "zcash_crates \<Rightarrow> digest_crates \<Rightarrow> compact_txid_parts \<Rightarrow> preimage" where
  "proof_root Z H c = (ZCASH_TX_PERSONALIZATION_PREFIX @ to_le 4 (cp_consensus_branch_id c),
     cp_header_digest c @ hash_of H (proof_transparent Z H c) @ cp_sapling_digest c @ cp_orchard_digest c @
     (case cp_ironwood_digest c of Some d \<Rightarrow> d | None \<Rightarrow> []))"

definition lengths_ok :: "compact_txid_parts \<Rightarrow> bool" where
  "lengths_ok c \<longleftrightarrow> length (cp_header_digest c) = 32 \<and> length (cp_prevouts_digest c) = 32 \<and>
     length (cp_sequence_digest c) = 32 \<and> length (cp_sapling_digest c) = 32 \<and> length (cp_orchard_digest c) = 32 \<and>
     (case cp_ironwood_digest c of Some d \<Rightarrow> length d = 32 | None \<Rightarrow> True)"

definition version_ok :: "compact_txid_parts \<Rightarrow> bool" where
  "version_ok c \<longleftrightarrow> (cp_version_header c = V5_TX_VERSION_HEADER \<and> cp_ironwood_digest c = None) \<or>
     (cp_version_header c = V6_TX_VERSION_HEADER \<and> cp_ironwood_digest c \<noteq> None)"

lemma compact_txid_Inr:
  "compact_txid Z H c = Inr i \<longleftrightarrow>
   cp_vout c \<noteq> [] \<and> (\<forall>out\<in>set (cp_vout c). zatoshis_ok Z (txo_value out)) \<and> version_ok c \<and>
   i = hash_of H (proof_root Z H c)"
  by (auto simp: compact_txid_def Let_def res_Inr outputs_digest_Inr version_ok_def hash32_def hash_of_def
      proof_root_def proof_transparent_def V5_TX_VERSION_HEADER_def V6_TX_VERSION_HEADER_def
      split: option.splits if_splits)

lemma digest32_Inr: "digest32 bs f = Inr d \<longleftrightarrow> length bs = 32 \<and> d = bs"
  by (auto simp: digest32_def)

lemma compact_resolve_Inr:
  "compact_resolve Z H c = Inr r \<longleftrightarrow>
   lengths_ok c \<and> compact_txid Z H c = Inr (hash_of H (proof_root Z H c)) \<and>
   r = \<lparr>ts_tx_id = txid_to_display Z (hash_of H (proof_root Z H c)), ts_outputs = cp_vout c\<rparr>"
proof -
  have i: "(case w of None \<Rightarrow> Inr None
      | Some d \<Rightarrow> bindR (digest32 d f) (\<lambda>d. Inr (Some d))) = Inr o1 \<longleftrightarrow>
      (case w of Some d \<Rightarrow> length d = 32 | None \<Rightarrow> True) \<and> o1 = w" for f w o1
    by (cases w) (auto simp: bindR_Inr digest32_Inr)
  show ?thesis
    by (cases c) (auto simp: compact_resolve_def bindR_Inr digest32_Inr i lengths_ok_def compact_txid_Inr)
qed

lemma append32_inj: "length a = 32 \<Longrightarrow> length b = 32 \<Longrightarrow> a @ x = b @ y \<longleftrightarrow> a = b \<and> x = y"
  by (rule append_eq_append_conv) simp

text \<open>C26: the compact form of a deposit proof agrees with the full one: for a transaction with
  transparent outputs, the digests of its parts and its outputs resolve to the transaction's id and
  to exactly its outputs, for version 5 and version 6.\<close>

theorem compact_matches_full:
  assumes "zip244_ok Z H" "td_transparent t = Some (vin, vout)" "vout \<noteq> []"
    and "\<forall>out\<in>set vout. zatoshis_ok Z (zo_value out)"
    and "ztx_output t = Inr outs"
  shows "compact_resolve Z H (honest_proof Z H t vin outs) = Inr \<lparr>ts_tx_id = zcompute_txid Z t, ts_outputs = outs\<rparr>"
proof -
  let ?c = "honest_proof Z H t vin outs"
  have z: "zouts outs = vout" and o1: "outs \<noteq> []" "\<forall>out\<in>set outs. zatoshis_ok Z (txo_value out)"
    using assms(2-5) by (auto simp: ztx_output_def zouts_back)
  have tr: "hash_of H (proof_transparent Z H ?c) = hash_of H (transparent_preimage Z H t)"
    using assms(2) z by (simp add: proof_transparent_def transparent_preimage_def honest_proof_def)
  have "proof_root Z H ?c = root_preimage Z H t"
    using tr by (cases "td_version t") (simp_all add: proof_root_def root_preimage_def honest_proof_def)
  moreover have "lengths_ok ?c" "version_ok ?c"
    using assms(1) by (cases "td_version t"; simp add: lengths_ok_def version_ok_def honest_proof_def zip244_ok_def)+
  moreover have "cp_vout ?c = outs" by (simp add: honest_proof_def)
  ultimately show ?thesis
    using assms(1) o1 by (simp add: compact_resolve_Inr compact_txid_Inr zcompute_txid_def zip244_ok_def)
qed

text \<open>C22: a compact proof is as binding as the transaction itself.  If a relayer's proof resolves
  to the id of any transaction, then the outputs it claims are the outputs of that transaction, or
  BLAKE2b collides on one of three pairs that can be read off: the two roots, the two transparent
  nodes or the two output lists.\<close>

theorem compact_binds_outputs:
  assumes Z: "zip244_ok Z H" "zcash_codec_ok Z"
    and r: "compact_resolve Z H c = Inr r" and id: "ts_tx_id r = zcompute_txid Z t"
    and outs: "outs_ok (cp_vout c)" "case td_transparent t of Some (vin, vout) \<Rightarrow> (\<forall>out\<in>set vout. zout_ok Z out) | None \<Rightarrow> True"
  shows "ztx_output t = Inr (ts_outputs r) \<or>
    collide H (proof_root Z H c) (root_preimage Z H t) \<or>
    collide H (proof_transparent Z H c) (transparent_preimage Z H t) \<or>
    (\<exists>vin vout. td_transparent t = Some (vin, vout) \<and>
       collide H (outputs_preimage Z (zouts (cp_vout c))) (outputs_preimage Z vout))"
proof (rule ccontr)
  assume "\<not> ?thesis"
  then have no: "ztx_output t \<noteq> Inr (ts_outputs r)"
    "\<not> collide H (proof_root Z H c) (root_preimage Z H t)"
    "\<not> collide H (proof_transparent Z H c) (transparent_preimage Z H t)"
    "\<And>vin vout. td_transparent t = Some (vin, vout) \<Longrightarrow>
       \<not> collide H (outputs_preimage Z (zouts (cp_vout c))) (outputs_preimage Z vout)" by auto
  from r have c: "lengths_ok c" "cp_vout c \<noteq> []" "\<forall>out\<in>set (cp_vout c). zatoshis_ok Z (txo_value out)"
    "r = \<lparr>ts_tx_id = txid_to_display Z (hash_of H (proof_root Z H c)), ts_outputs = cp_vout c\<rparr>"
    by (auto simp: compact_resolve_Inr compact_txid_Inr)
  have len: "length (hash_of H x) = 32" for x using Z(1) unfolding zip244_ok_def by blast
  have "hash_of H (proof_root Z H c) = hash_of H (root_preimage Z H t)"
  proof (rule inj_onD)
    show "inj_on (txid_to_display Z) {bs. length bs = 32}" using Z(1) by (simp add: zip244_ok_def)
    show "txid_to_display Z (hash_of H (proof_root Z H c)) = txid_to_display Z (hash_of H (root_preimage Z H t))"
      using id c(4) Z(1) by (simp add: zcompute_txid_def zip244_ok_def)
  qed (simp_all only: mem_Collect_eq len)
  with no(2) have "proof_root Z H c = root_preimage Z H t" by (auto simp: collide_def)
  then have "hash_of H (proof_transparent Z H c) = hash_of H (transparent_preimage Z H t)"
    using c(1) Z(1) by (simp add: proof_root_def root_preimage_def lengths_ok_def zip244_ok_def append32_inj append32_inj[OF len len])
  with no(3) have tp: "proof_transparent Z H c = transparent_preimage Z H t" by (auto simp: collide_def)
  then obtain vin vout where tv: "td_transparent t = Some (vin, vout)"
    using c(1) by (auto simp: proof_transparent_def transparent_preimage_def lengths_ok_def split: option.splits)
  from tp tv have "hash_of H (outputs_preimage Z (zouts (cp_vout c))) = hash_of H (outputs_preimage Z vout)"
    using c(1) Z(1) by (simp add: proof_transparent_def transparent_preimage_def lengths_ok_def zip244_ok_def append32_inj)
  with no(4)[OF tv] have "outputs_preimage Z (zouts (cp_vout c)) = outputs_preimage Z vout" by (auto simp: collide_def)
  then have w: "concat (map (ztx_out_write Z) (zouts (cp_vout c))) = concat (map (ztx_out_write Z) vout)"
    by (simp add: outputs_preimage_def)
  have "zouts (cp_vout c) = vout"
    by (rule prefix_code.writings_inj[OF _ _ _ _ w, where rd = "ztx_out_read Z" and ok = "zout_ok Z"])
      (use Z(2) outs tv c(3) in \<open>auto simp: zcash_codec_ok_def zouts_def zout_ok_def outs_ok_def\<close>)
  then have "ztx_output t = Inr (cp_vout c)"
    using tv outs_back by (auto simp: ztx_output_def)
  with no(1) c(4) show False by simp
qed

section \<open>Concrete data\<close>

definition sample_digests :: digest_crates where
  "sample_digests = \<lparr>blake2b_256 = \<lambda>p x. take 32 (x @ replicate 32 0), hash_bundle_txid_empty = \<lambda>p v. None,
     prevouts_digest_of = \<lambda>x. replicate 32 1, sequence_digest_of = \<lambda>x. replicate 32 2, branch_number = \<lambda>b. 5\<rparr>"

definition tree_base :: zcash_crates where
  "tree_base = sample_zcash\<lparr>digest_header := \<lambda>v b l e. replicate 32 3, digest_sapling := \<lambda>v s. replicate 32 4,
     digest_orchard := \<lambda>v b. replicate 32 5, digest_ironwood := \<lambda>b. replicate 32 6\<rparr>"

definition tree_zcash :: zcash_crates where
  "tree_zcash = tree_base\<lparr>ztx_txid := \<lambda>t. hash_of sample_digests (root_preimage tree_base sample_digests t)\<rparr>"

lemma tree_root: "root_preimage tree_zcash sample_digests t = root_preimage tree_base sample_digests t"
  by (simp add: root_preimage_def transparent_preimage_def outputs_preimage_def tree_zcash_def split: option.split)

lemma tree_zip244: "zip244_ok tree_zcash sample_digests"
proof -
  have h: "length (hash_of sample_digests x) = 32" for x
    by (simp add: hash_of_def sample_digests_def)
  have i: "inj (\<lambda>b :: 8 word. char_of (unat b) :: char)"
    by (rule injI) (metis as_bytes_chars list.inject list.simps(8) list.simps(9))
  have d: "txid_to_display tree_zcash = map (\<lambda>b. char_of (unat b))"
    by (simp add: tree_zcash_def tree_base_def sample_zcash_def crates.defs zcash_crates.defs)
  have t: "ztx_txid tree_zcash t = hash_of sample_digests (root_preimage tree_zcash sample_digests t)" for t
    unfolding tree_root by (simp add: tree_zcash_def)
  have s: "length (prevouts_digest_of sample_digests x) = 32" "length (sequence_digest_of sample_digests x) = 32"
    "branch_number sample_digests b \<le> U32_MAX" for x b
    by (simp_all add: sample_digests_def U32_MAX_def)
  show ?thesis
    unfolding zip244_ok_def d
    by (intro conjI allI h t s)
      (simp_all add: inj_on_def inj_map_eq_map[OF i] tree_zcash_def tree_base_def)
qed

lemma tree_codec: "zcash_codec_ok tree_zcash"
proof -
  have "zout_ok tree_zcash = zout_ok sample_zcash" "write_bundle tree_zcash = write_bundle sample_zcash"
    "read_bundle tree_zcash = read_bundle sample_zcash"
    by (simp_all add: fun_eq_iff zout_ok_def write_bundle_def read_bundle_def tree_zcash_def tree_base_def)
  then show ?thesis
    using sample_zcash_codec unfolding zcash_codec_ok_def
    by (simp only:) (simp add: tree_zcash_def tree_base_def)
qed

definition sample_ztx :: ztx_data where
  "sample_ztx = \<lparr>td_version = TxV6, td_branch_id = Nu6_3, td_lock_time = 0, td_expiry_height = 3428200,
     td_transparent = Some ([], [\<lparr>zo_value = 700, zo_script = [1, 2]\<rparr>]), td_sapling = None, td_orchard = None,
     td_ironwood = Some sample_zbundle\<rparr>"

definition sample_proof :: compact_txid_parts where
  "sample_proof = honest_proof tree_zcash sample_digests sample_ztx [] [\<lparr>txo_value = 700, txo_script = [1, 2]\<rparr>]"

lemma sample_ztx_output: "ztx_output sample_ztx = Inr [\<lparr>txo_value = 700, txo_script = [1, 2]\<rparr>]"
  by (simp add: ztx_output_def sample_ztx_def)

lemma sample_ztx_values: "\<forall>out\<in>set [\<lparr>zo_value = 700, zo_script = [1, 2]\<rparr>]. zatoshis_ok tree_zcash (zo_value out)"
  by (simp add: tree_zcash_def tree_base_def sample_zcash_simps)

lemma compact_matches_full_witness:
  "compact_resolve tree_zcash sample_digests sample_proof =
     Inr \<lparr>ts_tx_id = zcompute_txid tree_zcash sample_ztx, ts_outputs = [\<lparr>txo_value = 700, txo_script = [1, 2]\<rparr>]\<rparr>"
  unfolding sample_proof_def
  by (rule compact_matches_full[OF tree_zip244 _ _ sample_ztx_values sample_ztx_output])
    (simp_all add: sample_ztx_def)

lemma sample_proof_resolves:
  "is_ok (compact_resolve tree_zcash sample_digests sample_proof)"
proof -
  have "lengths_ok sample_proof" "version_ok sample_proof" "cp_vout sample_proof = [\<lparr>txo_value = 700, txo_script = [1, 2]\<rparr>]"
    using tree_zip244
    by (simp_all add: sample_proof_def honest_proof_def lengths_ok_def version_ok_def sample_ztx_def zip244_ok_def)
  then show ?thesis
    by (simp add: compact_resolve_Inr compact_txid_Inr tree_zcash_def tree_base_def sample_zcash_simps)
qed

lemma compact_binds_outputs_witness:
  "\<exists>r. compact_resolve tree_zcash sample_digests sample_proof = Inr r \<and>
     (ztx_output sample_ztx = Inr (ts_outputs r) \<or>
      collide sample_digests (proof_root tree_zcash sample_digests sample_proof) (root_preimage tree_zcash sample_digests sample_ztx) \<or>
      collide sample_digests (proof_transparent tree_zcash sample_digests sample_proof)
        (transparent_preimage tree_zcash sample_digests sample_ztx) \<or>
      (\<exists>vin vout. td_transparent sample_ztx = Some (vin, vout) \<and>
         collide sample_digests (outputs_preimage tree_zcash (zouts (cp_vout sample_proof))) (outputs_preimage tree_zcash vout)))"
proof -
  obtain r where r: "compact_resolve tree_zcash sample_digests sample_proof = Inr r"
    using sample_proof_resolves by blast
  have root: "proof_root tree_zcash sample_digests sample_proof = root_preimage tree_zcash sample_digests sample_ztx"
    by (simp add: proof_root_def root_preimage_def proof_transparent_def transparent_preimage_def sample_proof_def
        honest_proof_def sample_ztx_def zouts_def)
  have id: "ts_tx_id r = zcompute_txid tree_zcash sample_ztx"
    using r tree_zip244 by (simp add: compact_resolve_Inr root zcompute_txid_def zip244_ok_def)
  have "outs_ok (cp_vout sample_proof)"
    by (simp add: outs_ok_def sample_proof_def honest_proof_def MAX_COMPACT_SIZE_def)
  moreover have "case td_transparent sample_ztx of Some (vin, vout) \<Rightarrow> (\<forall>out\<in>set vout. zout_ok tree_zcash out) | None \<Rightarrow> True"
    using sample_ztx_values by (simp add: sample_ztx_def zout_ok_def MAX_COMPACT_SIZE_def)
  ultimately show ?thesis
    using compact_binds_outputs[OF tree_zip244 tree_codec r id] r by blast
qed

end
