(* ===== verification/Zcash_Entry.thy ===== *)
theory Zcash_Entry
  imports Zcash_Flow Zcash_Txid Deposit_Flow
begin

text \<open>
  The entry points of the Zcash build: \<open>api/bridge.rs\<close> and \<open>api/token_receiver.rs\<close> as they run with
  \<open>zcash_utils/\<close>.  Whatever builds a transaction first asks the light client for the height of the
  last block; \<open>height_promise\<close> is the callback chained to that question, a value of its own that
  \<open>run_height_promise\<close> executes when the answer is in.  Deposits and refund requests take the compact
  form of a transaction as well as its bytes.
\<close>

section \<open>Waiting for the height\<close>

datatype height_promise =
    PFtOnTransfer account_id u128 string "out_point list" "tx_out list" "u128 option" "chain_specific_data option"
  | PActive account_id "out_point list" "tx_out list"
  | PWithdrawRbf account_id string "tx_out list" "chain_specific_data option" account_id
  | PCancelWithdraw account_id string "tx_out list" "chain_specific_data option" account_id
  | PActiveRbf account_id string "tx_out list" "chain_specific_data option" account_id
  | PCancelActive account_id string "tx_out list" "chain_specific_data option" account_id
  | PExecuteRefund string account_id u64 "chain_specific_data option"

definition get_last_block_height_promise :: "contract \<Rightarrow> contract" where
  "get_last_block_height_promise s = schedule (btc_light_client_account_id (cfg s)) LcGetLastBlockHeight None s"

definition then_height :: "contract \<Rightarrow> height_promise \<Rightarrow> (height_promise \<times> contract) res" where
  "then_height s p = Inr (p, get_last_block_height_promise s)"

text \<open>\<open>#[callback_unwrap]\<close>: a failed promise, or an answer that is not a \<open>u32\<close>, panics.\<close>

definition run_height_promise ::
    "zcash_crates \<Rightarrow> (string \<Rightarrow> u32 option) \<Rightarrow> u32 \<Rightarrow> ctx \<Rightarrow> height_promise \<Rightarrow> contract \<Rightarrow> contract res" where
  "run_height_promise Z json_u32 gap e p s =
     expect (promise_result e) ''Callback computation was not successful'' (\<lambda>bs.
     expect (json_u32 bs) ''Failed to deserialize callback using JSON'' (\<lambda>h.
     case p of
       PFtOnTransfer a amount target input output mf csd \<Rightarrow>
         bindR (ft_on_transfer_callback Z gap e a amount target input output mf csd h s) (\<lambda>(_, s). Inr s)
     | PActive a input output \<Rightarrow> active_utxo_management_callback Z gap e a input output h s
     | PWithdrawRbf a i output csd pred \<Rightarrow> withdraw_rbf_callback Z gap e a i output csd pred h s
     | PCancelWithdraw a i output csd pred \<Rightarrow> cancel_withdraw_callback Z gap e a i output csd pred h s
     | PActiveRbf a i output csd pred \<Rightarrow> active_utxo_management_rbf_callback Z gap e a i output csd pred h s
     | PCancelActive a i output csd pred \<Rightarrow> cancel_active_utxo_management_callback Z gap e a i output csd pred h s
     | PExecuteRefund key caller timelock csd \<Rightarrow> execute_refund_callback Z e key caller timelock csd h s))"

section \<open>Withdrawals\<close>

datatype ztoken_message =
    ZMsgDepositProtocolFee
  | ZMsgWithdraw string "out_point list" "tx_out list" "u128 option" "chain_specific_data option"

definition zft_on_transfer_withdraw_chain_specific ::
    "account_id \<Rightarrow> u128 \<Rightarrow> string \<Rightarrow> out_point list \<Rightarrow> tx_out list \<Rightarrow> u128 option \<Rightarrow> chain_specific_data option
     \<Rightarrow> contract \<Rightarrow> (height_promise \<times> contract) res" where
  "zft_on_transfer_withdraw_chain_specific sender_id amount target input output max_fee csd s =
     then_height s (PFtOnTransfer sender_id amount target input output max_fee csd)"

text \<open>The first component is \<open>Inl v\<close> for a value and \<open>Inr p\<close> for a promise.\<close>

definition zft_on_transfer ::
    "(string \<Rightarrow> ztoken_message option) \<Rightarrow> ctx \<Rightarrow> account_id \<Rightarrow> u128 \<Rightarrow> string \<Rightarrow> contract
     \<Rightarrow> ((u128 + height_promise) \<times> contract) res" where
  "zft_on_transfer json_message e sender_id amount msg s =
     unless_paused e s ''ft_on_transfer'' (
     require (amount \<ge> min_withdraw_amount (cfg s)) ''Invalid amount'' (
     expect (json_message msg) ''INVALID MSG'' (\<lambda>message.
     require (predecessor e = nbtc_account_id (cfg s)) ''Invalid token_id'' (
     case message of
       ZMsgDepositProtocolFee \<Rightarrow>
         bindR (fee_collect amount s) (\<lambda>s. Inr (Inl 0, emit (EvDepositProtocolFee sender_id amount) s))
     | ZMsgWithdraw target input output max_fee csd \<Rightarrow>
         require (\<not> pa_is_paused s PUBLIC_WITHDRAW_FEATURE \<or> acl_has_role s TrustedWithdrawSender sender_id)
           ''Withdraw sender is not allowed''
           (bindR (zft_on_transfer_withdraw_chain_specific sender_id amount target input output max_fee csd s)
             (\<lambda>(p, s). Inr (Inr p, s)))))))"

section \<open>Active management and replacements\<close>

definition zactive_utxo_management_chain_specific ::
    "account_id \<Rightarrow> out_point list \<Rightarrow> tx_out list \<Rightarrow> contract \<Rightarrow> (height_promise \<times> contract) res" where
  "zactive_utxo_management_chain_specific a input output s = then_height s (PActive a input output)"

definition zactive_utxo_management ::
    "ctx \<Rightarrow> out_point list \<Rightarrow> tx_out list \<Rightarrow> contract \<Rightarrow> (height_promise \<times> contract) res" where
  "zactive_utxo_management e input output s =
     access_control_any e s [DAO, Operator] (
     unless_paused e s ''active_utxo_management'' (
     assert_one_yocto e (
     zactive_utxo_management_chain_specific (predecessor e) input output s)))"

text \<open>The other half of the macro \<open>define_rbf_callback!\<close>.\<close>

definition zrbf_method ::
    "(account_id \<Rightarrow> string \<Rightarrow> tx_out list \<Rightarrow> chain_specific_data option \<Rightarrow> account_id \<Rightarrow> height_promise)
     \<Rightarrow> ctx \<Rightarrow> account_id \<Rightarrow> string \<Rightarrow> tx_out list \<Rightarrow> chain_specific_data option \<Rightarrow> contract \<Rightarrow> (height_promise \<times> contract) res" where
  "zrbf_method callback e user original_id output csd s =
     then_height s (callback user original_id output csd (predecessor e))"

definition zwithdraw_rbf ::
    "ctx \<Rightarrow> string \<Rightarrow> tx_out list \<Rightarrow> chain_specific_data option \<Rightarrow> contract \<Rightarrow> (height_promise \<times> contract) res" where
  "zwithdraw_rbf e original_id output csd s =
     unless_paused e s ''withdraw_rbf'' (
     require_pending_sign_capacity s (predecessor e) (
     bindR (charge_attached_deposit e (required_balance_for_withdraw_rbf e s) s) (\<lambda>s.
     zrbf_method PWithdrawRbf e (predecessor e) original_id output csd s)))"

definition zcancel_withdraw :: "ctx \<Rightarrow> string \<Rightarrow> tx_out list \<Rightarrow> contract \<Rightarrow> (height_promise \<times> contract) res" where
  "zcancel_withdraw e original_id output s =
     access_control_any e s [DAO, Operator] (
     unless_paused e s ''cancel_withdraw'' (
     assert_one_yocto e (
     internal_unwrap_btc_pending_info s original_id (\<lambda>original.
     require_pending_sign_capacity s (pi_account_id original) (
     zrbf_method PCancelWithdraw e (pi_account_id original) original_id output None s)))))"

definition zactive_utxo_management_rbf ::
    "ctx \<Rightarrow> string \<Rightarrow> tx_out list \<Rightarrow> contract \<Rightarrow> (height_promise \<times> contract) res" where
  "zactive_utxo_management_rbf e original_id output s =
     access_control_any e s [DAO, Operator] (
     unless_paused e s ''active_utxo_management_rbf'' (
     assert_one_yocto e (
     require_pending_sign_capacity s (predecessor e) (
     zrbf_method PActiveRbf e (predecessor e) original_id output None s))))"

definition zcancel_active_utxo_management ::
    "ctx \<Rightarrow> string \<Rightarrow> tx_out list \<Rightarrow> contract \<Rightarrow> (height_promise \<times> contract) res" where
  "zcancel_active_utxo_management e original_id output s =
     access_control_any e s [DAO, Operator] (
     unless_paused e s ''cancel_active_utxo_management'' (
     assert_one_yocto e (
     internal_unwrap_btc_pending_info s original_id (\<lambda>original.
     require_pending_sign_capacity s (pi_account_id original) (
     zrbf_method PCancelActive e (pi_account_id original) original_id output None s)))))"

section \<open>Refunds\<close>

definition zinternal_execute_refund ::
    "ctx \<Rightarrow> string \<Rightarrow> u64 \<Rightarrow> chain_specific_data option \<Rightarrow> contract \<Rightarrow> (height_promise \<times> contract) res" where
  "zinternal_execute_refund e key timelock_sec csd s =
     then_height s (PExecuteRefund key (predecessor e) timelock_sec csd)"

definition zexecute_refund ::
    "zcash_crates \<Rightarrow> ctx \<Rightarrow> string \<Rightarrow> chain_specific_data option \<Rightarrow> contract \<Rightarrow> (height_promise \<times> contract) res" where
  "zexecute_refund Z e key csd s =
     unless_paused e s ''execute_refund'' (
     bindR (resolve_execute_refund_timelock (base Z) e s key) (\<lambda>timelock_sec.
     zinternal_execute_refund e key timelock_sec csd s))"

section \<open>Deposits\<close>

datatype zdeposit_tx_proof = ZFull bytes | ZCompact compact_txid_parts

definition zinternal_resolve_deposit_tx ::
    "zcash_crates \<Rightarrow> digest_crates \<Rightarrow> contract \<Rightarrow> zdeposit_tx_proof \<Rightarrow> deposit_tx_summary res" where
  "zinternal_resolve_deposit_tx Z H s proof =
     (case proof of
        ZFull bs \<Rightarrow>
          expect (ztx_decode Z bs (chain_cfg (cfg s))) ''Deserialization tx_bytes failed'' (\<lambda>tx.
          bindR (ztx_output tx) (\<lambda>outs. Inr \<lparr>ts_tx_id = zcompute_txid Z tx, ts_outputs = outs\<rparr>))
      | ZCompact c \<Rightarrow> compact_resolve Z H c)"

definition zverify_deposit_v2 ::
    "zcash_crates \<Rightarrow> digest_crates \<Rightarrow> ctx \<Rightarrow> deposit_msg \<Rightarrow> zdeposit_tx_proof \<Rightarrow> usize \<Rightarrow> tx_inclusion_proof
     \<Rightarrow> contract \<Rightarrow> contract res" where
  "zverify_deposit_v2 Z H e d tx_bytes vout proof s =
     trusted_relayer e (
     unless_paused e s ''verify_deposit_v2'' (
     zassert_post_actions_supported d (
     bindR (zinternal_resolve_deposit_tx Z H s tx_bytes) (\<lambda>summary.
     let coinbase_proof = (tip_coinbase_tx_id proof, tip_coinbase_proof proof) in
     if zis_safe_deposit d
     then internal_safe_verify_deposit_entry (base Z) e d summary vout (tip_block_hash proof) (tip_tx_index proof)
       (tip_merkle_proof proof) coinbase_proof s
     else internal_verify_deposit_entry (base Z) e d summary vout (tip_block_hash proof) (tip_tx_index proof)
       (tip_merkle_proof proof) coinbase_proof s))))"

definition zinternal_request_refund ::
    "zcash_crates \<Rightarrow> digest_crates \<Rightarrow> ctx \<Rightarrow> deposit_msg \<Rightarrow> string \<Rightarrow> zdeposit_tx_proof \<Rightarrow> usize \<Rightarrow> tx_inclusion_proof
     \<Rightarrow> u128 option \<Rightarrow> contract \<Rightarrow> contract res" where
  "zinternal_request_refund Z H e d address tx_bytes vout proof gas s =
     require (attached_deposit e \<ge> required_balance_for_request_refund) ''Insufficient deposit for storage'' (
     require (case tx_bytes of ZFull bs \<Rightarrow> length bs \<le> MAX_REQUEST_REFUND_TX_BYTES | ZCompact _ \<Rightarrow> True)
       ''tx_bytes too large for refund request'' (
     require (case dm_refund_address d of Some a \<Rightarrow> a = address | None \<Rightarrow> True)
       ''refund_address does not match deposit_msg.refund_address'' (
     assert_valid_refund_address (base Z) s address (
     bindR (zinternal_resolve_deposit_tx Z H s tx_bytes) (\<lambda>summary.
     require (vout < length (ts_outputs summary)) ''vout is out of range'' (
     bindR (verify_transaction_inclusion_with_heights_call (base Z) (ts_tx_id summary) (tip_block_hash proof)
       (tip_tx_index proof) (tip_merkle_proof proof) (tip_coinbase_tx_id proof, tip_coinbase_proof proof)) (\<lambda>c.
     Inr (schedule (btc_light_client_account_id (cfg s)) c
       (Some (CbRequestRefund d address (ts_tx_id summary) (ts_outputs summary ! vout) vout gas)) s))))))))"

definition zrequest_refund ::
    "zcash_crates \<Rightarrow> digest_crates \<Rightarrow> ctx \<Rightarrow> deposit_msg \<Rightarrow> string \<Rightarrow> zdeposit_tx_proof \<Rightarrow> usize \<Rightarrow> tx_inclusion_proof
     \<Rightarrow> u128 option \<Rightarrow> contract \<Rightarrow> contract res" where
  "zrequest_refund Z H e d address tx_bytes vout proof gas s =
     unless_paused e s ''request_refund'' (
     require (gas = None \<or> acl_has_role s DAO (predecessor e) \<or> acl_has_role s Operator (predecessor e))
       ''Only DAO or Operator can specify custom gas_fee'' (
     zinternal_request_refund Z H e d address tx_bytes vout proof gas s))"

text \<open>\<open>request_refund_callback\<close> with the default gas of this build.  The callback is the Bitcoin
  one with the default written into it: evaluating the default early can change the message of a
  panic but not whether the call panics.\<close>

definition zrequest_refund_callback ::
    "zcash_crates \<Rightarrow> ctx \<Rightarrow> deposit_msg \<Rightarrow> string \<Rightarrow> string \<Rightarrow> tx_out \<Rightarrow> usize \<Rightarrow> u128 option \<Rightarrow> contract
     \<Rightarrow> (bool \<times> contract) res" where
  "zrequest_refund_callback Z e d address tx_id out vout gas s =
     bindR (case gas of Some g \<Rightarrow> Inr g | None \<Rightarrow> zget_refund_gas_fee Z) (\<lambda>fee.
     request_refund_callback (base Z) e d address tx_id out vout (Some fee) s)"

section \<open>A deposit is worth its output\<close>

lemma safe_deposit_entry:
  assumes "internal_safe_verify_deposit_entry X e d summary vout bh ix mp cp s = Inr s'"
  shows "\<exists>pu c script. ix \<noteq> 0 \<and> vout < length (ts_outputs summary) \<and>
    path_script X e s (get_deposit_path X d) ''Invalid deposit address'' = Inr script \<and>
    txo_script (ts_outputs summary ! vout) = script \<and>
    pu_key pu = generate_utxo_storage_key (ts_tx_id summary) vout \<and>
    utxo_path (pu_utxo pu) = get_deposit_path X d \<and>
    utxo_balance (pu_utxo pu) = txo_value (ts_outputs summary ! vout) \<and>
    min_deposit_amount (cfg s) \<le> utxo_balance (pu_utxo pu) \<and> REQUIRED_BALANCE_FOR_DEPOSIT \<le> attached_deposit e \<and>
    Scheduled (btc_light_client_account_id (cfg s)) c (Some (CbVerifySafeDeposit (dm_recipient_id d)
      (utxo_balance (pu_utxo pu)) (case dm_safe_deposit d of Some m \<Rightarrow> sd_msg m | None \<Rightarrow> []) pu
      (relayer_delta (cfg s) (predecessor e \<in> relayer_white_list s)))) \<in> set (effects s') \<and>
    s'\<lparr>effects := []\<rparr> = s\<lparr>effects := []\<rparr>"
proof -
  obtain s1 pu where 1: "ix \<noteq> 0" "charge_attached_deposit e REQUIRED_BALANCE_FOR_DEPOSIT s = Inr s1"
    "internal_build_deposit_utxo_info X e s1 (get_deposit_path X d) summary vout = Inr pu"
    "internal_safe_verify_deposit X e (utxo_balance (pu_utxo pu)) bh ix mp cp pu (dm_recipient_id d)
       (case dm_safe_deposit d of Some m \<Rightarrow> m | None \<Rightarrow> \<lparr>sd_msg = []\<rparr>) s1 = Inr s'"
    using assms by (auto simp: internal_safe_verify_deposit_entry_def res_Inr Let_def)
  have f: "s1\<lparr>effects := []\<rparr> = s\<lparr>effects := []\<rparr>" "REQUIRED_BALANCE_FOR_DEPOSIT \<le> attached_deposit e"
    using 1(2) by (auto simp: charge_attached_deposit_def res_Inr schedule_def Let_def split: if_splits)
  have same: "cfg s1 = cfg s" "relayer_white_list s1 = relayer_white_list s"
    "path_script X e s1 = path_script X e s"
    using arg_cong[OF f(1), of cfg] arg_cong[OF f(1), of relayer_white_list]
    by (simp_all add: path_script_def generate_utxo_chain_address_def generate_btc_public_key_def
        generate_public_key_def fun_eq_iff)
  obtain script where b: "vout < length (ts_outputs summary)" "txo_script (ts_outputs summary ! vout) = script"
    "path_script X e s (get_deposit_path X d) ''Invalid deposit address'' = Inr script"
    "pu_key pu = generate_utxo_storage_key (ts_tx_id summary) vout" "utxo_path (pu_utxo pu) = get_deposit_path X d"
    "utxo_balance (pu_utxo pu) = txo_value (ts_outputs summary ! vout)"
    using 1(3) by (auto simp: internal_build_deposit_utxo_info_def res_Inr Let_def same(3))
  obtain c where c: "min_deposit_amount (cfg s) \<le> utxo_balance (pu_utxo pu)"
    "s' = schedule (btc_light_client_account_id (cfg s)) c (Some (CbVerifySafeDeposit (dm_recipient_id d)
      (utxo_balance (pu_utxo pu)) (sd_msg (case dm_safe_deposit d of Some m \<Rightarrow> m | None \<Rightarrow> \<lparr>sd_msg = []\<rparr>)) pu
      (relayer_delta (cfg s) (predecessor e \<in> relayer_white_list s)))) s1"
    using 1(4) unfolding internal_safe_verify_deposit_def Let_def same by (auto simp: res_Inr)
  have m: "sd_msg (case dm_safe_deposit d of Some m \<Rightarrow> m | None \<Rightarrow> \<lparr>sd_msg = []\<rparr>) =
      (case dm_safe_deposit d of Some m \<Rightarrow> sd_msg m | None \<Rightarrow> [])" by (simp split: option.split)
  show ?thesis
    by (rule exI[of _ pu], rule exI[of _ c], rule exI[of _ script])
      (use 1(1) b c(1) f in \<open>simp add: c(2) schedule_def m\<close>)
qed

text \<open>C24: on Zcash a deposit is never charged a fee and never carries post actions, whichever form
  its transaction is given in.  When \<open>verify_deposit_v2\<close> accepts a deposit, the transaction is not a
  coinbase, the named output pays the script derived from the message, its value is at least the
  minimum, the storage deposit is attached, and the scheduled callback mints exactly the value of the
  output.  Nothing else of the state is written.\<close>

theorem zcash_deposit_is_safe:
  assumes "zverify_deposit_v2 Z H e d tx vout proof s = Inr s'"
  shows "\<exists>summary pu c script. zinternal_resolve_deposit_tx Z H s tx = Inr summary \<and>
    dm_post_actions d = None \<and> tip_tx_index proof \<noteq> 0 \<and> vout < length (ts_outputs summary) \<and>
    path_script (base Z) e s (get_deposit_path (base Z) d) ''Invalid deposit address'' = Inr script \<and>
    txo_script (ts_outputs summary ! vout) = script \<and>
    pu_key pu = generate_utxo_storage_key (ts_tx_id summary) vout \<and>
    utxo_path (pu_utxo pu) = get_deposit_path (base Z) d \<and>
    utxo_balance (pu_utxo pu) = txo_value (ts_outputs summary ! vout) \<and>
    min_deposit_amount (cfg s) \<le> utxo_balance (pu_utxo pu) \<and> REQUIRED_BALANCE_FOR_DEPOSIT \<le> attached_deposit e \<and>
    Scheduled (btc_light_client_account_id (cfg s)) c (Some (CbVerifySafeDeposit (dm_recipient_id d)
      (utxo_balance (pu_utxo pu)) (case dm_safe_deposit d of Some m \<Rightarrow> sd_msg m | None \<Rightarrow> []) pu
      (relayer_delta (cfg s) (predecessor e \<in> relayer_white_list s)))) \<in> set (effects s') \<and>
    s'\<lparr>effects := []\<rparr> = s\<lparr>effects := []\<rparr>"
proof -
  obtain summary where 1: "zinternal_resolve_deposit_tx Z H s tx = Inr summary" "dm_post_actions d = None"
    "internal_safe_verify_deposit_entry (base Z) e d summary vout (tip_block_hash proof) (tip_tx_index proof)
       (tip_merkle_proof proof) (tip_coinbase_tx_id proof, tip_coinbase_proof proof) s = Inr s'"
    using assms by (auto simp: zverify_deposit_v2_def trusted_relayer_def unless_paused_def
        zassert_post_actions_supported_def zis_safe_deposit_def res_Inr Let_def)
  show ?thesis using 1(1,2) safe_deposit_entry[OF 1(3)] by blast
qed

section \<open>A deposit on concrete data\<close>

definition relay_zcash :: zcash_crates where
  "relay_zcash = shielded_zcash\<lparr>hex_decode := \<lambda>_. Some (replicate 32 1)\<rparr>"

definition zrelayer_ctx :: ctx where
  "zrelayer_ctx = relayer_ctx\<lparr>attached_deposit := REQUIRED_BALANCE_FOR_DEPOSIT\<rparr>"

definition paid_proof :: "bytes \<Rightarrow> compact_txid_parts" where
  "paid_proof script = \<lparr>cp_version_header = V5_TX_VERSION_HEADER, cp_consensus_branch_id = 5,
     cp_header_digest = replicate 32 0, cp_prevouts_digest = replicate 32 0, cp_sequence_digest = replicate 32 0,
     cp_sapling_digest = replicate 32 0, cp_orchard_digest = replicate 32 0, cp_ironwood_digest = None,
     cp_vout = [\<lparr>txo_value = 50000, txo_script = script\<rparr>]\<rparr>"

lemma relay_path_script:
  "\<exists>script. path_script (base relay_zcash) zrelayer_ctx zcash_state path msg = Inr script"
proof -
  have "scalar_from_repr (base relay_zcash) bs = Some bs" "derive_key (base relay_zcash) r ep = r @ ep"
    "compress_public_key (base relay_zcash) bs = Some bs" for bs r ep
    by (simp_all add: relay_zcash_def shielded_zcash_def sample_zcash_def crates.defs addr_crates.defs zcash_crates.defs
        sample_ext_def)
  then show ?thesis
    by (simp add: path_script_def generate_utxo_chain_address_def generate_btc_public_key_def generate_public_key_def
        derive_epsilon_def zcash_state_def zcash_config_values from_pubkey_def get_segwit_hrp_def script_pubkey_def)
qed

lemma paid_proof_resolves:
  "\<exists>i. compact_resolve relay_zcash sample_digests (paid_proof script) =
     Inr \<lparr>ts_tx_id = i, ts_outputs = [\<lparr>txo_value = 50000, txo_script = script\<rparr>]\<rparr>"
  by (simp add: compact_resolve_Inr compact_txid_Inr lengths_ok_def version_ok_def paid_proof_def
      V5_TX_VERSION_HEADER_def V6_TX_VERSION_HEADER_def relay_zcash_def shielded_simps)

lemma zcash_entry_ok:
  assumes "path_script (base relay_zcash) zrelayer_ctx zcash_state
      (get_deposit_path (base relay_zcash) plain_deposit) ''Invalid deposit address'' = Inr script"
  shows "is_ok (zverify_deposit_v2 relay_zcash sample_digests zrelayer_ctx plain_deposit
    (ZCompact (paid_proof script)) 0 plain_proof zcash_state)"
proof -
  obtain i where i: "compact_resolve relay_zcash sample_digests (paid_proof script) =
     Inr \<lparr>ts_tx_id = i, ts_outputs = [\<lparr>txo_value = 50000, txo_script = script\<rparr>]\<rparr>"
    using paid_proof_resolves by blast
  have c: "min_deposit_amount (cfg zcash_state) = 20000" "paused zcash_state = {}"
    "is_trusted_relayer zrelayer_ctx ''relayer.near''" "predecessor zrelayer_ctx = ''relayer.near''"
    "attached_deposit zrelayer_ctx = REQUIRED_BALANCE_FOR_DEPOSIT"
    by (simp_all add: zcash_state_def zcash_config_def sample_contract_def sample_config_def zrelayer_ctx_def relayer_ctx_def
        sample_ctx_def)
  have h: "h256_from_str (base relay_zcash) x = Some (replicate 32 1)" for x
    by (simp add: h256_from_str_def relay_zcash_def crates.defs)
  have d: "dm_post_actions plain_deposit = None" "dm_safe_deposit plain_deposit = None"
    by (simp_all add: plain_deposit_def)
  show ?thesis
    by (simp add: zverify_deposit_v2_def trusted_relayer_def unless_paused_def pa_is_paused_def c d
        zassert_post_actions_supported_def zinternal_resolve_deposit_tx_def i zis_safe_deposit_def
        internal_safe_verify_deposit_entry_def plain_proof_def charge_attached_deposit_def
        internal_build_deposit_utxo_info_def assms try_into_def U32_MAX_def Let_def
        internal_safe_verify_deposit_def verify_transaction_inclusion_with_heights_call_def tx_inclusion_proof_new_def
        h parse_hashes_def)
qed

lemma zcash_deposit_is_safe_witness:
  "\<exists>script s' pu c delta. zverify_deposit_v2 relay_zcash sample_digests zrelayer_ctx plain_deposit
      (ZCompact (paid_proof script)) 0 plain_proof zcash_state = Inr s' \<and> utxo_balance (pu_utxo pu) = 50000 \<and>
    Scheduled ''lc.near'' c (Some (CbVerifySafeDeposit ''alice.near'' 50000 [] pu delta)) \<in> set (effects s')"
proof -
  obtain script where p: "path_script (base relay_zcash) zrelayer_ctx zcash_state
      (get_deposit_path (base relay_zcash) plain_deposit) ''Invalid deposit address'' = Inr script"
    using relay_path_script by blast
  obtain s' where s': "zverify_deposit_v2 relay_zcash sample_digests zrelayer_ctx plain_deposit
      (ZCompact (paid_proof script)) 0 plain_proof zcash_state = Inr s'"
    using zcash_entry_ok[OF p] by blast
  have d: "dm_safe_deposit plain_deposit = None" "dm_recipient_id plain_deposit = ''alice.near''"
    "btc_light_client_account_id (cfg zcash_state) = ''lc.near''"
    by (simp_all add: plain_deposit_def zcash_state_def zcash_config_def sample_config_def)
  have v: "txo_value (ts_outputs summary ! 0) = 50000"
    if "zinternal_resolve_deposit_tx relay_zcash sample_digests zcash_state (ZCompact (paid_proof script)) = Inr summary" for summary
    using that paid_proof_resolves[of script] by (auto simp: zinternal_resolve_deposit_tx_def)
  obtain summary pu c delta where
    w: "zinternal_resolve_deposit_tx relay_zcash sample_digests zcash_state (ZCompact (paid_proof script)) = Inr summary"
    "utxo_balance (pu_utxo pu) = txo_value (ts_outputs summary ! 0)"
    "Scheduled ''lc.near'' c (Some (CbVerifySafeDeposit ''alice.near'' (utxo_balance (pu_utxo pu)) [] pu delta)) \<in> set (effects s')"
    using zcash_deposit_is_safe[OF s', unfolded d option.case] by blast
  have "utxo_balance (pu_utxo pu) = 50000" using w(2) v[OF w(1)] by simp
  with s' w(3) show ?thesis by metis
qed

end
