(* ===== verification/Spec2Isabelle.thy ===== *)
theory Spec2Isabelle
  imports Bridge_System Nbtc_System Nbtc_Migrate Json_Format Token_Flow Deposit_Flow Tx_Flow Legacy Views Zcash_Entry
begin

text \<open>
  A verification development of the btc-bridge contracts: the bridge \<open>contracts/satoshi-bridge\<close>, in its
  Bitcoin and Zcash builds, and the token \<open>contracts/nbtc\<close>.

  The program.  Users send bitcoin to an address derived from a deposit message.  A relayer proves the
  transaction to the bridge, which asks the light client whether it is in the chain and how deep, and
  has nBTC minted.  A withdrawal burns nBTC: the bridge checks the transaction the user proposes, has it
  signed input by input by the MPC service, and settles it when the light client has seen it.
  Transactions can be replaced by ones with a higher fee or cancelled; operators consolidate UTXOs;
  deposits that were never verified can be paid back after a timelock.  All of it is asynchronous: a
  method schedules a call to another contract, and a callback continues when the answer is in.

  Conventions (Bridge_Prelude).  A method is a function from the state to \<open>error + (result and new
  state)\<close>; \<open>Inl\<close> is a panic, which reverts the call.  The contracts are compiled with overflow checks,
  so machine integers are natural numbers under the checked operations \<open>chk_add\<close>, \<open>chk_sub\<close>,
  \<open>chk_mul\<close>; saturating operations saturate; bytes are 8-bit words.  Events, promises and the
  callbacks chained to them are appended to \<open>effects\<close>.  Code outside the repository is a parameter:
  \<open>crates\<close> (bitcoin, serde, hashes, the MPC curve), \<open>zcash_crates\<close> and \<open>digest_crates\<close>
  (librustzcash, BLAKE2b), \<open>ft_crate\<close> (the NEP-141 library); what is relied on is a named predicate,
  such as \<open>psbt_crate_ok\<close> or \<open>zip244_ok\<close>, with an instance in each witness.

  Theories and the code they model (paths under \<open>contracts/satoshi-bridge/src\<close>):
  \<^item> Network: \<open>network.rs\<close>.  A string parses to exactly the addresses it spells on the chain, and
    back; a script determines its address.
  \<^item> Bridge_Config: \<open>config.rs\<close>.  Fees split exactly; required confirmations are monotone and fit the
    ring; what a key of the strategy that is not printed canonically does.
  \<^item> Block_Ring: \<open>block_amount_ring.rs\<close>, with its abstraction to a map from heights to amounts.
  \<^item> Bridge_Types, Light_Client, Pending_Info, Psbt, Bridge_State: \<open>utxo.rs\<close>, \<open>utils.rs\<close>, \<open>kdf.rs\<close>,
    \<open>account.rs\<close>, \<open>event.rs\<close>, \<open>btc_pending_info.rs\<close>, \<open>bitcoin_utils/\<close>, \<open>btc_light_client/mod.rs\<close>
    and the state of \<open>lib.rs\<close>.
  \<^item> Psbt_Check, Withdraw, Rbf: \<open>psbt.rs\<close>, \<open>api/token_receiver.rs\<close>, \<open>rbf/\<close>: proposing transactions.
  \<^item> Signing, Finalize: \<open>chain_signature.rs\<close>, \<open>btc_light_client/withdraw.rs\<close> and
    \<open>active_utxo_management.rs\<close>, \<open>nbtc/burn.rs\<close>, \<open>token_transfer.rs\<close>.
  \<^item> Deposit_Msg, Deposit, Refund: \<open>deposit_msg.rs\<close>, \<open>json_utils.rs\<close>, \<open>btc_light_client/deposit.rs\<close>,
    \<open>nbtc/mint.rs\<close>, \<open>refund.rs\<close>.  The match of a message with a template is stated by the paths of
    the two values, and the check of post actions by exactly when it panics.
  \<^item> Json_Format: the decimal-string formats and the signed-message check of \<open>utils.rs\<close>.
  \<^item> Management, Views, Legacy: \<open>api/management.rs\<close>, \<open>api/view.rs\<close>, \<open>legacy.rs\<close> and \<open>upgrade.rs\<close>.
    What each stored version keeps through a migration is in Legacy.
  \<^item> Zcash_Psbt, Zcash_Txid, Zcash_Contract, Zcash_Entry: \<open>zcash_utils/\<close> and the shared files as they
    run in the Zcash build.  A definition of that build that has a Bitcoin counterpart carries the
    prefix \<open>z\<close>.
  \<^item> Nbtc: \<open>contracts/nbtc/src/lib.rs\<close>; Nbtc_System: the token contract under any sequence of calls, and
    whom a mint credits.
    Nbtc_Migrate: \<open>contracts/nbtc/src/migrate.rs\<close>, over a raw storage of keys and bytes.
    Token_Flow: bridge and token together, from a deposit or a confirmed withdrawal to the last callback.

  Theories of results:
  \<^item> Result_Rules: weakest preconditions for the result combinators, the collections \<open>wp\<close> and \<open>hots\<close>.
  \<^item> Ledger, Ledger_Steps: every method keeps the protocol fee counters balanced and the reserved
    counter equal to what the pending transactions hold.
  \<^item> Claim_Steps: every method takes one step of the claim machine of deposited outputs.
  \<^item> Bridge_System: the contract with its outstanding promises as a step relation.  Calls, replies and
    lost callbacks interleave freely.  Its invariants, and its refinement to an abstract machine in
    which an output is claimed at most once; a closed claim is not opened again; when a confirmed
    active-management transaction can be settled.
  \<^item> Deposit_Flow, Tx_Flow: what one deposit and one transaction go through; Zcash_Codec and
    Zcash_Flow: the stored form, the signed digest, conservation and refunds of the Zcash build.

  Interfaces are locales: \<open>amount_window\<close> (what the confirmations check needs of the ring),
  \<open>prefix_code\<close> (writers and readers of the Zcash form), the invariant and refinement schemes of
  Bridge_System; each is interpreted on the model's own definitions.

  Side conditions of a step of Bridge_System.  A new pending transaction gets an id that no stored
  record and no outstanding callback has: the ids are transaction hashes, and the code checks the
  stored ones itself.  A callback that panics, or whose promise is dropped, is the rule \<open>lost\<close>.

  Fuel and bounds.  No definition takes fuel: recursion is structural or has a termination proof.
  Lengths that the code converts to \<open>u32\<close> or \<open>usize\<close> are converted here with the same failure; the
  contract's \<open>usize\<close> has 32 bits where a stored length is read back.

  Not modelled: gas and storage costs beyond the attached deposits the code demands; the serialisation
  of state and of events (\<open>event.rs\<close> is a datatype), whose Borsh codecs are parameters of Nbtc_Migrate;
  \<open>get_version\<close> and \<open>version\<close>, which are build constants; the access-control and pause plugins beyond their documented behaviour; the mock
  contracts and the tests.  Bridge_System covers the Bitcoin build; the operations of the Zcash build
  are stated one by one.
\<close>

end
